(* ===== verification/Prelude.thy ===== *)
theory Prelude
  imports Main "HOL-Library.Signed_Division" "HOL-Library.Word"
begin

text \<open>
  What every component of the development shares: the effect type of a contract entry point,
  the checked machine arithmetic of the release profile (\<^verbatim>\<open>overflow-checks = true\<close>,
  \<^verbatim>\<open>panic = "abort"\<close> in \<^verbatim>\<open>contracts/Cargo.toml\<close>), and generic facts about
  finite maps, sums and division.

  An entry point is a function from the contract's state to a failure or to a result with the
  new state. \<open>Raised e\<close> is an \<^verbatim>\<open>Err(e)\<close> returned by the code; \<open>Trapped\<close> is a
  host trap: a panic, an \<^verbatim>\<open>unwrap\<close> of a missing entry, an arithmetic overflow, a missing
  authorisation, or a failing call into another contract. The host undoes every effect of a
  failing invocation, so a failure carries no state.
\<close>

section \<open>Effects\<close>

datatype 'e failure = Raised 'e | Trapped

type_synonym ('s, 'e, 'a) operation = "'s \<Rightarrow> 'e failure + 'a \<times> 's"

named_theorems op_success \<open>when an operation succeeds, and with which result and state\<close>
named_theorems op_run \<open>evaluation of an operation at a state\<close>

definition return :: "'a \<Rightarrow> ('s, 'e, 'a) operation" where
  "return a s = Inr (a, s)"

definition bind :: "('s, 'e, 'a) operation \<Rightarrow> ('a \<Rightarrow> ('s, 'e, 'b) operation) \<Rightarrow> ('s, 'e, 'b) operation" where
  "bind m f s = (case m s of Inl e \<Rightarrow> Inl e | Inr (a, t) \<Rightarrow> f a t)"

definition raise :: "'e \<Rightarrow> ('s, 'e, 'a) operation" where
  "raise e s = Inl (Raised e)"

definition trap :: "('s, 'e, 'a) operation" where
  "trap s = Inl Trapped"

definition gets :: "('s \<Rightarrow> 'a) \<Rightarrow> ('s, 'e, 'a) operation" where
  "gets f s = Inr (f s, s)"

definition modify :: "('s \<Rightarrow> 's) \<Rightarrow> ('s, 'e, unit) operation" where
  "modify f s = Inr ((), f s)"

text \<open>\<^verbatim>\<open>if c { return Err(e); }\<close>, and \<^verbatim>\<open>Option::unwrap\<close>.\<close>

definition raise_if :: "bool \<Rightarrow> 'e \<Rightarrow> ('s, 'e, unit) operation" where
  "raise_if c e = (if c then raise e else return ())"

definition unwrap :: "'a option \<Rightarrow> ('s, 'e, 'a) operation" where
  "unwrap v = (case v of None \<Rightarrow> trap | Some a \<Rightarrow> return a)"

definition unwrap_or :: "'a option \<Rightarrow> 'a \<Rightarrow> 'a" where
  "unwrap_or v d = (case v of None \<Rightarrow> d | Some a \<Rightarrow> a)"

definition when_do :: "bool \<Rightarrow> ('s, 'e, unit) operation \<Rightarrow> ('s, 'e, unit) operation" where
  "when_do c m = (if c then m else return ())"

lemma return_success [op_success]: "return a s = Inr (b, t) \<longleftrightarrow> b = a \<and> t = s"
  by (auto simp: return_def)

lemma bind_success [op_success]:
  "bind m f s = Inr (b, t) \<longleftrightarrow> (\<exists>a u. m s = Inr (a, u) \<and> f a u = Inr (b, t))"
  by (auto simp: bind_def split: sum.splits prod.splits)

lemma bind_failure:
  "bind m f s = Inl e \<longleftrightarrow> m s = Inl e \<or> (\<exists>a u. m s = Inr (a, u) \<and> f a u = Inl e)"
  by (auto simp: bind_def split: sum.splits prod.splits)

lemma raise_success [op_success]: "raise e s = Inr r \<longleftrightarrow> False"
  by (simp add: raise_def)

lemma trap_success [op_success]: "trap s = Inr r \<longleftrightarrow> False"
  by (simp add: trap_def)

lemma gets_success [op_success]: "gets f s = Inr (b, t) \<longleftrightarrow> b = f s \<and> t = s"
  by (auto simp: gets_def)

lemma modify_success [op_success]: "modify f s = Inr (b, t) \<longleftrightarrow> t = f s"
  by (auto simp: modify_def)

lemma raise_if_success [op_success]: "raise_if c e s = Inr (b, t) \<longleftrightarrow> \<not> c \<and> t = s"
  by (auto simp: raise_if_def raise_def return_def)

lemma unwrap_success [op_success]: "unwrap v s = Inr (b, t) \<longleftrightarrow> v = Some b \<and> t = s"
  by (auto simp: unwrap_def trap_def return_def split: option.splits)

lemma unwrap_or_simps [simp]: "unwrap_or None d = d" "unwrap_or (Some a) d = a"
  by (simp_all add: unwrap_or_def)

declare bind_def [op_run]

lemma bind_assoc: "bind (bind m f) g = bind m (\<lambda>a. bind (f a) g)"
  by (rule ext) (simp add: bind_def split: sum.splits prod.splits)

lemmas effect_defs =
  return_def raise_def trap_def gets_def modify_def raise_if_def unwrap_def when_do_def

declare effect_defs [op_run]

section \<open>Checked arithmetic\<close>

text \<open>
  An \<^verbatim>\<open>i128\<close> is an \<open>int\<close> and a \<^verbatim>\<open>u32\<close> or \<^verbatim>\<open>u64\<close> a \<open>nat\<close>; every
  arithmetic operation checks that its result is a value of the width and traps otherwise,
  as the compiled code does. Rust's \<^verbatim>\<open>/\<close> truncates towards zero (\<open>sdiv\<close>) and traps
  on a zero divisor.
\<close>

definition i128_min :: int where "i128_min = - (2 ^ 127)"
definition i128_max :: int where "i128_max = 2 ^ 127 - 1"
definition u32_max :: nat where "u32_max = 2 ^ 32 - 1"
definition u64_max :: nat where "u64_max = 2 ^ 64 - 1"

definition fits_i128 :: "int \<Rightarrow> bool" where
  "fits_i128 x \<longleftrightarrow> i128_min \<le> x \<and> x \<le> i128_max"

definition i128_checked :: "int \<Rightarrow> ('s, 'e, int) operation" where
  "i128_checked x = (if fits_i128 x then return x else trap)"

definition add_i128 :: "int \<Rightarrow> int \<Rightarrow> ('s, 'e, int) operation" where
  "add_i128 a b = i128_checked (a + b)"

definition sub_i128 :: "int \<Rightarrow> int \<Rightarrow> ('s, 'e, int) operation" where
  "sub_i128 a b = i128_checked (a - b)"

definition mul_i128 :: "int \<Rightarrow> int \<Rightarrow> ('s, 'e, int) operation" where
  "mul_i128 a b = i128_checked (a * b)"

definition div_i128 :: "int \<Rightarrow> int \<Rightarrow> ('s, 'e, int) operation" where
  "div_i128 a b = (if b = 0 then trap else i128_checked (a sdiv b))"

definition add_u64 :: "nat \<Rightarrow> nat \<Rightarrow> ('s, 'e, nat) operation" where
  "add_u64 a b = (if a + b \<le> u64_max then return (a + b) else trap)"

definition add_u32 :: "nat \<Rightarrow> nat \<Rightarrow> ('s, 'e, nat) operation" where
  "add_u32 a b = (if a + b \<le> u32_max then return (a + b) else trap)"

definition mul_u32 :: "nat \<Rightarrow> nat \<Rightarrow> ('s, 'e, nat) operation" where
  "mul_u32 a b = (if a * b \<le> u32_max then return (a * b) else trap)"

lemma i128_checked_success [op_success]:
  "i128_checked x s = Inr (c, t) \<longleftrightarrow> fits_i128 x \<and> c = x \<and> t = s"
  by (auto simp: i128_checked_def return_def trap_def)

lemma add_i128_success [op_success]:
  "add_i128 a b s = Inr (c, t) \<longleftrightarrow> fits_i128 (a + b) \<and> c = a + b \<and> t = s"
  by (simp add: add_i128_def i128_checked_success)

lemma sub_i128_success [op_success]:
  "sub_i128 a b s = Inr (c, t) \<longleftrightarrow> fits_i128 (a - b) \<and> c = a - b \<and> t = s"
  by (simp add: sub_i128_def i128_checked_success)

lemma mul_i128_success [op_success]:
  "mul_i128 a b s = Inr (c, t) \<longleftrightarrow> fits_i128 (a * b) \<and> c = a * b \<and> t = s"
  by (simp add: mul_i128_def i128_checked_success)

lemma div_i128_success [op_success]:
  "div_i128 a b s = Inr (c, t) \<longleftrightarrow> b \<noteq> 0 \<and> fits_i128 (a sdiv b) \<and> c = a sdiv b \<and> t = s"
  by (auto simp: div_i128_def i128_checked_success trap_def)

lemma add_u64_success [op_success]:
  "add_u64 a b s = Inr (c, t) \<longleftrightarrow> a + b \<le> u64_max \<and> c = a + b \<and> t = s"
  by (auto simp: add_u64_def return_def trap_def)

lemma add_u32_success [op_success]:
  "add_u32 a b s = Inr (c, t) \<longleftrightarrow> a + b \<le> u32_max \<and> c = a + b \<and> t = s"
  by (auto simp: add_u32_def return_def trap_def)

lemma mul_u32_success [op_success]:
  "mul_u32 a b s = Inr (c, t) \<longleftrightarrow> a * b \<le> u32_max \<and> c = a * b \<and> t = s"
  by (auto simp: mul_u32_def return_def trap_def)

lemmas arith_defs =
  i128_checked_def add_i128_def sub_i128_def mul_i128_def div_i128_def add_u64_def add_u32_def
  mul_u32_def

declare arith_defs [op_run]

lemmas width_defs = fits_i128_def i128_min_def i128_max_def u32_max_def u64_max_def

section \<open>Division\<close>

lemma sdiv_nonneg: "0 \<le> a \<Longrightarrow> 0 < b \<Longrightarrow> a sdiv b = a div b" for a b :: int
  by (simp add: signed_divide_int_def sgn_if)

lemma div_mult_le_self: "0 < b \<Longrightarrow> (a div b) * b \<le> a" for a b :: int
  using mult_div_mod_eq [of b a] pos_mod_sign [of b a] mult.commute [of b "a div b"] by linarith

lemma less_div_mult_self: "0 < b \<Longrightarrow> a < (a div b + 1) * b" for a b :: int
proof -
  assume "0 < b"
  then have "a mod b < b" by simp
  moreover have "a = (a div b) * b + a mod b" by simp
  ultimately have "a < (a div b) * b + b" by linarith
  then show ?thesis by (simp add: distrib_right)
qed

section \<open>Finite maps with a default of zero\<close>

definition lookup0 :: "('k \<rightharpoonup> int) \<Rightarrow> 'k \<Rightarrow> int" where
  "lookup0 m k = unwrap_or (m k) 0"

definition map_total :: "('k \<rightharpoonup> int) \<Rightarrow> int" where
  "map_total m = (\<Sum>k\<in>dom m. lookup0 m k)"

lemma lookup0_update [simp]: "lookup0 (m(k \<mapsto> v)) j = (if j = k then v else lookup0 m j)"
  by (simp add: lookup0_def)

lemma lookup0_empty [simp]: "lookup0 Map.empty j = 0"
  by (simp add: lookup0_def)

lemma lookup0_remove [simp]: "lookup0 (m(k := None)) j = (if j = k then 0 else lookup0 m j)"
  by (simp add: lookup0_def)

lemma map_total_empty [simp]: "map_total Map.empty = 0"
  by (simp add: map_total_def)

lemma map_total_superset:
  "finite A \<Longrightarrow> dom m \<subseteq> A \<Longrightarrow> map_total m = (\<Sum>k\<in>A. lookup0 m k)"
  unfolding map_total_def by (rule sum.mono_neutral_left) (auto simp: lookup0_def domIff)

lemma map_total_update:
  assumes "finite (dom m)"
  shows "map_total (m(k \<mapsto> v)) = map_total m - lookup0 m k + v"
proof -
  let ?A = "insert k (dom m)"
  have fin: "finite ?A" and sub: "dom m \<subseteq> ?A" using assms by auto
  have "map_total (m(k \<mapsto> v)) = (\<Sum>j\<in>?A. lookup0 (m(k \<mapsto> v)) j)"
    by (simp only: map_total_def dom_fun_upd) simp
  also have "\<dots> = v + (\<Sum>j\<in>?A - {k}. lookup0 m j)"
    using fin by (subst sum.remove [of _ k]) (auto intro: sum.cong)
  also have "\<dots> = v + (\<Sum>j\<in>?A. lookup0 m j) - lookup0 m k"
    using fin by (subst sum.remove [of ?A k "lookup0 m"]) auto
  finally show ?thesis by (simp add: map_total_superset [OF fin sub])
qed

lemma map_total_ge:
  assumes "finite (dom m)" and "\<And>k. 0 \<le> lookup0 m k"
  shows "lookup0 m k \<le> map_total m"
proof (cases "k \<in> dom m")
  case True
  then have "lookup0 m k \<le> (\<Sum>j\<in>dom m. lookup0 m j)"
    using assms by (intro member_le_sum) auto
  then show ?thesis by (simp add: map_total_def)
next
  case False
  then have "lookup0 m k = 0" by (simp add: lookup0_def domIff)
  then show ?thesis using assms(2) by (simp add: map_total_def sum_nonneg)
qed

lemma sum_list_update_one:
  assumes "distinct L" and "a \<in> set L" and "\<forall>b. b \<noteq> a \<longrightarrow> g b = f b"
  shows "(\<Sum>b\<leftarrow>L. g b) = (\<Sum>b\<leftarrow>L. f b) - f a + (g a :: int)"
  using assms
proof (induction L)
  case (Cons c L)
  then show ?case
  proof (cases "c = a")
    case True
    with Cons.prems have "(\<Sum>b\<leftarrow>L. g b) = (\<Sum>b\<leftarrow>L. f b)"
      by (intro arg_cong [where f = sum_list] map_cong) auto
    with True show ?thesis by simp
  next
    case False
    with Cons show ?thesis by simp
  qed
qed simp

end
