(* ===== verification/Common.thy ===== *)
theory Common
  imports Prelude
begin

text \<open>
  The crate \<^verbatim>\<open>tezoro-common\<close>: the strategies' error codes, the storage-lifetime
  requests and the strategy interface, together with the host environment in which every
  contract of the workspace runs, and the client interface of the asset token.

  What is not under \<^verbatim>\<open>src/\<close> is a parameter: the asset token and the contracts behind
  a \<^verbatim>\<open>StrategyClient\<close> are records of functions on an opaque outside state \<open>'x\<close>, whose
  result is \<open>None\<close> when the call traps. The locale \<open>sep41\<close> states what the contracts rely on
  about a token.
\<close>

section \<open>Addresses, hashes and the invocation environment\<close>

datatype address = Address (address_id: nat)

instantiation address :: linorder
begin

definition less_eq_address :: "address \<Rightarrow> address \<Rightarrow> bool" where
  "less_eq_address a b \<longleftrightarrow> address_id a \<le> address_id b"

definition less_address :: "address \<Rightarrow> address \<Rightarrow> bool" where
  "less_address a b \<longleftrightarrow> address_id a < address_id b"

instance
  by standard (auto simp: less_eq_address_def less_address_def address.expand)

end

type_synonym bytes_n32 = "256 word"

text \<open>
  The environment \<^verbatim>\<open>e: Env\<close> of one invocation: who has authorised it (the signers and the
  invoking contract), the ledger's timestamp and sequence number, the current contract's address
  and the WASM hashes known to the ledger.
\<close>

record env =
  authorised :: "address \<Rightarrow> bool"
  ledger_timestamp :: nat
  ledger_sequence :: nat
  current_contract :: address
  uploaded_wasm :: "bytes_n32 \<Rightarrow> bool"

text \<open>
  What every contract instance carries besides its own storage: the lifetime-extension requests
  it has made to the host, the events it has published, the hash of its code, and the state of
  everything outside the contract.
\<close>

datatype 'k ttl_request = ExtendInstance nat nat | ExtendPersistent 'k nat nat

record ('k, 'ev, 'x) runtime =
  ttl_log :: "'k ttl_request list"
  event_log :: "'ev list"
  code_hash :: bytes_n32
  outside :: 'x

definition require_auth :: "env \<Rightarrow> address \<Rightarrow> ('s, 'e, unit) operation" where
  "require_auth e a = (if authorised e a then return () else trap)"

definition publish :: "'ev \<Rightarrow> (('k, 'ev, 'x, 'z) runtime_scheme, 'e, unit) operation" where
  "publish ev = modify (\<lambda>s. s\<lparr>event_log := event_log s @ [ev]\<rparr>)"

definition external_call ::
  "('x \<Rightarrow> ('r \<times> 'x) option) \<Rightarrow> (('k, 'ev, 'x, 'z) runtime_scheme, 'e, 'r) operation" where
  "external_call f s = (case f (outside s) of
     None \<Rightarrow> Inl Trapped | Some (r, x) \<Rightarrow> Inr (r, s\<lparr>outside := x\<rparr>))"

definition update_current_contract_wasm ::
  "env \<Rightarrow> bytes_n32 \<Rightarrow> (('k, 'ev, 'x, 'z) runtime_scheme, 'e, unit) operation" where
  "update_current_contract_wasm e h =
     (if uploaded_wasm e h then modify (\<lambda>s. s\<lparr>code_hash := h\<rparr>) else trap)"

lemma require_auth_success [op_success]:
  "require_auth e a s = Inr (b, t) \<longleftrightarrow> authorised e a \<and> t = s"
  by (simp add: require_auth_def return_def trap_def eq_commute)

lemma publish_success [op_success]:
  "publish ev s = Inr (b, t) \<longleftrightarrow> t = s\<lparr>event_log := event_log s @ [ev]\<rparr>"
  by (simp add: publish_def modify_success)

lemma external_call_success [op_success]:
  "external_call f s = Inr (r, t) \<longleftrightarrow> (\<exists>x. f (outside s) = Some (r, x) \<and> t = s\<lparr>outside := x\<rparr>)"
  by (auto simp: external_call_def split: option.splits)

lemma update_wasm_success [op_success]:
  "update_current_contract_wasm e h s = Inr (b, t) \<longleftrightarrow> uploaded_wasm e h \<and> t = s\<lparr>code_hash := h\<rparr>"
  by (auto simp: update_current_contract_wasm_def modify_success trap_def)

lemmas runtime_defs =
  require_auth_def publish_def external_call_def update_current_contract_wasm_def

declare runtime_defs [op_run]

section \<open>Strategy errors\<close>

datatype strategy_error =
    NotInitialized | AlreadyInitialized | Unauthorized | InsufficientBalance | ZeroAmount
  | Unhealthy | InvalidBps | Paused | UpgradeNotScheduled | UpgradeTooEarly

text \<open>The \<^verbatim>\<open>repr(u32)\<close> codes; the derived order of the variants is the order of the codes.\<close>

fun strategy_error_code :: "strategy_error \<Rightarrow> nat" where
  "strategy_error_code NotInitialized = 1"
| "strategy_error_code AlreadyInitialized = 2"
| "strategy_error_code Unauthorized = 3"
| "strategy_error_code InsufficientBalance = 4"
| "strategy_error_code ZeroAmount = 5"
| "strategy_error_code Unhealthy = 6"
| "strategy_error_code InvalidBps = 7"
| "strategy_error_code Paused = 8"
| "strategy_error_code UpgradeNotScheduled = 9"
| "strategy_error_code UpgradeTooEarly = 10"

lemma strategy_error_code_inj: "strategy_error_code a = strategy_error_code b \<longleftrightarrow> a = b"
  by (cases a; cases b) simp_all

instantiation strategy_error :: linorder
begin

definition less_eq_strategy_error :: "strategy_error \<Rightarrow> strategy_error \<Rightarrow> bool" where
  "less_eq_strategy_error a b \<longleftrightarrow> strategy_error_code a \<le> strategy_error_code b"

definition less_strategy_error :: "strategy_error \<Rightarrow> strategy_error \<Rightarrow> bool" where
  "less_strategy_error a b \<longleftrightarrow> strategy_error_code a < strategy_error_code b"

instance
  by standard
    (auto simp: less_eq_strategy_error_def less_strategy_error_def strategy_error_code_inj)

end

section \<open>Storage lifetimes and basis points\<close>

definition LEDGERS_PER_DAY :: nat where "LEDGERS_PER_DAY = 17280"
definition INSTANCE_LIFETIME_THRESHOLD :: nat where
  "INSTANCE_LIFETIME_THRESHOLD = LEDGERS_PER_DAY * 30"
definition INSTANCE_BUMP_AMOUNT :: nat where "INSTANCE_BUMP_AMOUNT = LEDGERS_PER_DAY * 120"
definition PERSISTENT_LIFETIME_THRESHOLD :: nat where
  "PERSISTENT_LIFETIME_THRESHOLD = LEDGERS_PER_DAY * 30"
definition PERSISTENT_BUMP_AMOUNT :: nat where "PERSISTENT_BUMP_AMOUNT = LEDGERS_PER_DAY * 120"

definition MAX_BPS :: nat where "MAX_BPS = 10000"

definition bump_instance :: "(('k, 'ev, 'x, 'z) runtime_scheme, 'e, unit) operation" where
  "bump_instance = modify (\<lambda>s. s\<lparr>ttl_log := ttl_log s @
     [ExtendInstance INSTANCE_LIFETIME_THRESHOLD INSTANCE_BUMP_AMOUNT]\<rparr>)"

definition bump_persistent :: "'k \<Rightarrow> (('k, 'ev, 'x, 'z) runtime_scheme, 'e, unit) operation" where
  "bump_persistent k = modify (\<lambda>s. s\<lparr>ttl_log := ttl_log s @
     [ExtendPersistent k PERSISTENT_LIFETIME_THRESHOLD PERSISTENT_BUMP_AMOUNT]\<rparr>)"

text \<open>The effect of a lifetime request: \<open>log_ttl r s\<close> differs from \<open>s\<close> in the request log only.\<close>

definition log_ttl :: "'k ttl_request list \<Rightarrow> ('k, 'ev, 'x, 'z) runtime_scheme \<Rightarrow>
    ('k, 'ev, 'x, 'z) runtime_scheme" where
  "log_ttl rs s = s\<lparr>ttl_log := ttl_log s @ rs\<rparr>"

abbreviation persistent_request :: "'k \<Rightarrow> 'k ttl_request" where
  "persistent_request k \<equiv> ExtendPersistent k PERSISTENT_LIFETIME_THRESHOLD PERSISTENT_BUMP_AMOUNT"

abbreviation instance_request :: "'k ttl_request" where
  "instance_request \<equiv> ExtendInstance INSTANCE_LIFETIME_THRESHOLD INSTANCE_BUMP_AMOUNT"

lemma bump_instance_success [op_success]:
  "bump_instance s = Inr (b, t) \<longleftrightarrow> t = log_ttl [instance_request] s"
  by (simp add: bump_instance_def modify_success log_ttl_def)

lemma bump_persistent_success [op_success]:
  "bump_persistent k s = Inr (b, t) \<longleftrightarrow> t = log_ttl [persistent_request k] s"
  by (simp add: bump_persistent_def modify_success log_ttl_def)

lemma when_bump_success [op_success]:
  "when_do c (bump_persistent k) s = Inr (b, t) \<longleftrightarrow>
     t = log_ttl (if c then [persistent_request k] else []) s"
  by (auto simp: when_do_def bump_persistent_success return_def log_ttl_def)

lemma bump_run [op_run]:
  "bump_instance s = Inr ((), log_ttl [instance_request] s)"
  "bump_persistent k s = Inr ((), log_ttl [persistent_request k] s)"
  by (simp_all add: bump_instance_def bump_persistent_def modify_def log_ttl_def)

lemma log_ttl_fields [simp]:
  "ttl_log (log_ttl rs s) = ttl_log s @ rs"
  "event_log (log_ttl rs s) = event_log s"
  "code_hash (log_ttl rs s) = code_hash s"
  "outside (log_ttl rs s) = outside s"
  "runtime.more (log_ttl rs s) = runtime.more s"
  by (simp_all add: log_ttl_def)

lemma log_ttl_append [simp]:
  "log_ttl qs (log_ttl rs s) = log_ttl (rs @ qs) s" "log_ttl [] s = s"
  by (simp_all add: log_ttl_def)

lemma log_ttl_inject [simp]: "log_ttl qs s = log_ttl rs s \<longleftrightarrow> qs = rs"
  by (metis log_ttl_fields(1) same_append_eq)

lemma log_ttl_self [simp, intro]: "\<exists>rs. s = log_ttl rs s"
  by (rule exI [of _ "[]"]) simp

section \<open>Client interfaces\<close>

text \<open>
  \<^verbatim>\<open>soroban_sdk::token::Client\<close>: every function takes the token's address first, as
  \<^verbatim>\<open>Client::new(&e, &asset)\<close> does.
\<close>

record 'x token_client =
  token_balance :: "address \<Rightarrow> address \<Rightarrow> 'x \<Rightarrow> (int \<times> 'x) option"
  token_transfer :: "address \<Rightarrow> address \<Rightarrow> address \<Rightarrow> int \<Rightarrow> 'x \<Rightarrow> (unit \<times> 'x) option"
  token_approve :: "address \<Rightarrow> address \<Rightarrow> address \<Rightarrow> int \<Rightarrow> nat \<Rightarrow> 'x \<Rightarrow> (unit \<times> 'x) option"

text \<open>
  \<^verbatim>\<open>StrategyClient\<close>, generated from the trait \<^verbatim>\<open>StrategyInterface\<close>. The vault uses the
  methods that trap when the strategy returns an error, so a result is \<open>None\<close> there.
\<close>

record 'x strategy_client =
  strategy_deposit :: "address \<Rightarrow> address \<Rightarrow> int \<Rightarrow> 'x \<Rightarrow> (unit \<times> 'x) option"
  strategy_withdraw :: "address \<Rightarrow> address \<Rightarrow> int \<Rightarrow> 'x \<Rightarrow> (int \<times> 'x) option"
  strategy_emergency_withdraw :: "address \<Rightarrow> address \<Rightarrow> 'x \<Rightarrow> (int \<times> 'x) option"
  strategy_balance_of :: "address \<Rightarrow> 'x \<Rightarrow> (int \<times> 'x) option"
  strategy_available_liquidity :: "address \<Rightarrow> 'x \<Rightarrow> (int \<times> 'x) option"
  strategy_is_healthy :: "address \<Rightarrow> 'x \<Rightarrow> (bool \<times> 'x) option"
  strategy_asset :: "address \<Rightarrow> 'x \<Rightarrow> (address \<times> 'x) option"

section \<open>What a token promises\<close>

text \<open>
  The part of SEP-41 the contracts rely on, for one token and a ghost balance function: reading a
  balance reports it and moves no money, and a transfer that succeeds moves exactly the amount,
  which the sender had. \<open>wf\<close> is the token's own invariant.
\<close>

locale sep41 =
  fixes T :: "'x token_client" and asset :: address and bal :: "'x \<Rightarrow> address \<Rightarrow> int"
    and wf :: "'x \<Rightarrow> bool"
  assumes balance_reads: "wf x \<Longrightarrow> token_balance T asset a x = Some (v, y) \<Longrightarrow>
      v = bal x a \<and> bal y = bal x \<and> wf y"
    and transfer_moves: "wf x \<Longrightarrow> token_transfer T asset a b n x = Some (u, y) \<Longrightarrow>
      n \<le> bal x a \<and> wf y \<and>
      bal y = (\<lambda>c. bal x c - (if c = a then n else 0) + (if c = b then n else 0))"
    and transfer_amount: "wf x \<Longrightarrow> token_transfer T asset a b n x = Some (u, y) \<Longrightarrow> 0 \<le> n"
    and balance_nonneg: "wf x \<Longrightarrow> 0 \<le> bal x a"
begin

lemma transfer_conserves:
  assumes "wf x" and "token_transfer T asset a b n x = Some (u, y)" and "a \<noteq> b"
  shows "bal y a + bal y b = bal x a + bal x b"
  using transfer_moves [OF assms(1,2)] assms(3) by simp

lemma transfer_frame:
  assumes "wf x" and "token_transfer T asset a b n x = Some (u, y)" and "c \<noteq> a" and "c \<noteq> b"
  shows "bal y c = bal x c"
  using transfer_moves [OF assms(1,2)] assms(3,4) by simp

lemma transfer_to_self:
  assumes "wf x" and "token_transfer T asset a a n x = Some (u, y)"
  shows "bal y = bal x"
  using transfer_moves [OF assms] by auto

end

end
