(* ===== verification/VaultEvents.thy ===== *)
theory VaultEvents
  imports Common
begin

text \<open>
  The vault's error codes (\<^verbatim>\<open>tezoro-vault/src/errors.rs\<close>) and its events with
  their constructors (\<^verbatim>\<open>events.rs\<close>). Publishing appends to the event log of the
  contract's runtime.
\<close>

section \<open>Errors\<close>

datatype vault_error =
    NotInitialized | AlreadyInitialized | Unauthorized | Paused | ZeroAmount | InsufficientShares
  | InsufficientAssets | DepositCapExceeded | MaxStrategies | StrategyAlreadyActive
  | StrategyNotActive | InvalidBps | StrategyHasBalance | NoPendingAdmin | StaleAttestation
  | InvalidBalance | UpgradeNotScheduled | UpgradeTooEarly | IdleBufferViolation
  | NoFeesToCollect | StrategyUnhealthy

fun vault_error_code :: "vault_error \<Rightarrow> nat" where
  "vault_error_code NotInitialized = 100"
| "vault_error_code AlreadyInitialized = 101"
| "vault_error_code Unauthorized = 102"
| "vault_error_code Paused = 103"
| "vault_error_code ZeroAmount = 104"
| "vault_error_code InsufficientShares = 105"
| "vault_error_code InsufficientAssets = 106"
| "vault_error_code DepositCapExceeded = 107"
| "vault_error_code MaxStrategies = 108"
| "vault_error_code StrategyAlreadyActive = 109"
| "vault_error_code StrategyNotActive = 110"
| "vault_error_code InvalidBps = 111"
| "vault_error_code StrategyHasBalance = 112"
| "vault_error_code NoPendingAdmin = 113"
| "vault_error_code StaleAttestation = 114"
| "vault_error_code InvalidBalance = 115"
| "vault_error_code UpgradeNotScheduled = 116"
| "vault_error_code UpgradeTooEarly = 117"
| "vault_error_code IdleBufferViolation = 118"
| "vault_error_code NoFeesToCollect = 119"
| "vault_error_code StrategyUnhealthy = 120"

lemma vault_error_code_inj: "vault_error_code a = vault_error_code b \<longleftrightarrow> a = b"
  by (cases a; cases b) simp_all

instantiation vault_error :: linorder
begin

definition less_eq_vault_error :: "vault_error \<Rightarrow> vault_error \<Rightarrow> bool" where
  "less_eq_vault_error a b \<longleftrightarrow> vault_error_code a \<le> vault_error_code b"

definition less_vault_error :: "vault_error \<Rightarrow> vault_error \<Rightarrow> bool" where
  "less_vault_error a b \<longleftrightarrow> vault_error_code a < vault_error_code b"

instance
  by standard (auto simp: less_eq_vault_error_def less_vault_error_def vault_error_code_inj)

end

section \<open>Events\<close>

text \<open>
  One constructor per \<^verbatim>\<open>contractevent\<close> struct. The role of \<^verbatim>\<open>SetRole\<close> is a
  \<^verbatim>\<open>Symbol\<close>, here its text.
\<close>

datatype vault_event =
    Deposit address int int
  | Redeem address int int
  | Transfer address address int
  | StrategyAdd address
  | StrategyRemove address
  | Pause address
  | Unpause address
  | BridgedUpdate int nat
  | TrackedUpdate address int
  | Upgrade bytes_n32
  | SetRole string address
  | DepositCapUpdate int
  | AdminProposed address address
  | AdminAccepted address
  | Allocate address int
  | Deallocate address int
  | UpgradeScheduled bytes_n32 nat
  | UpgradeCancelled
  | FeesCollected int int

type_synonym ('k, 'x, 'z) vault_emit =
  "(('k, vault_event, 'x, 'z) runtime_scheme, vault_error, unit) operation"

subsection \<open>Convenience constructors\<close>

definition emit_deposit :: "address \<Rightarrow> int \<Rightarrow> int \<Rightarrow> ('k, 'x, 'z) vault_emit" where
  "emit_deposit from assets shares = publish (Deposit from assets shares)"

definition emit_redeem :: "address \<Rightarrow> int \<Rightarrow> int \<Rightarrow> ('k, 'x, 'z) vault_emit" where
  "emit_redeem from shares assets = publish (Redeem from shares assets)"

definition emit_transfer :: "address \<Rightarrow> address \<Rightarrow> int \<Rightarrow> ('k, 'x, 'z) vault_emit" where
  "emit_transfer from to amount = publish (Transfer from to amount)"

definition emit_strategy_add :: "address \<Rightarrow> ('k, 'x, 'z) vault_emit" where
  "emit_strategy_add strategy = publish (StrategyAdd strategy)"

definition emit_strategy_remove :: "address \<Rightarrow> ('k, 'x, 'z) vault_emit" where
  "emit_strategy_remove strategy = publish (StrategyRemove strategy)"

definition emit_pause :: "address \<Rightarrow> ('k, 'x, 'z) vault_emit" where
  "emit_pause caller = publish (Pause caller)"

definition emit_unpause :: "address \<Rightarrow> ('k, 'x, 'z) vault_emit" where
  "emit_unpause caller = publish (Unpause caller)"

definition emit_bridged_update :: "int \<Rightarrow> nat \<Rightarrow> ('k, 'x, 'z) vault_emit" where
  "emit_bridged_update balance timestamp = publish (BridgedUpdate balance timestamp)"

definition emit_tracked_update :: "address \<Rightarrow> int \<Rightarrow> ('k, 'x, 'z) vault_emit" where
  "emit_tracked_update strategy balance = publish (TrackedUpdate strategy balance)"

definition emit_upgrade :: "bytes_n32 \<Rightarrow> ('k, 'x, 'z) vault_emit" where
  "emit_upgrade new_wasm_hash = publish (Upgrade new_wasm_hash)"

definition emit_set_role :: "string \<Rightarrow> address \<Rightarrow> ('k, 'x, 'z) vault_emit" where
  "emit_set_role role new_address = publish (SetRole role new_address)"

definition emit_deposit_cap :: "int \<Rightarrow> ('k, 'x, 'z) vault_emit" where
  "emit_deposit_cap cap = publish (DepositCapUpdate cap)"

definition emit_admin_proposed :: "address \<Rightarrow> address \<Rightarrow> ('k, 'x, 'z) vault_emit" where
  "emit_admin_proposed current proposed = publish (AdminProposed current proposed)"

definition emit_admin_accepted :: "address \<Rightarrow> ('k, 'x, 'z) vault_emit" where
  "emit_admin_accepted new_admin = publish (AdminAccepted new_admin)"

definition emit_allocate :: "address \<Rightarrow> int \<Rightarrow> ('k, 'x, 'z) vault_emit" where
  "emit_allocate strategy amount = publish (Allocate strategy amount)"

definition emit_deallocate :: "address \<Rightarrow> int \<Rightarrow> ('k, 'x, 'z) vault_emit" where
  "emit_deallocate strategy amount = publish (Deallocate strategy amount)"

definition emit_upgrade_scheduled :: "bytes_n32 \<Rightarrow> nat \<Rightarrow> ('k, 'x, 'z) vault_emit" where
  "emit_upgrade_scheduled wasm_hash execute_after = publish (UpgradeScheduled wasm_hash execute_after)"

definition emit_upgrade_cancelled :: "('k, 'x, 'z) vault_emit" where
  "emit_upgrade_cancelled = publish UpgradeCancelled"

definition emit_fees_collected :: "int \<Rightarrow> int \<Rightarrow> ('k, 'x, 'z) vault_emit" where
  "emit_fees_collected fee_shares new_hwm = publish (FeesCollected fee_shares new_hwm)"

lemmas vault_emit_defs =
  emit_deposit_def emit_redeem_def emit_transfer_def emit_strategy_add_def
  emit_strategy_remove_def emit_pause_def emit_unpause_def emit_bridged_update_def
  emit_tracked_update_def emit_upgrade_def emit_set_role_def emit_deposit_cap_def
  emit_admin_proposed_def emit_admin_accepted_def emit_allocate_def emit_deallocate_def
  emit_upgrade_scheduled_def emit_upgrade_cancelled_def emit_fees_collected_def

declare vault_emit_defs [op_run, op_success]

end
