(* ===== verification/VaultStorage.thy ===== *)
theory VaultStorage
  imports VaultEvents
begin

text \<open>
  The vault's storage (\<^verbatim>\<open>tezoro-vault/src/storage.rs\<close>). One record field per
  variant of \<^verbatim>\<open>DataKey\<close>, holding \<open>None\<close> while the entry is absent; the two variants
  with an address are maps. The getters and setters are the code's, lifetime requests included;
  each has one lemma in \<open>op_success\<close> that says what it returns and what it leaves behind.
\<close>

section \<open>Storage\<close>

datatype data_key =
    Admin | PendingAdmin | Keeper | Guardian | Asset | Initialized | Paused | PerformanceFeeBps
  | FeeRecipient | IdleBufferBps | DepositCap | StrategyList | VaultName | VaultSymbol
  | BridgedMaxAge | UpgradeDelay
  | TotalSupply | HighWaterMark | TrackedBalance address | ShareBalance address | BridgedBalance
  | BridgedTimestamp | ScheduledUpgradeHash | ScheduledUpgradeAt

definition DEFAULT_BRIDGED_MAX_AGE :: nat where "DEFAULT_BRIDGED_MAX_AGE = 86400"
definition DEFAULT_UPGRADE_DELAY :: nat where "DEFAULT_UPGRADE_DELAY = 172800"
definition NAV_PRECISION :: int where "NAV_PRECISION = 10000000"

record 'x vault = "(data_key, vault_event, 'x) runtime" +
  st_admin :: "address option"
  st_pending_admin :: "address option"
  st_keeper :: "address option"
  st_guardian :: "address option"
  st_asset :: "address option"
  st_initialized :: "bool option"
  st_paused :: "bool option"
  st_performance_fee_bps :: "nat option"
  st_fee_recipient :: "address option"
  st_idle_buffer_bps :: "nat option"
  st_deposit_cap :: "int option"
  st_strategies :: "(address list) option"
  st_vault_name :: "string option"
  st_vault_symbol :: "string option"
  st_bridged_max_age :: "nat option"
  st_upgrade_delay :: "nat option"
  st_total_supply :: "int option"
  st_high_water_mark :: "int option"
  st_tracked_balance :: "address \<rightharpoonup> int"
  st_share_balance :: "address \<rightharpoonup> int"
  st_bridged_balance :: "int option"
  st_bridged_timestamp :: "nat option"
  st_scheduled_upgrade_hash :: "bytes_n32 option"
  st_scheduled_upgrade_at :: "nat option"

text \<open>The storage of a contract that has just been deployed: no entry is present.\<close>

definition deployed :: "bytes_n32 \<Rightarrow> 'x \<Rightarrow> 'x vault" where
  "deployed h x = \<lparr>ttl_log = [], event_log = [], code_hash = h, outside = x,
     st_admin = None, st_pending_admin = None, st_keeper = None, st_guardian = None,
     st_asset = None, st_initialized = None, st_paused = None, st_performance_fee_bps = None,
     st_fee_recipient = None, st_idle_buffer_bps = None, st_deposit_cap = None,
     st_strategies = None, st_vault_name = None, st_vault_symbol = None,
     st_bridged_max_age = None, st_upgrade_delay = None, st_total_supply = None,
     st_high_water_mark = None, st_tracked_balance = Map.empty, st_share_balance = Map.empty,
     st_bridged_balance = None, st_bridged_timestamp = None, st_scheduled_upgrade_hash = None,
     st_scheduled_upgrade_at = None\<rparr>"

lemma log_ttl_vault_fields [simp]:
  "st_admin (log_ttl rs s) = st_admin s"
  "st_pending_admin (log_ttl rs s) = st_pending_admin s"
  "st_keeper (log_ttl rs s) = st_keeper s"
  "st_guardian (log_ttl rs s) = st_guardian s"
  "st_asset (log_ttl rs s) = st_asset s"
  "st_initialized (log_ttl rs s) = st_initialized s"
  "st_paused (log_ttl rs s) = st_paused s"
  "st_performance_fee_bps (log_ttl rs s) = st_performance_fee_bps s"
  "st_fee_recipient (log_ttl rs s) = st_fee_recipient s"
  "st_idle_buffer_bps (log_ttl rs s) = st_idle_buffer_bps s"
  "st_deposit_cap (log_ttl rs s) = st_deposit_cap s"
  "st_strategies (log_ttl rs s) = st_strategies s"
  "st_vault_name (log_ttl rs s) = st_vault_name s"
  "st_vault_symbol (log_ttl rs s) = st_vault_symbol s"
  "st_bridged_max_age (log_ttl rs s) = st_bridged_max_age s"
  "st_upgrade_delay (log_ttl rs s) = st_upgrade_delay s"
  "st_total_supply (log_ttl rs s) = st_total_supply s"
  "st_high_water_mark (log_ttl rs s) = st_high_water_mark s"
  "st_tracked_balance (log_ttl rs s) = st_tracked_balance s"
  "st_share_balance (log_ttl rs s) = st_share_balance s"
  "st_bridged_balance (log_ttl rs s) = st_bridged_balance s"
  "st_bridged_timestamp (log_ttl rs s) = st_bridged_timestamp s"
  "st_scheduled_upgrade_hash (log_ttl rs s) = st_scheduled_upgrade_hash s"
  "st_scheduled_upgrade_at (log_ttl rs s) = st_scheduled_upgrade_at s"
  by (simp_all add: log_ttl_def)

text \<open>A lifetime request commutes with every storage write, so a state is a request list over writes.\<close>

lemma log_ttl_vault_updates [simp]:
  "(log_ttl rs s)\<lparr>event_log := v_event_log\<rparr> = log_ttl rs (s\<lparr>event_log := v_event_log\<rparr>)"
  "(log_ttl rs s)\<lparr>code_hash := v_code_hash\<rparr> = log_ttl rs (s\<lparr>code_hash := v_code_hash\<rparr>)"
  "(log_ttl rs s)\<lparr>outside := v_outside\<rparr> = log_ttl rs (s\<lparr>outside := v_outside\<rparr>)"
  "(log_ttl rs s)\<lparr>st_admin := v_st_admin\<rparr> = log_ttl rs (s\<lparr>st_admin := v_st_admin\<rparr>)"
  "(log_ttl rs s)\<lparr>st_pending_admin := v_st_pending_admin\<rparr> = log_ttl rs (s\<lparr>st_pending_admin := v_st_pending_admin\<rparr>)"
  "(log_ttl rs s)\<lparr>st_keeper := v_st_keeper\<rparr> = log_ttl rs (s\<lparr>st_keeper := v_st_keeper\<rparr>)"
  "(log_ttl rs s)\<lparr>st_guardian := v_st_guardian\<rparr> = log_ttl rs (s\<lparr>st_guardian := v_st_guardian\<rparr>)"
  "(log_ttl rs s)\<lparr>st_asset := v_st_asset\<rparr> = log_ttl rs (s\<lparr>st_asset := v_st_asset\<rparr>)"
  "(log_ttl rs s)\<lparr>st_initialized := v_st_initialized\<rparr> = log_ttl rs (s\<lparr>st_initialized := v_st_initialized\<rparr>)"
  "(log_ttl rs s)\<lparr>st_paused := v_st_paused\<rparr> = log_ttl rs (s\<lparr>st_paused := v_st_paused\<rparr>)"
  "(log_ttl rs s)\<lparr>st_performance_fee_bps := v_st_performance_fee_bps\<rparr> = log_ttl rs (s\<lparr>st_performance_fee_bps := v_st_performance_fee_bps\<rparr>)"
  "(log_ttl rs s)\<lparr>st_fee_recipient := v_st_fee_recipient\<rparr> = log_ttl rs (s\<lparr>st_fee_recipient := v_st_fee_recipient\<rparr>)"
  "(log_ttl rs s)\<lparr>st_idle_buffer_bps := v_st_idle_buffer_bps\<rparr> = log_ttl rs (s\<lparr>st_idle_buffer_bps := v_st_idle_buffer_bps\<rparr>)"
  "(log_ttl rs s)\<lparr>st_deposit_cap := v_st_deposit_cap\<rparr> = log_ttl rs (s\<lparr>st_deposit_cap := v_st_deposit_cap\<rparr>)"
  "(log_ttl rs s)\<lparr>st_strategies := v_st_strategies\<rparr> = log_ttl rs (s\<lparr>st_strategies := v_st_strategies\<rparr>)"
  "(log_ttl rs s)\<lparr>st_vault_name := v_st_vault_name\<rparr> = log_ttl rs (s\<lparr>st_vault_name := v_st_vault_name\<rparr>)"
  "(log_ttl rs s)\<lparr>st_vault_symbol := v_st_vault_symbol\<rparr> = log_ttl rs (s\<lparr>st_vault_symbol := v_st_vault_symbol\<rparr>)"
  "(log_ttl rs s)\<lparr>st_bridged_max_age := v_st_bridged_max_age\<rparr> = log_ttl rs (s\<lparr>st_bridged_max_age := v_st_bridged_max_age\<rparr>)"
  "(log_ttl rs s)\<lparr>st_upgrade_delay := v_st_upgrade_delay\<rparr> = log_ttl rs (s\<lparr>st_upgrade_delay := v_st_upgrade_delay\<rparr>)"
  "(log_ttl rs s)\<lparr>st_total_supply := v_st_total_supply\<rparr> = log_ttl rs (s\<lparr>st_total_supply := v_st_total_supply\<rparr>)"
  "(log_ttl rs s)\<lparr>st_high_water_mark := v_st_high_water_mark\<rparr> = log_ttl rs (s\<lparr>st_high_water_mark := v_st_high_water_mark\<rparr>)"
  "(log_ttl rs s)\<lparr>st_tracked_balance := v_st_tracked_balance\<rparr> = log_ttl rs (s\<lparr>st_tracked_balance := v_st_tracked_balance\<rparr>)"
  "(log_ttl rs s)\<lparr>st_share_balance := v_st_share_balance\<rparr> = log_ttl rs (s\<lparr>st_share_balance := v_st_share_balance\<rparr>)"
  "(log_ttl rs s)\<lparr>st_bridged_balance := v_st_bridged_balance\<rparr> = log_ttl rs (s\<lparr>st_bridged_balance := v_st_bridged_balance\<rparr>)"
  "(log_ttl rs s)\<lparr>st_bridged_timestamp := v_st_bridged_timestamp\<rparr> = log_ttl rs (s\<lparr>st_bridged_timestamp := v_st_bridged_timestamp\<rparr>)"
  "(log_ttl rs s)\<lparr>st_scheduled_upgrade_hash := v_st_scheduled_upgrade_hash\<rparr> = log_ttl rs (s\<lparr>st_scheduled_upgrade_hash := v_st_scheduled_upgrade_hash\<rparr>)"
  "(log_ttl rs s)\<lparr>st_scheduled_upgrade_at := v_st_scheduled_upgrade_at\<rparr> = log_ttl rs (s\<lparr>st_scheduled_upgrade_at := v_st_scheduled_upgrade_at\<rparr>)"
  by (simp_all add: log_ttl_def)

text \<open>What the storage says, with the defaults of the getters.\<close>

abbreviation supply_of :: "'x vault \<Rightarrow> int" where
  "supply_of s \<equiv> unwrap_or (st_total_supply s) 0"
abbreviation shares_of :: "'x vault \<Rightarrow> address \<Rightarrow> int" where
  "shares_of s a \<equiv> lookup0 (st_share_balance s) a"
abbreviation tracked_of :: "'x vault \<Rightarrow> address \<Rightarrow> int" where
  "tracked_of s a \<equiv> lookup0 (st_tracked_balance s) a"
abbreviation strategies_of :: "'x vault \<Rightarrow> address list" where
  "strategies_of s \<equiv> unwrap_or (st_strategies s) []"
abbreviation bridged_of :: "'x vault \<Rightarrow> int" where
  "bridged_of s \<equiv> unwrap_or (st_bridged_balance s) 0"
abbreviation hwm_of :: "'x vault \<Rightarrow> int" where
  "hwm_of s \<equiv> unwrap_or (st_high_water_mark s) NAV_PRECISION"
abbreviation upgrade_delay_of :: "'x vault \<Rightarrow> nat" where
  "upgrade_delay_of s \<equiv> unwrap_or (st_upgrade_delay s) DEFAULT_UPGRADE_DELAY"

text \<open>The lifetime request of a persistent getter: only when the value read is not zero.\<close>

abbreviation read_request :: "data_key \<Rightarrow> 'n::zero \<Rightarrow> data_key ttl_request list" where
  "read_request k v \<equiv> (if v \<noteq> 0 then [persistent_request k] else [])"

subsection \<open>Instance entries\<close>

definition get_admin :: "('x vault, vault_error, address) operation" where
  "get_admin = bind (gets st_admin) unwrap"

definition set_admin :: "address \<Rightarrow> ('x vault, vault_error, unit) operation" where
  "set_admin v = modify (\<lambda>s. s\<lparr>st_admin := Some v\<rparr>)"

definition get_pending_admin :: "('x vault, vault_error, address option) operation" where
  "get_pending_admin = gets st_pending_admin"

definition set_pending_admin :: "address \<Rightarrow> ('x vault, vault_error, unit) operation" where
  "set_pending_admin v = modify (\<lambda>s. s\<lparr>st_pending_admin := Some v\<rparr>)"

definition clear_pending_admin :: "('x vault, vault_error, unit) operation" where
  "clear_pending_admin = modify (\<lambda>s. s\<lparr>st_pending_admin := None\<rparr>)"

definition get_keeper :: "('x vault, vault_error, address) operation" where
  "get_keeper = bind (gets st_keeper) unwrap"

definition set_keeper :: "address \<Rightarrow> ('x vault, vault_error, unit) operation" where
  "set_keeper v = modify (\<lambda>s. s\<lparr>st_keeper := Some v\<rparr>)"

definition get_guardian :: "('x vault, vault_error, address) operation" where
  "get_guardian = bind (gets st_guardian) unwrap"

definition set_guardian :: "address \<Rightarrow> ('x vault, vault_error, unit) operation" where
  "set_guardian v = modify (\<lambda>s. s\<lparr>st_guardian := Some v\<rparr>)"

definition get_asset :: "('x vault, vault_error, address) operation" where
  "get_asset = bind (gets st_asset) unwrap"

definition set_asset :: "address \<Rightarrow> ('x vault, vault_error, unit) operation" where
  "set_asset v = modify (\<lambda>s. s\<lparr>st_asset := Some v\<rparr>)"

definition is_initialized :: "('x vault, vault_error, bool) operation" where
  "is_initialized = gets (\<lambda>s. st_initialized s \<noteq> None)"

definition set_initialized :: "('x vault, vault_error, unit) operation" where
  "set_initialized = modify (\<lambda>s. s\<lparr>st_initialized := Some True\<rparr>)"

definition is_paused :: "('x vault, vault_error, bool) operation" where
  "is_paused = gets (\<lambda>s. unwrap_or (st_paused s) False)"

definition set_paused :: "bool \<Rightarrow> ('x vault, vault_error, unit) operation" where
  "set_paused v = modify (\<lambda>s. s\<lparr>st_paused := Some v\<rparr>)"

definition get_performance_fee_bps :: "('x vault, vault_error, nat) operation" where
  "get_performance_fee_bps = gets (\<lambda>s. unwrap_or (st_performance_fee_bps s) 0)"

definition set_performance_fee_bps :: "nat \<Rightarrow> ('x vault, vault_error, unit) operation" where
  "set_performance_fee_bps v = modify (\<lambda>s. s\<lparr>st_performance_fee_bps := Some v\<rparr>)"

definition get_fee_recipient :: "('x vault, vault_error, address) operation" where
  "get_fee_recipient = bind (gets st_fee_recipient) unwrap"

definition set_fee_recipient :: "address \<Rightarrow> ('x vault, vault_error, unit) operation" where
  "set_fee_recipient v = modify (\<lambda>s. s\<lparr>st_fee_recipient := Some v\<rparr>)"

definition get_idle_buffer_bps :: "('x vault, vault_error, nat) operation" where
  "get_idle_buffer_bps = gets (\<lambda>s. unwrap_or (st_idle_buffer_bps s) 0)"

definition set_idle_buffer_bps :: "nat \<Rightarrow> ('x vault, vault_error, unit) operation" where
  "set_idle_buffer_bps v = modify (\<lambda>s. s\<lparr>st_idle_buffer_bps := Some v\<rparr>)"

definition get_deposit_cap :: "('x vault, vault_error, int) operation" where
  "get_deposit_cap = gets (\<lambda>s. unwrap_or (st_deposit_cap s) 0)"

definition set_deposit_cap :: "int \<Rightarrow> ('x vault, vault_error, unit) operation" where
  "set_deposit_cap v = modify (\<lambda>s. s\<lparr>st_deposit_cap := Some v\<rparr>)"

definition get_strategies :: "('x vault, vault_error, (address list)) operation" where
  "get_strategies = gets (\<lambda>s. unwrap_or (st_strategies s) [])"

definition set_strategies :: "address list \<Rightarrow> ('x vault, vault_error, unit) operation" where
  "set_strategies v = modify (\<lambda>s. s\<lparr>st_strategies := Some v\<rparr>)"

definition get_vault_name :: "('x vault, vault_error, string) operation" where
  "get_vault_name = gets (\<lambda>s. unwrap_or (st_vault_name s) ''Tezoro Vault'')"

definition set_vault_name :: "string \<Rightarrow> ('x vault, vault_error, unit) operation" where
  "set_vault_name v = modify (\<lambda>s. s\<lparr>st_vault_name := Some v\<rparr>)"

definition get_vault_symbol :: "('x vault, vault_error, string) operation" where
  "get_vault_symbol = gets (\<lambda>s. unwrap_or (st_vault_symbol s) ''tVAULT'')"

definition set_vault_symbol :: "string \<Rightarrow> ('x vault, vault_error, unit) operation" where
  "set_vault_symbol v = modify (\<lambda>s. s\<lparr>st_vault_symbol := Some v\<rparr>)"

definition get_bridged_max_age :: "('x vault, vault_error, nat) operation" where
  "get_bridged_max_age =
     gets (\<lambda>s. unwrap_or (st_bridged_max_age s) DEFAULT_BRIDGED_MAX_AGE)"

definition set_bridged_max_age :: "nat \<Rightarrow> ('x vault, vault_error, unit) operation" where
  "set_bridged_max_age v = modify (\<lambda>s. s\<lparr>st_bridged_max_age := Some v\<rparr>)"

definition get_upgrade_delay :: "('x vault, vault_error, nat) operation" where
  "get_upgrade_delay =
     gets (\<lambda>s. unwrap_or (st_upgrade_delay s) DEFAULT_UPGRADE_DELAY)"

definition set_upgrade_delay :: "nat \<Rightarrow> ('x vault, vault_error, unit) operation" where
  "set_upgrade_delay v = modify (\<lambda>s. s\<lparr>st_upgrade_delay := Some v\<rparr>)"

subsection \<open>Persistent entries\<close>

definition get_total_supply :: "('x vault, vault_error, int) operation" where
  "get_total_supply =
     bind (gets (\<lambda>s. unwrap_or (st_total_supply s) 0)) (\<lambda>val.
     bind (when_do (val \<noteq> 0) (bump_persistent TotalSupply)) (\<lambda>_.
     return val))"

definition set_total_supply :: "int \<Rightarrow> ('x vault, vault_error, unit) operation" where
  "set_total_supply v =
     bind (modify (\<lambda>s. s\<lparr>st_total_supply := Some v\<rparr>)) (\<lambda>_.
     bump_persistent TotalSupply)"

definition get_share_balance :: "address \<Rightarrow> ('x vault, vault_error, int) operation" where
  "get_share_balance account =
     bind (gets (\<lambda>s. unwrap_or (st_share_balance s account) 0)) (\<lambda>val.
     bind (when_do (val \<noteq> 0) (bump_persistent (ShareBalance account))) (\<lambda>_.
     return val))"

definition set_share_balance :: "address \<Rightarrow> int \<Rightarrow> ('x vault, vault_error, unit) operation" where
  "set_share_balance account v =
     bind (modify (\<lambda>s. s\<lparr>st_share_balance := (st_share_balance s)(account \<mapsto> v)\<rparr>)) (\<lambda>_.
     bump_persistent (ShareBalance account))"

definition get_tracked_balance :: "address \<Rightarrow> ('x vault, vault_error, int) operation" where
  "get_tracked_balance strategy =
     bind (gets (\<lambda>s. unwrap_or (st_tracked_balance s strategy) 0)) (\<lambda>val.
     bind (when_do (val \<noteq> 0) (bump_persistent (TrackedBalance strategy))) (\<lambda>_.
     return val))"

definition set_tracked_balance :: "address \<Rightarrow> int \<Rightarrow> ('x vault, vault_error, unit) operation" where
  "set_tracked_balance strategy v =
     bind (modify (\<lambda>s. s\<lparr>st_tracked_balance := (st_tracked_balance s)(strategy \<mapsto> v)\<rparr>)) (\<lambda>_.
     bump_persistent (TrackedBalance strategy))"

definition remove_tracked_balance :: "address \<Rightarrow> ('x vault, vault_error, unit) operation" where
  "remove_tracked_balance strategy =
     modify (\<lambda>s. s\<lparr>st_tracked_balance := (st_tracked_balance s)(strategy := None)\<rparr>)"

definition get_bridged_balance :: "('x vault, vault_error, int) operation" where
  "get_bridged_balance =
     bind (gets (\<lambda>s. unwrap_or (st_bridged_balance s) 0)) (\<lambda>val.
     bind (when_do (val \<noteq> 0) (bump_persistent BridgedBalance)) (\<lambda>_.
     return val))"

definition set_bridged_balance :: "int \<Rightarrow> ('x vault, vault_error, unit) operation" where
  "set_bridged_balance v =
     bind (modify (\<lambda>s. s\<lparr>st_bridged_balance := Some v\<rparr>)) (\<lambda>_.
     bump_persistent BridgedBalance)"

definition get_bridged_timestamp :: "('x vault, vault_error, nat) operation" where
  "get_bridged_timestamp =
     bind (gets (\<lambda>s. unwrap_or (st_bridged_timestamp s) 0)) (\<lambda>val.
     bind (when_do (val \<noteq> 0) (bump_persistent BridgedTimestamp)) (\<lambda>_.
     return val))"

definition set_bridged_timestamp :: "nat \<Rightarrow> ('x vault, vault_error, unit) operation" where
  "set_bridged_timestamp v =
     bind (modify (\<lambda>s. s\<lparr>st_bridged_timestamp := Some v\<rparr>)) (\<lambda>_.
     bump_persistent BridgedTimestamp)"

definition get_scheduled_upgrade :: "('x vault, vault_error, (bytes_n32 \<times> nat) option) operation" where
  "get_scheduled_upgrade =
     bind (gets st_scheduled_upgrade_hash) (\<lambda>hash.
     bind (gets st_scheduled_upgrade_at) (\<lambda>at.
     return (case (hash, at) of (Some h, Some t) \<Rightarrow> Some (h, t) | _ \<Rightarrow> None)))"

definition set_scheduled_upgrade :: "bytes_n32 \<Rightarrow> nat \<Rightarrow> ('x vault, vault_error, unit) operation" where
  "set_scheduled_upgrade hash at =
     bind (modify (\<lambda>s. s\<lparr>st_scheduled_upgrade_hash := Some hash\<rparr>)) (\<lambda>_.
     bind (modify (\<lambda>s. s\<lparr>st_scheduled_upgrade_at := Some at\<rparr>)) (\<lambda>_.
     bind (bump_persistent ScheduledUpgradeHash) (\<lambda>_.
     bump_persistent ScheduledUpgradeAt)))"

definition clear_scheduled_upgrade :: "('x vault, vault_error, unit) operation" where
  "clear_scheduled_upgrade =
     bind (modify (\<lambda>s. s\<lparr>st_scheduled_upgrade_hash := None\<rparr>)) (\<lambda>_.
     modify (\<lambda>s. s\<lparr>st_scheduled_upgrade_at := None\<rparr>))"

text \<open>The upgrade the storage holds: both entries present.\<close>

definition scheduled_of :: "'x vault \<Rightarrow> (bytes_n32 \<times> nat) option" where
  "scheduled_of s =
     (case (st_scheduled_upgrade_hash s, st_scheduled_upgrade_at s) of
        (Some h, Some t) \<Rightarrow> Some (h, t) | _ \<Rightarrow> None)"

text \<open>
  The default of the mark is not zero, so the getter extends the lifetime of the entry even when
  there is none, and the host traps on an entry that does not exist.
\<close>

definition get_high_water_mark :: "('x vault, vault_error, int) operation" where
  "get_high_water_mark =
     bind (gets st_high_water_mark) (\<lambda>entry.
     let val = unwrap_or entry NAV_PRECISION in
     bind (when_do (val \<noteq> 0) (bind (unwrap entry) (\<lambda>_. bump_persistent HighWaterMark))) (\<lambda>_.
     return val))"

definition set_high_water_mark :: "int \<Rightarrow> ('x vault, vault_error, unit) operation" where
  "set_high_water_mark v =
     bind (modify (\<lambda>s. s\<lparr>st_high_water_mark := Some v\<rparr>)) (\<lambda>_.
     bump_persistent HighWaterMark)"

text \<open>\<^verbatim>\<open>strategy_exists\<close> walks the list and stops at the first match.\<close>

fun strategy_in :: "address list \<Rightarrow> address \<Rightarrow> bool" where
  "strategy_in [] strategy = False"
| "strategy_in (s # ss) strategy = (if s = strategy then True else strategy_in ss strategy)"

definition strategy_exists :: "address \<Rightarrow> ('x vault, vault_error, bool) operation" where
  "strategy_exists strategy =
     bind get_strategies (\<lambda>strategies. return (strategy_in strategies strategy))"

lemma strategy_in_iff [simp]: "strategy_in ss a \<longleftrightarrow> a \<in> set ss"
  by (induction ss) auto

section \<open>What the getters and setters do\<close>

lemma get_admin_success [op_success]:
  "get_admin s = Inr (v, t) \<longleftrightarrow> st_admin s = Some v \<and> t = s"
  by (auto simp: get_admin_def op_success)

lemma set_admin_success [op_success]:
  "set_admin v s = Inr (u, t) \<longleftrightarrow> t = s\<lparr>st_admin := Some v\<rparr>"
  by (simp add: set_admin_def op_success)

lemma get_pending_admin_success [op_success]:
  "get_pending_admin s = Inr (v, t) \<longleftrightarrow> v = st_pending_admin s \<and> t = s"
  by (auto simp: get_pending_admin_def op_success)

lemma set_pending_admin_success [op_success]:
  "set_pending_admin v s = Inr (u, t) \<longleftrightarrow> t = s\<lparr>st_pending_admin := Some v\<rparr>"
  by (simp add: set_pending_admin_def op_success)

lemma clear_pending_admin_success [op_success]:
  "clear_pending_admin s = Inr (u, t) \<longleftrightarrow> t = s\<lparr>st_pending_admin := None\<rparr>"
  by (simp add: clear_pending_admin_def op_success)

lemma get_keeper_success [op_success]:
  "get_keeper s = Inr (v, t) \<longleftrightarrow> st_keeper s = Some v \<and> t = s"
  by (auto simp: get_keeper_def op_success)

lemma set_keeper_success [op_success]:
  "set_keeper v s = Inr (u, t) \<longleftrightarrow> t = s\<lparr>st_keeper := Some v\<rparr>"
  by (simp add: set_keeper_def op_success)

lemma get_guardian_success [op_success]:
  "get_guardian s = Inr (v, t) \<longleftrightarrow> st_guardian s = Some v \<and> t = s"
  by (auto simp: get_guardian_def op_success)

lemma set_guardian_success [op_success]:
  "set_guardian v s = Inr (u, t) \<longleftrightarrow> t = s\<lparr>st_guardian := Some v\<rparr>"
  by (simp add: set_guardian_def op_success)

lemma get_asset_success [op_success]:
  "get_asset s = Inr (v, t) \<longleftrightarrow> st_asset s = Some v \<and> t = s"
  by (auto simp: get_asset_def op_success)

lemma set_asset_success [op_success]:
  "set_asset v s = Inr (u, t) \<longleftrightarrow> t = s\<lparr>st_asset := Some v\<rparr>"
  by (simp add: set_asset_def op_success)

lemma is_initialized_success [op_success]:
  "is_initialized s = Inr (v, t) \<longleftrightarrow> v = (st_initialized s \<noteq> None) \<and> t = s"
  by (auto simp: is_initialized_def op_success)

lemma set_initialized_success [op_success]:
  "set_initialized s = Inr (u, t) \<longleftrightarrow> t = s\<lparr>st_initialized := Some True\<rparr>"
  by (simp add: set_initialized_def op_success)

lemma is_paused_success [op_success]:
  "is_paused s = Inr (v, t) \<longleftrightarrow> v = unwrap_or (st_paused s) False \<and> t = s"
  by (auto simp: is_paused_def op_success)

lemma set_paused_success [op_success]:
  "set_paused v s = Inr (u, t) \<longleftrightarrow> t = s\<lparr>st_paused := Some v\<rparr>"
  by (simp add: set_paused_def op_success)

lemma get_performance_fee_bps_success [op_success]:
  "get_performance_fee_bps s = Inr (v, t) \<longleftrightarrow> v = unwrap_or (st_performance_fee_bps s) 0 \<and> t = s"
  by (auto simp: get_performance_fee_bps_def op_success)

lemma set_performance_fee_bps_success [op_success]:
  "set_performance_fee_bps v s = Inr (u, t) \<longleftrightarrow> t = s\<lparr>st_performance_fee_bps := Some v\<rparr>"
  by (simp add: set_performance_fee_bps_def op_success)

lemma get_fee_recipient_success [op_success]:
  "get_fee_recipient s = Inr (v, t) \<longleftrightarrow> st_fee_recipient s = Some v \<and> t = s"
  by (auto simp: get_fee_recipient_def op_success)

lemma set_fee_recipient_success [op_success]:
  "set_fee_recipient v s = Inr (u, t) \<longleftrightarrow> t = s\<lparr>st_fee_recipient := Some v\<rparr>"
  by (simp add: set_fee_recipient_def op_success)

lemma get_idle_buffer_bps_success [op_success]:
  "get_idle_buffer_bps s = Inr (v, t) \<longleftrightarrow> v = unwrap_or (st_idle_buffer_bps s) 0 \<and> t = s"
  by (auto simp: get_idle_buffer_bps_def op_success)

lemma set_idle_buffer_bps_success [op_success]:
  "set_idle_buffer_bps v s = Inr (u, t) \<longleftrightarrow> t = s\<lparr>st_idle_buffer_bps := Some v\<rparr>"
  by (simp add: set_idle_buffer_bps_def op_success)

lemma get_deposit_cap_success [op_success]:
  "get_deposit_cap s = Inr (v, t) \<longleftrightarrow> v = unwrap_or (st_deposit_cap s) 0 \<and> t = s"
  by (auto simp: get_deposit_cap_def op_success)

lemma set_deposit_cap_success [op_success]:
  "set_deposit_cap v s = Inr (u, t) \<longleftrightarrow> t = s\<lparr>st_deposit_cap := Some v\<rparr>"
  by (simp add: set_deposit_cap_def op_success)

lemma get_strategies_success [op_success]:
  "get_strategies s = Inr (v, t) \<longleftrightarrow> v = unwrap_or (st_strategies s) [] \<and> t = s"
  by (auto simp: get_strategies_def op_success)

lemma set_strategies_success [op_success]:
  "set_strategies v s = Inr (u, t) \<longleftrightarrow> t = s\<lparr>st_strategies := Some v\<rparr>"
  by (simp add: set_strategies_def op_success)

lemma get_vault_name_success [op_success]:
  "get_vault_name s = Inr (v, t) \<longleftrightarrow> v = unwrap_or (st_vault_name s) ''Tezoro Vault'' \<and> t = s"
  by (auto simp: get_vault_name_def op_success)

lemma set_vault_name_success [op_success]:
  "set_vault_name v s = Inr (u, t) \<longleftrightarrow> t = s\<lparr>st_vault_name := Some v\<rparr>"
  by (simp add: set_vault_name_def op_success)

lemma get_vault_symbol_success [op_success]:
  "get_vault_symbol s = Inr (v, t) \<longleftrightarrow> v = unwrap_or (st_vault_symbol s) ''tVAULT'' \<and> t = s"
  by (auto simp: get_vault_symbol_def op_success)

lemma set_vault_symbol_success [op_success]:
  "set_vault_symbol v s = Inr (u, t) \<longleftrightarrow> t = s\<lparr>st_vault_symbol := Some v\<rparr>"
  by (simp add: set_vault_symbol_def op_success)

lemma get_bridged_max_age_success [op_success]:
  "get_bridged_max_age s = Inr (v, t) \<longleftrightarrow> v = unwrap_or (st_bridged_max_age s) DEFAULT_BRIDGED_MAX_AGE \<and> t = s"
  by (auto simp: get_bridged_max_age_def op_success)

lemma set_bridged_max_age_success [op_success]:
  "set_bridged_max_age v s = Inr (u, t) \<longleftrightarrow> t = s\<lparr>st_bridged_max_age := Some v\<rparr>"
  by (simp add: set_bridged_max_age_def op_success)

lemma get_upgrade_delay_success [op_success]:
  "get_upgrade_delay s = Inr (v, t) \<longleftrightarrow> v = unwrap_or (st_upgrade_delay s) DEFAULT_UPGRADE_DELAY \<and> t = s"
  by (auto simp: get_upgrade_delay_def op_success)

lemma set_upgrade_delay_success [op_success]:
  "set_upgrade_delay v s = Inr (u, t) \<longleftrightarrow> t = s\<lparr>st_upgrade_delay := Some v\<rparr>"
  by (simp add: set_upgrade_delay_def op_success)

lemma get_total_supply_success [op_success]:
  "get_total_supply s = Inr (v, t) \<longleftrightarrow>
     v = unwrap_or (st_total_supply s) 0 \<and> t = log_ttl (read_request TotalSupply v) s"
  by (auto simp: get_total_supply_def op_success lookup0_def)

lemma set_total_supply_success [op_success]:
  "set_total_supply v s = Inr (u, t) \<longleftrightarrow>
     t = log_ttl [persistent_request TotalSupply] (s\<lparr>st_total_supply := Some v\<rparr>)"
  by (simp add: set_total_supply_def op_success)

lemma get_share_balance_success [op_success]:
  "get_share_balance account s = Inr (v, t) \<longleftrightarrow>
     v = lookup0 (st_share_balance s) account \<and> t = log_ttl (read_request (ShareBalance account) v) s"
  by (auto simp: get_share_balance_def op_success lookup0_def)

lemma set_share_balance_success [op_success]:
  "set_share_balance account v s = Inr (u, t) \<longleftrightarrow>
     t = log_ttl [persistent_request (ShareBalance account)] (s\<lparr>st_share_balance := (st_share_balance s)(account \<mapsto> v)\<rparr>)"
  by (simp add: set_share_balance_def op_success)

lemma get_tracked_balance_success [op_success]:
  "get_tracked_balance strategy s = Inr (v, t) \<longleftrightarrow>
     v = lookup0 (st_tracked_balance s) strategy \<and> t = log_ttl (read_request (TrackedBalance strategy) v) s"
  by (auto simp: get_tracked_balance_def op_success lookup0_def)

lemma set_tracked_balance_success [op_success]:
  "set_tracked_balance strategy v s = Inr (u, t) \<longleftrightarrow>
     t = log_ttl [persistent_request (TrackedBalance strategy)] (s\<lparr>st_tracked_balance := (st_tracked_balance s)(strategy \<mapsto> v)\<rparr>)"
  by (simp add: set_tracked_balance_def op_success)

lemma remove_tracked_balance_success [op_success]:
  "remove_tracked_balance strategy s = Inr (u, t) \<longleftrightarrow>
     t = s\<lparr>st_tracked_balance := (st_tracked_balance s)(strategy := None)\<rparr>"
  by (simp add: remove_tracked_balance_def op_success)

lemma get_bridged_balance_success [op_success]:
  "get_bridged_balance s = Inr (v, t) \<longleftrightarrow>
     v = unwrap_or (st_bridged_balance s) 0 \<and> t = log_ttl (read_request BridgedBalance v) s"
  by (auto simp: get_bridged_balance_def op_success lookup0_def)

lemma set_bridged_balance_success [op_success]:
  "set_bridged_balance v s = Inr (u, t) \<longleftrightarrow>
     t = log_ttl [persistent_request BridgedBalance] (s\<lparr>st_bridged_balance := Some v\<rparr>)"
  by (simp add: set_bridged_balance_def op_success)

lemma get_bridged_timestamp_success [op_success]:
  "get_bridged_timestamp s = Inr (v, t) \<longleftrightarrow>
     v = unwrap_or (st_bridged_timestamp s) 0 \<and> t = log_ttl (read_request BridgedTimestamp v) s"
  by (auto simp: get_bridged_timestamp_def op_success lookup0_def)

lemma set_bridged_timestamp_success [op_success]:
  "set_bridged_timestamp v s = Inr (u, t) \<longleftrightarrow>
     t = log_ttl [persistent_request BridgedTimestamp] (s\<lparr>st_bridged_timestamp := Some v\<rparr>)"
  by (simp add: set_bridged_timestamp_def op_success)

lemma get_scheduled_upgrade_success [op_success]:
  "get_scheduled_upgrade s = Inr (v, t) \<longleftrightarrow> v = scheduled_of s \<and> t = s"
  by (auto simp: get_scheduled_upgrade_def scheduled_of_def op_success)

lemma set_scheduled_upgrade_success [op_success]:
  "set_scheduled_upgrade h n s = Inr (u, t) \<longleftrightarrow>
     t = log_ttl [persistent_request ScheduledUpgradeHash, persistent_request ScheduledUpgradeAt]
       (s\<lparr>st_scheduled_upgrade_hash := Some h, st_scheduled_upgrade_at := Some n\<rparr>)"
  by (simp add: set_scheduled_upgrade_def op_success)

lemma clear_scheduled_upgrade_success [op_success]:
  "clear_scheduled_upgrade s = Inr (u, t) \<longleftrightarrow>
     t = s\<lparr>st_scheduled_upgrade_hash := None, st_scheduled_upgrade_at := None\<rparr>"
  by (simp add: clear_scheduled_upgrade_def op_success)

lemma get_high_water_mark_success [op_success]:
  "get_high_water_mark s = Inr (v, t) \<longleftrightarrow>
     st_high_water_mark s = Some v \<and> t = log_ttl (read_request HighWaterMark v) s"
  by (cases "st_high_water_mark s")
    (auto simp: get_high_water_mark_def op_success when_do_def Let_def NAV_PRECISION_def)

lemma set_high_water_mark_success [op_success]:
  "set_high_water_mark v s = Inr (u, t) \<longleftrightarrow>
     t = log_ttl [persistent_request HighWaterMark] (s\<lparr>st_high_water_mark := Some v\<rparr>)"
  by (simp add: set_high_water_mark_def op_success)

lemma strategy_exists_success [op_success]:
  "strategy_exists a s = Inr (v, t) \<longleftrightarrow> v = (a \<in> set (strategies_of s)) \<and> t = s"
  by (auto simp: strategy_exists_def get_strategies_def op_success)

lemmas storage_defs =
  get_admin_def set_admin_def get_pending_admin_def set_pending_admin_def
  clear_pending_admin_def get_keeper_def set_keeper_def get_guardian_def set_guardian_def
  get_asset_def set_asset_def is_initialized_def set_initialized_def is_paused_def
  set_paused_def get_performance_fee_bps_def set_performance_fee_bps_def get_fee_recipient_def
  set_fee_recipient_def get_idle_buffer_bps_def set_idle_buffer_bps_def get_deposit_cap_def
  set_deposit_cap_def get_strategies_def set_strategies_def get_vault_name_def
  set_vault_name_def get_vault_symbol_def set_vault_symbol_def get_bridged_max_age_def
  set_bridged_max_age_def get_upgrade_delay_def set_upgrade_delay_def get_total_supply_def
  set_total_supply_def get_share_balance_def set_share_balance_def get_tracked_balance_def
  set_tracked_balance_def remove_tracked_balance_def get_bridged_balance_def
  set_bridged_balance_def get_bridged_timestamp_def set_bridged_timestamp_def
  get_scheduled_upgrade_def set_scheduled_upgrade_def clear_scheduled_upgrade_def
  get_high_water_mark_def set_high_water_mark_def strategy_exists_def

declare storage_defs [op_run]

end
