(* ===== verification/VaultCore.thy ===== *)
theory VaultCore
  imports VaultStorage
begin

text \<open>
  The user-facing half of \<^verbatim>\<open>tezoro-vault/src/lib.rs\<close>: initialization, the share token,
  the accounting functions, \<^verbatim>\<open>deposit\<close> and \<^verbatim>\<open>redeem\<close> with its withdrawal
  waterfall, and the internal guards. Every definition takes the clients of the outside
  contracts (\<open>T\<close> the asset token, \<open>C\<close> the strategies) and the environment \<open>e\<close>.
\<close>

section \<open>Constants and guards\<close>

definition MAX_STRATEGIES :: nat where "MAX_STRATEGIES = 20"
definition VIRTUAL_SHARES_OFFSET :: int where "VIRTUAL_SHARES_OFFSET = 1000000"
definition DECIMALS :: nat where "DECIMALS = 7"
definition MAX_PERFORMANCE_FEE_BPS :: nat where "MAX_PERFORMANCE_FEE_BPS = 3000"
definition MAX_IDLE_BUFFER_BPS :: nat where "MAX_IDLE_BUFFER_BPS = 2000"
definition MIN_UPGRADE_DELAY :: nat where "MIN_UPGRADE_DELAY = 3600"

definition require_admin :: "address \<Rightarrow> ('x vault, vault_error, unit) operation" where
  "require_admin caller = bind get_admin (\<lambda>admin. raise_if (caller \<noteq> admin) Unauthorized)"

definition require_keeper :: "address \<Rightarrow> ('x vault, vault_error, unit) operation" where
  "require_keeper caller = bind get_keeper (\<lambda>keeper. raise_if (caller \<noteq> keeper) Unauthorized)"

definition require_not_paused :: "('x vault, vault_error, unit) operation" where
  "require_not_paused = bind is_paused (\<lambda>paused. raise_if paused vault_error.Paused)"

definition require_initialized :: "('x vault, vault_error, unit) operation" where
  "require_initialized =
     bind is_initialized (\<lambda>initialized. raise_if (\<not> initialized) NotInitialized)"

lemma require_admin_success [op_success]:
  "require_admin a s = Inr (u, t) \<longleftrightarrow> st_admin s = Some a \<and> t = s"
  by (auto simp: require_admin_def op_success)

lemma require_keeper_success [op_success]:
  "require_keeper a s = Inr (u, t) \<longleftrightarrow> st_keeper s = Some a \<and> t = s"
  by (auto simp: require_keeper_def op_success)

lemma require_not_paused_success [op_success]:
  "require_not_paused s = Inr (u, t) \<longleftrightarrow> \<not> unwrap_or (st_paused s) False \<and> t = s"
  by (auto simp: require_not_paused_def op_success)

lemma require_initialized_success [op_success]:
  "require_initialized s = Inr (u, t) \<longleftrightarrow> st_initialized s \<noteq> None \<and> t = s"
  by (auto simp: require_initialized_def op_success)

lemmas guard_defs =
  require_admin_def require_keeper_def require_not_paused_def require_initialized_def

declare guard_defs [op_run]

section \<open>Initialization\<close>

definition initialize ::
  "env \<Rightarrow> address \<Rightarrow> address \<Rightarrow> address \<Rightarrow> address \<Rightarrow> address \<Rightarrow> nat \<Rightarrow> nat \<Rightarrow> string \<Rightarrow> string \<Rightarrow>
     ('x vault, vault_error, unit) operation" where
  "initialize e admin asset keeper guardian fee_recipient performance_fee_bps idle_buffer_bps
     name symbol =
     bind (require_auth e admin) (\<lambda>_.
     bind is_initialized (\<lambda>initialized.
     bind (raise_if initialized AlreadyInitialized) (\<lambda>_.
     bind (raise_if (performance_fee_bps > MAX_PERFORMANCE_FEE_BPS) InvalidBps) (\<lambda>_.
     bind (raise_if (idle_buffer_bps > MAX_IDLE_BUFFER_BPS) InvalidBps) (\<lambda>_.
     bind set_initialized (\<lambda>_.
     bind (set_admin admin) (\<lambda>_.
     bind (set_keeper keeper) (\<lambda>_.
     bind (set_guardian guardian) (\<lambda>_.
     bind (set_asset asset) (\<lambda>_.
     bind (set_fee_recipient fee_recipient) (\<lambda>_.
     bind (set_performance_fee_bps performance_fee_bps) (\<lambda>_.
     bind (set_idle_buffer_bps idle_buffer_bps) (\<lambda>_.
     bind (set_paused False) (\<lambda>_.
     bind (set_deposit_cap 0) (\<lambda>_.
     bind (set_strategies []) (\<lambda>_.
     bind (set_vault_name name) (\<lambda>_.
     bind (set_vault_symbol symbol) (\<lambda>_.
     bind (set_bridged_max_age DEFAULT_BRIDGED_MAX_AGE) (\<lambda>_.
     bind (set_upgrade_delay DEFAULT_UPGRADE_DELAY) (\<lambda>_.
     bind (set_total_supply 0) (\<lambda>_.
     bind (set_high_water_mark NAV_PRECISION) (\<lambda>_.
     bind (set_bridged_balance 0) (\<lambda>_.
     bind (set_bridged_timestamp 0) (\<lambda>_.
     bump_instance))))))))))))))))))))))))"

lemma initialize_success:
  "initialize e admin asset keeper guardian fee_recipient fee_bps idle_bps name symbol s = Inr (u, t)
   \<Longrightarrow> authorised e admin \<and> st_initialized s = None \<and> fee_bps \<le> MAX_PERFORMANCE_FEE_BPS \<and>
       idle_bps \<le> MAX_IDLE_BUFFER_BPS \<and>
       (\<exists>rs. t = log_ttl rs (s\<lparr>st_initialized := Some True, st_admin := Some admin,
          st_keeper := Some keeper, st_guardian := Some guardian, st_asset := Some asset,
          st_fee_recipient := Some fee_recipient, st_performance_fee_bps := Some fee_bps,
          st_idle_buffer_bps := Some idle_bps, st_paused := Some False, st_deposit_cap := Some 0,
          st_strategies := Some [], st_vault_name := Some name, st_vault_symbol := Some symbol,
          st_bridged_max_age := Some DEFAULT_BRIDGED_MAX_AGE,
          st_upgrade_delay := Some DEFAULT_UPGRADE_DELAY, st_total_supply := Some 0,
          st_high_water_mark := Some NAV_PRECISION, st_bridged_balance := Some 0,
          st_bridged_timestamp := Some 0\<rparr>))"
  by (auto simp: initialize_def op_success not_less)

section \<open>The share token (SEP-41)\<close>

definition name_of :: "('x vault, vault_error, string) operation" where
  "name_of = get_vault_name"

definition symbol_of :: "('x vault, vault_error, string) operation" where
  "symbol_of = get_vault_symbol"

definition decimals :: "('x vault, vault_error, nat) operation" where
  "decimals = return DECIMALS"

definition balance :: "address \<Rightarrow> ('x vault, vault_error, int) operation" where
  "balance a = get_share_balance a"

definition total_supply :: "('x vault, vault_error, int) operation" where
  "total_supply = get_total_supply"

definition transfer ::
  "env \<Rightarrow> address \<Rightarrow> address \<Rightarrow> int \<Rightarrow> ('x vault, vault_error, unit) operation" where
  "transfer e from to amount =
     bind (require_auth e from) (\<lambda>_.
     bind (raise_if (amount \<le> 0) ZeroAmount) (\<lambda>_.
     bind (get_share_balance from) (\<lambda>from_bal.
     bind (raise_if (from_bal < amount) InsufficientShares) (\<lambda>_.
     bind (sub_i128 from_bal amount) (\<lambda>new_from.
     bind (set_share_balance from new_from) (\<lambda>_.
     bind (get_share_balance to) (\<lambda>to_bal.
     bind (add_i128 to_bal amount) (\<lambda>new_to.
     bind (set_share_balance to new_to) (\<lambda>_.
     emit_transfer from to amount)))))))))"

text \<open>The credit is read after the debit is stored, so a transfer to oneself changes nothing.\<close>

definition moved :: "(address \<rightharpoonup> int) \<Rightarrow> address \<Rightarrow> address \<Rightarrow> int \<Rightarrow> (address \<rightharpoonup> int)" where
  "moved m from to n =
     (let m' = m(from \<mapsto> lookup0 m from - n) in m'(to \<mapsto> lookup0 m' to + n))"

lemma lookup0_moved:
  "lookup0 (moved m a b n) c = lookup0 m c - (if c = a then n else 0) + (if c = b then n else 0)"
  by (auto simp: moved_def Let_def)

lemma dom_moved: "dom (moved m a b n) = insert a (insert b (dom m))"
  by (auto simp: moved_def Let_def)

lemma map_total_moved: "finite (dom m) \<Longrightarrow> map_total (moved m a b n) = map_total m"
  by (simp add: moved_def Let_def map_total_update del: fun_upd_apply)

lemma transfer_success:
  "transfer e from to n s = Inr (u, t) \<Longrightarrow>
     authorised e from \<and> 0 < n \<and> n \<le> shares_of s from \<and>
     (\<exists>rs. t = log_ttl rs (s\<lparr>st_share_balance := moved (st_share_balance s) from to n,
        event_log := event_log s @ [Transfer from to n]\<rparr>))"
  by (auto simp: transfer_def op_success moved_def Let_def)

end
