(* ===== verification/VaultAccounting.thy ===== *)
theory VaultAccounting
  imports VaultCore
begin

text \<open>
  The accounting functions of \<^verbatim>\<open>tezoro-vault/src/lib.rs\<close>: the bridged balance and
  its expiry, \<^verbatim>\<open>total_assets\<close> and the two conversions, with the pure functions they
  compute.
\<close>

section \<open>Accounting\<close>

definition effective_bridged_balance :: "env \<Rightarrow> ('x vault, vault_error, int) operation" where
  "effective_bridged_balance e =
     bind get_bridged_balance (\<lambda>balance.
     if balance = 0 then return 0
     else bind get_bridged_timestamp (\<lambda>ts.
       let now = ledger_timestamp e in
       bind get_bridged_max_age (\<lambda>max_age.
       if now > ts \<and> now - ts > max_age then return 0 else return balance)))"

fun sum_tracked :: "address list \<Rightarrow> int \<Rightarrow> ('x vault, vault_error, int) operation" where
  "sum_tracked [] strategy_total = return strategy_total"
| "sum_tracked (s # strategies) strategy_total =
     bind (get_tracked_balance s) (\<lambda>b.
     bind (add_i128 strategy_total b) (\<lambda>strategy_total'.
     sum_tracked strategies strategy_total'))"

definition total_assets :: "'x token_client \<Rightarrow> env \<Rightarrow> ('x vault, vault_error, int) operation" where
  "total_assets T e =
     bind get_asset (\<lambda>asset_addr.
     bind (external_call (token_balance T asset_addr (current_contract e))) (\<lambda>idle.
     bind get_strategies (\<lambda>strategies.
     bind (sum_tracked strategies 0) (\<lambda>strategy_total.
     bind (effective_bridged_balance e) (\<lambda>bridged.
     bind (add_i128 idle strategy_total) (\<lambda>held.
     add_i128 held bridged))))))"

text \<open>
  The pricing formula \<^verbatim>\<open>x * (p + OFFSET) / (q + OFFSET)\<close>, which the source writes out in
  \<^verbatim>\<open>convert_to_shares\<close>, \<^verbatim>\<open>convert_to_assets\<close>, \<^verbatim>\<open>deposit\<close> and
  \<^verbatim>\<open>collect_fees\<close>.
\<close>

definition mul_div_offset :: "int \<Rightarrow> int \<Rightarrow> int \<Rightarrow> ('s, 'e, int) operation" where
  "mul_div_offset x p q =
     bind (add_i128 p VIRTUAL_SHARES_OFFSET) (\<lambda>num.
     bind (mul_i128 x num) (\<lambda>prod.
     bind (add_i128 q VIRTUAL_SHARES_OFFSET) (\<lambda>den.
     div_i128 prod den)))"

definition convert_to_shares ::
  "'x token_client \<Rightarrow> env \<Rightarrow> int \<Rightarrow> ('x vault, vault_error, int) operation" where
  "convert_to_shares T e assets =
     bind (total_assets T e) (\<lambda>total_assets.
     bind get_total_supply (\<lambda>total_supply.
     mul_div_offset assets total_supply total_assets))"

definition convert_to_assets ::
  "'x token_client \<Rightarrow> env \<Rightarrow> int \<Rightarrow> ('x vault, vault_error, int) operation" where
  "convert_to_assets T e shares =
     bind (total_assets T e) (\<lambda>total_assets.
     bind get_total_supply (\<lambda>total_supply.
     mul_div_offset shares total_assets total_supply))"

subsection \<open>What the accounting computes\<close>

definition bridged_expired :: "env \<Rightarrow> 'x vault \<Rightarrow> bool" where
  "bridged_expired e s \<longleftrightarrow>
     unwrap_or (st_bridged_max_age s) DEFAULT_BRIDGED_MAX_AGE
       < ledger_timestamp e - unwrap_or (st_bridged_timestamp s) 0"

definition bridged_at :: "env \<Rightarrow> 'x vault \<Rightarrow> int" where
  "bridged_at e s = (if bridged_expired e s then 0 else bridged_of s)"

definition tracked_total :: "'x vault \<Rightarrow> int" where
  "tracked_total s = (\<Sum>a\<leftarrow>strategies_of s. tracked_of s a)"

definition assets_with_idle :: "env \<Rightarrow> 'x vault \<Rightarrow> int \<Rightarrow> int" where
  "assets_with_idle e s idle = idle + tracked_total s + bridged_at e s"

definition priced :: "int \<Rightarrow> int \<Rightarrow> int \<Rightarrow> int" where
  "priced x p q = x * (p + VIRTUAL_SHARES_OFFSET) sdiv (q + VIRTUAL_SHARES_OFFSET)"

lemma log_ttl_views [simp]:
  "bridged_expired e (log_ttl rs s) = bridged_expired e s"
  "bridged_at e (log_ttl rs s) = bridged_at e s"
  "tracked_total (log_ttl rs s) = tracked_total s"
  "assets_with_idle e (log_ttl rs s) i = assets_with_idle e s i"
  by (simp_all add: bridged_expired_def bridged_at_def tracked_total_def assets_with_idle_def)

lemma effective_bridged_success:
  "effective_bridged_balance e s = Inr (v, t) \<Longrightarrow>
     v = bridged_at e s \<and> (\<exists>rs. t = log_ttl rs s)"
  unfolding effective_bridged_balance_def
  by (auto simp: op_success bridged_at_def bridged_expired_def Let_def split: if_splits)

lemma sum_tracked_success:
  "sum_tracked ss acc s = Inr (v, t) \<Longrightarrow>
     v = acc + (\<Sum>a\<leftarrow>ss. tracked_of s a) \<and> (\<exists>rs. t = log_ttl rs s)"
proof (induction ss arbitrary: acc s)
  case Nil
  then show ?case by (auto simp: op_success intro: exI [of _ "[]"])
next
  case (Cons a ss)
  then obtain rs where "sum_tracked ss (acc + tracked_of s a) (log_ttl rs s) = Inr (v, t)"
    by (auto simp: op_success)
  from Cons.IH [OF this] show ?case by auto
qed

lemma mul_div_offset_success [op_success]:
  "mul_div_offset x p q s = Inr (v, t) \<longleftrightarrow>
     fits_i128 (p + VIRTUAL_SHARES_OFFSET) \<and> fits_i128 (x * (p + VIRTUAL_SHARES_OFFSET)) \<and>
     fits_i128 (q + VIRTUAL_SHARES_OFFSET) \<and> q + VIRTUAL_SHARES_OFFSET \<noteq> 0 \<and>
     fits_i128 (priced x p q) \<and> v = priced x p q \<and> t = s"
  by (auto simp: mul_div_offset_def op_success priced_def)

lemma total_assets_success:
  assumes "total_assets T e s = Inr (v, t)"
  obtains asset idle x rs where "st_asset s = Some asset"
    and "token_balance T asset (current_contract e) (outside s) = Some (idle, x)"
    and "v = assets_with_idle e s idle" and "t = log_ttl rs (s\<lparr>outside := x\<rparr>)"
proof -
  from assms obtain asset idle x u w where
    s: "st_asset s = Some asset"
       "token_balance T asset (current_contract e) (outside s) = Some (idle, x)"
    and sum: "sum_tracked (strategies_of s) 0 (s\<lparr>outside := x\<rparr>) = Inr (w, u)"
    and rest: "bind (effective_bridged_balance e) (\<lambda>bridged. bind (add_i128 idle w)
                 (\<lambda>held. add_i128 held bridged)) u = Inr (v, t)"
    by (auto simp: total_assets_def op_success)
  from sum_tracked_success [OF sum] obtain rs where
    w: "w = tracked_total s" and u: "u = log_ttl rs (s\<lparr>outside := x\<rparr>)"
    by (auto simp: tracked_total_def)
  from rest u obtain rs' where "v = idle + w + bridged_at e s"
    and "t = log_ttl rs' (s\<lparr>outside := x\<rparr>)"
    by (auto simp: op_success bridged_at_def bridged_expired_def
        dest!: effective_bridged_success)
  with s w that show ?thesis by (simp add: assets_with_idle_def)
qed

lemma convert_to_assets_success:
  assumes "convert_to_assets T e shares s = Inr (v, t)"
  obtains asset idle x rs where "st_asset s = Some asset"
    and "token_balance T asset (current_contract e) (outside s) = Some (idle, x)"
    and "v = priced shares (assets_with_idle e s idle) (supply_of s)"
    and "supply_of s + VIRTUAL_SHARES_OFFSET \<noteq> 0"
    and "t = log_ttl rs (s\<lparr>outside := x\<rparr>)"
  using assms unfolding convert_to_assets_def
  by (auto simp: op_success elim!: total_assets_success)

lemma convert_to_shares_success:
  assumes "convert_to_shares T e assets s = Inr (v, t)"
  obtains asset idle x rs where "st_asset s = Some asset"
    and "token_balance T asset (current_contract e) (outside s) = Some (idle, x)"
    and "v = priced assets (supply_of s) (assets_with_idle e s idle)"
    and "assets_with_idle e s idle + VIRTUAL_SHARES_OFFSET \<noteq> 0"
    and "t = log_ttl rs (s\<lparr>outside := x\<rparr>)"
  using assms unfolding convert_to_shares_def
  by (auto simp: op_success elim!: total_assets_success)

end
