(* ===== verification/VaultRedeem.thy ===== *)
theory VaultRedeem
  imports VaultAccounting
begin

text \<open>
  \<^verbatim>\<open>redeem\<close> of \<^verbatim>\<open>tezoro-vault/src/lib.rs\<close> with its withdrawal waterfall, and
  what a successful redemption does, whatever the strategies answer.
\<close>

section \<open>Redeem\<close>

text \<open>The saturating decrease of a tracked balance, shared with \<^verbatim>\<open>deallocate\<close>.\<close>

definition untrack :: "address \<Rightarrow> int \<Rightarrow> ('x vault, vault_error, unit) operation" where
  "untrack strategy withdrawn =
     bind (get_tracked_balance strategy) (\<lambda>tracked.
     bind (if withdrawn > tracked then return 0 else sub_i128 tracked withdrawn) (\<lambda>new_tracked.
     set_tracked_balance strategy new_tracked))"

fun waterfall :: "'x strategy_client \<Rightarrow> address \<Rightarrow> address list \<Rightarrow> int \<Rightarrow>
    ('x vault, vault_error, unit) operation" where
  "waterfall C vault_addr [] remaining = return ()"
| "waterfall C vault_addr (strategy # strategies) remaining =
     (if remaining \<le> 0 then return ()
      else bind (external_call (strategy_available_liquidity C strategy)) (\<lambda>available.
        if available \<le> 0 then waterfall C vault_addr strategies remaining
        else
          let to_pull = (if remaining < available then remaining else available) in
          bind (external_call (strategy_withdraw C strategy vault_addr to_pull)) (\<lambda>withdrawn.
          bind (untrack strategy withdrawn) (\<lambda>_.
          bind (if withdrawn \<ge> remaining then return 0 else sub_i128 remaining withdrawn)
            (\<lambda>remaining'.
          waterfall C vault_addr strategies remaining')))))"

definition cover_shortfall :: "'x token_client \<Rightarrow> 'x strategy_client \<Rightarrow> address \<Rightarrow> address \<Rightarrow>
    int \<Rightarrow> int \<Rightarrow> ('x vault, vault_error, unit) operation" where
  "cover_shortfall T C asset_addr vault_addr idle assets =
     (if idle < assets
      then bind (sub_i128 assets idle) (\<lambda>remaining.
           bind get_strategies (\<lambda>strategies.
           bind (waterfall C vault_addr strategies remaining) (\<lambda>_.
           bind (external_call (token_balance T asset_addr vault_addr)) (\<lambda>idle_after.
           raise_if (idle_after < assets) InsufficientAssets))))
      else return ())"

definition redeem :: "'x token_client \<Rightarrow> 'x strategy_client \<Rightarrow> env \<Rightarrow> address \<Rightarrow> int \<Rightarrow>
    ('x vault, vault_error, int) operation" where
  "redeem T C e from shares =
     bind (require_auth e from) (\<lambda>_.
     bind require_initialized (\<lambda>_.
     bind (raise_if (shares \<le> 0) ZeroAmount) (\<lambda>_.
     bind (get_share_balance from) (\<lambda>current_shares.
     bind (raise_if (current_shares < shares) InsufficientShares) (\<lambda>_.
     bind (convert_to_assets T e shares) (\<lambda>assets.
     bind (raise_if (assets \<le> 0) ZeroAmount) (\<lambda>_.
     bind get_asset (\<lambda>asset_addr.
     let vault_addr = current_contract e in
     bind (external_call (token_balance T asset_addr vault_addr)) (\<lambda>idle.
     bind (cover_shortfall T C asset_addr vault_addr idle assets) (\<lambda>_.
     bind (sub_i128 current_shares shares) (\<lambda>new_shares.
     bind (set_share_balance from new_shares) (\<lambda>_.
     bind get_total_supply (\<lambda>supply.
     bind (sub_i128 supply shares) (\<lambda>new_supply.
     bind (set_total_supply new_supply) (\<lambda>_.
     bind (external_call (token_transfer T asset_addr vault_addr from assets)) (\<lambda>_.
     bind (emit_redeem from shares assets) (\<lambda>_.
     bind bump_instance (\<lambda>_.
     return assets))))))))))))))))))"

lemma untrack_success [op_success]:
  "untrack a w s = Inr (u, t) \<Longrightarrow>
     (\<exists>rs. t = log_ttl rs (s\<lparr>st_tracked_balance := (st_tracked_balance s)
        (a \<mapsto> (if w > tracked_of s a then 0 else tracked_of s a - w))\<rparr>))"
  by (auto simp: untrack_def op_success split: if_splits)

lemma min_strict: "(if a < b then a else b) = min a (b::int)"
  by simp

text \<open>One hop of the waterfall: the early exit, a strategy skipped, or a pull.\<close>

lemma waterfall_cons_cases:
  assumes "waterfall C vault (a # ss) r s = Inr (u, t)"
  obtains (finished) "r \<le> 0" and "t = s"
  | (skipped) v x where "0 < r" and "strategy_available_liquidity C a (outside s) = Some (v, x)"
      and "v \<le> 0" and "waterfall C vault ss r (s\<lparr>outside := x\<rparr>) = Inr (u, t)"
  | (pulled) v x w y q where "0 < r"
      and "strategy_available_liquidity C a (outside s) = Some (v, x)" and "0 < v"
      and "strategy_withdraw C a vault (min r v) x = Some (w, y)"
      and "untrack a w (s\<lparr>outside := y\<rparr>) = Inr ((), q)"
      and "waterfall C vault ss (if w \<ge> r then 0 else r - w) q = Inr (u, t)"
proof (cases "r \<le> 0")
  case True
  with assms finished show ?thesis by (simp add: op_success)
next
  case False
  let ?pull = "\<lambda>v. bind (external_call (strategy_withdraw C a vault (min r v))) (\<lambda>w.
    bind (untrack a w) (\<lambda>_.
    bind (if w \<ge> r then return 0 else sub_i128 r w) (\<lambda>r'. waterfall C vault ss r')))"
  have "waterfall C vault (a # ss) r s = bind (external_call (strategy_available_liquidity C a))
      (\<lambda>v. if v \<le> 0 then waterfall C vault ss r else ?pull v) s"
    using False unfolding waterfall.simps Let_def min_strict by simp
  with assms obtain v x where av: "strategy_available_liquidity C a (outside s) = Some (v, x)"
    and rest: "(if v \<le> 0 then waterfall C vault ss r else ?pull v) (s\<lparr>outside := x\<rparr>) = Inr (u, t)"
    by (auto simp only: bind_success [of "external_call _"] external_call_success)
  show ?thesis
  proof (cases "v \<le> 0")
    case True
    with av rest False show ?thesis by (intro skipped) simp_all
  next
    case v: False
    with rest obtain w y q where "strategy_withdraw C a vault (min r v) x = Some (w, y)"
      "untrack a w (s\<lparr>outside := y\<rparr>) = Inr ((), q)"
      "bind (if w \<ge> r then return 0 else sub_i128 r w) (\<lambda>r'. waterfall C vault ss r') q = Inr (u, t)"
      by (auto simp: bind_success external_call_success)
    with av v False show ?thesis
      by (intro pulled [of v x w y q]) (auto simp: op_success split: if_splits)
  qed
qed

text \<open>
  Whatever the strategies answer, the waterfall writes nothing but tracked balances of registered
  strategies, and none of them becomes negative.
\<close>

definition retracked :: "address set \<Rightarrow> 'x vault \<Rightarrow> 'x vault \<Rightarrow> bool" where
  "retracked A s t \<longleftrightarrow> (\<exists>rs x m. t = log_ttl rs (s\<lparr>st_tracked_balance := m, outside := x\<rparr>) \<and>
     (\<forall>a. a \<notin> A \<longrightarrow> m a = st_tracked_balance s a) \<and>
     (\<forall>a. 0 \<le> tracked_of s a \<longrightarrow> 0 \<le> lookup0 m a))"

lemma retracked_outside: "retracked A s (s\<lparr>outside := x\<rparr>)"
  unfolding retracked_def
  by (rule exI [of _ "[]"], rule exI [of _ x], rule exI [of _ "st_tracked_balance s"]) simp

lemma retracked_refl: "retracked A s s"
  using retracked_outside [of A s "outside s"] by simp

lemma retracked_trans:
  assumes "retracked A s t" and "retracked B t u" and "A \<subseteq> C" and "B \<subseteq> C"
  shows "retracked C s u"
proof -
  from assms(1) obtain rs x m where t: "t = log_ttl rs (s\<lparr>st_tracked_balance := m, outside := x\<rparr>)"
    "\<forall>a. a \<notin> A \<longrightarrow> m a = st_tracked_balance s a" "\<forall>a. 0 \<le> tracked_of s a \<longrightarrow> 0 \<le> lookup0 m a"
    by (auto simp: retracked_def)
  from assms(2) t(1) obtain qs y n where
    "u = log_ttl (rs @ qs) (s\<lparr>st_tracked_balance := n, outside := y\<rparr>)"
    "\<forall>a. a \<notin> B \<longrightarrow> n a = m a" "\<forall>a. 0 \<le> lookup0 m a \<longrightarrow> 0 \<le> lookup0 n a"
    by (auto simp: retracked_def)
  moreover have "a \<notin> A \<and> a \<notin> B" if "a \<notin> C" for a using that assms(3,4) by auto
  ultimately show ?thesis
    using t(2,3) unfolding retracked_def
    by (intro exI [of _ "rs @ qs"] exI [of _ y] exI [of _ n]) simp
qed

lemma retracked_untrack:
  assumes "untrack a w (s\<lparr>outside := x\<rparr>) = Inr (u, t)"
  shows "retracked {a} s t"
proof -
  from untrack_success [OF assms] obtain rs where
    t: "t = log_ttl rs (s\<lparr>outside := x, st_tracked_balance := (st_tracked_balance s)
      (a \<mapsto> (if w > tracked_of s a then 0 else tracked_of s a - w))\<rparr>)" by auto
  show ?thesis
    unfolding retracked_def
    by (rule exI [of _ rs], rule exI [of _ x], rule exI [of _ "(st_tracked_balance s)
      (a \<mapsto> (if w > tracked_of s a then 0 else tracked_of s a - w))"]) (simp add: t)
qed

lemma waterfall_retracked: "waterfall C vault ss r s = Inr (u, t) \<Longrightarrow> retracked (set ss) s t"
proof (induction ss arbitrary: r s)
  case Nil
  then show ?case by (simp add: op_success retracked_refl)
next
  case (Cons a ss)
  from Cons.prems show ?case
  proof (cases rule: waterfall_cons_cases)
    case finished
    then show ?thesis by (simp add: retracked_refl)
  next
    case (skipped v x)
    show ?thesis
      by (rule retracked_trans [OF retracked_outside [of "{}"] Cons.IH [OF skipped(4)]]) auto
  next
    case (pulled v x w y q)
    show ?thesis
      by (rule retracked_trans [OF retracked_untrack [OF pulled(5)] Cons.IH [OF pulled(6)]]) auto
  qed
qed

text \<open>The same for the block that covers a shortfall, together with what it guarantees.\<close>

lemma cover_shortfall_success:
  assumes "cover_shortfall T C asset vault idle n s = Inr (u, t)"
  obtains (idle) "n \<le> idle" and "t = s"
  | (pulled) v s' after x where "idle < n"
      and "waterfall C vault (strategies_of s) (n - idle) s = Inr (v, s')"
      and "token_balance T asset vault (outside s') = Some (after, x)" and "n \<le> after"
      and "t = s'\<lparr>outside := x\<rparr>"
  using assms by (auto simp: cover_shortfall_def op_success split: if_splits)

lemma cover_shortfall_retracked:
  assumes "cover_shortfall T C asset vault idle n s = Inr (u, t)"
  shows "retracked (set (strategies_of s)) s t"
  using assms
proof (cases rule: cover_shortfall_success)
  case idle
  then show ?thesis by (simp add: retracked_refl)
next
  case (pulled v s' after x)
  show ?thesis
    unfolding pulled(5)
    by (rule retracked_trans [OF waterfall_retracked [OF pulled(2)] retracked_outside [of "{}"]]) auto
qed

text \<open>
  A successful redemption: the states after the conversion, after the idle balance is read and
  after the shortfall is covered, and the state it leaves behind.
\<close>

lemma redeem_steps:
  assumes "redeem T C e from shares s = Inr (assets, t)"
  obtains asset s1 idle x s2 u y rs where "authorised e from" and "st_initialized s \<noteq> None"
    and "0 < shares" and "shares \<le> shares_of s from" and "0 < assets"
    and "convert_to_assets T e shares (log_ttl rs s) = Inr (assets, s1)"
    and "st_asset s = Some asset"
    and "token_balance T asset (current_contract e) (outside s1) = Some (idle, x)"
    and "cover_shortfall T C asset (current_contract e) idle assets (s1\<lparr>outside := x\<rparr>) = Inr (u, s2)"
    and "token_transfer T asset (current_contract e) from assets (outside s2) = Some ((), y)"
    and "\<exists>rs. t = log_ttl rs (s2\<lparr>
          st_share_balance := (st_share_balance s2)(from \<mapsto> shares_of s from - shares),
          st_total_supply := Some (supply_of s2 - shares), outside := y,
          event_log := event_log s2 @ [Redeem from shares assets]\<rparr>)"
proof -
  from assms obtain asset s1 idle x s2 u y rs where *: "authorised e from" "st_initialized s \<noteq> None"
    "0 < shares" "shares \<le> shares_of s from" "0 < assets"
    and conv: "convert_to_assets T e shares (log_ttl rs s) = Inr (assets, s1)"
    and rest: "st_asset s1 = Some asset"
      "token_balance T asset (current_contract e) (outside s1) = Some (idle, x)"
      "cover_shortfall T C asset (current_contract e) idle assets (s1\<lparr>outside := x\<rparr>) = Inr (u, s2)"
      "token_transfer T asset (current_contract e) from assets (outside s2) = Some ((), y)"
      "\<exists>rs. t = log_ttl rs (s2\<lparr>
          st_share_balance := (st_share_balance s2)(from \<mapsto> shares_of s from - shares),
          st_total_supply := Some (supply_of s2 - shares), outside := y,
          event_log := event_log s2 @ [Redeem from shares assets]\<rparr>)"
    by (auto simp: redeem_def op_success not_less not_le Let_def)
  from conv have "st_asset s1 = st_asset s" by (rule convert_to_assets_success) simp
  with * conv rest that show ?thesis by simp
qed

lemma redeem_success:
  assumes "redeem T C e from shares s = Inr (assets, t)"
  obtains asset idle x y z m rs where "authorised e from" and "st_initialized s \<noteq> None"
    and "0 < shares" and "shares \<le> shares_of s from" and "st_asset s = Some asset"
    and "token_balance T asset (current_contract e) (outside s) = Some (idle, x)"
    and "assets = priced shares (assets_with_idle e s idle) (supply_of s)" and "0 < assets"
    and "supply_of s + VIRTUAL_SHARES_OFFSET \<noteq> 0"
    and "\<forall>a. a \<notin> set (strategies_of s) \<longrightarrow> m a = st_tracked_balance s a"
    and "\<forall>a. 0 \<le> tracked_of s a \<longrightarrow> 0 \<le> lookup0 m a"
    and "token_transfer T asset (current_contract e) from assets y = Some ((), z)"
    and "t = log_ttl rs (s\<lparr>st_tracked_balance := m,
          st_share_balance := (st_share_balance s)(from \<mapsto> shares_of s from - shares),
          st_total_supply := Some (supply_of s - shares), outside := z,
          event_log := event_log s @ [Redeem from shares assets]\<rparr>)"
  using assms
proof (rule redeem_steps)
  fix asset s1 idle x s2 u y rs
  assume *: "authorised e from" "st_initialized s \<noteq> None" "0 < shares" "shares \<le> shares_of s from"
    "0 < assets" "st_asset s = Some asset"
    and conv: "convert_to_assets T e shares (log_ttl rs s) = Inr (assets, s1)"
    and cover: "cover_shortfall T C asset (current_contract e) idle assets (s1\<lparr>outside := x\<rparr>) = Inr (u, s2)"
    and last: "token_transfer T asset (current_contract e) from assets (outside s2) = Some ((), y)"
      "\<exists>rs. t = log_ttl rs (s2\<lparr>
          st_share_balance := (st_share_balance s2)(from \<mapsto> shares_of s from - shares),
          st_total_supply := Some (supply_of s2 - shares), outside := y,
          event_log := event_log s2 @ [Redeem from shares assets]\<rparr>)"
  from conv obtain idle0 x0 rs0 where c: "supply_of s + VIRTUAL_SHARES_OFFSET \<noteq> 0"
      "token_balance T asset (current_contract e) (outside s) = Some (idle0, x0)"
      "assets = priced shares (assets_with_idle e s idle0) (supply_of s)"
      "s1 = log_ttl rs0 (s\<lparr>outside := x0\<rparr>)"
    using * by (auto elim!: convert_to_assets_success)
  from cover_shortfall_retracked [OF cover] c(4) obtain rs1 x1 m where
    "s2 = log_ttl rs1 (s\<lparr>st_tracked_balance := m, outside := x1\<rparr>)"
    "\<forall>a. a \<notin> set (strategies_of s) \<longrightarrow> m a = st_tracked_balance s a"
    "\<forall>a. 0 \<le> tracked_of s a \<longrightarrow> 0 \<le> lookup0 m a"
    by (auto simp: retracked_def)
  with * c last that show ?thesis by auto
qed

end
