(* ===== verification/VaultStrategies.thy ===== *)
theory VaultStrategies
  imports VaultRedeem
begin

text \<open>
  Strategy management, fund allocation and the keeper's attestations of
  \<^verbatim>\<open>tezoro-vault/src/lib.rs\<close>, each with the state a successful call leaves behind.
\<close>

section \<open>Strategy management (admin only)\<close>

definition add_strategy ::
  "env \<Rightarrow> address \<Rightarrow> address \<Rightarrow> ('x vault, vault_error, unit) operation" where
  "add_strategy e caller strategy =
     bind (require_auth e caller) (\<lambda>_.
     bind (require_admin caller) (\<lambda>_.
     bind get_strategies (\<lambda>strategies.
     bind (raise_if (length strategies \<ge> MAX_STRATEGIES) MaxStrategies) (\<lambda>_.
     bind (strategy_exists strategy) (\<lambda>known.
     bind (raise_if known StrategyAlreadyActive) (\<lambda>_.
     bind (set_strategies (strategies @ [strategy])) (\<lambda>_.
     bind (set_tracked_balance strategy 0) (\<lambda>_.
     bind (emit_strategy_add strategy) (\<lambda>_.
     bump_instance)))))))))"

text \<open>The loop of \<^verbatim>\<open>remove_strategy\<close>: whether the strategy occurs, and the others.\<close>

fun split_strategy :: "address list \<Rightarrow> address \<Rightarrow> bool \<Rightarrow> address list \<Rightarrow> bool \<times> address list" where
  "split_strategy [] strategy found new_strategies = (found, new_strategies)"
| "split_strategy (s # ss) strategy found new_strategies =
     (if s = strategy then split_strategy ss strategy True new_strategies
      else split_strategy ss strategy found (new_strategies @ [s]))"

definition remove_strategy ::
  "env \<Rightarrow> address \<Rightarrow> address \<Rightarrow> ('x vault, vault_error, unit) operation" where
  "remove_strategy e caller strategy =
     bind (require_auth e caller) (\<lambda>_.
     bind (require_admin caller) (\<lambda>_.
     bind (get_tracked_balance strategy) (\<lambda>tracked.
     bind (raise_if (tracked > 0) StrategyHasBalance) (\<lambda>_.
     bind get_strategies (\<lambda>strategies.
     let (found, new_strategies) = split_strategy strategies strategy False [] in
     bind (raise_if (\<not> found) StrategyNotActive) (\<lambda>_.
     bind (set_strategies new_strategies) (\<lambda>_.
     bind (remove_tracked_balance strategy) (\<lambda>_.
     bind (emit_strategy_remove strategy) (\<lambda>_.
     bump_instance)))))))))"

lemma split_strategy_spec:
  "split_strategy ss a f acc = (f \<or> a \<in> set ss, acc @ filter (\<lambda>s. s \<noteq> a) ss)"
  by (induction ss arbitrary: f acc) auto

lemma add_strategy_success:
  "add_strategy e caller a s = Inr (u, t) \<Longrightarrow>
     authorised e caller \<and> st_admin s = Some caller \<and>
     length (strategies_of s) < MAX_STRATEGIES \<and> a \<notin> set (strategies_of s) \<and>
     (\<exists>rs. t = log_ttl rs (s\<lparr>st_strategies := Some (strategies_of s @ [a]),
        st_tracked_balance := (st_tracked_balance s)(a \<mapsto> 0),
        event_log := event_log s @ [StrategyAdd a]\<rparr>))"
  by (auto simp: add_strategy_def op_success not_le)

lemma remove_strategy_success:
  "remove_strategy e caller a s = Inr (u, t) \<Longrightarrow>
     authorised e caller \<and> st_admin s = Some caller \<and> tracked_of s a \<le> 0 \<and>
     a \<in> set (strategies_of s) \<and>
     (\<exists>rs. t = log_ttl rs (s\<lparr>st_strategies := Some (filter (\<lambda>b. b \<noteq> a) (strategies_of s)),
        st_tracked_balance := (st_tracked_balance s)(a := None),
        event_log := event_log s @ [StrategyRemove a]\<rparr>))"
  by (auto simp: remove_strategy_def op_success split_strategy_spec Let_def not_less)

section \<open>Fund allocation (keeper only)\<close>

definition allocate :: "'x token_client \<Rightarrow> 'x strategy_client \<Rightarrow> env \<Rightarrow> address \<Rightarrow> address \<Rightarrow> int \<Rightarrow>
    ('x vault, vault_error, unit) operation" where
  "allocate T C e keeper strategy amount =
     bind (require_auth e keeper) (\<lambda>_.
     bind (require_keeper keeper) (\<lambda>_.
     bind (raise_if (amount \<le> 0) ZeroAmount) (\<lambda>_.
     bind (strategy_exists strategy) (\<lambda>known.
     bind (raise_if (\<not> known) StrategyNotActive) (\<lambda>_.
     bind get_asset (\<lambda>asset_addr.
     let vault_addr = current_contract e in
     bind (external_call (token_balance T asset_addr vault_addr)) (\<lambda>idle_before.
     bind (total_assets T e) (\<lambda>total.
     bind get_idle_buffer_bps (\<lambda>buffer_bps.
     bind (mul_i128 total (int buffer_bps)) (\<lambda>scaled.
     bind (div_i128 scaled (int MAX_BPS)) (\<lambda>min_idle.
     bind (sub_i128 idle_before amount) (\<lambda>idle_after.
     bind (raise_if (idle_after < min_idle) IdleBufferViolation) (\<lambda>_.
     bind (external_call (strategy_is_healthy C strategy)) (\<lambda>healthy.
     bind (raise_if (\<not> healthy) StrategyUnhealthy) (\<lambda>_.
     bind (external_call (token_transfer T asset_addr vault_addr strategy amount)) (\<lambda>_.
     bind (external_call (strategy_deposit C strategy vault_addr amount)) (\<lambda>_.
     bind (get_tracked_balance strategy) (\<lambda>tracked.
     bind (add_i128 tracked amount) (\<lambda>new_tracked.
     bind (set_tracked_balance strategy new_tracked) (\<lambda>_.
     bind (emit_allocate strategy amount) (\<lambda>_.
     bump_instance)))))))))))))))))))))"

definition deallocate :: "'x strategy_client \<Rightarrow> env \<Rightarrow> address \<Rightarrow> address \<Rightarrow> int \<Rightarrow>
    ('x vault, vault_error, int) operation" where
  "deallocate C e keeper strategy amount =
     bind (require_auth e keeper) (\<lambda>_.
     bind (require_keeper keeper) (\<lambda>_.
     bind (raise_if (amount \<le> 0) ZeroAmount) (\<lambda>_.
     bind (strategy_exists strategy) (\<lambda>known.
     bind (raise_if (\<not> known) StrategyNotActive) (\<lambda>_.
     let vault_addr = current_contract e in
     bind (external_call (strategy_withdraw C strategy vault_addr amount)) (\<lambda>withdrawn.
     bind (untrack strategy withdrawn) (\<lambda>_.
     bind (emit_deallocate strategy withdrawn) (\<lambda>_.
     bind bump_instance (\<lambda>_.
     return withdrawn)))))))))"

definition emergency_withdraw_strategy :: "'x strategy_client \<Rightarrow> env \<Rightarrow> address \<Rightarrow> address \<Rightarrow>
    ('x vault, vault_error, int) operation" where
  "emergency_withdraw_strategy C e caller strategy =
     bind (require_auth e caller) (\<lambda>_.
     bind get_admin (\<lambda>admin.
     bind get_guardian (\<lambda>guardian.
     bind (raise_if (caller \<noteq> admin \<and> caller \<noteq> guardian) Unauthorized) (\<lambda>_.
     bind (strategy_exists strategy) (\<lambda>known.
     bind (raise_if (\<not> known) StrategyNotActive) (\<lambda>_.
     let vault_addr = current_contract e in
     bind (external_call (strategy_emergency_withdraw C strategy vault_addr)) (\<lambda>withdrawn.
     bind (set_tracked_balance strategy 0) (\<lambda>_.
     bind (emit_deallocate strategy withdrawn) (\<lambda>_.
     bind bump_instance (\<lambda>_.
     return withdrawn))))))))))"

definition min_idle_of :: "env \<Rightarrow> 'x vault \<Rightarrow> int \<Rightarrow> int" where
  "min_idle_of e s idle =
     assets_with_idle e s idle * int (unwrap_or (st_idle_buffer_bps s) 0) sdiv int MAX_BPS"

lemma allocate_success:
  assumes "allocate T C e keeper a n s = Inr (u, t)"
  obtains asset idle idle' x y z v w rs where "authorised e keeper" and "st_keeper s = Some keeper"
    and "0 < n" and "a \<in> set (strategies_of s)" and "st_asset s = Some asset"
    and "token_balance T asset (current_contract e) (outside s) = Some (idle, x)"
    and "token_balance T asset (current_contract e) x = Some (idle', y)"
    and "min_idle_of e s idle' \<le> idle - n"
    and "strategy_is_healthy C a y = Some (True, z)"
    and "token_transfer T asset (current_contract e) a n z = Some ((), v)"
    and "strategy_deposit C a (current_contract e) n v = Some ((), w)"
    and "t = log_ttl rs (s\<lparr>outside := w,
          st_tracked_balance := (st_tracked_balance s)(a \<mapsto> tracked_of s a + n),
          event_log := event_log s @ [Allocate a n]\<rparr>)"
proof -
  from assms obtain asset idle x A s1 y z v w where *: "authorised e keeper"
      "st_keeper s = Some keeper" "0 < n" "a \<in> set (strategies_of s)" "st_asset s = Some asset"
      "token_balance T asset (current_contract e) (outside s) = Some (idle, x)"
    and ta: "total_assets T e (s\<lparr>outside := x\<rparr>) = Inr (A, s1)"
    and rest: "A * int (unwrap_or (st_idle_buffer_bps s1) 0) sdiv int MAX_BPS \<le> idle - n"
      "strategy_is_healthy C a (outside s1) = Some (True, z)"
      "token_transfer T asset (current_contract e) a n z = Some ((), v)"
      "strategy_deposit C a (current_contract e) n v = Some ((), w)"
      "\<exists>rs. t = log_ttl rs (s1\<lparr>outside := w,
          st_tracked_balance := (st_tracked_balance s1)(a \<mapsto> tracked_of s1 a + n),
          event_log := event_log s1 @ [Allocate a n]\<rparr>)"
    by (auto simp: allocate_def op_success not_less not_le Let_def)
  from ta *(5) obtain idle' y rs where
    "token_balance T asset (current_contract e) x = Some (idle', y)"
    "A = assets_with_idle e s idle'" "s1 = log_ttl rs (s\<lparr>outside := y\<rparr>)"
    by (auto elim!: total_assets_success
        simp: assets_with_idle_def tracked_total_def bridged_at_def bridged_expired_def)
  with * rest that show ?thesis by (auto simp: min_idle_of_def)
qed

lemma deallocate_success:
  "deallocate C e keeper a n s = Inr (w, t) \<Longrightarrow>
     authorised e keeper \<and> st_keeper s = Some keeper \<and> 0 < n \<and> a \<in> set (strategies_of s) \<and>
     (\<exists>rs x. strategy_withdraw C a (current_contract e) n (outside s) = Some (w, x) \<and>
        t = log_ttl rs (s\<lparr>outside := x, st_tracked_balance := (st_tracked_balance s)
          (a \<mapsto> (if w > tracked_of s a then 0 else tracked_of s a - w)),
        event_log := event_log s @ [Deallocate a w]\<rparr>))"
  by (auto simp: deallocate_def op_success not_le Let_def dest!: untrack_success)

lemma emergency_withdraw_success:
  "emergency_withdraw_strategy C e caller a s = Inr (w, t) \<Longrightarrow>
     authorised e caller \<and> (st_admin s = Some caller \<or> st_guardian s = Some caller) \<and>
     a \<in> set (strategies_of s) \<and>
     (\<exists>rs x. strategy_emergency_withdraw C a (current_contract e) (outside s) = Some (w, x) \<and>
        t = log_ttl rs (s\<lparr>outside := x, st_tracked_balance := (st_tracked_balance s)(a \<mapsto> 0),
        event_log := event_log s @ [Deallocate a w]\<rparr>))"
  by (auto simp: emergency_withdraw_strategy_def op_success Let_def)

section \<open>Keeper attestations\<close>

definition attest_bridged_balance ::
  "env \<Rightarrow> address \<Rightarrow> int \<Rightarrow> ('x vault, vault_error, unit) operation" where
  "attest_bridged_balance e keeper bal =
     bind (require_auth e keeper) (\<lambda>_.
     bind (require_keeper keeper) (\<lambda>_.
     bind (raise_if (bal < 0) InvalidBalance) (\<lambda>_.
     let timestamp = ledger_timestamp e in
     bind (set_bridged_balance bal) (\<lambda>_.
     bind (set_bridged_timestamp timestamp) (\<lambda>_.
     bind (emit_bridged_update bal timestamp) (\<lambda>_.
     bump_instance))))))"

definition update_tracked_balance ::
  "env \<Rightarrow> address \<Rightarrow> address \<Rightarrow> int \<Rightarrow> ('x vault, vault_error, unit) operation" where
  "update_tracked_balance e keeper strategy bal =
     bind (require_auth e keeper) (\<lambda>_.
     bind (require_keeper keeper) (\<lambda>_.
     bind (raise_if (bal < 0) InvalidBalance) (\<lambda>_.
     bind (strategy_exists strategy) (\<lambda>known.
     bind (raise_if (\<not> known) StrategyNotActive) (\<lambda>_.
     bind (set_tracked_balance strategy bal) (\<lambda>_.
     bind (emit_tracked_update strategy bal) (\<lambda>_.
     bump_instance)))))))"

lemma attest_bridged_success:
  "attest_bridged_balance e keeper b s = Inr (u, t) \<Longrightarrow>
     authorised e keeper \<and> st_keeper s = Some keeper \<and> 0 \<le> b \<and>
     (\<exists>rs. t = log_ttl rs (s\<lparr>st_bridged_balance := Some b,
        st_bridged_timestamp := Some (ledger_timestamp e),
        event_log := event_log s @ [BridgedUpdate b (ledger_timestamp e)]\<rparr>))"
  by (auto simp: attest_bridged_balance_def op_success not_less Let_def)

lemma update_tracked_success:
  "update_tracked_balance e keeper a b s = Inr (u, t) \<Longrightarrow>
     authorised e keeper \<and> st_keeper s = Some keeper \<and> 0 \<le> b \<and> a \<in> set (strategies_of s) \<and>
     (\<exists>rs. t = log_ttl rs (s\<lparr>st_tracked_balance := (st_tracked_balance s)(a \<mapsto> b),
        event_log := event_log s @ [TrackedUpdate a b]\<rparr>))"
  by (auto simp: update_tracked_balance_def op_success not_less)

end
