(* ===== verification/VaultFees.thy ===== *)
theory VaultFees
  imports VaultStrategies
begin

text \<open>
  \<^verbatim>\<open>collect_fees\<close> of \<^verbatim>\<open>tezoro-vault/src/lib.rs\<close>: performance fees above the
  high-water mark, minted as shares.
\<close>

definition collect_fees :: "'x token_client \<Rightarrow> env \<Rightarrow> ('x vault, vault_error, int) operation" where
  "collect_fees T e =
     bind require_initialized (\<lambda>_.
     bind get_total_supply (\<lambda>total_supply.
     bind (raise_if (total_supply = 0) NoFeesToCollect) (\<lambda>_.
     bind (total_assets T e) (\<lambda>total_assets.
     bind (mul_i128 total_assets NAV_PRECISION) (\<lambda>scaled.
     bind (div_i128 scaled total_supply) (\<lambda>current_nav.
     bind get_high_water_mark (\<lambda>hwm.
     bind (raise_if (current_nav \<le> hwm) NoFeesToCollect) (\<lambda>_.
     bind get_performance_fee_bps (\<lambda>fee_bps.
     bind (raise_if (int fee_bps = 0) NoFeesToCollect) (\<lambda>_.
     bind (mul_i128 hwm total_supply) (\<lambda>hwm_scaled.
     bind (div_i128 hwm_scaled NAV_PRECISION) (\<lambda>hwm_assets.
     bind (sub_i128 total_assets hwm_assets) (\<lambda>total_yield.
     bind (mul_i128 total_yield (int fee_bps)) (\<lambda>fee_scaled.
     bind (div_i128 fee_scaled (int MAX_BPS)) (\<lambda>fee_assets.
     bind (mul_div_offset fee_assets total_supply total_assets) (\<lambda>fee_shares.
     bind (raise_if (fee_shares \<le> 0) NoFeesToCollect) (\<lambda>_.
     bind get_fee_recipient (\<lambda>recipient.
     bind (get_share_balance recipient) (\<lambda>current.
     bind (add_i128 current fee_shares) (\<lambda>new_shares.
     bind (set_share_balance recipient new_shares) (\<lambda>_.
     bind (add_i128 total_supply fee_shares) (\<lambda>minted_supply.
     bind (set_total_supply minted_supply) (\<lambda>_.
     bind (add_i128 total_supply fee_shares) (\<lambda>new_total_supply.
     bind (mul_i128 total_assets NAV_PRECISION) (\<lambda>new_scaled.
     bind (div_i128 new_scaled new_total_supply) (\<lambda>new_hwm.
     bind (set_high_water_mark new_hwm) (\<lambda>_.
     bind (emit_fees_collected fee_shares new_hwm) (\<lambda>_.
     bind bump_instance (\<lambda>_.
     return fee_shares)))))))))))))))))))))))))))))"

subsection \<open>The fee as a function of assets, supply, mark and rate\<close>

definition nav :: "int \<Rightarrow> int \<Rightarrow> int" where
  "nav assets supply = assets * NAV_PRECISION sdiv supply"

definition yield_above :: "int \<Rightarrow> int \<Rightarrow> int \<Rightarrow> int" where
  "yield_above assets supply hwm = assets - hwm * supply sdiv NAV_PRECISION"

definition fee_assets_of :: "int \<Rightarrow> int \<Rightarrow> int \<Rightarrow> nat \<Rightarrow> int" where
  "fee_assets_of assets supply hwm bps = yield_above assets supply hwm * int bps sdiv int MAX_BPS"

definition fee_shares_of :: "int \<Rightarrow> int \<Rightarrow> int \<Rightarrow> nat \<Rightarrow> int" where
  "fee_shares_of assets supply hwm bps = priced (fee_assets_of assets supply hwm bps) supply assets"

lemma collect_fees_success:
  assumes "collect_fees T e s = Inr (fee, t)"
  obtains asset idle x A bps recipient rs where "st_initialized s \<noteq> None" and "supply_of s \<noteq> 0"
    and "st_asset s = Some asset"
    and "token_balance T asset (current_contract e) (outside s) = Some (idle, x)"
    and "A = assets_with_idle e s idle" and "hwm_of s < nav A (supply_of s)"
    and "bps = unwrap_or (st_performance_fee_bps s) 0" and "0 < bps"
    and "fee = fee_shares_of A (supply_of s) (hwm_of s) bps" and "0 < fee"
    and "A + VIRTUAL_SHARES_OFFSET \<noteq> 0"
    and "st_fee_recipient s = Some recipient" and "supply_of s + fee \<noteq> 0"
    and "t = log_ttl rs (s\<lparr>outside := x,
          st_share_balance := (st_share_balance s)(recipient \<mapsto> shares_of s recipient + fee),
          st_total_supply := Some (supply_of s + fee),
          st_high_water_mark := Some (nav A (supply_of s + fee)),
          event_log := event_log s @ [FeesCollected fee (nav A (supply_of s + fee))]\<rparr>)"
proof -
  from assms obtain rs A u recipient bps where *: "st_initialized s \<noteq> None" "supply_of s \<noteq> 0"
    and ta: "total_assets T e (log_ttl rs s) = Inr (A, u)"
    and nav: "hwm_of u < nav A (supply_of s)"
    and bps: "bps = unwrap_or (st_performance_fee_bps u) 0" "0 < bps"
    and fee: "fee = fee_shares_of A (supply_of s) (hwm_of u) bps" "0 < fee"
      "A + VIRTUAL_SHARES_OFFSET \<noteq> 0"
    and rec: "st_fee_recipient u = Some recipient" "supply_of s + fee \<noteq> 0"
    and t: "\<exists>rs. t = log_ttl rs (u\<lparr>
          st_share_balance := (st_share_balance u)(recipient \<mapsto> shares_of u recipient + fee),
          st_total_supply := Some (supply_of s + fee),
          st_high_water_mark := Some (nav A (supply_of s + fee)),
          event_log := event_log u @ [FeesCollected fee (nav A (supply_of s + fee))]\<rparr>)"
    unfolding collect_fees_def
    by (auto simp: op_success not_le nav_def fee_shares_of_def fee_assets_of_def yield_above_def)
  from ta obtain asset idle x rs' where "st_asset s = Some asset"
    "token_balance T asset (current_contract e) (outside s) = Some (idle, x)"
    "A = assets_with_idle e s idle" "u = log_ttl rs' (s\<lparr>outside := x\<rparr>)"
    by (auto elim!: total_assets_success)
  with * nav bps fee rec t that show ?thesis by auto
qed

end
