(* ===== verification/VaultAdmin.thy ===== *)
theory VaultAdmin
  imports VaultFees
begin

text \<open>
  The administrative half of \<^verbatim>\<open>tezoro-vault/src/lib.rs\<close>: pausing, limits, roles, the
  two-step admin transfer, the upgrade timelock and the view functions.
\<close>

section \<open>Pausing, limits and roles\<close>

definition pause :: "env \<Rightarrow> address \<Rightarrow> ('x vault, vault_error, unit) operation" where
  "pause e caller =
     bind (require_auth e caller) (\<lambda>_.
     bind get_admin (\<lambda>admin.
     bind get_guardian (\<lambda>guardian.
     bind (raise_if (caller \<noteq> admin \<and> caller \<noteq> guardian) Unauthorized) (\<lambda>_.
     bind (set_paused True) (\<lambda>_.
     emit_pause caller)))))"

definition unpause :: "env \<Rightarrow> address \<Rightarrow> ('x vault, vault_error, unit) operation" where
  "unpause e caller =
     bind (require_auth e caller) (\<lambda>_.
     bind (require_admin caller) (\<lambda>_.
     bind (set_paused False) (\<lambda>_.
     emit_unpause caller)))"

definition change_deposit_cap ::
  "env \<Rightarrow> address \<Rightarrow> int \<Rightarrow> ('x vault, vault_error, unit) operation" where
  "change_deposit_cap e caller cap =
     bind (require_auth e caller) (\<lambda>_.
     bind (require_admin caller) (\<lambda>_.
     bind (raise_if (cap < 0) InvalidBalance) (\<lambda>_.
     bind (set_deposit_cap cap) (\<lambda>_.
     emit_deposit_cap cap))))"

definition change_keeper ::
  "env \<Rightarrow> address \<Rightarrow> address \<Rightarrow> ('x vault, vault_error, unit) operation" where
  "change_keeper e caller new_keeper =
     bind (require_auth e caller) (\<lambda>_.
     bind (require_admin caller) (\<lambda>_.
     bind (set_keeper new_keeper) (\<lambda>_.
     emit_set_role ''keeper'' new_keeper)))"

definition change_guardian ::
  "env \<Rightarrow> address \<Rightarrow> address \<Rightarrow> ('x vault, vault_error, unit) operation" where
  "change_guardian e caller new_guardian =
     bind (require_auth e caller) (\<lambda>_.
     bind (require_admin caller) (\<lambda>_.
     bind (set_guardian new_guardian) (\<lambda>_.
     emit_set_role ''guardian'' new_guardian)))"

definition propose_admin ::
  "env \<Rightarrow> address \<Rightarrow> address \<Rightarrow> ('x vault, vault_error, unit) operation" where
  "propose_admin e caller new_admin =
     bind (require_auth e caller) (\<lambda>_.
     bind (require_admin caller) (\<lambda>_.
     bind (set_pending_admin new_admin) (\<lambda>_.
     emit_admin_proposed caller new_admin)))"

definition accept_admin :: "env \<Rightarrow> address \<Rightarrow> ('x vault, vault_error, unit) operation" where
  "accept_admin e caller =
     bind (require_auth e caller) (\<lambda>_.
     bind get_pending_admin (\<lambda>pending.
     case pending of
       Some addr \<Rightarrow>
         if addr = caller
         then bind (set_admin caller) (\<lambda>_.
              bind clear_pending_admin (\<lambda>_.
              emit_admin_accepted caller))
         else raise NoPendingAdmin
     | None \<Rightarrow> raise NoPendingAdmin))"

definition change_bridged_max_age ::
  "env \<Rightarrow> address \<Rightarrow> nat \<Rightarrow> ('x vault, vault_error, unit) operation" where
  "change_bridged_max_age e caller max_age =
     bind (require_auth e caller) (\<lambda>_.
     bind (require_admin caller) (\<lambda>_.
     set_bridged_max_age max_age))"

definition change_upgrade_delay ::
  "env \<Rightarrow> address \<Rightarrow> nat \<Rightarrow> ('x vault, vault_error, unit) operation" where
  "change_upgrade_delay e caller delay =
     bind (require_auth e caller) (\<lambda>_.
     bind (require_admin caller) (\<lambda>_.
     bind (raise_if (delay < MIN_UPGRADE_DELAY) InvalidBalance) (\<lambda>_.
     set_upgrade_delay delay)))"

lemma pause_success:
  "pause e caller s = Inr (u, t) \<Longrightarrow>
     authorised e caller \<and> (st_admin s = Some caller \<or> st_guardian s = Some caller) \<and>
     t = s\<lparr>st_paused := Some True, event_log := event_log s @ [Pause caller]\<rparr>"
  by (auto simp: pause_def op_success)

lemma unpause_success:
  "unpause e caller s = Inr (u, t) \<Longrightarrow>
     authorised e caller \<and> st_admin s = Some caller \<and>
     t = s\<lparr>st_paused := Some False, event_log := event_log s @ [Unpause caller]\<rparr>"
  by (auto simp: unpause_def op_success)

lemma change_deposit_cap_success:
  "change_deposit_cap e caller cap s = Inr (u, t) \<Longrightarrow>
     authorised e caller \<and> st_admin s = Some caller \<and> 0 \<le> cap \<and>
     t = s\<lparr>st_deposit_cap := Some cap, event_log := event_log s @ [DepositCapUpdate cap]\<rparr>"
  by (auto simp: change_deposit_cap_def op_success)

lemma change_keeper_success:
  "change_keeper e caller k s = Inr (u, t) \<Longrightarrow>
     authorised e caller \<and> st_admin s = Some caller \<and>
     t = s\<lparr>st_keeper := Some k, event_log := event_log s @ [SetRole ''keeper'' k]\<rparr>"
  by (auto simp: change_keeper_def op_success)

lemma change_guardian_success:
  "change_guardian e caller g s = Inr (u, t) \<Longrightarrow>
     authorised e caller \<and> st_admin s = Some caller \<and>
     t = s\<lparr>st_guardian := Some g, event_log := event_log s @ [SetRole ''guardian'' g]\<rparr>"
  by (auto simp: change_guardian_def op_success)

lemma propose_admin_success:
  "propose_admin e caller a s = Inr (u, t) \<Longrightarrow>
     authorised e caller \<and> st_admin s = Some caller \<and>
     t = s\<lparr>st_pending_admin := Some a, event_log := event_log s @ [AdminProposed caller a]\<rparr>"
  by (auto simp: propose_admin_def op_success)

lemma accept_admin_success:
  "accept_admin e caller s = Inr (u, t) \<Longrightarrow>
     authorised e caller \<and> st_pending_admin s = Some caller \<and>
     t = s\<lparr>st_admin := Some caller, st_pending_admin := None,
       event_log := event_log s @ [AdminAccepted caller]\<rparr>"
  by (auto simp: accept_admin_def op_success split: option.splits if_splits)

lemma change_bridged_max_age_success:
  "change_bridged_max_age e caller n s = Inr (u, t) \<Longrightarrow>
     authorised e caller \<and> st_admin s = Some caller \<and> t = s\<lparr>st_bridged_max_age := Some n\<rparr>"
  by (auto simp: change_bridged_max_age_def op_success)

lemma change_upgrade_delay_success:
  "change_upgrade_delay e caller n s = Inr (u, t) \<Longrightarrow>
     authorised e caller \<and> st_admin s = Some caller \<and> MIN_UPGRADE_DELAY \<le> n \<and>
     t = s\<lparr>st_upgrade_delay := Some n\<rparr>"
  by (auto simp: change_upgrade_delay_def op_success)

section \<open>The upgrade timelock\<close>

definition schedule_upgrade ::
  "env \<Rightarrow> address \<Rightarrow> bytes_n32 \<Rightarrow> ('x vault, vault_error, unit) operation" where
  "schedule_upgrade e caller new_wasm_hash =
     bind (require_auth e caller) (\<lambda>_.
     bind (require_admin caller) (\<lambda>_.
     let now = ledger_timestamp e in
     bind get_upgrade_delay (\<lambda>delay.
     bind (add_u64 now delay) (\<lambda>execute_after.
     bind (set_scheduled_upgrade new_wasm_hash now) (\<lambda>_.
     emit_upgrade_scheduled new_wasm_hash execute_after)))))"

definition execute_upgrade :: "env \<Rightarrow> address \<Rightarrow> ('x vault, vault_error, unit) operation" where
  "execute_upgrade e caller =
     bind (require_auth e caller) (\<lambda>_.
     bind (require_admin caller) (\<lambda>_.
     bind get_scheduled_upgrade (\<lambda>scheduled.
     case scheduled of
       None \<Rightarrow> raise UpgradeNotScheduled
     | Some (wasm_hash, scheduled_at) \<Rightarrow>
         bind get_upgrade_delay (\<lambda>delay.
         let now = ledger_timestamp e in
         bind (add_u64 scheduled_at delay) (\<lambda>ready_at.
         bind (raise_if (now < ready_at) UpgradeTooEarly) (\<lambda>_.
         bind clear_scheduled_upgrade (\<lambda>_.
         bind (update_current_contract_wasm e wasm_hash) (\<lambda>_.
         emit_upgrade wasm_hash)))))))) "

definition cancel_upgrade :: "env \<Rightarrow> address \<Rightarrow> ('x vault, vault_error, unit) operation" where
  "cancel_upgrade e caller =
     bind (require_auth e caller) (\<lambda>_.
     bind (require_admin caller) (\<lambda>_.
     bind get_scheduled_upgrade (\<lambda>scheduled.
     bind (raise_if (scheduled = None) UpgradeNotScheduled) (\<lambda>_.
     bind clear_scheduled_upgrade (\<lambda>_.
     emit_upgrade_cancelled)))))"

lemma schedule_upgrade_success:
  "schedule_upgrade e caller h s = Inr (u, t) \<Longrightarrow>
     authorised e caller \<and> st_admin s = Some caller \<and>
     ledger_timestamp e + upgrade_delay_of s \<le> u64_max \<and>
     (\<exists>rs. t = log_ttl rs (s\<lparr>st_scheduled_upgrade_hash := Some h,
        st_scheduled_upgrade_at := Some (ledger_timestamp e),
        event_log := event_log s @ [UpgradeScheduled h (ledger_timestamp e + upgrade_delay_of s)]\<rparr>))"
  by (auto simp: schedule_upgrade_def op_success Let_def)

lemma execute_upgrade_success:
  "execute_upgrade e caller s = Inr (u, t) \<Longrightarrow>
     authorised e caller \<and> st_admin s = Some caller \<and>
     (\<exists>h at. scheduled_of s = Some (h, at) \<and> at + upgrade_delay_of s \<le> ledger_timestamp e \<and>
        uploaded_wasm e h \<and>
        t = s\<lparr>st_scheduled_upgrade_hash := None, st_scheduled_upgrade_at := None, code_hash := h,
          event_log := event_log s @ [Upgrade h]\<rparr>)"
  by (auto simp: execute_upgrade_def op_success Let_def not_less split: option.splits)

lemma cancel_upgrade_success:
  "cancel_upgrade e caller s = Inr (u, t) \<Longrightarrow>
     authorised e caller \<and> st_admin s = Some caller \<and> scheduled_of s \<noteq> None \<and>
     t = s\<lparr>st_scheduled_upgrade_hash := None, st_scheduled_upgrade_at := None,
       event_log := event_log s @ [UpgradeCancelled]\<rparr>"
  by (auto simp: cancel_upgrade_def op_success)

section \<open>View functions\<close>

text \<open>Each view is one getter; the persistent ones also extend the lifetime of what they read.\<close>

definition view_strategies :: "('x vault, vault_error, address list) operation" where
  "view_strategies = get_strategies"

definition view_asset :: "('x vault, vault_error, address) operation" where
  "view_asset = get_asset"

definition view_admin :: "('x vault, vault_error, address) operation" where
  "view_admin = get_admin"

definition view_pending_admin :: "('x vault, vault_error, address option) operation" where
  "view_pending_admin = get_pending_admin"

definition view_keeper :: "('x vault, vault_error, address) operation" where
  "view_keeper = get_keeper"

definition view_guardian :: "('x vault, vault_error, address) operation" where
  "view_guardian = get_guardian"

definition view_is_paused :: "('x vault, vault_error, bool) operation" where
  "view_is_paused = is_paused"

definition view_bridged_balance :: "('x vault, vault_error, int) operation" where
  "view_bridged_balance = get_bridged_balance"

definition view_bridged_timestamp :: "('x vault, vault_error, nat) operation" where
  "view_bridged_timestamp = get_bridged_timestamp"

definition view_tracked_balance :: "address \<Rightarrow> ('x vault, vault_error, int) operation" where
  "view_tracked_balance strategy = get_tracked_balance strategy"

definition view_deposit_cap :: "('x vault, vault_error, int) operation" where
  "view_deposit_cap = get_deposit_cap"

definition view_performance_fee_bps :: "('x vault, vault_error, nat) operation" where
  "view_performance_fee_bps = get_performance_fee_bps"

definition view_high_water_mark :: "('x vault, vault_error, int) operation" where
  "view_high_water_mark = get_high_water_mark"

definition view_upgrade_delay :: "('x vault, vault_error, nat) operation" where
  "view_upgrade_delay = get_upgrade_delay"

definition view_scheduled_upgrade :: "('x vault, vault_error, (bytes_n32 \<times> nat) option) operation" where
  "view_scheduled_upgrade = get_scheduled_upgrade"

lemmas view_defs =
  view_strategies_def view_asset_def view_admin_def view_pending_admin_def view_keeper_def
  view_guardian_def view_is_paused_def view_bridged_balance_def view_bridged_timestamp_def
  view_tracked_balance_def view_deposit_cap_def view_performance_fee_bps_def
  view_high_water_mark_def view_upgrade_delay_def view_scheduled_upgrade_def

text \<open>A view changes nothing but the lifetime of the entry it reads.\<close>

lemma view_frame:
  "view_strategies s = Inr (a1, t) \<Longrightarrow> \<exists>rs. t = log_ttl rs s"
  "view_asset s = Inr (a2, t) \<Longrightarrow> \<exists>rs. t = log_ttl rs s"
  "view_admin s = Inr (a3, t) \<Longrightarrow> \<exists>rs. t = log_ttl rs s"
  "view_pending_admin s = Inr (a4, t) \<Longrightarrow> \<exists>rs. t = log_ttl rs s"
  "view_keeper s = Inr (a5, t) \<Longrightarrow> \<exists>rs. t = log_ttl rs s"
  "view_guardian s = Inr (a6, t) \<Longrightarrow> \<exists>rs. t = log_ttl rs s"
  "view_is_paused s = Inr (a7, t) \<Longrightarrow> \<exists>rs. t = log_ttl rs s"
  "view_bridged_balance s = Inr (a8, t) \<Longrightarrow> \<exists>rs. t = log_ttl rs s"
  "view_bridged_timestamp s = Inr (a9, t) \<Longrightarrow> \<exists>rs. t = log_ttl rs s"
  "view_tracked_balance a s = Inr (a10, t) \<Longrightarrow> \<exists>rs. t = log_ttl rs s"
  "view_deposit_cap s = Inr (a11, t) \<Longrightarrow> \<exists>rs. t = log_ttl rs s"
  "view_performance_fee_bps s = Inr (a12, t) \<Longrightarrow> \<exists>rs. t = log_ttl rs s"
  "view_high_water_mark s = Inr (a13, t) \<Longrightarrow> \<exists>rs. t = log_ttl rs s"
  "view_upgrade_delay s = Inr (a14, t) \<Longrightarrow> \<exists>rs. t = log_ttl rs s"
  "view_scheduled_upgrade s = Inr (a15, t) \<Longrightarrow> \<exists>rs. t = log_ttl rs s"
  by (auto simp: view_defs op_success)

end
