(* ===== verification/VaultDeposit.thy ===== *)
theory VaultDeposit
  imports VaultAccounting
begin

text \<open>
  \<^verbatim>\<open>deposit\<close> of \<^verbatim>\<open>tezoro-vault/src/lib.rs\<close> and what a successful deposit does.
\<close>

section \<open>Deposit\<close>

definition deposit ::
  "'x token_client \<Rightarrow> env \<Rightarrow> address \<Rightarrow> int \<Rightarrow> ('x vault, vault_error, int) operation" where
  "deposit T e from assets =
     bind (require_auth e from) (\<lambda>_.
     bind require_initialized (\<lambda>_.
     bind require_not_paused (\<lambda>_.
     bind (raise_if (assets \<le> 0) ZeroAmount) (\<lambda>_.
     bind (total_assets T e) (\<lambda>current_total.
     bind get_deposit_cap (\<lambda>cap.
     bind (if cap > 0
           then bind (add_i128 current_total assets) (\<lambda>after. return (after > cap))
           else return False) (\<lambda>over_cap.
     bind (raise_if over_cap DepositCapExceeded) (\<lambda>_.
     bind get_total_supply (\<lambda>total_supply.
     bind (mul_div_offset assets total_supply current_total) (\<lambda>shares.
     bind (raise_if (shares \<le> 0) ZeroAmount) (\<lambda>_.
     bind get_asset (\<lambda>asset_addr.
     bind (external_call (token_transfer T asset_addr from (current_contract e) assets)) (\<lambda>_.
     bind (get_share_balance from) (\<lambda>current_shares.
     bind (add_i128 current_shares shares) (\<lambda>new_shares.
     bind (set_share_balance from new_shares) (\<lambda>_.
     bind (add_i128 total_supply shares) (\<lambda>new_supply.
     bind (set_total_supply new_supply) (\<lambda>_.
     bind (emit_deposit from assets shares) (\<lambda>_.
     bind bump_instance (\<lambda>_.
     return shares))))))))))))))))))))"

lemma cap_check_success:
  "(if 0 < cap then bind (add_i128 c a) (\<lambda>n. return (cap < n)) else return False) s = Inr (b, t) \<longleftrightarrow>
     (0 < cap \<longrightarrow> fits_i128 (c + a)) \<and> b = (0 < cap \<and> cap < c + a) \<and> t = s"
  by (auto simp: op_success)

text \<open>A successful deposit, with the whole state it leaves behind.\<close>

lemma deposit_success:
  assumes "deposit T e from assets s = Inr (shares, t)"
  obtains asset idle x y rs where "authorised e from" and "st_initialized s \<noteq> None"
    and "\<not> unwrap_or (st_paused s) False" and "0 < assets" and "st_asset s = Some asset"
    and "token_balance T asset (current_contract e) (outside s) = Some (idle, x)"
    and "0 < unwrap_or (st_deposit_cap s) 0 \<Longrightarrow>
           assets_with_idle e s idle + assets \<le> unwrap_or (st_deposit_cap s) 0"
    and "assets_with_idle e s idle + VIRTUAL_SHARES_OFFSET \<noteq> 0"
    and "shares = priced assets (supply_of s) (assets_with_idle e s idle)" and "0 < shares"
    and "token_transfer T asset from (current_contract e) assets x = Some ((), y)"
    and "t = log_ttl rs (s\<lparr>outside := y,
          st_share_balance := (st_share_balance s)(from \<mapsto> shares_of s from + shares),
          st_total_supply := Some (supply_of s + shares),
          event_log := event_log s @ [Deposit from assets shares]\<rparr>)"
proof -
  from assms obtain A u y where ok: "authorised e from" "st_initialized s \<noteq> None"
      "\<not> unwrap_or (st_paused s) False" "0 < assets"
    and ta: "total_assets T e s = Inr (A, u)"
    and cap: "0 < unwrap_or (st_deposit_cap u) 0 \<longrightarrow> A + assets \<le> unwrap_or (st_deposit_cap u) 0"
    and sh: "shares = priced assets (supply_of u) A" "0 < shares" "A + VIRTUAL_SHARES_OFFSET \<noteq> 0"
    and tr: "\<exists>asset. st_asset u = Some asset \<and>
        token_transfer T asset from (current_contract e) assets (outside u) = Some ((), y)"
    and t: "\<exists>rs. t = log_ttl rs (u\<lparr>outside := y,
          st_share_balance := (st_share_balance u)(from \<mapsto> shares_of u from + shares),
          st_total_supply := Some (supply_of u + shares),
          event_log := event_log u @ [Deposit from assets shares]\<rparr>)"
    unfolding deposit_def by (auto simp: op_success cap_check_success not_less not_le)
  from ta show ?thesis
  proof (rule total_assets_success)
    fix asset idle x rs
    assume "st_asset s = Some asset" "A = assets_with_idle e s idle"
      "token_balance T asset (current_contract e) (outside s) = Some (idle, x)"
      "u = log_ttl rs (s\<lparr>outside := x\<rparr>)"
    with ok cap sh tr t that show ?thesis by auto
  qed
qed

end
