(* ===== verification/VaultSystem.thy ===== *)
theory VaultSystem
  imports VaultAdmin VaultDeposit
begin

text \<open>
  The vault as a state machine. \<open>vault_call\<close> has one constructor per state-changing entry
  point, \<open>exec\<close> runs it, and a step is a successful invocation by anybody with any token and
  strategies behind the clients, or a change of the outside world between invocations. A failed
  invocation leaves no trace, so it is no step.
\<close>

section \<open>Entry points and steps\<close>

datatype vault_call =
    CallInitialize address address address address address nat nat string string
  | CallTransfer address address int
  | CallDeposit address int
  | CallRedeem address int
  | CallAddStrategy address address
  | CallRemoveStrategy address address
  | CallAllocate address address int
  | CallDeallocate address address int
  | CallEmergencyWithdrawStrategy address address
  | CallAttestBridgedBalance address int
  | CallUpdateTrackedBalance address address int
  | CallCollectFees
  | CallPause address
  | CallUnpause address
  | CallSetDepositCap address int
  | CallSetKeeper address address
  | CallSetGuardian address address
  | CallProposeAdmin address address
  | CallAcceptAdmin address
  | CallSetBridgedMaxAge address nat
  | CallSetUpgradeDelay address nat
  | CallScheduleUpgrade address bytes_n32
  | CallExecuteUpgrade address
  | CallCancelUpgrade address

datatype vault_value = UnitValue | IntValue int

definition unit_result :: "('s, 'e, unit) operation \<Rightarrow> ('s, 'e, vault_value) operation" where
  "unit_result m = bind m (\<lambda>_. return UnitValue)"

definition int_result :: "('s, 'e, int) operation \<Rightarrow> ('s, 'e, vault_value) operation" where
  "int_result m = bind m (\<lambda>n. return (IntValue n))"

fun exec :: "'x token_client \<Rightarrow> 'x strategy_client \<Rightarrow> env \<Rightarrow> vault_call \<Rightarrow>
    ('x vault, vault_error, vault_value) operation" where
  "exec T C e (CallInitialize admin asset keeper guardian fee_recipient fee_bps idle_bps name symbol) =
     unit_result (initialize e admin asset keeper guardian fee_recipient fee_bps idle_bps name symbol)"
| "exec T C e (CallTransfer from to amount) = unit_result (transfer e from to amount)"
| "exec T C e (CallDeposit from assets) = int_result (deposit T e from assets)"
| "exec T C e (CallRedeem from shares) = int_result (redeem T C e from shares)"
| "exec T C e (CallAddStrategy caller strategy) = unit_result (add_strategy e caller strategy)"
| "exec T C e (CallRemoveStrategy caller strategy) = unit_result (remove_strategy e caller strategy)"
| "exec T C e (CallAllocate keeper strategy amount) = unit_result (allocate T C e keeper strategy amount)"
| "exec T C e (CallDeallocate keeper strategy amount) = int_result (deallocate C e keeper strategy amount)"
| "exec T C e (CallEmergencyWithdrawStrategy caller strategy) =
     int_result (emergency_withdraw_strategy C e caller strategy)"
| "exec T C e (CallAttestBridgedBalance keeper bal) = unit_result (attest_bridged_balance e keeper bal)"
| "exec T C e (CallUpdateTrackedBalance keeper strategy bal) =
     unit_result (update_tracked_balance e keeper strategy bal)"
| "exec T C e CallCollectFees = int_result (collect_fees T e)"
| "exec T C e (CallPause caller) = unit_result (pause e caller)"
| "exec T C e (CallUnpause caller) = unit_result (unpause e caller)"
| "exec T C e (CallSetDepositCap caller cap) = unit_result (change_deposit_cap e caller cap)"
| "exec T C e (CallSetKeeper caller new_keeper) = unit_result (change_keeper e caller new_keeper)"
| "exec T C e (CallSetGuardian caller new_guardian) = unit_result (change_guardian e caller new_guardian)"
| "exec T C e (CallProposeAdmin caller new_admin) = unit_result (propose_admin e caller new_admin)"
| "exec T C e (CallAcceptAdmin caller) = unit_result (accept_admin e caller)"
| "exec T C e (CallSetBridgedMaxAge caller max_age) = unit_result (change_bridged_max_age e caller max_age)"
| "exec T C e (CallSetUpgradeDelay caller delay) = unit_result (change_upgrade_delay e caller delay)"
| "exec T C e (CallScheduleUpgrade caller hash) = unit_result (schedule_upgrade e caller hash)"
| "exec T C e (CallExecuteUpgrade caller) = unit_result (execute_upgrade e caller)"
| "exec T C e (CallCancelUpgrade caller) = unit_result (cancel_upgrade e caller)"

lemma unit_result_success: "unit_result m s = Inr (v, t) \<Longrightarrow> \<exists>u. m s = Inr (u, t)"
  by (auto simp: unit_result_def op_success)

lemma int_result_success: "int_result m s = Inr (v, t) \<Longrightarrow> \<exists>n. v = IntValue n \<and> m s = Inr (n, t)"
  by (auto simp: int_result_def op_success)

inductive vault_step :: "'x vault \<Rightarrow> 'x vault \<Rightarrow> bool" where
  invoke: "exec T C e c s = Inr (v, t) \<Longrightarrow> vault_step s t"
| world: "vault_step s (s\<lparr>outside := x\<rparr>)"

inductive reachable :: "'x vault \<Rightarrow> bool" where
  start: "reachable (deployed h x)"
| step: "reachable s \<Longrightarrow> vault_step s t \<Longrightarrow> reachable t"

inductive_cases vault_step_elim: "vault_step s t"

lemma reachable_invariant:
  assumes "reachable s" and "\<And>h x. I (deployed h x)"
    and "\<And>T C e c v s t. exec T C e c s = Inr (v, t) \<Longrightarrow> I s \<Longrightarrow> I t"
    and "\<And>s x. I s \<Longrightarrow> I (s\<lparr>outside := x\<rparr>)"
  shows "I s"
  using assms(1)
proof induction
  case (start h x)
  then show ?case by (rule assms(2))
next
  case (step s t)
  from step.hyps(2) step.IH show ?case by (auto elim!: vault_step_elim intro: assms(3,4))
qed

lemma reachable_exec: "reachable s \<Longrightarrow> exec T C e c s = Inr (v, t) \<Longrightarrow> reachable t"
  by (erule step) (erule invoke)

lemma reachable_deposit: "reachable s \<Longrightarrow> deposit T e a n s = Inr (k, t) \<Longrightarrow> reachable t"
  by (erule reachable_exec [where c = "CallDeposit a n" and T = T and e = e and v = "IntValue k"])
    (simp add: int_result_def bind_def return_def)

lemma reachable_collect: "reachable s \<Longrightarrow> collect_fees T e s = Inr (k, t) \<Longrightarrow> reachable t"
  by (erule reachable_exec [where c = CallCollectFees and T = T and e = e and v = "IntValue k"])
    (simp add: int_result_def bind_def return_def)

section \<open>The shape of every successful invocation\<close>

text \<open>The destruction rules of all entry points, for proofs that go through \<open>exec\<close> case by case.\<close>

lemmas entry_success =
  initialize_success transfer_success add_strategy_success remove_strategy_success
  deallocate_success emergency_withdraw_success attest_bridged_success update_tracked_success
  pause_success unpause_success change_deposit_cap_success change_keeper_success
  change_guardian_success propose_admin_success accept_admin_success
  change_bridged_max_age_success change_upgrade_delay_success schedule_upgrade_success
  execute_upgrade_success cancel_upgrade_success

lemmas entry_elims = deposit_success redeem_success allocate_success collect_fees_success

section \<open>Share accounting\<close>

definition shares_inv :: "'x vault \<Rightarrow> bool" where
  "shares_inv s \<longleftrightarrow> finite (dom (st_share_balance s)) \<and> (\<forall>a. 0 \<le> shares_of s a) \<and>
     supply_of s = map_total (st_share_balance s) \<and>
     (st_initialized s = None \<longrightarrow> (\<forall>a. shares_of s a = 0))"

lemma shares_inv_credit:
  assumes "finite (dom m)" and "\<forall>a. 0 \<le> lookup0 m a" and "supply = map_total m" and "0 \<le> lookup0 m a + n"
  shows "finite (dom (m(a \<mapsto> lookup0 m a + n))) \<and> (\<forall>b. 0 \<le> lookup0 (m(a \<mapsto> lookup0 m a + n)) b) \<and>
     supply + n = map_total (m(a \<mapsto> lookup0 m a + n))"
  using assms by (simp add: map_total_update del: fun_upd_apply)

lemma exec_share_cases:
  assumes "exec T C e c s = Inr (v, t)"
  obtains (same) "st_share_balance t = st_share_balance s" and "supply_of t = supply_of s"
      and "st_initialized t = st_initialized s"
  | (init) "st_initialized s = None" and "st_share_balance t = st_share_balance s"
      and "supply_of t = 0" and "st_initialized t = Some True"
  | (moved) a b n where "authorised e a" and "0 < n" and "n \<le> shares_of s a"
      and "st_share_balance t = moved (st_share_balance s) a b n" and "supply_of t = supply_of s"
      and "st_initialized t = st_initialized s"
  | (minted) a n where "st_initialized s \<noteq> None" and "0 < n"
      and "st_share_balance t = (st_share_balance s)(a \<mapsto> shares_of s a + n)"
      and "supply_of t = supply_of s + n" and "st_initialized t = st_initialized s"
  | (burned) a n where "st_initialized s \<noteq> None" and "authorised e a" and "0 < n"
      and "n \<le> shares_of s a"
      and "st_share_balance t = (st_share_balance s)(a \<mapsto> shares_of s a - n)"
      and "supply_of t = supply_of s - n" and "st_initialized t = st_initialized s"
proof (cases c)
  case CallInitialize
  with assms show ?thesis
    by (auto dest!: unit_result_success initialize_success intro: init)
next
  case (CallTransfer a b n)
  with assms show ?thesis
    by (auto dest!: unit_result_success transfer_success intro: moved)
next
  case (CallDeposit a n)
  with assms show ?thesis
    by (auto dest!: int_result_success elim!: deposit_success intro: minted)
next
  case (CallRedeem a n)
  with assms show ?thesis
    by (auto dest!: int_result_success elim!: redeem_success intro: burned)
next
  case CallCollectFees
  with assms show ?thesis
    by (auto dest!: int_result_success elim!: collect_fees_success intro: minted)
next
  case CallAllocate
  with assms show ?thesis
    by (auto dest!: unit_result_success elim!: allocate_success intro: same)
qed (use assms in \<open>auto dest!: unit_result_success int_result_success entry_success intro: same\<close>)

lemma exec_shares_inv: "exec T C e c s = Inr (v, t) \<Longrightarrow> shares_inv s \<Longrightarrow> shares_inv t"
proof (erule exec_share_cases)
  fix a b n
  assume "shares_inv s" "st_share_balance t = moved (st_share_balance s) a b n"
    "supply_of t = supply_of s" "0 < n" "n \<le> shares_of s a" "st_initialized t = st_initialized s"
  moreover have "shares_of s a = 0" if "st_initialized s = None"
    using that \<open>shares_inv s\<close> by (simp add: shares_inv_def)
  ultimately show "shares_inv t"
    by (auto simp: shares_inv_def lookup0_moved dom_moved map_total_moved)
next
  fix a n
  assume "shares_inv s" "st_share_balance t = (st_share_balance s)(a \<mapsto> shares_of s a + n)"
    "supply_of t = supply_of s + n" "0 < n" "st_initialized t = st_initialized s"
    "st_initialized s \<noteq> None"
  with shares_inv_credit [of "st_share_balance s" "supply_of s" a n] show "shares_inv t"
    by (auto simp: shares_inv_def simp del: fun_upd_apply)
next
  fix a n
  assume "shares_inv s" "st_share_balance t = (st_share_balance s)(a \<mapsto> shares_of s a - n)"
    "supply_of t = supply_of s - n" "n \<le> shares_of s a" "st_initialized t = st_initialized s"
    "st_initialized s \<noteq> None"
  with shares_inv_credit [of "st_share_balance s" "supply_of s" a "- n"] show "shares_inv t"
    by (auto simp: shares_inv_def simp del: fun_upd_apply)
next
  assume "shares_inv s" "st_initialized s = None" "st_share_balance t = st_share_balance s"
    "supply_of t = 0"
  then show "shares_inv t" by (simp add: shares_inv_def map_total_def)
qed (simp_all add: shares_inv_def)

theorem reachable_shares_inv: "reachable s \<Longrightarrow> shares_inv s"
  by (erule reachable_invariant) (auto simp: shares_inv_def deployed_def dest: exec_shares_inv)

section \<open>Configuration and strategy bookkeeping\<close>

definition config_inv :: "'x vault \<Rightarrow> bool" where
  "config_inv s \<longleftrightarrow>
     unwrap_or (st_performance_fee_bps s) 0 \<le> MAX_PERFORMANCE_FEE_BPS \<and>
     unwrap_or (st_idle_buffer_bps s) 0 \<le> MAX_IDLE_BUFFER_BPS \<and>
     MIN_UPGRADE_DELAY \<le> upgrade_delay_of s \<and> 0 \<le> unwrap_or (st_deposit_cap s) 0 \<and>
     0 \<le> bridged_of s"

definition strategies_inv :: "'x vault \<Rightarrow> bool" where
  "strategies_inv s \<longleftrightarrow>
     distinct (strategies_of s) \<and> length (strategies_of s) \<le> MAX_STRATEGIES \<and>
     (\<forall>a. 0 \<le> tracked_of s a) \<and>
     (\<forall>a. a \<notin> set (strategies_of s) \<longrightarrow> st_tracked_balance s a = None) \<and>
     (st_initialized s = None \<longrightarrow> st_admin s = None \<and> st_keeper s = None \<and>
        st_guardian s = None \<and> st_pending_admin s = None \<and> strategies_of s = [])"

lemma exec_config_inv: "exec T C e c s = Inr (v, t) \<Longrightarrow> config_inv s \<Longrightarrow> config_inv t"
  by (cases c; fastforce dest: unit_result_success int_result_success entry_success
      elim: entry_elims simp: config_inv_def DEFAULT_UPGRADE_DELAY_def MIN_UPGRADE_DELAY_def)

text \<open>
  What an invocation can do to the strategy list and the tracked balances. The untracked case
  covers every write of a non-negative balance of a registered strategy.
\<close>

lemma exec_strategy_cases:
  assumes "exec T C e c s = Inr (v, t)"
  obtains (same) "strategies_of t = strategies_of s" and "st_tracked_balance t = st_tracked_balance s"
      and "st_initialized s \<noteq> None \<or> st_admin t = st_admin s \<and> st_keeper t = st_keeper s \<and>
             st_guardian t = st_guardian s \<and> st_pending_admin t = st_pending_admin s \<or>
           st_admin s \<noteq> None \<or> st_pending_admin s \<noteq> None"
      and "st_initialized t = st_initialized s"
  | (init) "st_initialized s = None" and "strategies_of t = []"
      and "st_tracked_balance t = st_tracked_balance s" and "st_initialized t = Some True"
  | (added) a where "st_admin s \<noteq> None" and "length (strategies_of s) < MAX_STRATEGIES"
      and "a \<notin> set (strategies_of s)" and "strategies_of t = strategies_of s @ [a]"
      and "st_tracked_balance t = (st_tracked_balance s)(a \<mapsto> 0)"
      and "st_initialized t = st_initialized s"
  | (removed) a where "st_admin s \<noteq> None"
      and "strategies_of t = filter (\<lambda>b. b \<noteq> a) (strategies_of s)"
      and "st_tracked_balance t = (st_tracked_balance s)(a := None)"
      and "st_initialized t = st_initialized s"
  | (retracked) "st_initialized s \<noteq> None \<or> st_admin s \<noteq> None \<or> st_keeper s \<noteq> None \<or>
        st_guardian s \<noteq> None"
      and "strategies_of t = strategies_of s"
      and "\<forall>a. a \<notin> set (strategies_of s) \<longrightarrow> st_tracked_balance t a = st_tracked_balance s a"
      and "\<forall>a. 0 \<le> tracked_of s a \<longrightarrow> 0 \<le> tracked_of t a"
      and "st_initialized t = st_initialized s"
proof (cases c)
  case CallInitialize
  with assms show ?thesis
    by (auto dest!: unit_result_success initialize_success intro: init)
next
  case (CallDeposit a n)
  with assms show ?thesis
    by (auto dest!: int_result_success elim!: deposit_success intro: same)
next
  case (CallRedeem a n)
  with assms show ?thesis
    by (auto dest!: int_result_success elim!: redeem_success intro: retracked)
next
  case (CallAddStrategy caller a)
  with assms show ?thesis
    by (auto dest!: unit_result_success add_strategy_success intro: added)
next
  case (CallRemoveStrategy caller a)
  with assms show ?thesis
    by (auto dest!: unit_result_success remove_strategy_success intro: removed)
next
  case (CallAllocate keeper a n)
  with assms show ?thesis
    by (auto dest!: unit_result_success elim!: allocate_success intro!: retracked)
next
  case (CallDeallocate keeper a n)
  with assms show ?thesis
    by (auto dest!: int_result_success deallocate_success intro!: retracked)
next
  case (CallEmergencyWithdrawStrategy caller a)
  with assms show ?thesis
    by (auto dest!: int_result_success emergency_withdraw_success intro!: retracked)
next
  case (CallUpdateTrackedBalance keeper a n)
  with assms show ?thesis
    by (auto dest!: unit_result_success update_tracked_success intro!: retracked)
next
  case CallCollectFees
  with assms show ?thesis
    by (auto dest!: int_result_success elim!: collect_fees_success intro: same)
qed (use assms in \<open>auto dest!: unit_result_success entry_success intro: same\<close>)

lemma exec_strategies_inv:
  "exec T C e c s = Inr (v, t) \<Longrightarrow> strategies_inv s \<Longrightarrow> strategies_inv t"
  by (erule exec_strategy_cases)
    (auto simp: strategies_inv_def intro: order_trans [OF length_filter_le])

theorem reachable_config_inv: "reachable s \<Longrightarrow> config_inv s"
  by (erule reachable_invariant)
    (auto simp: config_inv_def deployed_def DEFAULT_UPGRADE_DELAY_def MIN_UPGRADE_DELAY_def
      dest: exec_config_inv [unfolded config_inv_def])

theorem reachable_strategies_inv: "reachable s \<Longrightarrow> strategies_inv s"
  by (erule reachable_invariant)
    (auto simp: strategies_inv_def deployed_def dest: exec_strategies_inv [unfolded strategies_inv_def])

section \<open>Governance\<close>

text \<open>Everything a depositor trusts to be the admin's decision, the code included.\<close>

definition governance :: "'x vault \<Rightarrow> _" where
  "governance s =
     ((st_admin s, st_pending_admin s, st_keeper s, st_guardian s),
      (st_asset s, st_fee_recipient s, st_performance_fee_bps s, st_idle_buffer_bps s),
      (st_deposit_cap s, st_strategies s, st_bridged_max_age s, st_upgrade_delay s),
      (st_scheduled_upgrade_hash s, st_scheduled_upgrade_at s, code_hash s),
      (st_initialized s, st_vault_name s, st_vault_symbol s))"

text \<open>What is set once, at initialization: no entry point writes these afterwards.\<close>

definition charter :: "'x vault \<Rightarrow> _" where
  "charter s = (st_initialized s, st_asset s, st_fee_recipient s, st_performance_fee_bps s,
     st_idle_buffer_bps s, st_vault_name s, st_vault_symbol s)"

lemma governance_log_ttl [simp]: "governance (log_ttl rs s) = governance s"
  by (simp add: governance_def)

lemma exec_governance_cases:
  assumes "exec T C e c s = Inr (v, t)"
  obtains (same) "governance t = governance s"
  | (init) "st_initialized s = None"
  | (by_admin) a where "st_admin s = Some a" and "authorised e a" and "charter t = charter s"
  | (accepted) p where "st_pending_admin s = Some p" and "authorised e p"
      and "c = CallAcceptAdmin p" and "st_admin t = Some p" and "charter t = charter s"
proof (cases c)
  case CallInitialize
  with assms show ?thesis
    by (auto dest!: unit_result_success initialize_success intro: init)
next
  case (CallAcceptAdmin p)
  with assms show ?thesis
    by (auto dest!: unit_result_success accept_admin_success simp: charter_def intro: accepted)
next
  case (CallDeposit a n)
  with assms show ?thesis
    by (auto dest!: int_result_success elim!: deposit_success simp: governance_def intro!: same)
next
  case (CallRedeem a n)
  with assms show ?thesis
    by (auto dest!: int_result_success elim!: redeem_success simp: governance_def intro!: same)
next
  case CallCollectFees
  with assms show ?thesis
    by (auto dest!: int_result_success elim!: collect_fees_success simp: governance_def intro!: same)
next
  case CallAllocate
  with assms show ?thesis
    by (auto dest!: unit_result_success elim!: allocate_success simp: governance_def intro!: same)
next
  case CallEmergencyWithdrawStrategy
  with assms show ?thesis
    by (auto dest!: int_result_success emergency_withdraw_success simp: governance_def intro!: same)
next
  case CallPause
  with assms show ?thesis
    by (auto dest!: unit_result_success pause_success simp: governance_def intro!: same)
qed (use assms in \<open>fastforce dest!: unit_result_success int_result_success entry_success
      simp: governance_def charter_def intro: same by_admin\<close>)+

section \<open>Upgrades\<close>

definition timelock_inv :: "'x vault \<Rightarrow> bool" where
  "timelock_inv s \<longleftrightarrow> (\<forall>h at. scheduled_of s = Some (h, at) \<longrightarrow>
     (\<exists>after. UpgradeScheduled h after \<in> set (event_log s) \<and> at + MIN_UPGRADE_DELAY \<le> after))"

lemma exec_events: "exec T C e c s = Inr (v, t) \<Longrightarrow> \<exists>evs. event_log t = event_log s @ evs"
  by (cases c; fastforce dest: unit_result_success int_result_success entry_success
      elim: entry_elims)

lemma exec_schedule_cases:
  assumes "exec T C e c s = Inr (v, t)"
  obtains (same) "scheduled_of t = scheduled_of s" and "code_hash t = code_hash s"
  | (cleared) "scheduled_of t = None"
  | (scheduled) h where "scheduled_of t = Some (h, ledger_timestamp e)"
      and "UpgradeScheduled h (ledger_timestamp e + upgrade_delay_of s) \<in> set (event_log t)"
      and "code_hash t = code_hash s"
proof (cases c)
  case CallInitialize
  with assms show ?thesis
    by (auto dest!: unit_result_success initialize_success simp: scheduled_of_def intro: same)
next
  case (CallDeposit a n)
  with assms show ?thesis
    by (auto dest!: int_result_success elim!: deposit_success simp: scheduled_of_def intro!: same)
next
  case (CallRedeem a n)
  with assms show ?thesis
    by (auto dest!: int_result_success elim!: redeem_success simp: scheduled_of_def intro!: same)
next
  case CallCollectFees
  with assms show ?thesis
    by (auto dest!: int_result_success elim!: collect_fees_success simp: scheduled_of_def intro!: same)
next
  case CallAllocate
  with assms show ?thesis
    by (auto dest!: unit_result_success elim!: allocate_success simp: scheduled_of_def intro!: same)
next
  case CallScheduleUpgrade
  with assms show ?thesis
    by (auto dest!: unit_result_success schedule_upgrade_success simp: scheduled_of_def
        intro!: scheduled)
next
  case CallExecuteUpgrade
  with assms show ?thesis
    by (auto dest!: unit_result_success execute_upgrade_success simp: scheduled_of_def intro!: cleared)
next
  case CallCancelUpgrade
  with assms show ?thesis
    by (auto dest!: unit_result_success cancel_upgrade_success simp: scheduled_of_def intro!: cleared)
qed (use assms in \<open>fastforce dest!: unit_result_success int_result_success entry_success
      simp: scheduled_of_def intro: same\<close>)+

lemma exec_timelock_inv:
  assumes "exec T C e c s = Inr (v, t)" and "config_inv s" and "timelock_inv s"
  shows "timelock_inv t"
  using assms(1)
proof (cases rule: exec_schedule_cases)
  case same
  from exec_events [OF assms(1)] obtain evs where "event_log t = event_log s @ evs" ..
  with same assms(3) show ?thesis by (fastforce simp: timelock_inv_def)
next
  case cleared
  then show ?thesis by (simp add: timelock_inv_def)
next
  case (scheduled h)
  with assms(2) show ?thesis by (auto simp: timelock_inv_def config_inv_def)
qed

theorem reachable_timelock_inv: "reachable s \<Longrightarrow> timelock_inv s"
proof -
  assume "reachable s"
  then have "config_inv s \<and> timelock_inv s"
    by (rule reachable_invariant)
      (auto simp: timelock_inv_def scheduled_of_def deployed_def config_inv_def
        DEFAULT_UPGRADE_DELAY_def MIN_UPGRADE_DELAY_def
        dest: exec_config_inv [unfolded config_inv_def] exec_timelock_inv)
  then show ?thesis ..
qed

end
