(* ===== verification/ShareToken.thy ===== *)
theory ShareToken
  imports VaultSystem
begin

text \<open>
  The vault's own shares as a token: the client other contracts get for the vault's address, and
  the interpretation of the token interface on it. The vault has no \<^verbatim>\<open>approve\<close> entry
  point, so a call to it traps.
\<close>

definition run_option :: "('s, 'e, 'r) operation \<Rightarrow> 's \<Rightarrow> ('r \<times> 's) option" where
  "run_option m s = (case m s of Inl _ \<Rightarrow> None | Inr r \<Rightarrow> Some r)"

lemma run_option_Some [simp]: "run_option m s = Some r \<longleftrightarrow> m s = Inr r"
  by (simp add: run_option_def split: sum.splits)

definition share_token :: "env \<Rightarrow> 'x vault token_client" where
  "share_token e =
     \<lparr>token_balance = (\<lambda>_ a. run_option (balance a)),
      token_transfer = (\<lambda>_ from to n. run_option (transfer e from to n)),
      token_approve = (\<lambda>_ _ _ _ _ _. None)\<rparr>"

definition shares_wf :: "'x vault \<Rightarrow> bool" where
  "shares_wf s \<longleftrightarrow> (\<forall>a. 0 \<le> shares_of s a)"

interpretation share_ledger: sep41 "share_token e" asset "\<lambda>s a. shares_of s a" shares_wf for e asset
proof (unfold_locales, goal_cases)
  case (1 x a v y)
  then show ?case by (auto simp: share_token_def balance_def op_success shares_wf_def)
next
  case (2 x a b n u y)
  then show ?case
    by (auto simp: share_token_def shares_wf_def lookup0_moved fun_eq_iff dest!: transfer_success)
next
  case (3 x a b n u y)
  then show ?case by (auto simp: share_token_def dest!: transfer_success)
next
  case (4 x a)
  then show ?case by (simp add: shares_wf_def)
qed

end
