(* ===== verification/VaultEconomics.thy ===== *)
theory VaultEconomics
  imports ShareToken
begin

text \<open>
  What deposits and redemptions do to the value of a share. The asset token is anything that
  satisfies \<open>sep41\<close>; the strategies are anything that satisfies \<open>strategy_net\<close>, the part of the
  strategy interface the vault relies on. The backing of the vault is what
  \<^verbatim>\<open>total_assets\<close> would return.
\<close>

section \<open>Pricing arithmetic\<close>

lemma priced_nonneg: "0 \<le> x \<Longrightarrow> 0 \<le> p \<Longrightarrow> 0 \<le> q \<Longrightarrow>
    priced x p q = x * (p + VIRTUAL_SHARES_OFFSET) div (q + VIRTUAL_SHARES_OFFSET)"
  by (simp add: priced_def sdiv_nonneg VIRTUAL_SHARES_OFFSET_def)

lemma priced_lower:
  assumes "0 \<le> x" and "0 \<le> p" and "0 \<le> q"
  shows "priced x p q * (q + VIRTUAL_SHARES_OFFSET) \<le> x * (p + VIRTUAL_SHARES_OFFSET)"
  using assms by (simp add: priced_nonneg div_mult_le_self VIRTUAL_SHARES_OFFSET_def)

lemma priced_upper:
  assumes "0 \<le> x" and "0 \<le> p" and "0 \<le> q"
  shows "x * (p + VIRTUAL_SHARES_OFFSET) < (priced x p q + 1) * (q + VIRTUAL_SHARES_OFFSET)"
  using assms by (simp add: priced_nonneg less_div_mult_self VIRTUAL_SHARES_OFFSET_def)

lemma priced_ge_zero: "0 \<le> x \<Longrightarrow> 0 \<le> p \<Longrightarrow> 0 \<le> q \<Longrightarrow> 0 \<le> priced x p q"
  by (simp add: priced_nonneg pos_imp_zdiv_nonneg_iff VIRTUAL_SHARES_OFFSET_def)

text \<open>What is bought with \<open>a\<close> units and sold at once returns at most \<open>a\<close> units.\<close>

lemma priced_round_trip:
  assumes "0 \<le> a" and "0 \<le> A" and "0 \<le> S" and "n = priced a S A"
  shows "priced n (A + a) (S + n) \<le> a"
proof -
  let ?O = VIRTUAL_SHARES_OFFSET
  have n: "0 \<le> n" using assms by (simp add: priced_ge_zero)
  have "n * (A + ?O) \<le> a * (S + ?O)" using assms priced_lower [of a S A] by simp
  then have le: "n * (A + a + ?O) \<le> a * (S + n + ?O)" by (simp add: algebra_simps)
  have pos: "0 < S + n + ?O" using assms n by (simp add: VIRTUAL_SHARES_OFFSET_def)
  have "priced n (A + a) (S + n) * (S + n + ?O) \<le> n * (A + a + ?O)"
    using priced_lower [of n "A + a" "S + n"] assms n by simp
  with le have "priced n (A + a) (S + n) * (S + n + ?O) \<le> a * (S + n + ?O)" by linarith
  with pos show ?thesis by simp
qed

section \<open>The backing of the shares\<close>

definition backing :: "('x \<Rightarrow> address \<Rightarrow> int) \<Rightarrow> env \<Rightarrow> 'x vault \<Rightarrow> int" where
  "backing bal e s = assets_with_idle e s (bal (outside s) (current_contract e))"

lemma backing_nonneg:
  assumes "reachable s" and "0 \<le> bal (outside s) (current_contract e)"
  shows "0 \<le> backing bal e s"
proof -
  have "0 \<le> tracked_total s"
    using reachable_strategies_inv [OF assms(1)]
    by (auto simp: strategies_inv_def tracked_total_def intro!: sum_list_nonneg)
  moreover have "0 \<le> bridged_at e s"
    using reachable_config_inv [OF assms(1)] by (simp add: config_inv_def bridged_at_def)
  ultimately show ?thesis using assms(2) by (simp add: backing_def assets_with_idle_def)
qed

lemma reachable_supply_nonneg: "reachable s \<Longrightarrow> 0 \<le> supply_of s"
  using reachable_shares_inv [of s] by (simp add: shares_inv_def map_total_def sum_nonneg)

context sep41
begin

lemma total_assets_backing:
  assumes "wf (outside s)" and "st_asset s = Some asset" and "total_assets T e s = Inr (v, t)"
  shows "v = backing bal e s" and "wf (outside t)" and "bal (outside t) = bal (outside s)"
  using assms(3,2) balance_reads [OF assms(1)]
  by (auto simp: backing_def elim!: total_assets_success)

lemma deposit_effect:
  assumes "deposit T e from n s = Inr (shares, t)" and "st_asset s = Some asset"
    and "wf (outside s)" and "from \<noteq> current_contract e"
  shows "shares = priced n (supply_of s) (backing bal e s) \<and> 0 < shares \<and> 0 < n \<and>
      supply_of t = supply_of s + shares \<and> shares_of t from = shares_of s from + shares \<and>
      backing bal e t = backing bal e s + n \<and> wf (outside t) \<and>
      bal (outside t) from = bal (outside s) from - n"
  using assms(1)
proof (rule deposit_success)
  fix asset' idle x y rs
  assume "st_asset s = Some asset'" and tr: "token_transfer T asset' from (current_contract e) n x = Some ((), y)"
    and rd: "token_balance T asset' (current_contract e) (outside s) = Some (idle, x)"
    and sh: "shares = priced n (supply_of s) (assets_with_idle e s idle)" "0 < shares" "0 < n"
    and t: "t = log_ttl rs (s\<lparr>outside := y,
          st_share_balance := (st_share_balance s)(from \<mapsto> shares_of s from + shares),
          st_total_supply := Some (supply_of s + shares),
          event_log := event_log s @ [Deposit from n shares]\<rparr>)"
  with assms(2) have [simp]: "asset' = asset" by simp
  have x: "idle = bal (outside s) (current_contract e)" "bal x = bal (outside s)" "wf x"
    using balance_reads [OF assms(3)] rd by auto
  have y: "wf y" "bal y = (\<lambda>c. bal x c - (if c = from then n else 0)
      + (if c = current_contract e then n else 0))"
    using transfer_moves [OF x(3)] tr by auto
  show ?thesis
    using sh t x y assms(4)
    by (simp add: backing_def assets_with_idle_def tracked_total_def bridged_at_def
        bridged_expired_def)
qed

end

section \<open>What the vault relies on about its strategies\<close>

text \<open>
  The adapters registered with one vault: asking them for their liquidity or health, or telling
  them to deploy tokens they already hold, moves no tokens of the vault; a withdrawal moves to the
  vault exactly what it reports.
\<close>

locale strategy_net = sep41 T asset bal wf
  for T :: "'x token_client" and asset bal wf +
  fixes C :: "'x strategy_client" and vault :: address and adapters :: "address set"
  assumes liquidity_moves_nothing: "a \<in> adapters \<Longrightarrow> wf x \<Longrightarrow>
      strategy_available_liquidity C a x = Some (v, y) \<Longrightarrow> wf y \<and> bal y vault = bal x vault"
    and health_moves_nothing: "a \<in> adapters \<Longrightarrow> wf x \<Longrightarrow>
      strategy_is_healthy C a x = Some (h, y) \<Longrightarrow> wf y \<and> bal y vault = bal x vault"
    and deposit_moves_nothing: "a \<in> adapters \<Longrightarrow> wf x \<Longrightarrow>
      strategy_deposit C a vault n x = Some (u, y) \<Longrightarrow> wf y \<and> bal y vault = bal x vault"
    and withdraw_delivers: "a \<in> adapters \<Longrightarrow> wf x \<Longrightarrow>
      strategy_withdraw C a vault n x = Some (w, y) \<Longrightarrow>
      0 \<le> w \<and> wf y \<and> bal y vault = bal x vault + w"
    and emergency_delivers: "a \<in> adapters \<Longrightarrow> wf x \<Longrightarrow>
      strategy_emergency_withdraw C a vault x = Some (w, y) \<Longrightarrow>
      0 \<le> w \<and> wf y \<and> bal y vault = bal x vault + w"
    and vault_no_adapter: "vault \<notin> adapters"
begin

abbreviation held :: "address list \<Rightarrow> 'x vault \<Rightarrow> int" where
  "held L s \<equiv> bal (outside s) vault + (\<Sum>a\<leftarrow>L. tracked_of s a)"

lemma pull_held:
  assumes "distinct L" and "a \<in> set L" and "a \<in> adapters" and "wf (outside s)"
    and "0 \<le> tracked_of s a"
    and "strategy_withdraw C a vault n (outside s) = Some (w, y)"
    and "untrack a w (s\<lparr>outside := y\<rparr>) = Inr (u, t)"
  shows "wf (outside t) \<and> held L s \<le> held L t \<and> bal (outside t) vault = bal (outside s) vault + w \<and>
      0 \<le> w \<and> (w \<le> tracked_of s a \<longrightarrow> held L t = held L s)"
proof -
  have w: "0 \<le> w" "wf y" "bal y vault = bal (outside s) vault + w"
    using withdraw_delivers [OF assms(3,4,6)] by auto
  obtain rs where t: "t = log_ttl rs (s\<lparr>outside := y, st_tracked_balance := (st_tracked_balance s)
      (a \<mapsto> (if w > tracked_of s a then 0 else tracked_of s a - w))\<rparr>)"
    using untrack_success [OF assms(7)] by auto
  have "(\<Sum>b\<leftarrow>L. tracked_of t b) = (\<Sum>b\<leftarrow>L. tracked_of s b) - tracked_of s a + tracked_of t a"
    by (rule sum_list_update_one [OF assms(1,2)]) (simp add: t)
  moreover have "tracked_of t a = max 0 (tracked_of s a - w)" by (simp add: t)
  ultimately have "(\<Sum>b\<leftarrow>L. tracked_of t b) =
      (\<Sum>b\<leftarrow>L. tracked_of s b) - tracked_of s a + max 0 (tracked_of s a - w)" by simp
  moreover have "outside t = y" by (simp add: t)
  ultimately show ?thesis using w assms(5) by auto
qed

lemma waterfall_held:
  "waterfall C vault ss r s = Inr (u, t) \<Longrightarrow> wf (outside s) \<Longrightarrow> distinct L \<Longrightarrow>
     set ss \<subseteq> set L \<Longrightarrow> set ss \<subseteq> adapters \<Longrightarrow> \<forall>a. 0 \<le> tracked_of s a \<Longrightarrow>
     wf (outside t) \<and> held L s \<le> held L t"
proof (induction ss arbitrary: r s)
  case Nil
  then show ?case by (auto simp: op_success)
next
  case (Cons a ss)
  have a: "a \<in> adapters" "a \<in> set L" using Cons.prems(4,5) by auto
  from Cons.prems(1) show ?case
  proof (cases rule: waterfall_cons_cases)
    case finished
    with Cons.prems(2) show ?thesis by simp
  next
    case (skipped v x)
    with Cons.IH [OF skipped(4)] liquidity_moves_nothing [OF a(1) Cons.prems(2) skipped(2)]
      Cons.prems(3-6)
    show ?thesis by auto
  next
    case (pulled v x w y q)
    have x: "wf x" "bal x vault = bal (outside s) vault"
      using liquidity_moves_nothing [OF a(1) Cons.prems(2) pulled(2)] by auto
    have q: "wf (outside q) \<and> held L (s\<lparr>outside := x\<rparr>) \<le> held L q"
      using pull_held [of L a "s\<lparr>outside := x\<rparr>" "min r v" w y "()" q] Cons.prems(3,6) a x
        pulled(4,5) by auto
    have "\<forall>b. 0 \<le> tracked_of q b"
      using untrack_success [OF pulled(5)] Cons.prems(6) by auto
    with Cons.IH [OF pulled(6)] q Cons.prems(3-5) x show ?thesis by auto
  qed
qed

lemma cover_shortfall_held:
  assumes "cover_shortfall T C asset vault idle n s = Inr (u, t)" and "wf (outside s)"
    and "distinct (strategies_of s)" and "set (strategies_of s) \<subseteq> adapters"
    and "\<forall>a. 0 \<le> tracked_of s a"
  shows "wf (outside t) \<and> held (strategies_of s) s \<le> held (strategies_of s) t"
  using assms(1)
proof (cases rule: cover_shortfall_success)
  case idle
  with assms(2) show ?thesis by simp
next
  case (pulled v s' after x)
  have "wf (outside s') \<and> held (strategies_of s) s \<le> held (strategies_of s) s'"
    using waterfall_held [OF pulled(2) assms(2,3) _ assms(4,5)] by simp
  with balance_reads [OF _ pulled(3)] pulled(5) show ?thesis by auto
qed

lemma backing_held:
  "current_contract e = vault \<Longrightarrow> backing bal e s = held (strategies_of s) s + bridged_at e s"
  by (simp add: backing_def assets_with_idle_def tracked_total_def)

text \<open>A redemption takes out of the backing at most what it pays.\<close>

lemma redeem_effect:
  assumes "redeem T C e from n s = Inr (assets, t)" and "current_contract e = vault"
    and "st_asset s = Some asset" and "wf (outside s)" and "strategies_inv s"
    and "set (strategies_of s) \<subseteq> adapters" and "from \<noteq> vault"
  shows "assets = priced n (backing bal e s) (supply_of s) \<and> 0 < assets \<and> 0 < n \<and>
      n \<le> shares_of s from \<and> supply_of t = supply_of s - n \<and>
      shares_of t from = shares_of s from - n \<and>
      backing bal e s - assets \<le> backing bal e t \<and> wf (outside t)"
  using assms(1)
proof (rule redeem_steps)
  fix asset' s1 idle x s2 u y rs0
  assume ok: "0 < assets" "0 < n" "n \<le> shares_of s from" and as: "st_asset s = Some asset'"
    and conv: "convert_to_assets T e n (log_ttl rs0 s) = Inr (assets, s1)"
    and idle: "token_balance T asset' (current_contract e) (outside s1) = Some (idle, x)"
    and cover: "cover_shortfall T C asset' (current_contract e) idle assets (s1\<lparr>outside := x\<rparr>) = Inr (u, s2)"
    and tr: "token_transfer T asset' (current_contract e) from assets (outside s2) = Some ((), y)"
    and t: "\<exists>rs. t = log_ttl rs (s2\<lparr>
          st_share_balance := (st_share_balance s2)(from \<mapsto> shares_of s from - n),
          st_total_supply := Some (supply_of s2 - n), outside := y,
          event_log := event_log s2 @ [Redeem from n assets]\<rparr>)"
  have [simp]: "asset' = asset" using as assms(3) by simp
  from conv obtain i0 x0 rs1 where c: "token_balance T asset vault (outside s) = Some (i0, x0)"
      "assets = priced n (assets_with_idle e s i0) (supply_of s)" "s1 = log_ttl rs1 (s\<lparr>outside := x0\<rparr>)"
    using assms(2,3) by (auto elim!: convert_to_assets_success)
  have x0: "i0 = bal (outside s) vault" "bal x0 = bal (outside s)" "wf x0"
    using balance_reads [OF assms(4) c(1)] by auto
  have x: "bal x = bal (outside s)" "wf x"
    using balance_reads [of x0 vault idle x] x0 idle c(3) assms(2) by auto
  have w: "wf (outside s2) \<and> held (strategies_of s) (s\<lparr>outside := x\<rparr>) \<le> held (strategies_of s) s2"
    using cover_shortfall_held [of idle assets "s1\<lparr>outside := x\<rparr>" u s2] cover c(3) x assms
    by (simp add: strategies_inv_def)
  have y: "wf y \<and> bal y vault = bal (outside s2) vault - assets"
    using transfer_moves [of "outside s2" vault "from" assets "()" y] w tr assms(2,7) by simp
  from cover_shortfall_retracked [OF cover] c(3) obtain rs2 x2 m where
    s2: "s2 = log_ttl rs2 (s\<lparr>st_tracked_balance := m, outside := x2\<rparr>)"
    by (auto simp: retracked_def)
  from t s2 obtain rs where t': "t = log_ttl rs (s\<lparr>st_tracked_balance := m,
          st_share_balance := (st_share_balance s)(from \<mapsto> shares_of s from - n),
          st_total_supply := Some (supply_of s - n), outside := y,
          event_log := event_log s @ [Redeem from n assets]\<rparr>)" by auto
  have "backing bal e t = held (strategies_of s) s2 - assets + bridged_at e s"
    using y s2 t' by (simp add: backing_held [OF assms(2)] bridged_at_def bridged_expired_def)
  with w x y ok c(2) x0 t' show ?thesis
    by (simp add: backing_held [OF assms(2)] assets_with_idle_def tracked_total_def)
qed

text \<open>The keeper's moves between the vault and a strategy.\<close>

lemma allocate_effect:
  assumes "allocate T C e keeper a n s = Inr (u, t)" and "current_contract e = vault"
    and "st_asset s = Some asset" and "wf (outside s)" and "strategies_inv s"
    and "set (strategies_of s) \<subseteq> adapters"
  shows "backing bal e t = backing bal e s \<and> wf (outside t) \<and> 0 < n \<and>
      bal (outside t) vault = bal (outside s) vault - n \<and>
      min_idle_of e s (bal (outside s) vault) \<le> bal (outside t) vault"
  using assms(1)
proof (rule allocate_success)
  fix asset' idle idle' x y z v w rs
  assume "st_asset s = Some asset'" and n: "0 < n" and a: "a \<in> set (strategies_of s)"
    and rd: "token_balance T asset' (current_contract e) (outside s) = Some (idle, x)"
      "token_balance T asset' (current_contract e) x = Some (idle', y)"
    and buffer: "min_idle_of e s idle' \<le> idle - n"
    and hl: "strategy_is_healthy C a y = Some (True, z)"
    and tr: "token_transfer T asset' (current_contract e) a n z = Some ((), v)"
    and dp: "strategy_deposit C a (current_contract e) n v = Some ((), w)"
    and t: "t = log_ttl rs (s\<lparr>outside := w,
          st_tracked_balance := (st_tracked_balance s)(a \<mapsto> tracked_of s a + n),
          event_log := event_log s @ [Allocate a n]\<rparr>)"
  then have [simp]: "asset' = asset" using assms(3) by simp
  have a': "a \<in> adapters" "a \<noteq> vault" using a assms(6) vault_no_adapter by auto
  have x: "idle = bal (outside s) vault \<and> bal x = bal (outside s) \<and> wf x"
    using balance_reads [OF assms(4)] rd(1) assms(2) by simp
  then have y: "idle' = bal (outside s) vault \<and> bal y = bal (outside s) \<and> wf y"
    using balance_reads [of x vault idle' y] rd(2) assms(2) by simp
  then have z: "wf z \<and> bal z vault = bal (outside s) vault"
    using health_moves_nothing [OF a'(1) _ hl] by simp
  then have "wf v \<and> bal v vault = bal (outside s) vault - n"
    using transfer_moves [of z vault a n "()" v] tr assms(2) a'(2) by simp
  then have w: "wf w \<and> bal w vault = bal (outside s) vault - n"
    using deposit_moves_nothing [OF a'(1) _ dp [unfolded assms(2)]] by simp
  have "(\<Sum>b\<leftarrow>strategies_of s. tracked_of t b) =
      (\<Sum>b\<leftarrow>strategies_of s. tracked_of s b) - tracked_of s a + tracked_of t a"
    using assms(5) a by (intro sum_list_update_one) (auto simp: t strategies_inv_def)
  with w have "held (strategies_of s) t = held (strategies_of s) s" by (simp add: t)
  with x y w n buffer show ?thesis
    by (simp add: t backing_held [OF assms(2)] bridged_at_def bridged_expired_def)
qed

lemma deallocate_effect:
  assumes "deallocate C e keeper a n s = Inr (w, t)" and "current_contract e = vault"
    and "wf (outside s)" and "strategies_inv s" and "set (strategies_of s) \<subseteq> adapters"
  shows "bal (outside t) vault = bal (outside s) vault + w \<and> 0 \<le> w \<and> wf (outside t) \<and>
      backing bal e t = backing bal e s + (if w > tracked_of s a then w - tracked_of s a else 0)"
proof -
  from deallocate_success [OF assms(1)] assms(2) obtain rs x where a: "a \<in> set (strategies_of s)"
    and wd: "strategy_withdraw C a vault n (outside s) = Some (w, x)"
    and t: "t = log_ttl rs (s\<lparr>outside := x, st_tracked_balance := (st_tracked_balance s)
          (a \<mapsto> (if w > tracked_of s a then 0 else tracked_of s a - w)),
        event_log := event_log s @ [Deallocate a w]\<rparr>)" by auto
  have x: "0 \<le> w \<and> wf x \<and> bal x vault = bal (outside s) vault + w"
    using withdraw_delivers [OF _ assms(3) wd] a assms(5) by auto
  have "(\<Sum>b\<leftarrow>strategies_of s. tracked_of t b) =
      (\<Sum>b\<leftarrow>strategies_of s. tracked_of s b) - tracked_of s a + tracked_of t a"
    using assms(4) a by (intro sum_list_update_one) (auto simp: t strategies_inv_def)
  with x show ?thesis
    by (simp add: t backing_held [OF assms(2)] bridged_at_def bridged_expired_def)
qed

lemma emergency_effect:
  assumes "emergency_withdraw_strategy C e caller a s = Inr (w, t)" and "current_contract e = vault"
    and "wf (outside s)" and "strategies_inv s" and "set (strategies_of s) \<subseteq> adapters"
  shows "bal (outside t) vault = bal (outside s) vault + w \<and> 0 \<le> w \<and> wf (outside t) \<and>
      tracked_of t a = 0 \<and> backing bal e t = backing bal e s - tracked_of s a + w"
proof -
  from emergency_withdraw_success [OF assms(1)] assms(2) obtain rs x where
    a: "a \<in> set (strategies_of s)"
    and wd: "strategy_emergency_withdraw C a vault (outside s) = Some (w, x)"
    and t: "t = log_ttl rs (s\<lparr>outside := x, st_tracked_balance := (st_tracked_balance s)(a \<mapsto> 0),
        event_log := event_log s @ [Deallocate a w]\<rparr>)" by auto
  have x: "0 \<le> w \<and> wf x \<and> bal x vault = bal (outside s) vault + w"
    using emergency_delivers [OF _ assms(3) wd] a assms(5) by auto
  have "(\<Sum>b\<leftarrow>strategies_of s. tracked_of t b) =
      (\<Sum>b\<leftarrow>strategies_of s. tracked_of s b) - tracked_of s a + tracked_of t a"
    using assms(4) a by (intro sum_list_update_one) (auto simp: t strategies_inv_def)
  with x show ?thesis
    by (simp add: t backing_held [OF assms(2)] bridged_at_def bridged_expired_def)
qed

end

section \<open>The share price\<close>

text \<open>Buying or selling at \<open>priced\<close> never lowers \<open>(A + O) / (S + O)\<close>.\<close>

lemma buy_keeps_price:
  assumes "0 \<le> n" and "0 \<le> A" and "0 \<le> S" and "k = priced n S A" and "A + n \<le> B"
  shows "(A + VIRTUAL_SHARES_OFFSET) * (S + k + VIRTUAL_SHARES_OFFSET)
    \<le> (B + VIRTUAL_SHARES_OFFSET) * (S + VIRTUAL_SHARES_OFFSET)"
proof -
  let ?O = VIRTUAL_SHARES_OFFSET
  have "k * (A + ?O) \<le> n * (S + ?O)" using assms priced_lower [of n S A] by simp
  then have "(A + ?O) * (S + k + ?O) \<le> (A + n + ?O) * (S + ?O)" by (simp add: algebra_simps)
  also have "\<dots> \<le> (B + ?O) * (S + ?O)"
    using assms by (intro mult_right_mono) (auto simp: VIRTUAL_SHARES_OFFSET_def)
  finally show ?thesis .
qed

lemma sell_keeps_price:
  assumes "0 \<le> n" and "0 \<le> A" and "0 \<le> S" and "k = priced n A S" and "A - k \<le> B"
  shows "(A + VIRTUAL_SHARES_OFFSET) * (S - n + VIRTUAL_SHARES_OFFSET)
    \<le> (B + VIRTUAL_SHARES_OFFSET) * (S + VIRTUAL_SHARES_OFFSET)"
proof -
  let ?O = VIRTUAL_SHARES_OFFSET
  have "k * (S + ?O) \<le> n * (A + ?O)" using assms priced_lower [of n A S] by simp
  then have "(A + ?O) * (S - n + ?O) \<le> (A - k + ?O) * (S + ?O)" by (simp add: algebra_simps)
  also have "\<dots> \<le> (B + ?O) * (S + ?O)"
    using assms by (intro mult_right_mono) (auto simp: VIRTUAL_SHARES_OFFSET_def)
  finally show ?thesis .
qed

end
