(* ===== verification/MockStrategy.thy ===== *)
theory MockStrategy
  imports Common
begin

text \<open>
  The contract \<^verbatim>\<open>mock-strategy\<close>: the strategy adapter the vault is tested against. It
  holds the tokens it is given and tracks them in one balance, which its admin can change to
  simulate yield. One record field per variant of its \<^verbatim>\<open>DataKey\<close>, one definition per entry
  point, and the state each successful call leaves behind.
\<close>

section \<open>Storage and events\<close>

datatype mock_key = MkInitialized | MkAdmin | MkVault | MkAsset | MkBalance | MkHealthy

datatype mock_event = MockDeposit int | MockWithdraw int | MockEmergencyWithdraw int

record 'x mock = "(mock_key, mock_event, 'x) runtime" +
  mk_initialized :: "bool option"
  mk_admin :: "address option"
  mk_vault :: "address option"
  mk_asset :: "address option"
  mk_balance :: "int option"
  mk_healthy :: "bool option"

definition mock_deployed :: "bytes_n32 \<Rightarrow> 'x \<Rightarrow> 'x mock" where
  "mock_deployed h x = \<lparr>ttl_log = [], event_log = [], code_hash = h, outside = x,
     mk_initialized = None, mk_admin = None, mk_vault = None, mk_asset = None, mk_balance = None,
     mk_healthy = None\<rparr>"

abbreviation mock_balance_of_state :: "'x mock \<Rightarrow> int" where
  "mock_balance_of_state s \<equiv> unwrap_or (mk_balance s) 0"

lemma log_ttl_mock_fields [simp]:
  "mk_initialized (log_ttl rs s) = mk_initialized s"
  "mk_admin (log_ttl rs s) = mk_admin s"
  "mk_vault (log_ttl rs s) = mk_vault s"
  "mk_asset (log_ttl rs s) = mk_asset s"
  "mk_balance (log_ttl rs s) = mk_balance s"
  "mk_healthy (log_ttl rs s) = mk_healthy s"
  by (simp_all add: log_ttl_def)

lemma log_ttl_mock_updates [simp]:
  "(log_ttl rs s)\<lparr>mk_initialized := v_mk_initialized\<rparr> = log_ttl rs (s\<lparr>mk_initialized := v_mk_initialized\<rparr>)"
  "(log_ttl rs s)\<lparr>mk_admin := v_mk_admin\<rparr> = log_ttl rs (s\<lparr>mk_admin := v_mk_admin\<rparr>)"
  "(log_ttl rs s)\<lparr>mk_vault := v_mk_vault\<rparr> = log_ttl rs (s\<lparr>mk_vault := v_mk_vault\<rparr>)"
  "(log_ttl rs s)\<lparr>mk_asset := v_mk_asset\<rparr> = log_ttl rs (s\<lparr>mk_asset := v_mk_asset\<rparr>)"
  "(log_ttl rs s)\<lparr>mk_balance := v_mk_balance\<rparr> = log_ttl rs (s\<lparr>mk_balance := v_mk_balance\<rparr>)"
  "(log_ttl rs s)\<lparr>mk_healthy := v_mk_healthy\<rparr> = log_ttl rs (s\<lparr>mk_healthy := v_mk_healthy\<rparr>)"
  "(log_ttl rs s)\<lparr>event_log := v_ev\<rparr> = log_ttl rs (s\<lparr>event_log := v_ev\<rparr>)"
  "(log_ttl rs s)\<lparr>outside := v_out\<rparr> = log_ttl rs (s\<lparr>outside := v_out\<rparr>)"
  for s :: "'x mock"
  by (simp_all add: log_ttl_def)

type_synonym ('x, 'a) mock_op = "('x mock, strategy_error, 'a) operation"

text \<open>The balance entry: \<^verbatim>\<open>persistent().set(&key, ..)\<close> followed by its lifetime request.\<close>

definition put_mock_balance :: "int \<Rightarrow> ('x, unit) mock_op" where
  "put_mock_balance v =
     bind (modify (\<lambda>s. s\<lparr>mk_balance := Some v\<rparr>)) (\<lambda>_. bump_persistent MkBalance)"

lemma put_mock_balance_success [op_success]:
  "put_mock_balance v s = Inr (u, t) \<longleftrightarrow>
     t = log_ttl [persistent_request MkBalance] (s\<lparr>mk_balance := Some v\<rparr>)"
  by (simp add: put_mock_balance_def op_success)

section \<open>Entry points\<close>

definition mock_require_vault :: "address \<Rightarrow> ('x, unit) mock_op" where
  "mock_require_vault caller =
     bind (gets mk_vault) (\<lambda>v. bind (unwrap v) (\<lambda>vault. raise_if (caller \<noteq> vault) Unauthorized))"

definition mock_require_admin :: "address \<Rightarrow> ('x, unit) mock_op" where
  "mock_require_admin caller =
     bind (gets mk_admin) (\<lambda>v. bind (unwrap v) (\<lambda>admin. raise_if (caller \<noteq> admin) Unauthorized))"

definition mock_initialize :: "address \<Rightarrow> address \<Rightarrow> address \<Rightarrow> ('x, unit) mock_op" where
  "mock_initialize admin vault asset =
     bind (gets mk_initialized) (\<lambda>i.
     bind (raise_if (i \<noteq> None) AlreadyInitialized) (\<lambda>_.
     bind (modify (\<lambda>s. s\<lparr>mk_initialized := Some True\<rparr>)) (\<lambda>_.
     bind (modify (\<lambda>s. s\<lparr>mk_admin := Some admin\<rparr>)) (\<lambda>_.
     bind (modify (\<lambda>s. s\<lparr>mk_vault := Some vault\<rparr>)) (\<lambda>_.
     bind (modify (\<lambda>s. s\<lparr>mk_asset := Some asset\<rparr>)) (\<lambda>_.
     bind (modify (\<lambda>s. s\<lparr>mk_healthy := Some True\<rparr>)) (\<lambda>_.
     bind (put_mock_balance 0) (\<lambda>_.
     bump_instance))))))))"

definition mock_deposit :: "env \<Rightarrow> address \<Rightarrow> int \<Rightarrow> ('x, unit) mock_op" where
  "mock_deposit e caller amount =
     bind (require_auth e caller) (\<lambda>_.
     bind (mock_require_vault caller) (\<lambda>_.
     bind (raise_if (amount \<le> 0) ZeroAmount) (\<lambda>_.
     bind (gets mock_balance_of_state) (\<lambda>balance.
     bind (add_i128 balance amount) (\<lambda>new_balance.
     bind (put_mock_balance new_balance) (\<lambda>_.
     bind (publish (MockDeposit amount)) (\<lambda>_.
     bump_instance)))))))"

definition mock_withdraw :: "'x token_client \<Rightarrow> env \<Rightarrow> address \<Rightarrow> int \<Rightarrow> ('x, int) mock_op" where
  "mock_withdraw T e caller amount =
     bind (require_auth e caller) (\<lambda>_.
     bind (mock_require_vault caller) (\<lambda>_.
     bind (raise_if (amount \<le> 0) ZeroAmount) (\<lambda>_.
     bind (gets mock_balance_of_state) (\<lambda>balance.
     let withdraw_amount = (if amount > balance then balance else amount) in
     bind (raise_if (withdraw_amount = 0) InsufficientBalance) (\<lambda>_.
     bind (gets mk_asset) (\<lambda>v. bind (unwrap v) (\<lambda>asset.
     bind (external_call (token_transfer T asset (current_contract e) caller withdraw_amount)) (\<lambda>_.
     bind (sub_i128 balance withdraw_amount) (\<lambda>new_balance.
     bind (put_mock_balance new_balance) (\<lambda>_.
     bind (publish (MockWithdraw withdraw_amount)) (\<lambda>_.
     bind bump_instance (\<lambda>_.
     return withdraw_amount))))))))))))"

definition mock_emergency_withdraw :: "'x token_client \<Rightarrow> env \<Rightarrow> address \<Rightarrow> ('x, int) mock_op" where
  "mock_emergency_withdraw T e caller =
     bind (require_auth e caller) (\<lambda>_.
     bind (mock_require_vault caller) (\<lambda>_.
     bind (gets mock_balance_of_state) (\<lambda>balance.
     if balance = 0 then return 0
     else
       bind (gets mk_asset) (\<lambda>v. bind (unwrap v) (\<lambda>asset.
       bind (external_call (token_transfer T asset (current_contract e) caller balance)) (\<lambda>_.
       bind (put_mock_balance 0) (\<lambda>_.
       bind (publish (MockEmergencyWithdraw balance)) (\<lambda>_.
       bind bump_instance (\<lambda>_.
       return balance)))))))))"

definition mock_balance_of :: "('x, int) mock_op" where
  "mock_balance_of = gets mock_balance_of_state"

definition mock_available_liquidity :: "('x, int) mock_op" where
  "mock_available_liquidity = mock_balance_of"

definition mock_is_healthy :: "('x, bool) mock_op" where
  "mock_is_healthy = gets (\<lambda>s. unwrap_or (mk_healthy s) True)"

definition mock_asset :: "('x, address) mock_op" where
  "mock_asset = bind (gets mk_asset) unwrap"

definition mock_vault :: "('x, address) mock_op" where
  "mock_vault = bind (gets mk_vault) unwrap"

definition mock_simulate_yield :: "env \<Rightarrow> address \<Rightarrow> int \<Rightarrow> ('x, unit) mock_op" where
  "mock_simulate_yield e caller amount =
     bind (require_auth e caller) (\<lambda>_.
     bind (mock_require_admin caller) (\<lambda>_.
     bind (gets mock_balance_of_state) (\<lambda>balance.
     bind (add_i128 balance amount) (\<lambda>new_balance.
     put_mock_balance new_balance))))"

definition mock_set_healthy :: "env \<Rightarrow> address \<Rightarrow> bool \<Rightarrow> ('x, unit) mock_op" where
  "mock_set_healthy e caller healthy =
     bind (require_auth e caller) (\<lambda>_.
     bind (mock_require_admin caller) (\<lambda>_.
     modify (\<lambda>s. s\<lparr>mk_healthy := Some healthy\<rparr>)))"

section \<open>What a successful call does\<close>

lemma mock_guard_success [op_success]:
  "mock_require_vault caller s = Inr (u, t) \<longleftrightarrow> mk_vault s = Some caller \<and> t = s"
  "mock_require_admin caller s = Inr (u, t) \<longleftrightarrow> mk_admin s = Some caller \<and> t = s"
  by (auto simp: mock_require_vault_def mock_require_admin_def op_success)

lemma mock_view_success [op_success]:
  "mock_balance_of s = Inr (v, t) \<longleftrightarrow> v = mock_balance_of_state s \<and> t = s"
  "mock_available_liquidity s = Inr (v, t) \<longleftrightarrow> v = mock_balance_of_state s \<and> t = s"
  "mock_is_healthy s = Inr (h, t) \<longleftrightarrow> h = unwrap_or (mk_healthy s) True \<and> t = s"
  "mock_asset s = Inr (a, t) \<longleftrightarrow> mk_asset s = Some a \<and> t = s"
  "mock_vault s = Inr (a, t) \<longleftrightarrow> mk_vault s = Some a \<and> t = s"
  by (auto simp: mock_balance_of_def mock_available_liquidity_def mock_is_healthy_def
      mock_asset_def mock_vault_def op_success)

lemma mock_initialize_success:
  "mock_initialize admin vault asset s = Inr (u, t) \<longleftrightarrow> mk_initialized s = None \<and>
     t = log_ttl [persistent_request MkBalance, instance_request]
       (s\<lparr>mk_initialized := Some True, mk_admin := Some admin, mk_vault := Some vault,
          mk_asset := Some asset, mk_healthy := Some True, mk_balance := Some 0\<rparr>)"
  by (auto simp: mock_initialize_def op_success)

lemma mock_deposit_success:
  "mock_deposit e caller n s = Inr (u, t) \<longleftrightarrow>
     authorised e caller \<and> mk_vault s = Some caller \<and> 0 < n \<and>
     fits_i128 (mock_balance_of_state s + n) \<and>
     t = log_ttl [persistent_request MkBalance, instance_request]
       (s\<lparr>mk_balance := Some (mock_balance_of_state s + n),
          event_log := event_log s @ [MockDeposit n]\<rparr>)"
  by (auto simp: mock_deposit_def op_success)

lemma mock_withdraw_success:
  "mock_withdraw T e caller n s = Inr (w, t) \<longleftrightarrow>
     authorised e caller \<and> mk_vault s = Some caller \<and> 0 < n \<and>
     w = min n (mock_balance_of_state s) \<and> w \<noteq> 0 \<and> fits_i128 (mock_balance_of_state s - w) \<and>
     (\<exists>asset x. mk_asset s = Some asset \<and>
        token_transfer T asset (current_contract e) caller w (outside s) = Some ((), x) \<and>
        t = log_ttl [persistent_request MkBalance, instance_request]
          (s\<lparr>outside := x, mk_balance := Some (mock_balance_of_state s - w),
             event_log := event_log s @ [MockWithdraw w]\<rparr>))"
  by (cases "n > mock_balance_of_state s"; auto simp: mock_withdraw_def op_success Let_def min_def)

lemma mock_emergency_success:
  "mock_emergency_withdraw T e caller s = Inr (w, t) \<longleftrightarrow>
     authorised e caller \<and> mk_vault s = Some caller \<and> w = mock_balance_of_state s \<and>
     (w = 0 \<and> t = s \<or> w \<noteq> 0 \<and>
       (\<exists>asset x. mk_asset s = Some asset \<and>
          token_transfer T asset (current_contract e) caller w (outside s) = Some ((), x) \<and>
          t = log_ttl [persistent_request MkBalance, instance_request]
            (s\<lparr>outside := x, mk_balance := Some 0,
               event_log := event_log s @ [MockEmergencyWithdraw w]\<rparr>)))"
  by (auto simp: mock_emergency_withdraw_def op_success)

lemma mock_simulate_yield_success:
  "mock_simulate_yield e caller n s = Inr (u, t) \<longleftrightarrow>
     authorised e caller \<and> mk_admin s = Some caller \<and> fits_i128 (mock_balance_of_state s + n) \<and>
     t = log_ttl [persistent_request MkBalance]
       (s\<lparr>mk_balance := Some (mock_balance_of_state s + n)\<rparr>)"
  by (auto simp: mock_simulate_yield_def op_success)

lemma mock_set_healthy_success:
  "mock_set_healthy e caller h s = Inr (u, t) \<longleftrightarrow>
     authorised e caller \<and> mk_admin s = Some caller \<and> t = s\<lparr>mk_healthy := Some h\<rparr>"
  by (auto simp: mock_set_healthy_def op_success)

lemmas mock_defs =
  mock_initialize_def mock_deposit_def mock_withdraw_def mock_emergency_withdraw_def
  mock_balance_of_def mock_available_liquidity_def mock_is_healthy_def mock_asset_def
  mock_vault_def mock_simulate_yield_def mock_set_healthy_def mock_require_vault_def
  mock_require_admin_def put_mock_balance_def

declare mock_defs [op_run]

end
