(* ===== verification/StrategyWorld.thy ===== *)
theory StrategyWorld
  imports VaultEconomics MockStrategy
begin

text \<open>
  The vault with strategy contracts behind its \<^verbatim>\<open>StrategyClient\<close>: the outside world of
  the vault is a chain (the asset token and the protocols) together with the instances of one
  strategy contract. A client call runs the strategy's own definition against its instance and
  the chain, with the vault as its invoker; a strategy error becomes a trap, as in the generated
  client. The mock strategy is shown to satisfy the interface the vault relies on.
\<close>

section \<open>Strategy instances on a chain\<close>

record ('tok, 'st) world =
  chain :: 'tok
  instances :: "address \<Rightarrow> 'st"

text \<open>What the invoked contract sees: itself, and its invoker as an authorised address.\<close>

definition callee_env :: "env \<Rightarrow> address \<Rightarrow> env" where
  "callee_env e a = e\<lparr>current_contract := a,
     authorised := (\<lambda>c. c = current_contract e \<or> authorised e c)\<rparr>"

definition call_instance :: "address \<Rightarrow> (('k, 'ev, 'tok, 'z) runtime_scheme, 'err, 'r) operation \<Rightarrow>
    ('tok, ('k, 'ev, 'tok, 'z) runtime_scheme) world \<Rightarrow>
    ('r \<times> ('tok, ('k, 'ev, 'tok, 'z) runtime_scheme) world) option" where
  "call_instance a m w = (case m ((instances w a)\<lparr>outside := chain w\<rparr>) of
     Inl _ \<Rightarrow> None
   | Inr (r, s) \<Rightarrow> Some (r, w\<lparr>chain := outside s, instances := (instances w)(a := s)\<rparr>))"

definition on_chain :: "('tok \<Rightarrow> ('r \<times> 'tok) option) \<Rightarrow> ('tok, 'st) world \<Rightarrow>
    ('r \<times> ('tok, 'st) world) option" where
  "on_chain f w = map_option (\<lambda>(r, x). (r, w\<lparr>chain := x\<rparr>)) (f (chain w))"

definition world_token :: "'tok token_client \<Rightarrow> ('tok, 'st) world token_client" where
  "world_token T =
     \<lparr>token_balance = (\<lambda>asset a. on_chain (token_balance T asset a)),
      token_transfer = (\<lambda>asset a b n. on_chain (token_transfer T asset a b n)),
      token_approve = (\<lambda>asset a b n l. on_chain (token_approve T asset a b n l))\<rparr>"

lemma callee_env_fields [simp]:
  "current_contract (callee_env e a) = a"
  "authorised (callee_env e a) c \<longleftrightarrow> c = current_contract e \<or> authorised e c"
  "ledger_timestamp (callee_env e a) = ledger_timestamp e"
  "ledger_sequence (callee_env e a) = ledger_sequence e"
  by (simp_all add: callee_env_def)

lemma call_instance_Some:
  "call_instance a m w = Some (r, v) \<longleftrightarrow>
     (\<exists>s. m ((instances w a)\<lparr>outside := chain w\<rparr>) = Inr (r, s) \<and>
        v = w\<lparr>chain := outside s, instances := (instances w)(a := s)\<rparr>)"
  by (auto simp: call_instance_def split: sum.splits)

lemma on_chain_Some:
  "on_chain f w = Some (r, v) \<longleftrightarrow> (\<exists>x. f (chain w) = Some (r, x) \<and> v = w\<lparr>chain := x\<rparr>)"
  by (auto simp: on_chain_def)

lemma world_token_sep41:
  assumes "sep41 T asset bal tok_ok" and "\<And>w x. J w \<Longrightarrow> J (w\<lparr>chain := x\<rparr>)"
  shows "sep41 (world_token T) asset (\<lambda>w. bal (chain w)) (\<lambda>w. tok_ok (chain w) \<and> J w)"
proof -
  note token = sep41.balance_reads [OF assms(1)] sep41.transfer_moves [OF assms(1)]
    sep41.transfer_amount [OF assms(1)] sep41.balance_nonneg [OF assms(1)]
  show ?thesis
    by unfold_locales
      (auto simp: world_token_def on_chain_Some dest: token intro: assms(2) token)
qed

section \<open>The mock strategy behind the vault's client\<close>

type_synonym 'tok mock_world = "('tok, 'tok mock) world"

definition mock_clients :: "'tok token_client \<Rightarrow> env \<Rightarrow> 'tok mock_world strategy_client" where
  "mock_clients T e =
     \<lparr>strategy_deposit = (\<lambda>a caller n. call_instance a (mock_deposit (callee_env e a) caller n)),
      strategy_withdraw = (\<lambda>a caller n. call_instance a (mock_withdraw T (callee_env e a) caller n)),
      strategy_emergency_withdraw =
        (\<lambda>a caller. call_instance a (mock_emergency_withdraw T (callee_env e a) caller)),
      strategy_balance_of = (\<lambda>a. call_instance a mock_balance_of),
      strategy_available_liquidity = (\<lambda>a. call_instance a mock_available_liquidity),
      strategy_is_healthy = (\<lambda>a. call_instance a mock_is_healthy),
      strategy_asset = (\<lambda>a. call_instance a mock_asset)\<rparr>"

definition mocks_serve :: "address \<Rightarrow> address set \<Rightarrow> 'tok mock_world \<Rightarrow> bool" where
  "mocks_serve asset A w \<longleftrightarrow> (\<forall>a\<in>A. mk_asset (instances w a) = Some asset)"

lemma mocks_serve_chain: "mocks_serve asset A w \<Longrightarrow> mocks_serve asset A (w\<lparr>chain := x\<rparr>)"
  by (simp add: mocks_serve_def)

lemma mock_strategy_net:
  assumes "sep41 T asset bal tok_ok" and "vault \<notin> A"
  shows "strategy_net (world_token T) asset (\<lambda>w. bal (chain w))
    (\<lambda>w. tok_ok (chain w) \<and> mocks_serve asset A w) (mock_clients T e) vault A"
proof (rule strategy_net.intro, rule world_token_sep41 [OF assms(1)], erule mocks_serve_chain,
    rule strategy_net_axioms.intro)
  note moves = sep41.transfer_moves [OF assms(1)] and amount = sep41.transfer_amount [OF assms(1)]
  have pays: "0 \<le> n \<and> tok_ok y \<and> bal y vault = bal x vault + n"
    if "a \<in> A" "tok_ok x" "token_transfer T asset a vault n x = Some ((), y)" for a n x y
    using moves [OF that(2,3)] amount [OF that(2,3)] that(1) assms(2) by auto
  fix a w w'
  assume a: "a \<in> A" and w: "tok_ok (chain w) \<and> mocks_serve asset A w"
  then have asset: "mk_asset (instances w a) = Some asset" by (simp add: mocks_serve_def)
  show "(tok_ok (chain w') \<and> mocks_serve asset A w') \<and> bal (chain w') vault = bal (chain w) vault"
    if "strategy_available_liquidity (mock_clients T e) a w = Some (v, w')" for v
    using that w by (auto simp: mock_clients_def call_instance_Some op_success mocks_serve_def)
  show "(tok_ok (chain w') \<and> mocks_serve asset A w') \<and> bal (chain w') vault = bal (chain w) vault"
    if "strategy_is_healthy (mock_clients T e) a w = Some (h, w')" for h
    using that w by (auto simp: mock_clients_def call_instance_Some op_success mocks_serve_def)
  show "(tok_ok (chain w') \<and> mocks_serve asset A w') \<and> bal (chain w') vault = bal (chain w) vault"
    if "strategy_deposit (mock_clients T e) a vault n w = Some (u, w')" for n u
    using that w
    by (auto simp: mock_clients_def call_instance_Some mock_deposit_success mocks_serve_def)
  show "0 \<le> p \<and> (tok_ok (chain w') \<and> mocks_serve asset A w') \<and>
      bal (chain w') vault = bal (chain w) vault + p"
    if "strategy_withdraw (mock_clients T e) a vault n w = Some (p, w')" for n p
  proof -
    from that asset obtain x s where "token_transfer T asset a vault p (chain w) = Some ((), x)"
      and "w' = w\<lparr>chain := x, instances := (instances w)(a := s)\<rparr>" and "mk_asset s = Some asset"
      by (auto simp: mock_clients_def call_instance_Some mock_withdraw_success)
    with pays [OF a] w show ?thesis by (auto simp: mocks_serve_def)
  qed
  show "0 \<le> p \<and> (tok_ok (chain w') \<and> mocks_serve asset A w') \<and>
      bal (chain w') vault = bal (chain w) vault + p"
    if "strategy_emergency_withdraw (mock_clients T e) a vault w = Some (p, w')" for p
    using that w asset pays [OF a]
    by (auto simp: mock_clients_def call_instance_Some mock_emergency_success mocks_serve_def)
qed (rule assms(2))

end
