(* ===== verification/VaultLiveness.thy ===== *)
theory VaultLiveness
  imports VaultEconomics
begin

text \<open>
  When a redemption goes through. Strategies that deliver what they quote while they are ready
  (the locale \<open>delivering_net\<close>; \<open>live_net\<close> where they always are) make the waterfall collect the
  smaller of the shortfall and the liquidity quoted, so that a redemption succeeds exactly when
  idle tokens and quoted liquidity cover it, and fails with \<^verbatim>\<open>InsufficientAssets\<close> otherwise.
\<close>

section \<open>The accounting does not trap\<close>

lemma fits_nonneg: "0 \<le> x \<Longrightarrow> x \<le> i128_max \<Longrightarrow> fits_i128 x"
  by (simp add: width_defs)

lemma untrack_run:
  assumes "\<forall>b. 0 \<le> tracked_of s b" and "tracked_of s a \<le> i128_max" and "0 \<le> w"
  shows "\<exists>t. untrack a w s = Inr ((), t) \<and> outside t = outside s \<and>
    (\<forall>b. 0 \<le> tracked_of t b \<and> tracked_of t b \<le> tracked_of s b)"
proof -
  have "fits_i128 (tracked_of s a - w)" if "\<not> w > tracked_of s a"
    using that assms(2,3) by (intro fits_nonneg) auto
  then obtain u t where t: "untrack a w s = Inr (u, t)"
    by (cases "w > tracked_of s a") (auto simp: untrack_def op_success)
  then show ?thesis using untrack_success [OF t] assms(1,3) by auto
qed

lemma sum_tracked_run:
  assumes "\<forall>a. 0 \<le> tracked_of s a" and "0 \<le> acc"
    and "acc + (\<Sum>a\<leftarrow>ss. tracked_of s a) \<le> i128_max"
  shows "\<exists>t. sum_tracked ss acc s = Inr (acc + (\<Sum>a\<leftarrow>ss. tracked_of s a), t)"
  using assms
proof (induction ss arbitrary: acc s)
  case Nil
  then show ?case by (auto simp: return_def)
next
  case (Cons a ss)
  let ?s = "log_ttl (read_request (TrackedBalance a) (tracked_of s a)) s"
  have a: "0 \<le> tracked_of s a" using Cons.prems(1) by blast
  have "0 \<le> (\<Sum>b\<leftarrow>ss. tracked_of s b)" using Cons.prems(1) by (auto intro!: sum_list_nonneg)
  then have fit: "fits_i128 (acc + tracked_of s a)"
    using Cons.prems a by (intro fits_nonneg) auto
  obtain t where "sum_tracked ss (acc + tracked_of s a) ?s =
      Inr (acc + tracked_of s a + (\<Sum>b\<leftarrow>ss. tracked_of ?s b), t)"
    using Cons.IH [of ?s "acc + tracked_of s a"] Cons.prems a by (auto simp: add.assoc)
  with fit show ?case by (fastforce simp: op_success add.assoc)
qed

lemma effective_bridged_run: "\<exists>t. effective_bridged_balance e s = Inr (bridged_at e s, t)"
proof -
  have "\<exists>v t. effective_bridged_balance e s = Inr (v, t)"
    unfolding effective_bridged_balance_def
    by (cases "bridged_of s = 0") (auto simp: op_success Let_def)
  then show ?thesis using effective_bridged_success by fastforce
qed

lemma total_assets_run:
  assumes "st_asset s = Some asset" and "\<forall>a. 0 \<le> tracked_of s a" and "0 \<le> bridged_of s"
    and "token_balance T asset (current_contract e) (outside s) = Some (idle, x)" and "0 \<le> idle"
    and "assets_with_idle e s idle \<le> i128_max"
  shows "\<exists>t. total_assets T e s = Inr (assets_with_idle e s idle, t)"
proof -
  let ?s = "s\<lparr>outside := x\<rparr>"
  have nn: "0 \<le> tracked_total s" "0 \<le> bridged_at e s"
    using assms(2,3) by (auto simp: tracked_total_def bridged_at_def intro!: sum_list_nonneg)
  obtain t where t: "sum_tracked (strategies_of s) 0 ?s = Inr (tracked_total s, t)"
    using sum_tracked_run [of ?s 0 "strategies_of s"] assms(2,5,6) nn
    by (auto simp: tracked_total_def assets_with_idle_def)
  then obtain rs where rs: "t = log_ttl rs ?s" using sum_tracked_success by fastforce
  obtain u where "effective_bridged_balance e t = Inr (bridged_at e s, u)"
    using effective_bridged_run [of e t] rs
    by (auto simp: bridged_at_def bridged_expired_def)
  moreover have "fits_i128 (idle + tracked_total s)"
      "fits_i128 (idle + tracked_total s + bridged_at e s)"
    using nn assms(5,6) by (auto simp: assets_with_idle_def intro!: fits_nonneg)
  ultimately show ?thesis
    using assms(1,4) t by (fastforce simp: total_assets_def op_success assets_with_idle_def)
qed

lemma priced_le_product:
  assumes "0 \<le> x" and "0 \<le> p" and "0 \<le> q"
  shows "priced x p q \<le> x * (p + VIRTUAL_SHARES_OFFSET)"
proof -
  have "priced x p q * 1 \<le> priced x p q * (q + VIRTUAL_SHARES_OFFSET)"
    using priced_ge_zero [OF assms] assms(3)
    by (intro mult_left_mono) (auto simp: VIRTUAL_SHARES_OFFSET_def)
  also have "\<dots> \<le> x * (p + VIRTUAL_SHARES_OFFSET)" using assms by (rule priced_lower)
  finally show ?thesis by simp
qed

lemma mul_div_offset_run:
  assumes "0 \<le> x" and "0 \<le> p" and "0 \<le> q" and "p + VIRTUAL_SHARES_OFFSET \<le> i128_max"
    and "q + VIRTUAL_SHARES_OFFSET \<le> i128_max" and "x * (p + VIRTUAL_SHARES_OFFSET) \<le> i128_max"
  shows "mul_div_offset x p q s = Inr (priced x p q, s)"
proof -
  have "0 \<le> x * (p + VIRTUAL_SHARES_OFFSET)"
    using assms(1,2) by (simp add: VIRTUAL_SHARES_OFFSET_def)
  then have "fits_i128 (priced x p q)" "fits_i128 (x * (p + VIRTUAL_SHARES_OFFSET))"
    using priced_ge_zero [OF assms(1-3)] priced_le_product [OF assms(1-3)] assms(6)
    by (simp_all add: fits_nonneg)
  moreover have "fits_i128 (p + VIRTUAL_SHARES_OFFSET)" "fits_i128 (q + VIRTUAL_SHARES_OFFSET)"
    "q + VIRTUAL_SHARES_OFFSET \<noteq> 0"
    using assms(2-5) by (simp_all add: fits_nonneg VIRTUAL_SHARES_OFFSET_def)
  ultimately show ?thesis by (simp add: mul_div_offset_success)
qed

lemma convert_to_assets_run:
  assumes "st_asset s = Some asset" and "\<forall>a. 0 \<le> tracked_of s a" and "0 \<le> bridged_of s"
    and "token_balance T asset (current_contract e) (outside s) = Some (idle, x)" and "0 \<le> idle"
    and "0 \<le> n" and "0 \<le> supply_of s" and "supply_of s + VIRTUAL_SHARES_OFFSET \<le> i128_max"
    and "assets_with_idle e s idle + VIRTUAL_SHARES_OFFSET \<le> i128_max"
    and "n * (assets_with_idle e s idle + VIRTUAL_SHARES_OFFSET) \<le> i128_max"
  shows "\<exists>t. convert_to_assets T e n s =
      Inr (priced n (assets_with_idle e s idle) (supply_of s), t)"
proof -
  let ?A = "assets_with_idle e s idle" and ?S = "supply_of s"
  have A: "0 \<le> ?A"
    using assms(2,3,5)
    by (auto simp: assets_with_idle_def tracked_total_def bridged_at_def
        intro!: add_nonneg_nonneg sum_list_nonneg)
  obtain t where t: "total_assets T e s = Inr (?A, t)"
    using total_assets_run [OF assms(1-5)] assms(9) by (auto simp: VIRTUAL_SHARES_OFFSET_def)
  then have S: "supply_of t = ?S" by (auto elim!: total_assets_success)
  have "mul_div_offset n ?A ?S v = Inr (priced n ?A ?S, v)" for v :: "'a vault"
    using mul_div_offset_run [OF assms(6) A assms(7,9,8,10)] .
  with t S show ?thesis by (fastforce simp: convert_to_assets_def op_success)
qed

lemma waterfall_pull:
  assumes "0 < r" and "strategy_available_liquidity C a (outside s) = Some (v, x)" and "0 < v"
    and "k = min r v" and "strategy_withdraw C a vault k x = Some (k, y)"
    and "untrack a k (s\<lparr>outside := y\<rparr>) = Inr ((), p)"
    and "waterfall C vault ss (r - k) p = Inr ((), t)" and "r \<le> i128_max"
  shows "waterfall C vault (a # ss) r s = Inr ((), t)"
proof -
  have rest: "(if k \<ge> r then return 0 else sub_i128 r k) p = (Inr (r - k, p) :: vault_error failure + _)"
    using assms(1,3,4,8) by (auto simp: op_success intro!: fits_nonneg)
  show ?thesis
    unfolding waterfall.simps Let_def min_strict
    using assms(1-3,5-7) rest
    by (simp add: bind_def external_call_def assms(4) [symmetric] del: min_le_iff_disj)
qed

text \<open>The last part of \<^verbatim>\<open>redeem\<close>: burn the shares, pay, publish.\<close>

definition settle :: "'x token_client \<Rightarrow> env \<Rightarrow> address \<Rightarrow> address \<Rightarrow> int \<Rightarrow> int \<Rightarrow> int \<Rightarrow>
    ('x vault, vault_error, int) operation" where
  "settle T e asset_addr from current_shares shares assets =
     bind (sub_i128 current_shares shares) (\<lambda>new_shares.
     bind (set_share_balance from new_shares) (\<lambda>_.
     bind get_total_supply (\<lambda>supply.
     bind (sub_i128 supply shares) (\<lambda>new_supply.
     bind (set_total_supply new_supply) (\<lambda>_.
     bind (external_call (token_transfer T asset_addr (current_contract e) from assets)) (\<lambda>_.
     bind (emit_redeem from shares assets) (\<lambda>_.
     bind bump_instance (\<lambda>_.
     return assets))))))))"

lemma settle_run:
  assumes "fits_i128 (current - n)" and "fits_i128 (supply_of s - n)"
    and "token_transfer T asset (current_contract e) from assets (outside s) = Some ((), y)"
  shows "\<exists>t. settle T e asset from current n assets s = Inr (assets, t)"
proof -
  have "\<exists>v t. settle T e asset from current n assets s = Inr (v, t)"
    using assms by (simp add: settle_def op_success)
  then show ?thesis by (auto simp: settle_def op_success)
qed

lemma redeem_split:
  assumes "authorised e from" and "st_initialized s \<noteq> None" and "0 < n" and "n \<le> shares_of s from"
    and "convert_to_assets T e n (log_ttl (read_request (ShareBalance from) (shares_of s from)) s)
       = Inr (assets, s1)"
    and "0 < assets" and "st_asset s1 = Some asset"
    and "token_balance T asset (current_contract e) (outside s1) = Some (idle, x)"
  shows "redeem T C e from n s =
    bind (cover_shortfall T C asset (current_contract e) idle assets)
      (\<lambda>_. settle T e asset from (shares_of s from) n assets) (s1\<lparr>outside := x\<rparr>)"
  using assms
  by (simp add: redeem_def settle_def bind_def effect_defs guard_defs require_auth_def
      storage_defs external_call_def bump_persistent_def log_ttl_def lookup0_def Let_def)

lemma tracked_le_total:
  assumes "strategies_inv s"
  shows "tracked_of s a \<le> tracked_total s"
proof (cases "a \<in> set (strategies_of s)")
  case True
  with assms show ?thesis
    unfolding tracked_total_def by (intro member_le_sum_list) (auto simp: strategies_inv_def)
next
  case False
  with assms have "tracked_of s a = 0" by (simp add: strategies_inv_def lookup0_def)
  with assms show ?thesis
    by (auto simp: tracked_total_def strategies_inv_def intro!: sum_list_nonneg)
qed

section \<open>Strategies that deliver what they quote\<close>

text \<open>
  \<open>liq x a\<close> is what strategy \<open>a\<close> quotes, and \<open>ready x a\<close> that it will deliver it. While \<open>live\<close>
  holds, quotes and balances can be read and the vault can pay out what it has; a withdrawal of at
  most the quote of a ready strategy pays exactly the amount and leaves the other strategies as
  they were. Nothing is said about the strategy withdrawn from: after rounding it may owe less
  than it tracks.
\<close>

locale delivering_net = strategy_net T asset bal wf C vault adapters
  for T :: "'x token_client" and asset bal wf and C :: "'x strategy_client" and vault adapters +
  fixes live :: "'x \<Rightarrow> bool" and ready :: "'x \<Rightarrow> address \<Rightarrow> bool" and liq :: "'x \<Rightarrow> address \<Rightarrow> int"
  assumes live_wf: "live x \<Longrightarrow> wf x"
    and balance_live: "live x \<Longrightarrow> \<exists>y. token_balance T asset vault x = Some (bal x vault, y) \<and>
      live y \<and> liq y = liq x \<and> ready y = ready x"
    and quote_live: "live x \<Longrightarrow> a \<in> adapters \<Longrightarrow> ready x a \<Longrightarrow>
      \<exists>y. strategy_available_liquidity C a x = Some (liq x a, y) \<and>
          live y \<and> liq y = liq x \<and> ready y = ready x"
    and withdraw_live: "live x \<Longrightarrow> a \<in> adapters \<Longrightarrow> ready x a \<Longrightarrow> 0 < n \<Longrightarrow> n \<le> liq x a \<Longrightarrow>
      \<exists>y. strategy_withdraw C a vault n x = Some (n, y) \<and> live y \<and>
          (\<forall>b. b \<noteq> a \<longrightarrow> liq y b = liq x b \<and> ready y b = ready x b)"
    and payout_live: "live x \<Longrightarrow> 0 < n \<Longrightarrow> n \<le> bal x vault \<Longrightarrow>
      \<exists>y. token_transfer T asset vault to n x = Some ((), y)"
begin

abbreviation quoted :: "address list \<Rightarrow> 'x vault \<Rightarrow> int" where
  "quoted ss s \<equiv> (\<Sum>a\<leftarrow>ss. max 0 (liq (outside s) a))"

lemma waterfall_pull_run:
  assumes "live (outside s)" and "a \<in> adapters" and "ready (outside s) a" and "0 < r" and "r \<le> i128_max"
    and "0 < liq (outside s) a" and "n = min r (liq (outside s) a)"
    and "\<forall>b. 0 \<le> tracked_of s b \<and> tracked_of s b \<le> i128_max"
  obtains p where "live (outside p)"
    and "\<forall>b. b \<noteq> a \<longrightarrow> liq (outside p) b = liq (outside s) b \<and> ready (outside p) b = ready (outside s) b"
    and "bal (outside p) vault = bal (outside s) vault + n"
    and "\<forall>b. 0 \<le> tracked_of p b \<and> tracked_of p b \<le> i128_max"
    and "\<And>ss t. waterfall C vault ss (r - n) p = Inr ((), t) \<Longrightarrow>
           waterfall C vault (a # ss) r s = Inr ((), t)"
proof -
  obtain x where x: "strategy_available_liquidity C a (outside s) = Some (liq (outside s) a, x)"
    "live x" "liq x = liq (outside s)" "ready x = ready (outside s)"
    using quote_live [OF assms(1-3)] by auto
  have bx: "bal x vault = bal (outside s) vault"
    using liquidity_moves_nothing [OF assms(2) live_wf [OF assms(1)] x(1)] by auto
  have n: "0 < n" "n \<le> liq x a" using assms(4,6,7) x(3) by auto
  obtain y where y: "strategy_withdraw C a vault n x = Some (n, y)" "live y"
    "\<forall>b. b \<noteq> a \<longrightarrow> liq y b = liq x b \<and> ready y b = ready x b"
    using withdraw_live [OF x(2) assms(2) _ n] assms(3) x(4) by auto
  have b: "bal y vault = bal x vault + n"
    using withdraw_delivers [OF assms(2) live_wf [OF x(2)] y(1)] by auto
  obtain p where p: "untrack a n (s\<lparr>outside := y\<rparr>) = Inr ((), p)" and out: "outside p = y"
    and low: "\<forall>b. 0 \<le> tracked_of p b \<and> tracked_of p b \<le> tracked_of s b"
    using untrack_run [of "s\<lparr>outside := y\<rparr>" a n] assms(8) n by auto
  have "waterfall C vault (a # ss) r s = Inr ((), t)"
    if "waterfall C vault ss (r - n) p = Inr ((), t)" for ss t
    using waterfall_pull [OF assms(4) x(1) assms(6,7) y(1) p that assms(5)] .
  moreover have "\<forall>b. 0 \<le> tracked_of p b \<and> tracked_of p b \<le> i128_max"
    using low assms(8) order_trans by blast
  ultimately show ?thesis using that [of p] x(3,4) y b bx out by simp
qed

lemma waterfall_run:
  assumes "live (outside s)" and "distinct ss" and "set ss \<subseteq> adapters"
    and "\<forall>a\<in>set ss. ready (outside s) a"
    and "\<forall>a. 0 \<le> tracked_of s a \<and> tracked_of s a \<le> i128_max" and "0 \<le> r" and "r \<le> i128_max"
  shows "\<exists>t. waterfall C vault ss r s = Inr ((), t) \<and> live (outside t) \<and>
      bal (outside t) vault = bal (outside s) vault + min r (quoted ss s)"
  using assms
proof (induction ss arbitrary: r s)
  case Nil
  then show ?case by (simp add: return_def)
next
  case (Cons a ss)
  let ?l = "liq (outside s) a"
  have q: "0 \<le> quoted ss s" by (rule sum_list_nonneg) auto
  have a: "a \<in> adapters" "ready (outside s) a" using Cons.prems(3,4) by auto
  consider (finished) "r = 0" | (skip) "0 < r" "?l \<le> 0" | (pull) "0 < r" "0 < ?l"
    using Cons.prems(6) by linarith
  then show ?case
  proof cases
    case finished
    with Cons.prems q show ?thesis by (simp add: return_def)
  next
    case skip
    obtain x where x: "strategy_available_liquidity C a (outside s) = Some (?l, x)" "live x"
      "liq x = liq (outside s)" "ready x = ready (outside s)"
      using quote_live [OF Cons.prems(1) a] by auto
    moreover have "bal x vault = bal (outside s) vault"
      using liquidity_moves_nothing [OF a(1) live_wf [OF Cons.prems(1)] x(1)] by auto
    ultimately show ?thesis
      using Cons.IH [of "s\<lparr>outside := x\<rparr>" r] Cons.prems skip q by (auto simp: op_success)
  next
    case pull
    let ?n = "min r ?l"
    obtain p where p: "live (outside p)"
      "\<forall>b. b \<noteq> a \<longrightarrow> liq (outside p) b = liq (outside s) b \<and> ready (outside p) b = ready (outside s) b"
      "bal (outside p) vault = bal (outside s) vault + ?n"
      "\<forall>b. 0 \<le> tracked_of p b \<and> tracked_of p b \<le> i128_max"
      "\<And>ss t. waterfall C vault ss (r - ?n) p = Inr ((), t) \<Longrightarrow>
         waterfall C vault (a # ss) r s = Inr ((), t)"
      using waterfall_pull_run [OF Cons.prems(1) a pull(1) Cons.prems(7) pull(2) refl Cons.prems(5)]
      by blast
    have "0 \<le> r - ?n" "r - ?n \<le> i128_max" using Cons.prems(7) pull by linarith+
    moreover have "\<forall>b\<in>set ss. ready (outside p) b" using Cons.prems(2,4) p(2) by auto
    moreover have "quoted ss p = quoted ss s"
      using Cons.prems(2) p(2) by (intro arg_cong [where f = sum_list] map_cong) auto
    moreover obtain t where "waterfall C vault ss (r - ?n) p = Inr ((), t)" "live (outside t)"
      "bal (outside t) vault = bal (outside p) vault + min (r - ?n) (quoted ss p)"
      using Cons.IH [OF p(1) _ _ _ p(4), of "r - ?n"] Cons.prems(2,3) calculation by auto
    ultimately have "waterfall C vault (a # ss) r s = Inr ((), t)" "live (outside t)"
      "bal (outside t) vault = bal (outside s) vault + min r (quoted (a # ss) s)"
      using p(3) p(5) [of ss t] q pull by (auto simp del: waterfall.simps)
    then show ?thesis by blast
  qed
qed

lemma cover_shortfall_run:
  assumes "live (outside s)" and "distinct (strategies_of s)" and "set (strategies_of s) \<subseteq> adapters"
    and "\<forall>a\<in>set (strategies_of s). ready (outside s) a"
    and "\<forall>a. 0 \<le> tracked_of s a \<and> tracked_of s a \<le> i128_max" and "0 \<le> n" and "n \<le> i128_max"
    and "idle = bal (outside s) vault"
  shows "if n \<le> idle + quoted (strategies_of s) s
    then \<exists>t. cover_shortfall T C asset vault idle n s = Inr ((), t) \<and> live (outside t) \<and>
           n \<le> bal (outside t) vault
    else cover_shortfall T C asset vault idle n s = Inl (Raised InsufficientAssets)"
proof (cases "idle < n")
  case True
  have idle: "0 \<le> idle" using balance_nonneg live_wf [OF assms(1)] assms(8) by simp
  then have fit: "fits_i128 (n - idle)" using True assms(7) by (intro fits_nonneg) auto
  obtain t where t: "waterfall C vault (strategies_of s) (n - idle) s = Inr ((), t)" "live (outside t)"
    "bal (outside t) vault = idle + min (n - idle) (quoted (strategies_of s) s)"
    using waterfall_run [OF assms(1-5), of "n - idle"] True idle assms(7,8) by auto
  obtain x where "token_balance T asset vault (outside t) = Some (bal (outside t) vault, x)" "live x"
    using balance_live [OF t(2)] by auto
  moreover from this have "bal x = bal (outside t)"
    using balance_reads live_wf [OF t(2)] by blast
  ultimately have "cover_shortfall T C asset vault idle n s =
      raise_if (bal (outside t) vault < n) InsufficientAssets (t\<lparr>outside := x\<rparr>)"
    using True fit t(1)
    by (simp add: cover_shortfall_def bind_def sub_i128_def i128_checked_def return_def
        get_strategies_def gets_def external_call_def)
  with t(3) True \<open>live x\<close> \<open>bal x = bal (outside t)\<close> show ?thesis
    by (auto simp: raise_if_def return_def raise_def min_def)
next
  case False
  have "0 \<le> quoted (strategies_of s) s" by (rule sum_list_nonneg) auto
  with False assms(1,8) show ?thesis by (auto simp: cover_shortfall_def return_def)
qed

lemma backing_parts:
  assumes "strategies_inv s" and "0 \<le> bridged_of s" and "wf (outside s)" and "current_contract e = vault"
  shows "0 \<le> backing bal e s" and "tracked_of s a \<le> backing bal e s"
proof -
  have "0 \<le> tracked_total s" "0 \<le> bridged_at e s"
    using assms(1,2)
    by (auto simp: strategies_inv_def tracked_total_def bridged_at_def intro!: sum_list_nonneg)
  then show "0 \<le> backing bal e s" "tracked_of s a \<le> backing bal e s"
    using balance_nonneg [OF assms(3), of vault] tracked_le_total [OF assms(1), of a]
    by (auto simp: backing_def assets_with_idle_def assms(4))
qed

text \<open>Up to the waterfall, \<^verbatim>\<open>redeem\<close> only reads; the rest is \<open>cover_shortfall\<close> and \<open>settle\<close>.\<close>

lemma redeem_opening:
  assumes "authorised e from" and "st_initialized s \<noteq> None" and "0 < n" and "n \<le> shares_of s from"
    and "st_asset s = Some asset" and "current_contract e = vault" and "live (outside s)"
    and "strategies_inv s" and "0 \<le> supply_of s" and "0 \<le> bridged_of s"
    and "backing bal e s + VIRTUAL_SHARES_OFFSET \<le> i128_max"
    and "supply_of s + VIRTUAL_SHARES_OFFSET \<le> i128_max"
    and "n * (backing bal e s + VIRTUAL_SHARES_OFFSET) \<le> i128_max"
    and "assets = priced n (backing bal e s) (supply_of s)" and "0 < assets"
  obtains rs y where "live y" and "liq y = liq (outside s)" and "ready y = ready (outside s)"
    and "bal y = bal (outside s)"
    and "redeem T C e from n s =
      bind (cover_shortfall T C asset vault (bal (outside s) vault) assets)
        (\<lambda>_. settle T e asset from (shares_of s from) n assets) (log_ttl rs (s\<lparr>outside := y\<rparr>))"
proof -
  let ?L = "log_ttl (read_request (ShareBalance from) (shares_of s from)) s"
  let ?i = "bal (outside s) vault"
  have trk: "\<forall>a. 0 \<le> tracked_of s a" using assms(8) by (simp add: strategies_inv_def)
  have i: "0 \<le> ?i" using balance_nonneg live_wf assms(7) by simp
  have A: "backing bal e s = assets_with_idle e s ?i" by (simp add: backing_def assms(6))
  obtain x where x: "token_balance T asset vault (outside s) = Some (?i, x)" "live x"
    "liq x = liq (outside s)" "ready x = ready (outside s)" using balance_live [OF assms(7)] by auto
  then have bx: "bal x = bal (outside s)" using balance_reads live_wf [OF assms(7)] by blast
  obtain y where y: "token_balance T asset vault x = Some (?i, y)" "live y"
    "liq y = liq (outside s)" "ready y = ready (outside s)" "bal y = bal (outside s)"
    using balance_live [OF x(2)] balance_reads live_wf [OF x(2)] x(3,4) bx by metis
  obtain s1 where s1: "convert_to_assets T e n ?L = Inr (assets, s1)"
    using convert_to_assets_run [of ?L asset T e ?i x n] assms(3,5,6,9-14) trk i x(1)
    by (auto simp: A)
  then obtain rs where rs: "s1 = log_ttl rs (s\<lparr>outside := x\<rparr>)"
    using x(1) assms(5,6) by (auto elim!: convert_to_assets_success)
  then have "redeem T C e from n s = bind (cover_shortfall T C asset vault ?i assets)
      (\<lambda>_. settle T e asset from (shares_of s from) n assets) (log_ttl rs (s\<lparr>outside := y\<rparr>))"
    using redeem_split [OF assms(1-4) s1 assms(15)] y(1) assms(5,6) by simp
  with y that show ?thesis by blast
qed

lemma redeem_run:
  assumes "authorised e from" and "st_initialized s \<noteq> None" and "0 < n" and "n \<le> shares_of s from"
    and "st_asset s = Some asset" and "current_contract e = vault" and "live (outside s)"
    and "strategies_inv s" and "shares_inv s" and "0 \<le> bridged_of s"
    and "set (strategies_of s) \<subseteq> adapters" and "\<forall>a\<in>set (strategies_of s). ready (outside s) a"
    and "backing bal e s + VIRTUAL_SHARES_OFFSET \<le> i128_max"
    and "supply_of s + VIRTUAL_SHARES_OFFSET \<le> i128_max"
    and "n * (backing bal e s + VIRTUAL_SHARES_OFFSET) \<le> i128_max"
    and "assets = priced n (backing bal e s) (supply_of s)" and "0 < assets"
  shows "if assets \<le> bal (outside s) vault + quoted (strategies_of s) s
    then \<exists>t. redeem T C e from n s = Inr (assets, t)
    else redeem T C e from n s = Inl (Raised InsufficientAssets)"
proof -
  let ?i = "bal (outside s) vault"
  have S: "0 \<le> supply_of s" "shares_of s from \<le> supply_of s"
    using assms(9) map_total_ge [of "st_share_balance s" "from"]
    by (auto simp: shares_inv_def map_total_def intro: sum_nonneg)
  note parts = backing_parts [OF assms(8,10) live_wf [OF assms(7)] assms(6)]
  have "tracked_of s a \<le> i128_max" for a
    using parts(2) [of a] assms(13) unfolding VIRTUAL_SHARES_OFFSET_def by linarith
  then have trk: "\<forall>a. 0 \<le> tracked_of s a \<and> tracked_of s a \<le> i128_max"
    using assms(8) by (simp add: strategies_inv_def)
  have assets: "0 \<le> assets" "assets \<le> i128_max"
    using priced_le_product [OF _ parts(1) S(1), of n] assms(3,15-17) by linarith+
  have fit: "fits_i128 (shares_of s from - n)" "fits_i128 (supply_of s - n)"
    using assms(3,4,14) S by (auto intro!: fits_nonneg simp: VIRTUAL_SHARES_OFFSET_def)
  obtain rs y where y: "live y" "liq y = liq (outside s)" "ready y = ready (outside s)"
      "bal y = bal (outside s)"
    and split: "redeem T C e from n s = bind (cover_shortfall T C asset vault ?i assets)
        (\<lambda>_. settle T e asset from (shares_of s from) n assets) (log_ttl rs (s\<lparr>outside := y\<rparr>))"
    using redeem_opening [OF assms(1-8) S(1) assms(10,13-17)] by blast
  let ?s = "log_ttl rs (s\<lparr>outside := y\<rparr>)"
  have cover: "if assets \<le> ?i + quoted (strategies_of s) s
    then \<exists>t. cover_shortfall T C asset vault ?i assets ?s = Inr ((), t) \<and> live (outside t) \<and>
           assets \<le> bal (outside t) vault
    else cover_shortfall T C asset vault ?i assets ?s = Inl (Raised InsufficientAssets)"
    using cover_shortfall_run [of ?s assets ?i] y assms(8,11,12) trk assets
    by (simp add: strategies_inv_def)
  show ?thesis
  proof (cases "assets \<le> ?i + quoted (strategies_of s) s")
    case True
    with cover obtain t where t: "cover_shortfall T C asset vault ?i assets ?s = Inr ((), t)"
      "live (outside t)" "assets \<le> bal (outside t) vault" by auto
    obtain z where z: "token_transfer T asset vault from assets (outside t) = Some ((), z)"
      using payout_live [OF t(2) assms(17) t(3)] by auto
    have "supply_of t = supply_of s"
      using cover_shortfall_retracked [OF t(1)] by (auto simp: retracked_def)
    with settle_run [of "shares_of s from" n t T asset e "from" assets z] fit z assms(6)
    obtain u where "settle T e asset from (shares_of s from) n assets t = Inr (assets, u)" by auto
    with True split t(1) show ?thesis by (simp add: bind_def)
  next
    case False
    with cover split show ?thesis by (simp add: bind_def)
  qed
qed

end

section \<open>Strategies that always deliver what they quote\<close>

text \<open>The simpler contract, where delivering once does not stop a strategy from delivering again.\<close>

locale live_net = strategy_net T asset bal wf C vault adapters
  for T :: "'x token_client" and asset bal wf and C :: "'x strategy_client" and vault adapters +
  fixes live :: "'x \<Rightarrow> bool" and liq :: "'x \<Rightarrow> address \<Rightarrow> int"
  assumes live_wf: "live x \<Longrightarrow> wf x"
    and balance_live: "live x \<Longrightarrow>
      \<exists>y. token_balance T asset vault x = Some (bal x vault, y) \<and> live y \<and> liq y = liq x"
    and quote_live: "live x \<Longrightarrow> a \<in> adapters \<Longrightarrow>
      \<exists>y. strategy_available_liquidity C a x = Some (liq x a, y) \<and> live y \<and> liq y = liq x"
    and withdraw_live: "live x \<Longrightarrow> a \<in> adapters \<Longrightarrow> 0 < n \<Longrightarrow> n \<le> liq x a \<Longrightarrow>
      \<exists>y. strategy_withdraw C a vault n x = Some (n, y) \<and> live y \<and>
          (\<forall>b. b \<noteq> a \<longrightarrow> liq y b = liq x b)"
    and payout_live: "live x \<Longrightarrow> 0 < n \<Longrightarrow> n \<le> bal x vault \<Longrightarrow>
      \<exists>y. token_transfer T asset vault to n x = Some ((), y)"

sublocale live_net \<subseteq> delivering: delivering_net T asset bal wf C vault adapters live "\<lambda>_ _. True" liq
  by unfold_locales (simp_all add: live_wf balance_live quote_live withdraw_live payout_live)

context live_net
begin

lemma delivers: "delivering_net T asset bal wf C vault adapters live (\<lambda>_ _. True) liq"
  by unfold_locales

end

section \<open>The outcome of a redemption\<close>

lemma ready_redeem_outcome:
  assumes "delivering_net T asset bal ok C (current_contract e) A live ready liq" and "reachable s"
    and "st_asset s = Some asset" and "live (outside s)" and "set (strategies_of s) \<subseteq> A"
    and "\<forall>a\<in>set (strategies_of s). ready (outside s) a"
    and "authorised e from" and "st_initialized s \<noteq> None" and "0 < n" and "n \<le> shares_of s from"
    and "n * (backing bal e s + VIRTUAL_SHARES_OFFSET) \<le> i128_max"
    and "supply_of s + VIRTUAL_SHARES_OFFSET \<le> i128_max"
    and "assets = priced n (backing bal e s) (supply_of s)" and "0 < assets"
  shows "if assets \<le> bal (outside s) (current_contract e) +
        (\<Sum>a\<leftarrow>strategies_of s. max 0 (liq (outside s) a))
    then \<exists>t. redeem T C e from n s = Inr (assets, t)
    else redeem T C e from n s = Inl (Raised InsufficientAssets)"
proof -
  have "0 \<le> backing bal e s"
    using backing_nonneg [OF assms(2)] delivering_net.live_wf [OF assms(1,4)]
      sep41.balance_nonneg [OF strategy_net.axioms(1) [OF delivering_net.axioms(1) [OF assms(1)]]] by blast
  then have "1 * (backing bal e s + VIRTUAL_SHARES_OFFSET) \<le> n * (backing bal e s + VIRTUAL_SHARES_OFFSET)"
    using assms(9) by (intro mult_right_mono) (auto simp: VIRTUAL_SHARES_OFFSET_def)
  then have "backing bal e s + VIRTUAL_SHARES_OFFSET \<le> i128_max"
    using assms(11) order_trans by fastforce
  moreover have "0 \<le> bridged_of s"
    using reachable_config_inv [OF assms(2)] by (simp add: config_inv_def)
  ultimately show ?thesis
    using delivering_net.redeem_run [OF assms(1,7-10,3) refl assms(4)
        reachable_strategies_inv [OF assms(2)] reachable_shares_inv [OF assms(2)] _ assms(5,6) _
        assms(12,11,13,14)] by blast
qed

lemma live_redeem_outcome:
  assumes "live_net T asset bal ok C (current_contract e) A live liq" and "reachable s"
    and "st_asset s = Some asset" and "live (outside s)" and "set (strategies_of s) \<subseteq> A"
    and "authorised e from" and "st_initialized s \<noteq> None" and "0 < n" and "n \<le> shares_of s from"
    and "n * (backing bal e s + VIRTUAL_SHARES_OFFSET) \<le> i128_max"
    and "supply_of s + VIRTUAL_SHARES_OFFSET \<le> i128_max"
    and "assets = priced n (backing bal e s) (supply_of s)" and "0 < assets"
  shows "if assets \<le> bal (outside s) (current_contract e) +
        (\<Sum>a\<leftarrow>strategies_of s. max 0 (liq (outside s) a))
    then \<exists>t. redeem T C e from n s = Inr (assets, t)
    else redeem T C e from n s = Inl (Raised InsufficientAssets)"
  by (rule ready_redeem_outcome [OF live_net.delivers [OF assms(1)] assms(2-5) _ assms(6-13)]) simp

end
