(* ===== verification/LedgerToken.thy ===== *)
theory LedgerToken
  imports StrategyWorld VaultLiveness
begin

text \<open>
  A token that is always able to pay, and the vault over mock strategies in that case: the mock
  delivers what it quotes, so the liveness result applies to it. The concrete ledger, with
  balances and allowances, is the smallest token that satisfies the interface; concrete runs of
  the contracts use it.
\<close>

section \<open>Tokens that pay\<close>

definition token_pays :: "'tok token_client \<Rightarrow> address \<Rightarrow> ('tok \<Rightarrow> address \<Rightarrow> int) \<Rightarrow>
    ('tok \<Rightarrow> bool) \<Rightarrow> bool" where
  "token_pays T asset bal ok \<longleftrightarrow> (\<forall>x. ok x \<longrightarrow>
     (\<forall>a. \<exists>r. token_balance T asset a x = Some r) \<and>
     (\<forall>a b n. 0 < n \<longrightarrow> n \<le> bal x a \<longrightarrow> (\<exists>r. token_transfer T asset a b n x = Some r)))"

record ledger =
  holdings :: "address \<Rightarrow> int"
  allowances :: "address \<Rightarrow> address \<Rightarrow> int"

definition ledger_transfer :: "address \<Rightarrow> address \<Rightarrow> int \<Rightarrow> 'z ledger_scheme \<Rightarrow>
    (unit \<times> 'z ledger_scheme) option" where
  "ledger_transfer a b n x =
     (if 0 \<le> n \<and> n \<le> holdings x a
      then let h = (holdings x)(a := holdings x a - n)
           in Some ((), x\<lparr>holdings := h(b := h b + n)\<rparr>)
      else None)"

definition ledger_token :: "'z ledger_scheme token_client" where
  "ledger_token =
     \<lparr>token_balance = (\<lambda>_ a x. Some (holdings x a, x)),
      token_transfer = (\<lambda>_ a b n. ledger_transfer a b n),
      token_approve = (\<lambda>_ a b n _ x. Some ((), x\<lparr>allowances :=
        (allowances x)(a := (allowances x a)(b := n))\<rparr>))\<rparr>"

definition ledger_ok :: "'z ledger_scheme \<Rightarrow> bool" where
  "ledger_ok x \<longleftrightarrow> (\<forall>a. 0 \<le> holdings x a)"

interpretation ledger: sep41 ledger_token asset holdings ledger_ok for asset
  by unfold_locales
    (auto simp: ledger_token_def ledger_transfer_def ledger_ok_def Let_def fun_eq_iff split: if_splits)

lemma ledger_pays: "token_pays ledger_token asset holdings ledger_ok"
  by (simp add: token_pays_def ledger_token_def ledger_transfer_def Let_def)

section \<open>The mock strategies deliver what they quote\<close>

abbreviation mock_quote :: "'tok mock_world \<Rightarrow> address \<Rightarrow> int" where
  "mock_quote w a \<equiv> mock_balance_of_state (instances w a)"

definition mocks_live :: "address \<Rightarrow> address \<Rightarrow> address set \<Rightarrow> ('tok \<Rightarrow> address \<Rightarrow> int) \<Rightarrow>
    'tok mock_world \<Rightarrow> bool" where
  "mocks_live asset vault A bal w \<longleftrightarrow> (\<forall>a\<in>A. mk_asset (instances w a) = Some asset \<and>
     mk_vault (instances w a) = Some vault \<and> 0 \<le> mock_quote w a \<and>
     mock_quote w a \<le> bal (chain w) a \<and> mock_quote w a \<le> i128_max)"

lemma mocks_live_cong:
  "bal x = bal (chain w) \<Longrightarrow> mocks_live asset vault A bal (w\<lparr>chain := x\<rparr>) = mocks_live asset vault A bal w"
  by (simp add: mocks_live_def)

lemma mock_withdraw_live:
  assumes "sep41 T asset bal ok" and "token_pays T asset bal ok" and "vault \<notin> A"
    and "current_contract e = vault" and "ok (chain w)" and "mocks_live asset vault A bal w"
    and "a \<in> A" and "0 < n" and "n \<le> mock_quote w a"
  shows "\<exists>v. strategy_withdraw (mock_clients T e) a vault n w = Some (n, v) \<and>
    ok (chain v) \<and> mocks_live asset vault A bal v \<and> (\<forall>b. b \<noteq> a \<longrightarrow> mock_quote v b = mock_quote w b)"
proof -
  from assms(6,7) have m: "mk_asset (instances w a) = Some asset"
    "mk_vault (instances w a) = Some vault" "mock_quote w a \<le> bal (chain w) a"
    "mock_quote w a \<le> i128_max" by (auto simp: mocks_live_def)
  with assms(2,5,8,9) obtain x where x: "token_transfer T asset a vault n (chain w) = Some ((), x)"
    by (fastforce simp: token_pays_def)
  have moved: "ok x" "bal x = (\<lambda>c. bal (chain w) c - (if c = a then n else 0) + (if c = vault then n else 0))"
    using sep41.transfer_moves [OF assms(1,5) x] by auto
  let ?s = "(instances w a)\<lparr>outside := chain w\<rparr>"
  have "fits_i128 (mock_quote w a - n)" using assms(8,9) m(4) by (intro fits_nonneg) auto
  then obtain s where s: "mock_withdraw T (callee_env e a) vault n ?s = Inr (n, s)"
    using x m assms(4,8,9) by (fastforce simp: mock_withdraw_success)
  then have st: "outside s = x" "mk_asset s = Some asset" "mk_vault s = Some vault"
    "mock_balance_of_state s = mock_quote w a - n"
    using x m assms(9) by (auto simp: mock_withdraw_success)
  let ?v = "w\<lparr>chain := x, instances := (instances w)(a := s)\<rparr>"
  have "strategy_withdraw (mock_clients T e) a vault n w = Some (n, ?v)"
    using s st(1) by (auto simp: mock_clients_def call_instance_Some)
  moreover have "mocks_live asset vault A bal ?v"
    using assms(3,6-9) st moved by (auto simp: mocks_live_def)
  ultimately show ?thesis using moved(1) by auto
qed

lemma mock_live_net:
  assumes "sep41 T asset bal ok" and "token_pays T asset bal ok" and "vault \<notin> A"
    and "current_contract e = vault"
  shows "live_net (world_token T) asset (\<lambda>w. bal (chain w))
    (\<lambda>w. ok (chain w) \<and> mocks_serve asset A w) (mock_clients T e) vault A
    (\<lambda>w. ok (chain w) \<and> mocks_live asset vault A bal w) mock_quote"
proof (rule live_net.intro, rule mock_strategy_net [OF assms(1,3)], rule live_net_axioms.intro)
  fix w :: "'a mock_world"
  assume w: "ok (chain w) \<and> mocks_live asset vault A bal w"
  show "ok (chain w) \<and> mocks_serve asset A w"
    using w by (simp add: mocks_live_def mocks_serve_def)
  from assms(2) w obtain v x where x: "token_balance T asset vault (chain w) = Some (v, x)"
    by (fastforce simp: token_pays_def)
  with sep41.balance_reads [OF assms(1) _ x] w
  show "\<exists>y. token_balance (world_token T) asset vault w = Some (bal (chain w) vault, y) \<and>
      (ok (chain y) \<and> mocks_live asset vault A bal y) \<and> mock_quote y = mock_quote w"
    by (auto simp: world_token_def on_chain_Some mocks_live_cong)
  show "\<exists>y. strategy_available_liquidity (mock_clients T e) a w = Some (mock_quote w a, y) \<and>
      (ok (chain y) \<and> mocks_live asset vault A bal y) \<and> mock_quote y = mock_quote w" for a
    using w by (auto simp: mock_clients_def call_instance_Some op_success mocks_live_def)
  show "\<exists>y. strategy_withdraw (mock_clients T e) a vault n w = Some (n, y) \<and>
      (ok (chain y) \<and> mocks_live asset vault A bal y) \<and>
      (\<forall>b. b \<noteq> a \<longrightarrow> mock_quote y b = mock_quote w b)"
    if "a \<in> A" "0 < n" "n \<le> mock_quote w a" for a n
    using mock_withdraw_live [OF assms _ _ that] w by auto
  show "\<exists>y. token_transfer (world_token T) asset vault to n w = Some ((), y)"
    if "0 < n" "n \<le> bal (chain w) vault" for n to
    using assms(2) that w by (fastforce simp: token_pays_def world_token_def on_chain_Some)
qed

text \<open>The mock on the concrete ledger, for every vault and asset.\<close>

interpretation mock_net: live_net "world_token ledger_token" asset "\<lambda>w. holdings (chain w)"
    "\<lambda>w. ledger_ok (chain w) \<and> mocks_serve asset (- {current_contract e}) w"
    "mock_clients ledger_token e" "current_contract e" "- {current_contract e}"
    "\<lambda>w. ledger_ok (chain w) \<and> mocks_live asset (current_contract e) (- {current_contract e}) holdings w"
    mock_quote for asset e
  by (rule mock_live_net) (auto intro: ledger.sep41_axioms ledger_pays)

end
