(* ===== verification/BlendStorage.thy ===== *)
theory BlendStorage
  imports Common
begin

text \<open>
  Storage and events of \<^verbatim>\<open>blend-strategy\<close> (\<^verbatim>\<open>storage.rs\<close>, \<^verbatim>\<open>events.rs\<close>),
  in the form the vault's storage has: one record field per variant of \<^verbatim>\<open>DataKey\<close>, one
  definition per getter, setter and event constructor, and one \<open>op_success\<close> lemma for each.
\<close>

section \<open>Events\<close>

datatype blend_event =
    BlendDeposit int
  | BlendWithdraw int int
  | BlendEmergencyWithdraw int address
  | BlendPause address
  | BlendUnpause address
  | BlendConfigUpdate string nat
  | BlendAdminChanged address address
  | BlendVaultChanged address address
  | BlendUpgrade bytes_n32

type_synonym ('k, 'x, 'z) blend_emit =
  "(('k, blend_event, 'x, 'z) runtime_scheme, strategy_error, unit) operation"

definition blend_emit_deposit :: "int \<Rightarrow> ('k, 'x, 'z) blend_emit" where
  "blend_emit_deposit amount = publish (BlendDeposit amount)"

definition blend_emit_withdraw :: "int \<Rightarrow> int \<Rightarrow> ('k, 'x, 'z) blend_emit" where
  "blend_emit_withdraw amount requested = publish (BlendWithdraw amount requested)"

definition blend_emit_emergency_withdraw :: "int \<Rightarrow> address \<Rightarrow> ('k, 'x, 'z) blend_emit" where
  "blend_emit_emergency_withdraw amount caller = publish (BlendEmergencyWithdraw amount caller)"

definition blend_emit_pause :: "address \<Rightarrow> ('k, 'x, 'z) blend_emit" where
  "blend_emit_pause caller = publish (BlendPause caller)"

definition blend_emit_unpause :: "address \<Rightarrow> ('k, 'x, 'z) blend_emit" where
  "blend_emit_unpause caller = publish (BlendUnpause caller)"

definition blend_emit_config_update :: "string \<Rightarrow> nat \<Rightarrow> ('k, 'x, 'z) blend_emit" where
  "blend_emit_config_update key v = publish (BlendConfigUpdate key v)"

definition blend_emit_admin_changed :: "address \<Rightarrow> address \<Rightarrow> ('k, 'x, 'z) blend_emit" where
  "blend_emit_admin_changed old_admin new_admin = publish (BlendAdminChanged old_admin new_admin)"

definition blend_emit_vault_changed :: "address \<Rightarrow> address \<Rightarrow> ('k, 'x, 'z) blend_emit" where
  "blend_emit_vault_changed old_vault new_vault = publish (BlendVaultChanged old_vault new_vault)"

definition blend_emit_upgrade :: "bytes_n32 \<Rightarrow> ('k, 'x, 'z) blend_emit" where
  "blend_emit_upgrade new_wasm_hash = publish (BlendUpgrade new_wasm_hash)"

lemmas blend_emit_defs =
  blend_emit_deposit_def blend_emit_withdraw_def blend_emit_emergency_withdraw_def
  blend_emit_pause_def blend_emit_unpause_def blend_emit_config_update_def
  blend_emit_admin_changed_def blend_emit_vault_changed_def blend_emit_upgrade_def

declare blend_emit_defs [op_run, op_success]

section \<open>Storage\<close>

datatype blend_key =
    BlInitialized | BlAdmin | BlPendingAdmin | BlVault | BlAsset | BlBlendPool | BlPaused
  | BlTrackedBalance | BlMaxUtilizationBps | BlMinBackstopCoverageBps | BlApprovalLedgerBuffer
  | BlUpgradeDelay | BlScheduledUpgradeHash | BlScheduledUpgradeAt

definition DEFAULT_MAX_UTILIZATION_BPS :: nat where "DEFAULT_MAX_UTILIZATION_BPS = 9500"
definition DEFAULT_MIN_BACKSTOP_BPS :: nat where "DEFAULT_MIN_BACKSTOP_BPS = 500"
definition DEFAULT_APPROVAL_BUFFER :: nat where "DEFAULT_APPROVAL_BUFFER = 200"
definition BLEND_DEFAULT_UPGRADE_DELAY :: nat where "BLEND_DEFAULT_UPGRADE_DELAY = 172800"
definition BLEND_MIN_UPGRADE_DELAY :: nat where "BLEND_MIN_UPGRADE_DELAY = 3600"

record 'x blend = "(blend_key, blend_event, 'x) runtime" +
  bl_initialized :: "bool option"
  bl_admin :: "address option"
  bl_pending_admin :: "address option"
  bl_vault :: "address option"
  bl_asset :: "address option"
  bl_pool :: "address option"
  bl_paused :: "bool option"
  bl_tracked :: "int option"
  bl_max_utilization_bps :: "nat option"
  bl_min_backstop_bps :: "nat option"
  bl_approval_buffer :: "nat option"
  bl_upgrade_delay :: "nat option"
  bl_scheduled_hash :: "bytes_n32 option"
  bl_scheduled_at :: "nat option"

definition blend_deployed :: "bytes_n32 \<Rightarrow> 'x \<Rightarrow> 'x blend" where
  "blend_deployed h x = \<lparr>ttl_log = [], event_log = [], code_hash = h, outside = x,
     bl_initialized = None, bl_admin = None, bl_pending_admin = None, bl_vault = None, bl_asset = None,
     bl_pool = None, bl_paused = None, bl_tracked = None, bl_max_utilization_bps = None,
     bl_min_backstop_bps = None, bl_approval_buffer = None, bl_upgrade_delay = None, bl_scheduled_hash = None, bl_scheduled_at = None\<rparr>"

lemma log_ttl_blend_fields [simp]:
  "bl_initialized (log_ttl rs s) = bl_initialized s"
  "bl_admin (log_ttl rs s) = bl_admin s"
  "bl_pending_admin (log_ttl rs s) = bl_pending_admin s"
  "bl_vault (log_ttl rs s) = bl_vault s"
  "bl_asset (log_ttl rs s) = bl_asset s"
  "bl_pool (log_ttl rs s) = bl_pool s"
  "bl_paused (log_ttl rs s) = bl_paused s"
  "bl_tracked (log_ttl rs s) = bl_tracked s"
  "bl_max_utilization_bps (log_ttl rs s) = bl_max_utilization_bps s"
  "bl_min_backstop_bps (log_ttl rs s) = bl_min_backstop_bps s"
  "bl_approval_buffer (log_ttl rs s) = bl_approval_buffer s"
  "bl_upgrade_delay (log_ttl rs s) = bl_upgrade_delay s"
  "bl_scheduled_hash (log_ttl rs s) = bl_scheduled_hash s"
  "bl_scheduled_at (log_ttl rs s) = bl_scheduled_at s"
  by (simp_all add: log_ttl_def)

lemma log_ttl_blend_updates [simp]:
  "(log_ttl rs s)\<lparr>event_log := v_event_log\<rparr> = log_ttl rs (s\<lparr>event_log := v_event_log\<rparr>)"
  "(log_ttl rs s)\<lparr>code_hash := v_code_hash\<rparr> = log_ttl rs (s\<lparr>code_hash := v_code_hash\<rparr>)"
  "(log_ttl rs s)\<lparr>outside := v_outside\<rparr> = log_ttl rs (s\<lparr>outside := v_outside\<rparr>)"
  "(log_ttl rs s)\<lparr>bl_initialized := v_bl_initialized\<rparr> = log_ttl rs (s\<lparr>bl_initialized := v_bl_initialized\<rparr>)"
  "(log_ttl rs s)\<lparr>bl_admin := v_bl_admin\<rparr> = log_ttl rs (s\<lparr>bl_admin := v_bl_admin\<rparr>)"
  "(log_ttl rs s)\<lparr>bl_pending_admin := v_bl_pending_admin\<rparr> = log_ttl rs (s\<lparr>bl_pending_admin := v_bl_pending_admin\<rparr>)"
  "(log_ttl rs s)\<lparr>bl_vault := v_bl_vault\<rparr> = log_ttl rs (s\<lparr>bl_vault := v_bl_vault\<rparr>)"
  "(log_ttl rs s)\<lparr>bl_asset := v_bl_asset\<rparr> = log_ttl rs (s\<lparr>bl_asset := v_bl_asset\<rparr>)"
  "(log_ttl rs s)\<lparr>bl_pool := v_bl_pool\<rparr> = log_ttl rs (s\<lparr>bl_pool := v_bl_pool\<rparr>)"
  "(log_ttl rs s)\<lparr>bl_paused := v_bl_paused\<rparr> = log_ttl rs (s\<lparr>bl_paused := v_bl_paused\<rparr>)"
  "(log_ttl rs s)\<lparr>bl_tracked := v_bl_tracked\<rparr> = log_ttl rs (s\<lparr>bl_tracked := v_bl_tracked\<rparr>)"
  "(log_ttl rs s)\<lparr>bl_max_utilization_bps := v_bl_max_utilization_bps\<rparr> = log_ttl rs (s\<lparr>bl_max_utilization_bps := v_bl_max_utilization_bps\<rparr>)"
  "(log_ttl rs s)\<lparr>bl_min_backstop_bps := v_bl_min_backstop_bps\<rparr> = log_ttl rs (s\<lparr>bl_min_backstop_bps := v_bl_min_backstop_bps\<rparr>)"
  "(log_ttl rs s)\<lparr>bl_approval_buffer := v_bl_approval_buffer\<rparr> = log_ttl rs (s\<lparr>bl_approval_buffer := v_bl_approval_buffer\<rparr>)"
  "(log_ttl rs s)\<lparr>bl_upgrade_delay := v_bl_upgrade_delay\<rparr> = log_ttl rs (s\<lparr>bl_upgrade_delay := v_bl_upgrade_delay\<rparr>)"
  "(log_ttl rs s)\<lparr>bl_scheduled_hash := v_bl_scheduled_hash\<rparr> = log_ttl rs (s\<lparr>bl_scheduled_hash := v_bl_scheduled_hash\<rparr>)"
  "(log_ttl rs s)\<lparr>bl_scheduled_at := v_bl_scheduled_at\<rparr> = log_ttl rs (s\<lparr>bl_scheduled_at := v_bl_scheduled_at\<rparr>)"
  for s :: "'x blend"
  by (simp_all add: log_ttl_def)

type_synonym ('x, 'a) blend_op = "('x blend, strategy_error, 'a) operation"

subsection \<open>Instance entries\<close>

definition blend_get_pending_admin :: "('x, address option) blend_op" where
  "blend_get_pending_admin = gets bl_pending_admin"

definition blend_set_pending_admin :: "address \<Rightarrow> ('x, unit) blend_op" where
  "blend_set_pending_admin v = modify (\<lambda>s. s\<lparr>bl_pending_admin := Some v\<rparr>)"

definition blend_clear_pending_admin :: "('x, unit) blend_op" where
  "blend_clear_pending_admin = modify (\<lambda>s. s\<lparr>bl_pending_admin := None\<rparr>)"

definition blend_is_initialized :: "('x, bool) blend_op" where
  "blend_is_initialized = gets (\<lambda>s. bl_initialized s \<noteq> None)"

definition blend_set_initialized :: "('x, unit) blend_op" where
  "blend_set_initialized = modify (\<lambda>s. s\<lparr>bl_initialized := Some True\<rparr>)"

definition blend_get_admin :: "('x, address) blend_op" where
  "blend_get_admin = bind (gets bl_admin) unwrap"

definition blend_set_admin :: "address \<Rightarrow> ('x, unit) blend_op" where
  "blend_set_admin v = modify (\<lambda>s. s\<lparr>bl_admin := Some v\<rparr>)"

definition blend_get_vault :: "('x, address) blend_op" where
  "blend_get_vault = bind (gets bl_vault) unwrap"

definition blend_set_vault :: "address \<Rightarrow> ('x, unit) blend_op" where
  "blend_set_vault v = modify (\<lambda>s. s\<lparr>bl_vault := Some v\<rparr>)"

definition blend_get_asset :: "('x, address) blend_op" where
  "blend_get_asset = bind (gets bl_asset) unwrap"

definition blend_set_asset :: "address \<Rightarrow> ('x, unit) blend_op" where
  "blend_set_asset v = modify (\<lambda>s. s\<lparr>bl_asset := Some v\<rparr>)"

definition blend_get_pool :: "('x, address) blend_op" where
  "blend_get_pool = bind (gets bl_pool) unwrap"

definition blend_set_pool :: "address \<Rightarrow> ('x, unit) blend_op" where
  "blend_set_pool v = modify (\<lambda>s. s\<lparr>bl_pool := Some v\<rparr>)"

definition blend_paused :: "('x, bool) blend_op" where
  "blend_paused = gets (\<lambda>s. unwrap_or (bl_paused s) False)"

definition blend_set_paused :: "bool \<Rightarrow> ('x, unit) blend_op" where
  "blend_set_paused v = modify (\<lambda>s. s\<lparr>bl_paused := Some v\<rparr>)"

definition blend_get_max_utilization_bps :: "('x, nat) blend_op" where
  "blend_get_max_utilization_bps = gets (\<lambda>s. unwrap_or (bl_max_utilization_bps s) DEFAULT_MAX_UTILIZATION_BPS)"

definition blend_set_max_utilization_bps :: "nat \<Rightarrow> ('x, unit) blend_op" where
  "blend_set_max_utilization_bps v = modify (\<lambda>s. s\<lparr>bl_max_utilization_bps := Some v\<rparr>)"

definition blend_get_min_backstop_bps :: "('x, nat) blend_op" where
  "blend_get_min_backstop_bps = gets (\<lambda>s. unwrap_or (bl_min_backstop_bps s) DEFAULT_MIN_BACKSTOP_BPS)"

definition blend_set_min_backstop_bps :: "nat \<Rightarrow> ('x, unit) blend_op" where
  "blend_set_min_backstop_bps v = modify (\<lambda>s. s\<lparr>bl_min_backstop_bps := Some v\<rparr>)"

definition blend_get_approval_buffer :: "('x, nat) blend_op" where
  "blend_get_approval_buffer = gets (\<lambda>s. unwrap_or (bl_approval_buffer s) DEFAULT_APPROVAL_BUFFER)"

definition blend_put_approval_buffer :: "nat \<Rightarrow> ('x, unit) blend_op" where
  "blend_put_approval_buffer v = modify (\<lambda>s. s\<lparr>bl_approval_buffer := Some v\<rparr>)"

definition blend_get_upgrade_delay :: "('x, nat) blend_op" where
  "blend_get_upgrade_delay = gets (\<lambda>s. unwrap_or (bl_upgrade_delay s) BLEND_DEFAULT_UPGRADE_DELAY)"

definition blend_put_upgrade_delay :: "nat \<Rightarrow> ('x, unit) blend_op" where
  "blend_put_upgrade_delay v = modify (\<lambda>s. s\<lparr>bl_upgrade_delay := Some v\<rparr>)"

subsection \<open>Persistent entries\<close>

definition blend_get_tracked :: "('x, int) blend_op" where
  "blend_get_tracked =
     bind (gets (\<lambda>s. unwrap_or (bl_tracked s) 0)) (\<lambda>val.
     bind (when_do (val \<noteq> 0) (bump_persistent BlTrackedBalance)) (\<lambda>_.
     return val))"

definition blend_set_tracked :: "int \<Rightarrow> ('x, unit) blend_op" where
  "blend_set_tracked v =
     bind (modify (\<lambda>s. s\<lparr>bl_tracked := Some v\<rparr>)) (\<lambda>_. bump_persistent BlTrackedBalance)"

definition blend_scheduled_of :: "'x blend \<Rightarrow> (bytes_n32 \<times> nat) option" where
  "blend_scheduled_of s =
     (case (bl_scheduled_hash s, bl_scheduled_at s) of
        (Some h, Some t) \<Rightarrow> Some (h, t) | _ \<Rightarrow> None)"

definition blend_get_scheduled_upgrade :: "('x, (bytes_n32 \<times> nat) option) blend_op" where
  "blend_get_scheduled_upgrade =
     bind (gets bl_scheduled_hash) (\<lambda>hash.
     bind (gets bl_scheduled_at) (\<lambda>at.
     return (case (hash, at) of (Some h, Some t) \<Rightarrow> Some (h, t) | _ \<Rightarrow> None)))"

definition blend_set_scheduled_upgrade :: "bytes_n32 \<Rightarrow> nat \<Rightarrow> ('x, unit) blend_op" where
  "blend_set_scheduled_upgrade hash at =
     bind (modify (\<lambda>s. s\<lparr>bl_scheduled_hash := Some hash\<rparr>)) (\<lambda>_.
     bind (modify (\<lambda>s. s\<lparr>bl_scheduled_at := Some at\<rparr>)) (\<lambda>_.
     bind (bump_persistent BlScheduledUpgradeHash) (\<lambda>_.
     bump_persistent BlScheduledUpgradeAt)))"

definition blend_clear_scheduled_upgrade :: "('x, unit) blend_op" where
  "blend_clear_scheduled_upgrade =
     bind (modify (\<lambda>s. s\<lparr>bl_scheduled_hash := None\<rparr>)) (\<lambda>_.
     modify (\<lambda>s. s\<lparr>bl_scheduled_at := None\<rparr>))"

abbreviation blend_tracked :: "'x blend \<Rightarrow> int" where
  "blend_tracked s \<equiv> unwrap_or (bl_tracked s) 0"

abbreviation blend_upgrade_delay_of :: "'x blend \<Rightarrow> nat" where
  "blend_upgrade_delay_of s \<equiv> unwrap_or (bl_upgrade_delay s) BLEND_DEFAULT_UPGRADE_DELAY"

section \<open>What the storage operations do\<close>

lemma blend_get_pending_admin_success [op_success]:
  "blend_get_pending_admin s = Inr (v, t) \<longleftrightarrow> v = bl_pending_admin s \<and> t = s"
  by (auto simp: blend_get_pending_admin_def op_success)

lemma blend_set_pending_admin_success [op_success]:
  "blend_set_pending_admin v s = Inr (u, t) \<longleftrightarrow> t = s\<lparr>bl_pending_admin := Some v\<rparr>"
  by (simp add: blend_set_pending_admin_def op_success)

lemma blend_clear_pending_admin_success [op_success]:
  "blend_clear_pending_admin s = Inr (u, t) \<longleftrightarrow> t = s\<lparr>bl_pending_admin := None\<rparr>"
  by (simp add: blend_clear_pending_admin_def op_success)

lemma blend_is_initialized_success [op_success]:
  "blend_is_initialized s = Inr (v, t) \<longleftrightarrow> v = (bl_initialized s \<noteq> None) \<and> t = s"
  by (auto simp: blend_is_initialized_def op_success)

lemma blend_set_initialized_success [op_success]:
  "blend_set_initialized s = Inr (u, t) \<longleftrightarrow> t = s\<lparr>bl_initialized := Some True\<rparr>"
  by (simp add: blend_set_initialized_def op_success)

lemma blend_get_admin_success [op_success]:
  "blend_get_admin s = Inr (v, t) \<longleftrightarrow> bl_admin s = Some v \<and> t = s"
  by (auto simp: blend_get_admin_def op_success)

lemma blend_set_admin_success [op_success]:
  "blend_set_admin v s = Inr (u, t) \<longleftrightarrow> t = s\<lparr>bl_admin := Some v\<rparr>"
  by (simp add: blend_set_admin_def op_success)

lemma blend_get_vault_success [op_success]:
  "blend_get_vault s = Inr (v, t) \<longleftrightarrow> bl_vault s = Some v \<and> t = s"
  by (auto simp: blend_get_vault_def op_success)

lemma blend_set_vault_success [op_success]:
  "blend_set_vault v s = Inr (u, t) \<longleftrightarrow> t = s\<lparr>bl_vault := Some v\<rparr>"
  by (simp add: blend_set_vault_def op_success)

lemma blend_get_asset_success [op_success]:
  "blend_get_asset s = Inr (v, t) \<longleftrightarrow> bl_asset s = Some v \<and> t = s"
  by (auto simp: blend_get_asset_def op_success)

lemma blend_set_asset_success [op_success]:
  "blend_set_asset v s = Inr (u, t) \<longleftrightarrow> t = s\<lparr>bl_asset := Some v\<rparr>"
  by (simp add: blend_set_asset_def op_success)

lemma blend_get_pool_success [op_success]:
  "blend_get_pool s = Inr (v, t) \<longleftrightarrow> bl_pool s = Some v \<and> t = s"
  by (auto simp: blend_get_pool_def op_success)

lemma blend_set_pool_success [op_success]:
  "blend_set_pool v s = Inr (u, t) \<longleftrightarrow> t = s\<lparr>bl_pool := Some v\<rparr>"
  by (simp add: blend_set_pool_def op_success)

lemma blend_paused_success [op_success]:
  "blend_paused s = Inr (v, t) \<longleftrightarrow> v = unwrap_or (bl_paused s) False \<and> t = s"
  by (auto simp: blend_paused_def op_success)

lemma blend_set_paused_success [op_success]:
  "blend_set_paused v s = Inr (u, t) \<longleftrightarrow> t = s\<lparr>bl_paused := Some v\<rparr>"
  by (simp add: blend_set_paused_def op_success)

lemma blend_get_max_utilization_bps_success [op_success]:
  "blend_get_max_utilization_bps s = Inr (v, t) \<longleftrightarrow> v = unwrap_or (bl_max_utilization_bps s) DEFAULT_MAX_UTILIZATION_BPS \<and> t = s"
  by (auto simp: blend_get_max_utilization_bps_def op_success)

lemma blend_set_max_utilization_bps_success [op_success]:
  "blend_set_max_utilization_bps v s = Inr (u, t) \<longleftrightarrow> t = s\<lparr>bl_max_utilization_bps := Some v\<rparr>"
  by (simp add: blend_set_max_utilization_bps_def op_success)

lemma blend_get_min_backstop_bps_success [op_success]:
  "blend_get_min_backstop_bps s = Inr (v, t) \<longleftrightarrow> v = unwrap_or (bl_min_backstop_bps s) DEFAULT_MIN_BACKSTOP_BPS \<and> t = s"
  by (auto simp: blend_get_min_backstop_bps_def op_success)

lemma blend_set_min_backstop_bps_success [op_success]:
  "blend_set_min_backstop_bps v s = Inr (u, t) \<longleftrightarrow> t = s\<lparr>bl_min_backstop_bps := Some v\<rparr>"
  by (simp add: blend_set_min_backstop_bps_def op_success)

lemma blend_get_approval_buffer_success [op_success]:
  "blend_get_approval_buffer s = Inr (v, t) \<longleftrightarrow> v = unwrap_or (bl_approval_buffer s) DEFAULT_APPROVAL_BUFFER \<and> t = s"
  by (auto simp: blend_get_approval_buffer_def op_success)

lemma blend_put_approval_buffer_success [op_success]:
  "blend_put_approval_buffer v s = Inr (u, t) \<longleftrightarrow> t = s\<lparr>bl_approval_buffer := Some v\<rparr>"
  by (simp add: blend_put_approval_buffer_def op_success)

lemma blend_get_upgrade_delay_success [op_success]:
  "blend_get_upgrade_delay s = Inr (v, t) \<longleftrightarrow> v = unwrap_or (bl_upgrade_delay s) BLEND_DEFAULT_UPGRADE_DELAY \<and> t = s"
  by (auto simp: blend_get_upgrade_delay_def op_success)

lemma blend_put_upgrade_delay_success [op_success]:
  "blend_put_upgrade_delay v s = Inr (u, t) \<longleftrightarrow> t = s\<lparr>bl_upgrade_delay := Some v\<rparr>"
  by (simp add: blend_put_upgrade_delay_def op_success)

lemma blend_get_tracked_success [op_success]:
  "blend_get_tracked s = Inr (v, t) \<longleftrightarrow> v = blend_tracked s \<and>
     t = log_ttl (if v \<noteq> 0 then [persistent_request BlTrackedBalance] else []) s"
  by (auto simp: blend_get_tracked_def op_success)

lemma blend_set_tracked_success [op_success]:
  "blend_set_tracked v s = Inr (u, t) \<longleftrightarrow>
     t = log_ttl [persistent_request BlTrackedBalance] (s\<lparr>bl_tracked := Some v\<rparr>)"
  by (simp add: blend_set_tracked_def op_success)

lemma blend_scheduled_log_ttl [simp]: "blend_scheduled_of (log_ttl rs s) = blend_scheduled_of s"
  by (simp add: blend_scheduled_of_def)

lemma blend_get_scheduled_upgrade_success [op_success]:
  "blend_get_scheduled_upgrade s = Inr (v, t) \<longleftrightarrow> v = blend_scheduled_of s \<and> t = s"
  by (auto simp: blend_get_scheduled_upgrade_def blend_scheduled_of_def op_success)

lemma blend_set_scheduled_upgrade_success [op_success]:
  "blend_set_scheduled_upgrade h n s = Inr (u, t) \<longleftrightarrow>
     t = log_ttl [persistent_request BlScheduledUpgradeHash, persistent_request BlScheduledUpgradeAt]
       (s\<lparr>bl_scheduled_hash := Some h, bl_scheduled_at := Some n\<rparr>)"
  by (simp add: blend_set_scheduled_upgrade_def op_success)

lemma blend_clear_scheduled_upgrade_success [op_success]:
  "blend_clear_scheduled_upgrade s = Inr (u, t) \<longleftrightarrow>
     t = s\<lparr>bl_scheduled_hash := None, bl_scheduled_at := None\<rparr>"
  by (simp add: blend_clear_scheduled_upgrade_def op_success)

lemmas blend_storage_defs =
  blend_get_pending_admin_def blend_set_pending_admin_def blend_clear_pending_admin_def
  blend_is_initialized_def blend_set_initialized_def blend_get_admin_def
  blend_set_admin_def blend_get_vault_def blend_set_vault_def
  blend_get_asset_def blend_set_asset_def blend_get_pool_def
  blend_set_pool_def blend_paused_def blend_set_paused_def
  blend_get_max_utilization_bps_def blend_set_max_utilization_bps_def blend_get_min_backstop_bps_def
  blend_set_min_backstop_bps_def blend_get_approval_buffer_def blend_put_approval_buffer_def
  blend_get_upgrade_delay_def blend_put_upgrade_delay_def blend_get_tracked_def
  blend_set_tracked_def blend_get_scheduled_upgrade_def blend_set_scheduled_upgrade_def
  blend_clear_scheduled_upgrade_def

declare blend_storage_defs [op_run]

end
