(* ===== verification/BlendStrategy.thy ===== *)
theory BlendStrategy
  imports BlendStorage
begin

text \<open>
  The contract \<^verbatim>\<open>blend-strategy\<close> (\<^verbatim>\<open>lib.rs\<close>): the adapter that supplies the
  vault's asset to a Blend lending pool. The pool is a parameter, a record of the client functions
  the adapter calls; the fields of its reserve and position data are those the adapter reads.
\<close>

section \<open>The lending pool's client\<close>

record pool_request =
  request_type :: nat
  request_address :: address
  request_amount :: int

record reserve_data =
  b_rate :: int
  d_rate :: int
  b_supply :: int
  d_supply :: int
  backstop_credit :: int

record reserve =
  reserve_index :: nat
  reserve_data_of :: reserve_data

text \<open>
  \<^verbatim>\<open>submit\<close>, \<^verbatim>\<open>submit_with_allowance\<close> and \<^verbatim>\<open>claim\<close> trap when the pool fails
  (\<open>None\<close>). The \<^verbatim>\<open>try_\<close> variants report the failure as a value, here \<open>None\<close> too, and
  the caller goes on.
\<close>

record 'x pool_client =
  pool_submit :: "address \<Rightarrow> address \<Rightarrow> address \<Rightarrow> address \<Rightarrow> pool_request list \<Rightarrow> 'x \<Rightarrow> (unit \<times> 'x) option"
  pool_submit_with_allowance ::
    "address \<Rightarrow> address \<Rightarrow> address \<Rightarrow> address \<Rightarrow> pool_request list \<Rightarrow> 'x \<Rightarrow> (unit \<times> 'x) option"
  pool_try_get_reserve :: "address \<Rightarrow> address \<Rightarrow> 'x \<Rightarrow> (reserve \<times> 'x) option"
  pool_try_get_positions :: "address \<Rightarrow> address \<Rightarrow> 'x \<Rightarrow> ((nat \<rightharpoonup> int) \<times> 'x) option"
  pool_claim :: "address \<Rightarrow> address \<Rightarrow> nat list \<Rightarrow> address \<Rightarrow> 'x \<Rightarrow> (int \<times> 'x) option"

definition external_try ::
  "('x \<Rightarrow> ('r \<times> 'x) option) \<Rightarrow> (('k, 'ev, 'x, 'z) runtime_scheme, 'e, 'r option) operation" where
  "external_try f s = (case f (outside s) of
     None \<Rightarrow> Inr (None, s) | Some (r, x) \<Rightarrow> Inr (Some r, s\<lparr>outside := x\<rparr>))"

lemma external_try_success [op_success]:
  "external_try f s = Inr (r, t) \<longleftrightarrow>
     (r = None \<and> f (outside s) = None \<and> t = s \<or>
      (\<exists>v x. r = Some v \<and> f (outside s) = Some (v, x) \<and> t = s\<lparr>outside := x\<rparr>))"
  by (auto simp: external_try_def split: option.splits)

declare external_try_def [op_run]

section \<open>Constants and guards\<close>

definition REQUEST_SUPPLY_COLLATERAL :: nat where "REQUEST_SUPPLY_COLLATERAL = 2"
definition REQUEST_WITHDRAW_COLLATERAL :: nat where "REQUEST_WITHDRAW_COLLATERAL = 3"
definition BLEND_RATE_SCALAR :: int where "BLEND_RATE_SCALAR = 1000000000000"
definition AVAILABLE_LIQUIDITY_ROUNDING_MARGIN :: int where
  "AVAILABLE_LIQUIDITY_ROUNDING_MARGIN = 2"

definition apply_rounding_margin :: "int \<Rightarrow> ('s, 'e, int) operation" where
  "apply_rounding_margin v =
     bind (sub_i128 v AVAILABLE_LIQUIDITY_ROUNDING_MARGIN) (\<lambda>trimmed.
     return (if trimmed < 0 then 0 else trimmed))"

definition blend_require_vault :: "address \<Rightarrow> ('x, unit) blend_op" where
  "blend_require_vault caller =
     bind blend_get_vault (\<lambda>vault. raise_if (caller \<noteq> vault) Unauthorized)"

definition blend_require_admin :: "address \<Rightarrow> ('x, unit) blend_op" where
  "blend_require_admin caller =
     bind blend_get_admin (\<lambda>admin. raise_if (caller \<noteq> admin) Unauthorized)"

definition blend_require_not_paused :: "('x, unit) blend_op" where
  "blend_require_not_paused = bind blend_paused (\<lambda>p. raise_if p Paused)"

lemma apply_rounding_margin_success [op_success]:
  "apply_rounding_margin v s = Inr (m, t) \<longleftrightarrow> fits_i128 (v - 2) \<and> m = max 0 (v - 2) \<and> t = s"
  by (auto simp: apply_rounding_margin_def AVAILABLE_LIQUIDITY_ROUNDING_MARGIN_def op_success)

lemma blend_guard_success [op_success]:
  "blend_require_vault caller s = Inr (u, t) \<longleftrightarrow> bl_vault s = Some caller \<and> t = s"
  "blend_require_admin caller s = Inr (u, t) \<longleftrightarrow> bl_admin s = Some caller \<and> t = s"
  "blend_require_not_paused s = Inr (u, t) \<longleftrightarrow> \<not> unwrap_or (bl_paused s) False \<and> t = s"
  by (auto simp: blend_require_vault_def blend_require_admin_def blend_require_not_paused_def
      op_success)

section \<open>Initialization\<close>

definition blend_initialize ::
  "env \<Rightarrow> address \<Rightarrow> address \<Rightarrow> address \<Rightarrow> address \<Rightarrow> ('x, unit) blend_op" where
  "blend_initialize e admin vault asset blend_pool =
     bind (require_auth e admin) (\<lambda>_.
     bind blend_is_initialized (\<lambda>initialized.
     bind (raise_if initialized AlreadyInitialized) (\<lambda>_.
     bind blend_set_initialized (\<lambda>_.
     bind (blend_set_admin admin) (\<lambda>_.
     bind (blend_set_vault vault) (\<lambda>_.
     bind (blend_set_asset asset) (\<lambda>_.
     bind (blend_set_pool blend_pool) (\<lambda>_.
     bind (blend_set_paused False) (\<lambda>_.
     bind (blend_set_max_utilization_bps DEFAULT_MAX_UTILIZATION_BPS) (\<lambda>_.
     bind (blend_set_min_backstop_bps DEFAULT_MIN_BACKSTOP_BPS) (\<lambda>_.
     bind (blend_put_approval_buffer DEFAULT_APPROVAL_BUFFER) (\<lambda>_.
     bind (blend_put_upgrade_delay BLEND_DEFAULT_UPGRADE_DELAY) (\<lambda>_.
     bind (blend_set_tracked 0) (\<lambda>_.
     bump_instance))))))))))))))"

lemma blend_initialize_success:
  "blend_initialize e admin vault asset pool s = Inr (u, t) \<longleftrightarrow>
     authorised e admin \<and> bl_initialized s = None \<and>
     t = log_ttl [persistent_request BlTrackedBalance, instance_request]
       (s\<lparr>bl_initialized := Some True, bl_admin := Some admin, bl_vault := Some vault,
          bl_asset := Some asset, bl_pool := Some pool, bl_paused := Some False,
          bl_max_utilization_bps := Some DEFAULT_MAX_UTILIZATION_BPS,
          bl_min_backstop_bps := Some DEFAULT_MIN_BACKSTOP_BPS,
          bl_approval_buffer := Some DEFAULT_APPROVAL_BUFFER,
          bl_upgrade_delay := Some BLEND_DEFAULT_UPGRADE_DELAY, bl_tracked := Some 0\<rparr>)"
  by (auto simp: blend_initialize_def op_success)

section \<open>Core operations\<close>

definition collateral_request :: "nat \<Rightarrow> address \<Rightarrow> int \<Rightarrow> pool_request" where
  "collateral_request kind asset amount =
     \<lparr>request_type = kind, request_address = asset, request_amount = amount\<rparr>"

definition blend_deposit :: "'x token_client \<Rightarrow> 'x pool_client \<Rightarrow> env \<Rightarrow> address \<Rightarrow> int \<Rightarrow>
    ('x, unit) blend_op" where
  "blend_deposit T P e caller amount =
     bind (require_auth e caller) (\<lambda>_.
     bind (blend_require_vault caller) (\<lambda>_.
     bind blend_require_not_paused (\<lambda>_.
     bind (raise_if (amount \<le> 0) ZeroAmount) (\<lambda>_.
     bind blend_get_asset (\<lambda>asset.
     bind blend_get_pool (\<lambda>blend_pool_addr.
     let contract_addr = current_contract e in
     bind blend_get_approval_buffer (\<lambda>buffer.
     bind (add_u32 (ledger_sequence e) buffer) (\<lambda>approval_ledger.
     bind (external_call (token_approve T asset contract_addr blend_pool_addr amount approval_ledger)) (\<lambda>_.
     let requests = [collateral_request REQUEST_SUPPLY_COLLATERAL asset amount] in
     bind (external_call (pool_submit_with_allowance P blend_pool_addr contract_addr contract_addr
       contract_addr requests)) (\<lambda>_.
     bind blend_get_tracked (\<lambda>balance.
     bind (add_i128 balance amount) (\<lambda>new_balance.
     bind (blend_set_tracked new_balance) (\<lambda>_.
     bind (blend_emit_deposit amount) (\<lambda>_.
     bump_instance))))))))))))))"

definition blend_withdraw :: "'x token_client \<Rightarrow> 'x pool_client \<Rightarrow> env \<Rightarrow> address \<Rightarrow> int \<Rightarrow>
    ('x, int) blend_op" where
  "blend_withdraw T P e caller amount =
     bind (require_auth e caller) (\<lambda>_.
     bind (blend_require_vault caller) (\<lambda>_.
     bind (raise_if (amount \<le> 0) ZeroAmount) (\<lambda>_.
     bind blend_get_tracked (\<lambda>balance.
     let withdraw_amount = (if amount > balance then balance else amount) in
     bind (raise_if (withdraw_amount = 0) InsufficientBalance) (\<lambda>_.
     bind blend_get_asset (\<lambda>asset.
     bind blend_get_pool (\<lambda>blend_pool_addr.
     let contract_addr = current_contract e;
         requests = [collateral_request REQUEST_WITHDRAW_COLLATERAL asset withdraw_amount] in
     bind (external_call (pool_submit P blend_pool_addr contract_addr contract_addr contract_addr
       requests)) (\<lambda>_.
     bind (external_call (token_transfer T asset contract_addr caller withdraw_amount)) (\<lambda>_.
     bind (sub_i128 balance withdraw_amount) (\<lambda>new_balance.
     bind (blend_set_tracked new_balance) (\<lambda>_.
     bind (blend_emit_withdraw withdraw_amount amount) (\<lambda>_.
     bind bump_instance (\<lambda>_.
     return withdraw_amount)))))))))))))"

definition query_pool_position :: "'x pool_client \<Rightarrow> address \<Rightarrow> address \<Rightarrow> address \<Rightarrow>
    ('x, int) blend_op" where
  "query_pool_position P blend_pool_addr asset contract_addr =
     bind (external_try (pool_try_get_reserve P blend_pool_addr asset)) (\<lambda>answer.
     case answer of
       None \<Rightarrow> blend_get_tracked
     | Some reserve \<Rightarrow>
         bind (external_try (pool_try_get_positions P blend_pool_addr contract_addr)) (\<lambda>answer.
         case answer of
           None \<Rightarrow> blend_get_tracked
         | Some collateral \<Rightarrow>
             let b_tokens = unwrap_or (collateral (reserve_index reserve)) 0 in
             if b_tokens = 0 then return 0
             else bind (mul_i128 b_tokens (b_rate (reserve_data_of reserve))) (\<lambda>scaled.
                  div_i128 scaled BLEND_RATE_SCALAR)))"

definition blend_emergency_withdraw :: "'x token_client \<Rightarrow> 'x pool_client \<Rightarrow> env \<Rightarrow> address \<Rightarrow>
    ('x, int) blend_op" where
  "blend_emergency_withdraw T P e caller =
     bind (require_auth e caller) (\<lambda>_.
     bind blend_get_vault (\<lambda>vault.
     bind blend_get_admin (\<lambda>admin.
     bind (raise_if (caller \<noteq> vault \<and> caller \<noteq> admin) Unauthorized) (\<lambda>_.
     bind blend_get_asset (\<lambda>asset.
     bind blend_get_pool (\<lambda>blend_pool_addr.
     let contract_addr = current_contract e in
     bind (query_pool_position P blend_pool_addr asset contract_addr) (\<lambda>withdraw_amount.
     if withdraw_amount = 0
     then bind (blend_set_tracked 0) (\<lambda>_. return 0)
     else
       let requests = [collateral_request REQUEST_WITHDRAW_COLLATERAL asset withdraw_amount] in
       bind (external_call (pool_submit P blend_pool_addr contract_addr contract_addr contract_addr
         requests)) (\<lambda>_.
       bind (external_call (token_transfer T asset contract_addr vault withdraw_amount)) (\<lambda>_.
       bind (blend_set_tracked 0) (\<lambda>_.
       bind (blend_emit_emergency_withdraw withdraw_amount caller) (\<lambda>_.
       bind bump_instance (\<lambda>_.
       return withdraw_amount))))))))))))"

section \<open>Health and liquidity\<close>

definition blend_is_healthy :: "'x pool_client \<Rightarrow> ('x, bool) blend_op" where
  "blend_is_healthy P =
     bind blend_get_pool (\<lambda>blend_pool_addr.
     bind blend_get_asset (\<lambda>asset.
     bind (external_try (pool_try_get_reserve P blend_pool_addr asset)) (\<lambda>answer.
     case answer of
       None \<Rightarrow> return False
     | Some reserve \<Rightarrow>
         bind blend_get_max_utilization_bps (\<lambda>max_util_bps.
         let b_supply = b_supply (reserve_data_of reserve);
             d_supply = d_supply (reserve_data_of reserve) in
         bind (if b_supply > 0
               then bind (mul_i128 d_supply 10000) (\<lambda>scaled.
                    bind (div_i128 scaled b_supply) (\<lambda>utilization_bps.
                    return (utilization_bps > int max_util_bps)))
               else return False) (\<lambda>over_utilized.
         if over_utilized then return False
         else
           bind blend_get_min_backstop_bps (\<lambda>min_backstop_bps.
           let backstop_credit = backstop_credit (reserve_data_of reserve) in
           if backstop_credit < 0 then return False
           else if b_supply > 0 \<and> backstop_credit \<ge> 0
           then bind (mul_i128 backstop_credit 10000) (\<lambda>scaled.
                bind (div_i128 scaled b_supply) (\<lambda>coverage_bps.
                return (\<not> coverage_bps < int min_backstop_bps)))
           else return True))))))"

definition blend_balance_of :: "('x, int) blend_op" where
  "blend_balance_of = blend_get_tracked"

definition blend_available_liquidity :: "'x pool_client \<Rightarrow> ('x, int) blend_op" where
  "blend_available_liquidity P =
     bind blend_get_tracked (\<lambda>tracked.
     if tracked = 0 then return 0
     else
       bind blend_get_pool (\<lambda>blend_pool_addr.
       bind blend_get_asset (\<lambda>asset.
       bind (external_try (pool_try_get_reserve P blend_pool_addr asset)) (\<lambda>answer.
       case answer of
         None \<Rightarrow> apply_rounding_margin tracked
       | Some reserve \<Rightarrow>
           let d = reserve_data_of reserve in
           bind (mul_i128 (b_supply d) (b_rate d)) (\<lambda>supplied_scaled.
           bind (div_i128 supplied_scaled BLEND_RATE_SCALAR) (\<lambda>pool_supplied.
           bind (mul_i128 (d_supply d) (d_rate d)) (\<lambda>borrowed_scaled.
           bind (div_i128 borrowed_scaled BLEND_RATE_SCALAR) (\<lambda>pool_borrowed.
           bind (sub_i128 pool_supplied pool_borrowed) (\<lambda>pool_available.
           let cap = (if pool_available < tracked then pool_available else tracked) in
           apply_rounding_margin cap)))))))))"

definition blend_harvest :: "'x pool_client \<Rightarrow> env \<Rightarrow> address \<Rightarrow> ('x, int) blend_op" where
  "blend_harvest P e caller =
     bind (require_auth e caller) (\<lambda>_.
     bind blend_get_vault (\<lambda>vault.
     bind blend_get_admin (\<lambda>admin.
     bind (raise_if (caller \<noteq> vault \<and> caller \<noteq> admin) Unauthorized) (\<lambda>_.
     bind blend_get_pool (\<lambda>blend_pool_addr.
     bind blend_get_asset (\<lambda>asset.
     let contract_addr = current_contract e in
     bind (external_try (pool_try_get_reserve P blend_pool_addr asset)) (\<lambda>answer.
     case answer of
       None \<Rightarrow> return 0
     | Some reserve \<Rightarrow>
         bind (mul_u32 (reserve_index reserve) 2) (\<lambda>token_id.
         bind (external_call (pool_claim P blend_pool_addr contract_addr [token_id] contract_addr))
           (\<lambda>claimed.
         bind bump_instance (\<lambda>_.
         return claimed))))))))))"

definition blend_asset :: "('x, address) blend_op" where "blend_asset = blend_get_asset"
definition blend_vault :: "('x, address) blend_op" where "blend_vault = blend_get_vault"
definition blend_pool :: "('x, address) blend_op" where "blend_pool = blend_get_pool"
definition blend_is_paused :: "('x, bool) blend_op" where "blend_is_paused = blend_paused"

lemmas blend_defs =
  blend_require_vault_def blend_require_admin_def blend_require_not_paused_def
  blend_initialize_def blend_deposit_def blend_withdraw_def query_pool_position_def
  blend_emergency_withdraw_def blend_is_healthy_def blend_balance_of_def
  blend_available_liquidity_def blend_harvest_def blend_asset_def blend_vault_def blend_pool_def
  blend_is_paused_def apply_rounding_margin_def collateral_request_def

declare blend_defs [op_run]

section \<open>What a successful call does\<close>

lemma blend_deposit_success:
  assumes "blend_deposit T P e caller n s = Inr (u, t)"
  obtains asset pool x y rs where "authorised e caller" and "bl_vault s = Some caller"
    and "\<not> unwrap_or (bl_paused s) False" and "0 < n" and "bl_asset s = Some asset"
    and "bl_pool s = Some pool"
    and "token_approve T asset (current_contract e) pool n
           (ledger_sequence e + unwrap_or (bl_approval_buffer s) DEFAULT_APPROVAL_BUFFER) (outside s)
         = Some ((), x)"
    and "pool_submit_with_allowance P pool (current_contract e) (current_contract e)
           (current_contract e) [collateral_request REQUEST_SUPPLY_COLLATERAL asset n] x = Some ((), y)"
    and "t = log_ttl rs (s\<lparr>outside := y, bl_tracked := Some (blend_tracked s + n),
          event_log := event_log s @ [BlendDeposit n]\<rparr>)"
  using assms by (auto simp: blend_deposit_def op_success Let_def not_le)

lemma blend_withdraw_success:
  assumes "blend_withdraw T P e caller n s = Inr (w, t)"
  obtains asset pool x y rs where "authorised e caller" and "bl_vault s = Some caller" and "0 < n"
    and "w = min n (blend_tracked s)" and "w \<noteq> 0" and "bl_asset s = Some asset"
    and "bl_pool s = Some pool"
    and "pool_submit P pool (current_contract e) (current_contract e) (current_contract e)
           [collateral_request REQUEST_WITHDRAW_COLLATERAL asset w] (outside s) = Some ((), x)"
    and "token_transfer T asset (current_contract e) caller w x = Some ((), y)"
    and "t = log_ttl rs (s\<lparr>outside := y, bl_tracked := Some (blend_tracked s - w),
          event_log := event_log s @ [BlendWithdraw w n]\<rparr>)"
proof -
  have "(if n > blend_tracked s then blend_tracked s else n) = min n (blend_tracked s)" by simp
  with assms that show ?thesis
    by (auto simp: blend_withdraw_def op_success Let_def not_le simp del: min_less_iff_conj)
qed

definition pool_position :: "'x pool_client \<Rightarrow> 'x \<Rightarrow> address \<Rightarrow> address \<Rightarrow> address \<Rightarrow> int \<Rightarrow> int" where
  "pool_position P x pool asset me tracked =
     (case pool_try_get_reserve P pool asset x of
        None \<Rightarrow> tracked
      | Some (r, y) \<Rightarrow>
          (case pool_try_get_positions P pool me y of
             None \<Rightarrow> tracked
           | Some (c, z) \<Rightarrow>
               unwrap_or (c (reserve_index r)) 0 * b_rate (reserve_data_of r) sdiv BLEND_RATE_SCALAR))"

definition position_read :: "'x pool_client \<Rightarrow> 'x \<Rightarrow> address \<Rightarrow> address \<Rightarrow> address \<Rightarrow> 'x" where
  "position_read P x pool asset me =
     (case pool_try_get_reserve P pool asset x of
        None \<Rightarrow> x
      | Some (r, y) \<Rightarrow>
          (case pool_try_get_positions P pool me y of None \<Rightarrow> y | Some (c, z) \<Rightarrow> z))"

lemma query_pool_position_success:
  "query_pool_position P pool asset me s = Inr (v, t) \<Longrightarrow>
     v = pool_position P (outside s) pool asset me (blend_tracked s) \<and>
     (\<exists>rs. t = log_ttl rs (s\<lparr>outside := position_read P (outside s) pool asset me\<rparr>))"
proof (cases "pool_try_get_reserve P pool asset (outside s)")
  case None
  moreover assume "query_pool_position P pool asset me s = Inr (v, t)"
  ultimately show ?thesis
    by (auto simp: query_pool_position_def pool_position_def position_read_def op_success)
next
  case (Some ry)
  then obtain r y where ry: "pool_try_get_reserve P pool asset (outside s) = Some (r, y)"
    by (cases ry) auto
  moreover assume "query_pool_position P pool asset me s = Inr (v, t)"
  ultimately show ?thesis
    by (cases "pool_try_get_positions P pool me y")
      (auto simp: query_pool_position_def pool_position_def position_read_def op_success Let_def
        split: if_splits)
qed

lemma blend_emergency_success:
  assumes "blend_emergency_withdraw T P e caller s = Inr (w, t)"
  obtains (nothing) vault admin asset pool rs where "authorised e caller" and "bl_vault s = Some vault"
    and "bl_admin s = Some admin" and "caller = vault \<or> caller = admin"
    and "bl_asset s = Some asset" and "bl_pool s = Some pool" and "w = 0"
    and "pool_position P (outside s) pool asset (current_contract e) (blend_tracked s) = 0"
    and "t = log_ttl rs (s\<lparr>outside := position_read P (outside s) pool asset (current_contract e),
          bl_tracked := Some 0\<rparr>)"
  | (pulled) vault admin asset pool x y rs where "authorised e caller" and "bl_vault s = Some vault"
    and "bl_admin s = Some admin" and "caller = vault \<or> caller = admin"
    and "bl_asset s = Some asset" and "bl_pool s = Some pool" and "w \<noteq> 0"
    and "w = pool_position P (outside s) pool asset (current_contract e) (blend_tracked s)"
    and "pool_submit P pool (current_contract e) (current_contract e) (current_contract e)
           [collateral_request REQUEST_WITHDRAW_COLLATERAL asset w]
           (position_read P (outside s) pool asset (current_contract e)) = Some ((), x)"
    and "token_transfer T asset (current_contract e) vault w x = Some ((), y)"
    and "t = log_ttl rs (s\<lparr>outside := y, bl_tracked := Some 0,
          event_log := event_log s @ [BlendEmergencyWithdraw w caller]\<rparr>)"
proof -
  let ?me = "current_contract e"
  from assms obtain vault admin asset pool n s1 where *: "authorised e caller"
    "bl_vault s = Some vault" "bl_admin s = Some admin" "caller = vault \<or> caller = admin"
    "bl_asset s = Some asset" "bl_pool s = Some pool"
    and q: "query_pool_position P pool asset ?me s = Inr (n, s1)"
    and zero: "n = 0 \<Longrightarrow> w = 0 \<and> t = log_ttl [persistent_request BlTrackedBalance] (s1\<lparr>bl_tracked := Some 0\<rparr>)"
    and pull: "n \<noteq> 0 \<Longrightarrow> w = n \<and> (\<exists>x y rs.
        pool_submit P pool ?me ?me ?me [collateral_request REQUEST_WITHDRAW_COLLATERAL asset n]
          (outside s1) = Some ((), x) \<and> token_transfer T asset ?me vault n x = Some ((), y) \<and>
        t = log_ttl rs (s1\<lparr>outside := y, bl_tracked := Some 0,
          event_log := event_log s1 @ [BlendEmergencyWithdraw n caller]\<rparr>))"
    by (fastforce simp: blend_emergency_withdraw_def op_success Let_def split: if_splits)
  from query_pool_position_success [OF q] obtain rs where
    n: "n = pool_position P (outside s) pool asset ?me (blend_tracked s)"
    and s1: "s1 = log_ttl rs (s\<lparr>outside := position_read P (outside s) pool asset ?me\<rparr>)" by auto
  show ?thesis
  proof (cases "n = 0")
    case True
    with zero n s1 have "w = 0"
      "pool_position P (outside s) pool asset ?me (blend_tracked s) = 0"
      "t = log_ttl (rs @ [persistent_request BlTrackedBalance])
         (s\<lparr>outside := position_read P (outside s) pool asset ?me, bl_tracked := Some 0\<rparr>)"
      by simp_all
    with * show ?thesis by (rule nothing)
  next
    case False
    with pull s1 obtain x y rs' where
      "pool_submit P pool ?me ?me ?me [collateral_request REQUEST_WITHDRAW_COLLATERAL asset n]
          (position_read P (outside s) pool asset ?me) = Some ((), x)"
      "token_transfer T asset ?me vault n x = Some ((), y)" "w = n"
      "t = log_ttl rs' (s\<lparr>outside := y, bl_tracked := Some 0,
          event_log := event_log s @ [BlendEmergencyWithdraw n caller]\<rparr>)" by auto
    with False n show ?thesis by (intro pulled [OF *, of x y rs']) simp_all
  qed
qed

text \<open>The health check and the quoted liquidity as functions of the reserve data.\<close>

definition reserve_healthy :: "nat \<Rightarrow> nat \<Rightarrow> reserve_data \<Rightarrow> bool" where
  "reserve_healthy max_util min_backstop d \<longleftrightarrow>
     (0 < b_supply d \<longrightarrow> d_supply d * 10000 sdiv b_supply d \<le> int max_util) \<and>
     0 \<le> backstop_credit d \<and>
     (0 < b_supply d \<longrightarrow> int min_backstop \<le> backstop_credit d * 10000 sdiv b_supply d)"

definition pool_free :: "reserve_data \<Rightarrow> int" where
  "pool_free d = b_supply d * b_rate d sdiv BLEND_RATE_SCALAR - d_supply d * d_rate d sdiv BLEND_RATE_SCALAR"

definition quoted_liquidity :: "int \<Rightarrow> reserve_data option \<Rightarrow> int" where
  "quoted_liquidity tracked d =
     (if tracked = 0 then 0
      else case d of None \<Rightarrow> max 0 (tracked - 2) | Some r \<Rightarrow> max 0 (min tracked (pool_free r) - 2))"

definition reserve_of :: "'x pool_client \<Rightarrow> address \<Rightarrow> address \<Rightarrow> 'x \<Rightarrow> reserve_data option" where
  "reserve_of P pool asset x = map_option (\<lambda>(r, _). reserve_data_of r) (pool_try_get_reserve P pool asset x)"

lemma blend_is_healthy_success:
  assumes "blend_is_healthy P s = Inr (h, t)"
  obtains pool asset x where "bl_pool s = Some pool" and "bl_asset s = Some asset"
    and "h = (case reserve_of P pool asset (outside s) of None \<Rightarrow> False
          | Some d \<Rightarrow> reserve_healthy (unwrap_or (bl_max_utilization_bps s) DEFAULT_MAX_UTILIZATION_BPS)
              (unwrap_or (bl_min_backstop_bps s) DEFAULT_MIN_BACKSTOP_BPS) d)"
    and "t = s\<lparr>outside := x\<rparr>"
    and "pool_try_get_reserve P pool asset (outside s) = None \<and> x = outside s \<or>
         (\<exists>r. pool_try_get_reserve P pool asset (outside s) = Some (r, x))"
proof -
  from assms obtain pool asset where p: "bl_pool s = Some pool" "bl_asset s = Some asset"
    by (auto simp: blend_is_healthy_def op_success)
  show ?thesis
  proof (cases "pool_try_get_reserve P pool asset (outside s)")
    case None
    with assms p show ?thesis
      by (intro that [of pool asset "outside s"])
        (auto simp: blend_is_healthy_def op_success reserve_of_def)
  next
    case (Some rx)
    then obtain r x where "pool_try_get_reserve P pool asset (outside s) = Some (r, x)"
      by (cases rx) auto
    with assms p show ?thesis
      by (intro that [of pool asset x])
        (auto simp: blend_is_healthy_def op_success reserve_of_def reserve_healthy_def Let_def
          split: if_splits)
  qed
qed

lemma blend_available_success:
  assumes "blend_available_liquidity P s = Inr (v, t)"
  obtains (empty) "blend_tracked s = 0" and "v = 0" and "t = s"
  | (quoted) pool asset x rs where "blend_tracked s \<noteq> 0" and "bl_pool s = Some pool"
    and "bl_asset s = Some asset"
    and "v = quoted_liquidity (blend_tracked s) (reserve_of P pool asset (outside s))"
    and "t = log_ttl rs (s\<lparr>outside := x\<rparr>)"
    and "pool_try_get_reserve P pool asset (outside s) = None \<and> x = outside s \<or>
         (\<exists>r. pool_try_get_reserve P pool asset (outside s) = Some (r, x))"
proof (cases "blend_tracked s = 0")
  case True
  with assms empty show ?thesis by (auto simp: blend_available_liquidity_def op_success)
next
  case False
  with assms obtain pool asset where p: "bl_pool s = Some pool" "bl_asset s = Some asset"
    by (auto simp: blend_available_liquidity_def op_success)
  show ?thesis
  proof (cases "pool_try_get_reserve P pool asset (outside s)")
    case None
    with assms p False show ?thesis
      by (intro quoted [of pool asset "[persistent_request BlTrackedBalance]" "outside s"])
        (auto simp: blend_available_liquidity_def op_success reserve_of_def quoted_liquidity_def)
  next
    case (Some rx)
    then obtain r x where "pool_try_get_reserve P pool asset (outside s) = Some (r, x)"
      by (cases rx) auto
    with assms p False show ?thesis
      by (intro quoted [of pool asset "[persistent_request BlTrackedBalance]" x])
        (auto simp: blend_available_liquidity_def op_success reserve_of_def quoted_liquidity_def
          Let_def pool_free_def min_def split: if_splits)
  qed
qed

lemma blend_harvest_success:
  assumes "blend_harvest P e caller s = Inr (n, t)"
  obtains vault admin pool asset x rs where "authorised e caller" and "bl_vault s = Some vault"
    and "bl_admin s = Some admin" and "caller = vault \<or> caller = admin"
    and "bl_pool s = Some pool" and "bl_asset s = Some asset"
    and "t = log_ttl rs (s\<lparr>outside := x\<rparr>)"
    and "pool_try_get_reserve P pool asset (outside s) = None \<Longrightarrow> n = 0 \<and> x = outside s"
    and "\<And>r y. pool_try_get_reserve P pool asset (outside s) = Some (r, y) \<Longrightarrow>
      pool_claim P pool (current_contract e) [reserve_index r * 2] (current_contract e) y = Some (n, x)"
proof -
  from assms obtain vault admin pool asset where *: "authorised e caller" "bl_vault s = Some vault"
    "bl_admin s = Some admin" "caller = vault \<or> caller = admin" "bl_pool s = Some pool"
    "bl_asset s = Some asset"
    by (auto simp: blend_harvest_def op_success)
  show ?thesis
  proof (cases "pool_try_get_reserve P pool asset (outside s)")
    case None
    with assms * show ?thesis
      by (intro that [OF *, of "[]" "outside s"]) (auto simp: blend_harvest_def op_success Let_def)
  next
    case (Some rx)
    then obtain r x where "pool_try_get_reserve P pool asset (outside s) = Some (r, x)"
      by (cases rx) auto
    with assms * show ?thesis
      by (fastforce simp: blend_harvest_def op_success Let_def intro: that [OF *])
  qed
qed

end
