(* ===== verification/BlendAdmin.thy ===== *)
theory BlendAdmin
  imports BlendStrategy
begin

text \<open>
  The admin functions of \<^verbatim>\<open>blend-strategy/src/lib.rs\<close>, the adapter as a state machine
  over all its entry points, and its invariants.
\<close>

section \<open>Pausing, roles and limits\<close>

definition blend_do_pause :: "env \<Rightarrow> address \<Rightarrow> ('x, unit) blend_op" where
  "blend_do_pause e caller =
     bind (require_auth e caller) (\<lambda>_.
     bind (blend_require_admin caller) (\<lambda>_.
     bind (blend_set_paused True) (\<lambda>_.
     blend_emit_pause caller)))"

definition blend_do_unpause :: "env \<Rightarrow> address \<Rightarrow> ('x, unit) blend_op" where
  "blend_do_unpause e caller =
     bind (require_auth e caller) (\<lambda>_.
     bind (blend_require_admin caller) (\<lambda>_.
     bind (blend_set_paused False) (\<lambda>_.
     blend_emit_unpause caller)))"

definition blend_propose_admin :: "env \<Rightarrow> address \<Rightarrow> address \<Rightarrow> ('x, unit) blend_op" where
  "blend_propose_admin e caller new_admin =
     bind (require_auth e caller) (\<lambda>_.
     bind (blend_require_admin caller) (\<lambda>_.
     blend_set_pending_admin new_admin))"

definition blend_accept_admin :: "env \<Rightarrow> address \<Rightarrow> ('x, unit) blend_op" where
  "blend_accept_admin e caller =
     bind (require_auth e caller) (\<lambda>_.
     bind blend_get_pending_admin (\<lambda>pending.
     case pending of
       Some addr \<Rightarrow>
         if addr = caller
         then bind blend_get_admin (\<lambda>old_admin.
              bind (blend_set_admin caller) (\<lambda>_.
              bind blend_clear_pending_admin (\<lambda>_.
              blend_emit_admin_changed old_admin caller)))
         else raise Unauthorized
     | None \<Rightarrow> raise Unauthorized))"

definition blend_change_vault :: "env \<Rightarrow> address \<Rightarrow> address \<Rightarrow> ('x, unit) blend_op" where
  "blend_change_vault e caller new_vault =
     bind (require_auth e caller) (\<lambda>_.
     bind (blend_require_admin caller) (\<lambda>_.
     bind blend_get_vault (\<lambda>old_vault.
     bind (blend_set_vault new_vault) (\<lambda>_.
     blend_emit_vault_changed old_vault new_vault))))"

definition blend_set_max_utilization :: "env \<Rightarrow> address \<Rightarrow> nat \<Rightarrow> ('x, unit) blend_op" where
  "blend_set_max_utilization e caller bps =
     bind (require_auth e caller) (\<lambda>_.
     bind (blend_require_admin caller) (\<lambda>_.
     bind (raise_if (bps > MAX_BPS) InvalidBps) (\<lambda>_.
     bind (blend_set_max_utilization_bps bps) (\<lambda>_.
     blend_emit_config_update ''max_util'' bps))))"

definition blend_set_min_backstop_coverage :: "env \<Rightarrow> address \<Rightarrow> nat \<Rightarrow> ('x, unit) blend_op" where
  "blend_set_min_backstop_coverage e caller bps =
     bind (require_auth e caller) (\<lambda>_.
     bind (blend_require_admin caller) (\<lambda>_.
     bind (raise_if (bps > MAX_BPS) InvalidBps) (\<lambda>_.
     bind (blend_set_min_backstop_bps bps) (\<lambda>_.
     blend_emit_config_update ''min_backstop'' bps))))"

definition blend_set_approval_buffer :: "env \<Rightarrow> address \<Rightarrow> nat \<Rightarrow> ('x, unit) blend_op" where
  "blend_set_approval_buffer e caller buffer =
     bind (require_auth e caller) (\<lambda>_.
     bind (blend_require_admin caller) (\<lambda>_.
     bind (blend_put_approval_buffer buffer) (\<lambda>_.
     blend_emit_config_update ''approval_buf'' buffer)))"

definition blend_set_upgrade_delay :: "env \<Rightarrow> address \<Rightarrow> nat \<Rightarrow> ('x, unit) blend_op" where
  "blend_set_upgrade_delay e caller delay =
     bind (require_auth e caller) (\<lambda>_.
     bind (blend_require_admin caller) (\<lambda>_.
     bind (raise_if (delay < BLEND_MIN_UPGRADE_DELAY) InvalidBps) (\<lambda>_.
     blend_put_upgrade_delay delay)))"

section \<open>Upgrades\<close>

definition blend_schedule_upgrade :: "env \<Rightarrow> address \<Rightarrow> bytes_n32 \<Rightarrow> ('x, unit) blend_op" where
  "blend_schedule_upgrade e caller new_wasm_hash =
     bind (require_auth e caller) (\<lambda>_.
     bind (blend_require_admin caller) (\<lambda>_.
     let now = ledger_timestamp e in
     blend_set_scheduled_upgrade new_wasm_hash now))"

definition blend_execute_upgrade :: "env \<Rightarrow> address \<Rightarrow> ('x, unit) blend_op" where
  "blend_execute_upgrade e caller =
     bind (require_auth e caller) (\<lambda>_.
     bind (blend_require_admin caller) (\<lambda>_.
     bind blend_get_scheduled_upgrade (\<lambda>scheduled.
     case scheduled of
       None \<Rightarrow> raise UpgradeNotScheduled
     | Some (wasm_hash, scheduled_at) \<Rightarrow>
         bind blend_get_upgrade_delay (\<lambda>delay.
         bind (add_u64 scheduled_at delay) (\<lambda>ready_at.
         bind (raise_if (ledger_timestamp e < ready_at) UpgradeTooEarly) (\<lambda>_.
         bind blend_clear_scheduled_upgrade (\<lambda>_.
         bind (update_current_contract_wasm e wasm_hash) (\<lambda>_.
         blend_emit_upgrade wasm_hash))))))))"

definition blend_cancel_upgrade :: "env \<Rightarrow> address \<Rightarrow> ('x, unit) blend_op" where
  "blend_cancel_upgrade e caller =
     bind (require_auth e caller) (\<lambda>_.
     bind (blend_require_admin caller) (\<lambda>_.
     bind blend_get_scheduled_upgrade (\<lambda>scheduled.
     bind (raise_if (scheduled = None) UpgradeNotScheduled) (\<lambda>_.
     blend_clear_scheduled_upgrade))))"

lemmas blend_admin_defs =
  blend_do_pause_def blend_do_unpause_def blend_propose_admin_def blend_accept_admin_def
  blend_change_vault_def blend_set_max_utilization_def blend_set_min_backstop_coverage_def
  blend_set_approval_buffer_def blend_set_upgrade_delay_def blend_schedule_upgrade_def
  blend_execute_upgrade_def blend_cancel_upgrade_def

declare blend_admin_defs [op_run]

section \<open>What a successful call does\<close>

lemma blend_do_pause_success:
  "blend_do_pause e caller s = Inr (u, t) \<Longrightarrow>
     authorised e caller \<and> bl_admin s = Some caller \<and> t = s\<lparr>bl_paused := Some True, event_log := event_log s @ [BlendPause caller]\<rparr>"
  by (auto simp: blend_do_pause_def op_success not_less Let_def)

lemma blend_do_unpause_success:
  "blend_do_unpause e caller s = Inr (u, t) \<Longrightarrow>
     authorised e caller \<and> bl_admin s = Some caller \<and> t = s\<lparr>bl_paused := Some False, event_log := event_log s @ [BlendUnpause caller]\<rparr>"
  by (auto simp: blend_do_unpause_def op_success not_less Let_def)

lemma blend_propose_admin_success:
  "blend_propose_admin e caller a s = Inr (u, t) \<Longrightarrow>
     authorised e caller \<and> bl_admin s = Some caller \<and> t = s\<lparr>bl_pending_admin := Some a\<rparr>"
  by (auto simp: blend_propose_admin_def op_success not_less Let_def)

lemma blend_accept_admin_success:
  "blend_accept_admin e caller s = Inr (u, t) \<Longrightarrow>
     authorised e caller \<and> bl_pending_admin s = Some caller \<and>
     (\<exists>old. bl_admin s = Some old \<and> t = s\<lparr>bl_admin := Some caller, bl_pending_admin := None,
        event_log := event_log s @ [BlendAdminChanged old caller]\<rparr>)"
  by (auto simp: blend_accept_admin_def op_success split: option.splits if_splits)

lemma blend_change_vault_success:
  "blend_change_vault e caller v s = Inr (u, t) \<Longrightarrow>
     authorised e caller \<and> bl_admin s = Some caller \<and> 
     (\<exists>old. bl_vault s = Some old \<and>
        t = s\<lparr>bl_vault := Some v, event_log := event_log s @ [BlendVaultChanged old v]\<rparr>)"
  by (auto simp: blend_change_vault_def op_success not_less Let_def)

lemma blend_set_max_utilization_success:
  "blend_set_max_utilization e caller n s = Inr (u, t) \<Longrightarrow>
     authorised e caller \<and> bl_admin s = Some caller \<and> n \<le> MAX_BPS \<and>
     t = s\<lparr>bl_max_utilization_bps := Some n, event_log := event_log s @ [BlendConfigUpdate ''max_util'' n]\<rparr>"
  by (auto simp: blend_set_max_utilization_def op_success not_less Let_def)

lemma blend_set_min_backstop_coverage_success:
  "blend_set_min_backstop_coverage e caller n s = Inr (u, t) \<Longrightarrow>
     authorised e caller \<and> bl_admin s = Some caller \<and> n \<le> MAX_BPS \<and>
     t = s\<lparr>bl_min_backstop_bps := Some n, event_log := event_log s @ [BlendConfigUpdate ''min_backstop'' n]\<rparr>"
  by (auto simp: blend_set_min_backstop_coverage_def op_success not_less Let_def)

lemma blend_set_approval_buffer_success:
  "blend_set_approval_buffer e caller n s = Inr (u, t) \<Longrightarrow>
     authorised e caller \<and> bl_admin s = Some caller \<and> 
     t = s\<lparr>bl_approval_buffer := Some n, event_log := event_log s @ [BlendConfigUpdate ''approval_buf'' n]\<rparr>"
  by (auto simp: blend_set_approval_buffer_def op_success not_less Let_def)

lemma blend_set_upgrade_delay_success:
  "blend_set_upgrade_delay e caller n s = Inr (u, t) \<Longrightarrow>
     authorised e caller \<and> bl_admin s = Some caller \<and> 
     BLEND_MIN_UPGRADE_DELAY \<le> n \<and> t = s\<lparr>bl_upgrade_delay := Some n\<rparr>"
  by (auto simp: blend_set_upgrade_delay_def op_success not_less Let_def)

lemma blend_schedule_upgrade_success:
  "blend_schedule_upgrade e caller h s = Inr (u, t) \<Longrightarrow>
     authorised e caller \<and> bl_admin s = Some caller \<and> 
     (\<exists>rs. t = log_ttl rs (s\<lparr>bl_scheduled_hash := Some h,
        bl_scheduled_at := Some (ledger_timestamp e)\<rparr>))"
  by (auto simp: blend_schedule_upgrade_def op_success not_less Let_def)

lemma blend_execute_upgrade_success:
  "blend_execute_upgrade e caller s = Inr (u, t) \<Longrightarrow>
     authorised e caller \<and> bl_admin s = Some caller \<and> 
     (\<exists>h at. blend_scheduled_of s = Some (h, at) \<and>
        at + blend_upgrade_delay_of s \<le> ledger_timestamp e \<and> uploaded_wasm e h \<and>
        t = s\<lparr>bl_scheduled_hash := None, bl_scheduled_at := None, code_hash := h,
          event_log := event_log s @ [BlendUpgrade h]\<rparr>)"
  by (auto simp: blend_execute_upgrade_def op_success Let_def not_less split: option.splits)

lemma blend_cancel_upgrade_success:
  "blend_cancel_upgrade e caller s = Inr (u, t) \<Longrightarrow>
     authorised e caller \<and> bl_admin s = Some caller \<and> blend_scheduled_of s \<noteq> None \<and>
     t = s\<lparr>bl_scheduled_hash := None, bl_scheduled_at := None\<rparr>"
  by (auto simp: blend_cancel_upgrade_def op_success not_less Let_def)

lemmas blend_admin_success =
  blend_do_pause_success blend_do_unpause_success
  blend_propose_admin_success blend_accept_admin_success
  blend_change_vault_success blend_set_max_utilization_success
  blend_set_min_backstop_coverage_success blend_set_approval_buffer_success
  blend_set_upgrade_delay_success blend_schedule_upgrade_success
  blend_execute_upgrade_success blend_cancel_upgrade_success

section \<open>The adapter as a state machine\<close>

datatype blend_call =
    BlendCallInitialize address address address address
  | BlendCallDeposit address int
  | BlendCallWithdraw address int
  | BlendCallEmergencyWithdraw address
  | BlendCallHarvest address
  | BlendCallPause address
  | BlendCallUnpause address
  | BlendCallProposeAdmin address address
  | BlendCallAcceptAdmin address
  | BlendCallSetVault address address
  | BlendCallSetMaxUtilization address nat
  | BlendCallSetMinBackstopCoverage address nat
  | BlendCallSetApprovalBuffer address nat
  | BlendCallSetUpgradeDelay address nat
  | BlendCallScheduleUpgrade address bytes_n32
  | BlendCallExecuteUpgrade address
  | BlendCallCancelUpgrade address

definition no_result :: "('s, 'e, 'a) operation \<Rightarrow> ('s, 'e, unit) operation" where
  "no_result m = bind m (\<lambda>_. return ())"

lemma no_result_success: "no_result m s = Inr (u, t) \<Longrightarrow> \<exists>v. m s = Inr (v, t)"
  by (auto simp: no_result_def op_success)

fun blend_exec :: "'x token_client \<Rightarrow> 'x pool_client \<Rightarrow> env \<Rightarrow> blend_call \<Rightarrow> ('x, unit) blend_op" where
  "blend_exec T P e (BlendCallInitialize admin vault asset pool) =
     blend_initialize e admin vault asset pool"
| "blend_exec T P e (BlendCallDeposit caller n) = blend_deposit T P e caller n"
| "blend_exec T P e (BlendCallWithdraw caller n) = no_result (blend_withdraw T P e caller n)"
| "blend_exec T P e (BlendCallEmergencyWithdraw caller) =
     no_result (blend_emergency_withdraw T P e caller)"
| "blend_exec T P e (BlendCallHarvest caller) = no_result (blend_harvest P e caller)"
| "blend_exec T P e (BlendCallPause caller) = blend_do_pause e caller"
| "blend_exec T P e (BlendCallUnpause caller) = blend_do_unpause e caller"
| "blend_exec T P e (BlendCallProposeAdmin caller a) = blend_propose_admin e caller a"
| "blend_exec T P e (BlendCallAcceptAdmin caller) = blend_accept_admin e caller"
| "blend_exec T P e (BlendCallSetVault caller v) = blend_change_vault e caller v"
| "blend_exec T P e (BlendCallSetMaxUtilization caller n) = blend_set_max_utilization e caller n"
| "blend_exec T P e (BlendCallSetMinBackstopCoverage caller n) =
     blend_set_min_backstop_coverage e caller n"
| "blend_exec T P e (BlendCallSetApprovalBuffer caller n) = blend_set_approval_buffer e caller n"
| "blend_exec T P e (BlendCallSetUpgradeDelay caller n) = blend_set_upgrade_delay e caller n"
| "blend_exec T P e (BlendCallScheduleUpgrade caller h) = blend_schedule_upgrade e caller h"
| "blend_exec T P e (BlendCallExecuteUpgrade caller) = blend_execute_upgrade e caller"
| "blend_exec T P e (BlendCallCancelUpgrade caller) = blend_cancel_upgrade e caller"

inductive blend_step :: "'x blend \<Rightarrow> 'x blend \<Rightarrow> bool" where
  blend_invoke: "blend_exec T P e c s = Inr (u, t) \<Longrightarrow> blend_step s t"
| blend_view: "blend_step s (log_ttl rs s)"
| blend_world: "blend_step s (s\<lparr>outside := x\<rparr>)"

inductive blend_reachable :: "'x blend \<Rightarrow> bool" where
  blend_start: "blend_reachable (blend_deployed h x)"
| blend_next: "blend_reachable s \<Longrightarrow> blend_step s t \<Longrightarrow> blend_reachable t"

inductive_cases blend_step_elim: "blend_step s t"

lemma blend_reachable_invariant:
  assumes "blend_reachable s" and "\<And>h x. I (blend_deployed h x)"
    and "\<And>T P e c u s t. blend_exec T P e c s = Inr (u, t) \<Longrightarrow> I s \<Longrightarrow> I t"
    and "\<And>s rs. I s \<Longrightarrow> I (log_ttl rs s)" and "\<And>s x. I s \<Longrightarrow> I (s\<lparr>outside := x\<rparr>)"
  shows "I s"
  using assms(1)
proof induction
  case (blend_start h x)
  then show ?case by (rule assms(2))
next
  case (blend_next s t)
  from blend_next.hyps(2) blend_next.IH show ?case
    by (auto elim!: blend_step_elim intro: assms(3-5))
qed

lemmas blend_elims =
  blend_deposit_success blend_withdraw_success blend_emergency_success blend_harvest_success

definition blend_inv :: "'x blend \<Rightarrow> bool" where
  "blend_inv s \<longleftrightarrow>
     unwrap_or (bl_max_utilization_bps s) DEFAULT_MAX_UTILIZATION_BPS \<le> MAX_BPS \<and>
     unwrap_or (bl_min_backstop_bps s) DEFAULT_MIN_BACKSTOP_BPS \<le> MAX_BPS \<and>
     BLEND_MIN_UPGRADE_DELAY \<le> blend_upgrade_delay_of s \<and> 0 \<le> blend_tracked s \<and>
     (bl_initialized s = None \<longrightarrow> bl_admin s = None \<and> bl_vault s = None \<and> bl_pending_admin s = None)"

lemma blend_exec_inv: "blend_exec T P e c s = Inr (u, t) \<Longrightarrow> blend_inv s \<Longrightarrow> blend_inv t"
  by (cases c; fastforce dest: no_result_success blend_admin_success
        blend_initialize_success [THEN iffD1]
      elim: blend_elims simp: blend_inv_def MAX_BPS_def DEFAULT_MAX_UTILIZATION_BPS_def
        DEFAULT_MIN_BACKSTOP_BPS_def BLEND_DEFAULT_UPGRADE_DELAY_def BLEND_MIN_UPGRADE_DELAY_def)

theorem blend_reachable_inv: "blend_reachable s \<Longrightarrow> blend_inv s"
  by (erule blend_reachable_invariant)
    (auto dest: blend_exec_inv simp: blend_inv_def blend_deployed_def MAX_BPS_def
      DEFAULT_MAX_UTILIZATION_BPS_def DEFAULT_MIN_BACKSTOP_BPS_def
      BLEND_DEFAULT_UPGRADE_DELAY_def BLEND_MIN_UPGRADE_DELAY_def)

end
