(* ===== verification/BlendWorld.thy ===== *)
theory BlendWorld
  imports LedgerToken BlendAdmin
begin

text \<open>
  The vault over Blend adapters: the adapter's entry points run against their instances and a
  chain that holds the asset token and the lending pool. Under the hypothesis that a pool call
  made by an adapter moves no tokens of the vault, the adapters satisfy the interface the vault
  relies on, and the quote they give is bounded by what they track and by the pool's free
  liquidity.
\<close>

section \<open>What is assumed of the pool\<close>

definition pool_leaves_vault :: "'tok token_client \<Rightarrow> 'tok pool_client \<Rightarrow>
    ('tok \<Rightarrow> address \<Rightarrow> int) \<Rightarrow> ('tok \<Rightarrow> bool) \<Rightarrow> address \<Rightarrow> address \<Rightarrow> address set \<Rightarrow> bool" where
  "pool_leaves_vault T P bal ok pool vault A \<longleftrightarrow> (\<forall>x a. ok x \<longrightarrow> a \<in> A \<longrightarrow>
     (\<forall>asset n l y. token_approve T asset a pool n l x = Some ((), y) \<longrightarrow>
        ok y \<and> bal y vault = bal x vault) \<and>
     (\<forall>rs y. pool_submit P pool a a a rs x = Some ((), y) \<longrightarrow> ok y \<and> bal y vault = bal x vault) \<and>
     (\<forall>rs y. pool_submit_with_allowance P pool a a a rs x = Some ((), y) \<longrightarrow>
        ok y \<and> bal y vault = bal x vault) \<and>
     (\<forall>asset r y. pool_try_get_reserve P pool asset x = Some (r, y) \<longrightarrow>
        ok y \<and> bal y vault = bal x vault) \<and>
     (\<forall>r y. pool_try_get_positions P pool a x = Some (r, y) \<longrightarrow>
        ok y \<and> bal y vault = bal x vault))"

lemma pool_leaves_vaultD:
  assumes "pool_leaves_vault T P bal ok pool vault A" and "ok x" and "a \<in> A"
  shows "token_approve T asset a pool n l x = Some ((), y) \<Longrightarrow> ok y \<and> bal y vault = bal x vault"
    and "pool_submit P pool a a a rs x = Some ((), y) \<Longrightarrow> ok y \<and> bal y vault = bal x vault"
    and "pool_submit_with_allowance P pool a a a rs x = Some ((), y) \<Longrightarrow> ok y \<and> bal y vault = bal x vault"
    and "pool_try_get_reserve P pool asset x = Some (r, y) \<Longrightarrow> ok y \<and> bal y vault = bal x vault"
    and "pool_try_get_positions P pool a x = Some (c, y) \<Longrightarrow> ok y \<and> bal y vault = bal x vault"
proof -
  note frame = assms(1) [unfolded pool_leaves_vault_def, THEN spec, THEN spec, THEN mp, THEN mp,
      OF assms(2,3)]
  show "token_approve T asset a pool n l x = Some ((), y) \<Longrightarrow> ok y \<and> bal y vault = bal x vault"
    using frame by simp
  show "pool_submit P pool a a a rs x = Some ((), y) \<Longrightarrow> ok y \<and> bal y vault = bal x vault"
    using frame by simp
  show "pool_submit_with_allowance P pool a a a rs x = Some ((), y) \<Longrightarrow>
      ok y \<and> bal y vault = bal x vault"
    using frame by simp
  show "pool_try_get_reserve P pool asset x = Some (r, y) \<Longrightarrow> ok y \<and> bal y vault = bal x vault"
    using frame by simp
  show "pool_try_get_positions P pool a x = Some (c, y) \<Longrightarrow> ok y \<and> bal y vault = bal x vault"
    using frame by simp
qed

type_synonym 'tok blend_world = "('tok, 'tok blend) world"

definition blend_clients :: "'tok token_client \<Rightarrow> 'tok pool_client \<Rightarrow> env \<Rightarrow>
    'tok blend_world strategy_client" where
  "blend_clients T P e =
     \<lparr>strategy_deposit = (\<lambda>a caller n. call_instance a (blend_deposit T P (callee_env e a) caller n)),
      strategy_withdraw = (\<lambda>a caller n. call_instance a (blend_withdraw T P (callee_env e a) caller n)),
      strategy_emergency_withdraw =
        (\<lambda>a caller. call_instance a (blend_emergency_withdraw T P (callee_env e a) caller)),
      strategy_balance_of = (\<lambda>a. call_instance a blend_balance_of),
      strategy_available_liquidity = (\<lambda>a. call_instance a (blend_available_liquidity P)),
      strategy_is_healthy = (\<lambda>a. call_instance a (blend_is_healthy P)),
      strategy_asset = (\<lambda>a. call_instance a blend_asset)\<rparr>"

definition blends_serve :: "address \<Rightarrow> address \<Rightarrow> address \<Rightarrow> address set \<Rightarrow> 'tok blend_world \<Rightarrow> bool" where
  "blends_serve asset pool vault A w \<longleftrightarrow>
     (\<forall>a\<in>A. bl_asset (instances w a) = Some asset \<and> bl_pool (instances w a) = Some pool \<and>
       bl_vault (instances w a) = Some vault)"

lemma blends_serve_chain:
  "blends_serve asset pool vault A w \<Longrightarrow> blends_serve asset pool vault A (w\<lparr>chain := x\<rparr>)"
  by (simp add: blends_serve_def)

lemma position_read_frame:
  assumes "pool_leaves_vault T P bal ok pool vault A" and "ok x" and "me \<in> A"
  shows "ok (position_read P x pool asset me) \<and> bal (position_read P x pool asset me) vault = bal x vault"
proof (cases "pool_try_get_reserve P pool asset x")
  case None
  with assms(2) show ?thesis by (simp add: position_read_def)
next
  case (Some ry)
  obtain r y where ry: "ry = (r, y)" by (cases ry)
  have y: "ok y \<and> bal y vault = bal x vault"
    using pool_leaves_vaultD(4) [OF assms] Some ry by simp
  have "ok z \<and> bal z vault = bal y vault" if "pool_try_get_positions P pool me y = Some (c, z)" for c z
    using pool_leaves_vaultD(5) [OF assms(1) _ assms(3) that] y by simp
  with y show ?thesis by (auto simp: position_read_def Some ry split: option.splits)
qed

text \<open>Each entry point the vault calls, on one instance: what it moves, and that it stays configured.\<close>

abbreviation serving :: "address \<Rightarrow> address \<Rightarrow> address \<Rightarrow> 'x blend \<Rightarrow> bool" where
  "serving asset pool vault s \<equiv>
     bl_asset s = Some asset \<and> bl_pool s = Some pool \<and> bl_vault s = Some vault"

lemma liquidity_frame:
  assumes "pool_leaves_vault T P bal ok pool vault A" and "ok (outside s)" and "a \<in> A"
    and "serving asset pool vault s" and "blend_available_liquidity P s = Inr (v, t)"
  shows "ok (outside t) \<and> bal (outside t) vault = bal (outside s) vault \<and> serving asset pool vault t"
  using assms(5)
proof (cases rule: blend_available_success)
  case empty
  then show ?thesis using assms(2,4) by simp
next
  case (quoted pool' asset' x rs)
  then show ?thesis using assms(2,4) pool_leaves_vaultD(4) [OF assms(1-3)] by auto
qed

lemma health_frame:
  assumes "pool_leaves_vault T P bal ok pool vault A" and "ok (outside s)" and "a \<in> A"
    and "serving asset pool vault s" and "blend_is_healthy P s = Inr (h, t)"
  shows "ok (outside t) \<and> bal (outside t) vault = bal (outside s) vault \<and> serving asset pool vault t"
  using assms(5)
proof (cases rule: blend_is_healthy_success)
  case (1 pool' asset' x)
  then show ?thesis using assms(2,4) pool_leaves_vaultD(4) [OF assms(1-3)] by auto
qed

lemma deposit_frame:
  assumes "pool_leaves_vault T P bal ok pool vault A" and "ok (outside s)" and "current_contract e \<in> A"
    and "serving asset pool vault s" and "blend_deposit T P e vault n s = Inr (u, t)"
  shows "ok (outside t) \<and> bal (outside t) vault = bal (outside s) vault \<and> serving asset pool vault t"
  using assms(5)
proof (cases rule: blend_deposit_success)
  case (1 asset' pool' x y rs)
  have x: "ok x \<and> bal x vault = bal (outside s) vault"
    using pool_leaves_vaultD(1) [OF assms(1-3)] 1(6,7) assms(4) by simp
  then have "ok y \<and> bal y vault = bal x vault"
    using pool_leaves_vaultD(3) [OF assms(1) _ assms(3)] 1(6,8) assms(4) by auto
  with x show ?thesis using 1(9) assms(4) by simp
qed

text \<open>What a withdrawal or an emergency withdrawal sends to the vault is what it reports.\<close>

lemma paid_to_vault:
  assumes "sep41 T asset bal ok" and "ok x" and "token_transfer T asset a vault n x = Some ((), y)"
    and "a \<noteq> vault"
  shows "0 \<le> n \<and> ok y \<and> bal y vault = bal x vault + n"
  using sep41.transfer_moves [OF assms(1-3)] sep41.transfer_amount [OF assms(1-3)] assms(4) by auto

lemma withdraw_frame:
  assumes "sep41 T asset bal ok" and "pool_leaves_vault T P bal ok pool vault A" and "ok (outside s)"
    and "current_contract e \<in> A" and "current_contract e \<noteq> vault" and "serving asset pool vault s"
    and "blend_withdraw T P e vault n s = Inr (p, t)"
  shows "0 \<le> p \<and> ok (outside t) \<and> bal (outside t) vault = bal (outside s) vault + p \<and>
    serving asset pool vault t"
  using assms(7)
proof (cases rule: blend_withdraw_success)
  case (1 asset' pool' x y rs)
  have "ok x \<and> bal x vault = bal (outside s) vault"
    using pool_leaves_vaultD(2) [OF assms(2-4)] 1(7,8) assms(6) by simp
  with 1(6,9,10) assms(6) paid_to_vault [OF assms(1) _ _ assms(5), of x p y] show ?thesis by simp
qed

lemma emergency_frame:
  assumes "sep41 T asset bal ok" and "pool_leaves_vault T P bal ok pool vault A" and "ok (outside s)"
    and "current_contract e \<in> A" and "current_contract e \<noteq> vault" and "serving asset pool vault s"
    and "blend_emergency_withdraw T P e caller s = Inr (p, t)"
  shows "0 \<le> p \<and> ok (outside t) \<and> bal (outside t) vault = bal (outside s) vault + p \<and>
    serving asset pool vault t \<and> blend_tracked t = 0"
  using assms(7)
proof (cases rule: blend_emergency_success)
  case (nothing v admin asset' pool' rs)
  with position_read_frame [OF assms(2-4)] assms(6) show ?thesis by simp
next
  case (pulled v admin asset' pool' x y rs)
  let ?q = "position_read P (outside s) pool asset (current_contract e)"
  have q: "ok ?q" "bal ?q vault = bal (outside s) vault"
    using position_read_frame [OF assms(2-4)] by auto
  have "ok x \<and> bal x vault = bal (outside s) vault"
    using pool_leaves_vaultD(2) [OF assms(2) q(1) assms(4)] pulled(5,6,9) assms(6) q(2) by simp
  with pulled(2,5,10,11) assms(6) paid_to_vault [OF assms(1) _ _ assms(5), of x p y]
  show ?thesis by simp
qed

lemma blend_strategy_net:
  assumes "sep41 T asset bal ok" and "pool_leaves_vault T P bal ok pool vault A" and "vault \<notin> A"
  shows "strategy_net (world_token T) asset (\<lambda>w. bal (chain w))
    (\<lambda>w. ok (chain w) \<and> blends_serve asset pool vault A w) (blend_clients T P e) vault A"
proof (rule strategy_net.intro, rule world_token_sep41 [OF assms(1)], erule blends_serve_chain,
    rule strategy_net_axioms.intro)
  fix a w w'
  assume a: "a \<in> A" and w: "ok (chain w) \<and> blends_serve asset pool vault A w"
  let ?s = "(instances w a)\<lparr>outside := chain w\<rparr>"
  have s: "ok (outside ?s)" "serving asset pool vault ?s" "current_contract (callee_env e a) \<in> A"
      "current_contract (callee_env e a) \<noteq> vault"
    using a w assms(3) by (auto simp: blends_serve_def callee_env_def)
  have serve: "blends_serve asset pool vault A (w\<lparr>chain := x, instances := (instances w)(a := t)\<rparr>)"
    if "serving asset pool vault t" for x t
    using w that by (auto simp: blends_serve_def)
  show "(ok (chain w') \<and> blends_serve asset pool vault A w') \<and> bal (chain w') vault = bal (chain w) vault"
    if "strategy_available_liquidity (blend_clients T P e) a w = Some (v, w')" for v
    using that liquidity_frame [OF assms(2) s(1) a s(2)] serve
    by (auto simp: blend_clients_def call_instance_Some)
  show "(ok (chain w') \<and> blends_serve asset pool vault A w') \<and> bal (chain w') vault = bal (chain w) vault"
    if "strategy_is_healthy (blend_clients T P e) a w = Some (h, w')" for h
    using that health_frame [OF assms(2) s(1) a s(2)] serve
    by (auto simp: blend_clients_def call_instance_Some)
  show "(ok (chain w') \<and> blends_serve asset pool vault A w') \<and> bal (chain w') vault = bal (chain w) vault"
    if "strategy_deposit (blend_clients T P e) a vault n w = Some (u, w')" for n u
    using that deposit_frame [OF assms(2) s(1,3,2)] serve
    by (auto simp: blend_clients_def call_instance_Some)
  show "0 \<le> p \<and> (ok (chain w') \<and> blends_serve asset pool vault A w') \<and>
      bal (chain w') vault = bal (chain w) vault + p"
    if "strategy_withdraw (blend_clients T P e) a vault n w = Some (p, w')" for n p
    using that withdraw_frame [OF assms(1,2) s(1,3,4,2)] serve
    by (auto simp: blend_clients_def call_instance_Some)
  show "0 \<le> p \<and> (ok (chain w') \<and> blends_serve asset pool vault A w') \<and>
      bal (chain w') vault = bal (chain w) vault + p"
    if "strategy_emergency_withdraw (blend_clients T P e) a vault w = Some (p, w')" for p
    using that emergency_frame [OF assms(1,2) s(1,3,4,2)] serve
    by (auto simp: blend_clients_def call_instance_Some)
qed (rule assms(3))

end
