(* ===== verification/Scenarios.thy ===== *)
theory Scenarios
  imports BlendWorld
begin

text \<open>
  Concrete runs. A vault over mock strategies and one over a Blend adapter, both on the concrete
  ledger, are initialized, funded and allocated by running the entry points themselves; the
  states reached serve wherever a statement is applied to an input. The lending pool is a
  one-reserve pool that pays withdrawals from the tokens it holds and rounds against depositors.
\<close>

section \<open>Running calls\<close>

definition after_call :: "('s, 'e, 'a) operation \<Rightarrow> 's \<Rightarrow> 's" where
  "after_call m s = (case m s of Inl _ \<Rightarrow> s | Inr (_, t) \<Rightarrow> t)"

fun after_calls :: "('s, 'e, 'a) operation list \<Rightarrow> 's \<Rightarrow> 's" where
  "after_calls [] s = s"
| "after_calls (m # ms) s = after_calls ms (after_call m s)"

definition succeeds :: "('s, 'e, 'a) operation \<Rightarrow> 's \<Rightarrow> bool" where
  "succeeds m s \<longleftrightarrow> (case m s of Inl _ \<Rightarrow> False | Inr _ \<Rightarrow> True)"

definition result_of :: "('s, 'e, 'a) operation \<Rightarrow> 's \<Rightarrow> 'e failure + 'a" where
  "result_of m s = (case m s of Inl f \<Rightarrow> Inl f | Inr (a, _) \<Rightarrow> Inr a)"

lemma reachable_after_calls:
  "reachable s \<Longrightarrow> reachable (after_calls (map (exec T C e) cs) s)"
proof (induction cs arbitrary: s)
  case (Cons c cs)
  have "reachable (after_call (exec T C e c) s)"
    using Cons.prems
    by (auto simp: after_call_def split: sum.splits prod.splits intro: step invoke)
  then show ?case using Cons.IH by simp
qed simp

lemma succeeds_result:
  assumes "result_of m s = Inr a"
  obtains t where "m s = Inr (a, t)" and "t = after_call m s"
  using assms that by (auto simp: result_of_def after_call_def split: sum.splits)

lemma fails_result: "result_of m s = Inl f \<Longrightarrow> m s = Inl f"
  by (auto simp: result_of_def split: sum.splits)

section \<open>Participants\<close>

definition the_vault :: address where "the_vault = Address 0"
definition the_asset :: address where "the_asset = Address 1"
definition the_admin :: address where "the_admin = Address 2"
definition the_keeper :: address where "the_keeper = Address 3"
definition the_guardian :: address where "the_guardian = Address 4"
definition fee_account :: address where "fee_account = Address 5"
definition alice :: address where "alice = Address 6"
definition bob :: address where "bob = Address 7"
definition adapter :: address where "adapter = Address 8"
definition adapter_two :: address where "adapter_two = Address 9"
definition the_pool :: address where "the_pool = Address 10"

lemmas participant_defs =
  the_vault_def the_asset_def the_admin_def the_keeper_def the_guardian_def fee_account_def
  alice_def bob_def adapter_def adapter_two_def the_pool_def

definition env_at :: "nat \<Rightarrow> env" where
  "env_at now = \<lparr>authorised = (\<lambda>_. True), ledger_timestamp = now, ledger_sequence = 100,
     current_contract = the_vault, uploaded_wasm = (\<lambda>_. True)\<rparr>"

definition start_ledger :: ledger where
  "start_ledger = \<lparr>holdings = (\<lambda>a. if a = alice \<or> a = bob then 10000000000 else 0),
     allowances = (\<lambda>_ _. 0)\<rparr>"

section \<open>A vault over mock strategies\<close>

definition fresh_mock :: "ledger mock" where
  "fresh_mock = after_call (mock_initialize the_admin the_vault the_asset) (mock_deployed 0 start_ledger)"

definition mock_start :: "ledger mock_world" where
  "mock_start = \<lparr>chain = start_ledger, instances = (\<lambda>_. fresh_mock)\<rparr>"

abbreviation MT :: "('z ledger_scheme, 'st) world token_client" where
  "MT \<equiv> world_token ledger_token"
abbreviation MC :: "nat \<Rightarrow> ledger mock_world strategy_client" where
  "MC now \<equiv> mock_clients ledger_token (env_at now)"

definition mock_run :: "vault_call list \<Rightarrow> ledger mock_world vault" where
  "mock_run cs = after_calls (map (exec MT (MC 1000) (env_at 1000)) cs) (deployed 0 mock_start)"

definition setup_calls :: "vault_call list" where
  "setup_calls =
     [CallInitialize the_admin the_asset the_keeper the_guardian fee_account 1000 500 ''Vault'' ''tV'',
      CallDeposit alice 1000000000,
      CallAddStrategy the_admin adapter,
      CallAddStrategy the_admin adapter_two,
      CallAllocate the_keeper adapter 400000000,
      CallAllocate the_keeper adapter_two 300000000]"

definition funded :: "ledger mock_world vault" where
  "funded = mock_run setup_calls"

lemma funded_reachable: "reachable funded"
  unfolding funded_def mock_run_def by (rule reachable_after_calls) (rule start)

section \<open>A vault over a Blend adapter\<close>

text \<open>
  The lending pool of the concrete runs: one reserve whose collateral is recorded in b-tokens, at a
  rate that the reserve publishes, and whose tokens are those the pool's address holds. Like
  Blend, it rounds against the depositor: supplying mints b-tokens rounded down, withdrawing burns
  b-tokens rounded up. Debts are recorded in units of the asset.
\<close>

record lending = ledger +
  collateral :: "address \<Rightarrow> int"
  total_supplied :: int
  total_borrowed :: int
  supply_rate :: int

definition lending_reserve :: "lending \<Rightarrow> reserve" where
  "lending_reserve x = \<lparr>reserve_index = 0, reserve_data_of =
     \<lparr>b_rate = supply_rate x, d_rate = BLEND_RATE_SCALAR, b_supply = total_supplied x,
      d_supply = total_borrowed x, backstop_credit = total_supplied x\<rparr>\<rparr>"

definition tokens_down :: "lending \<Rightarrow> int \<Rightarrow> int" where
  "tokens_down x n = n * BLEND_RATE_SCALAR div supply_rate x"

definition tokens_up :: "lending \<Rightarrow> int \<Rightarrow> int" where
  "tokens_up x n = (n * BLEND_RATE_SCALAR + supply_rate x - 1) div supply_rate x"

definition lending_supply :: "address \<Rightarrow> address \<Rightarrow> int \<Rightarrow> lending \<Rightarrow> (unit \<times> lending) option" where
  "lending_supply pool from n x =
     (if 0 < n \<and> n \<le> allowances x from pool
      then let b = tokens_down x n in
        map_option (\<lambda>(_, y). ((), y\<lparr>collateral := (collateral y)(from := collateral y from + b),
             total_supplied := total_supplied y + b\<rparr>)) (ledger_transfer from pool n x)
      else None)"

definition lending_pay :: "address \<Rightarrow> address \<Rightarrow> int \<Rightarrow> lending \<Rightarrow> (unit \<times> lending) option" where
  "lending_pay pool to n x =
     (if 0 < n \<and> tokens_up x n \<le> collateral x to
      then let b = tokens_up x n in
        map_option (\<lambda>(_, y). ((), y\<lparr>collateral := (collateral y)(to := collateral y to - b),
             total_supplied := total_supplied y - b\<rparr>)) (ledger_transfer pool to n x)
      else None)"

definition lending_pool :: "lending pool_client" where
  "lending_pool =
     \<lparr>pool_submit = (\<lambda>pool from _ _ rs x. case rs of
        [r] \<Rightarrow> if request_type r = REQUEST_WITHDRAW_COLLATERAL \<and> from \<noteq> pool
               then lending_pay pool from (request_amount r) x else None
      | _ \<Rightarrow> None),
      pool_submit_with_allowance = (\<lambda>pool from _ _ rs x. case rs of
        [r] \<Rightarrow> if request_type r = REQUEST_SUPPLY_COLLATERAL
               then lending_supply pool from (request_amount r) x else None
      | _ \<Rightarrow> None),
      pool_try_get_reserve = (\<lambda>_ _ x. Some (lending_reserve x, x)),
      pool_try_get_positions = (\<lambda>_ a x. Some ([0 \<mapsto> collateral x a], x)),
      pool_claim = (\<lambda>_ _ _ _ x. Some (0, x))\<rparr>"

lemma lending_leaves_vault:
  assumes "pool \<noteq> vault"
  shows "pool_leaves_vault ledger_token lending_pool holdings ledger_ok pool vault (- {vault})"
  unfolding pool_leaves_vault_def
proof (intro allI impI)
  fix x :: lending and a
  assume ok: "ledger_ok x" and a: "a \<in> - {vault}"
  have move: "ledger_ok y \<and> holdings y vault = holdings x vault"
    if "ledger_transfer b c n x = Some (u, y)" "b \<noteq> vault" "c \<noteq> vault" for b c n u y
    using that ok by (auto simp: ledger_transfer_def ledger_ok_def Let_def split: if_splits)
  have supplied: "ledger_ok y \<and> holdings y vault = holdings x vault"
    if "lending_supply pool a n x = Some (u, y)" for n u y
    using that move [of a pool] a assms
    by (fastforce simp: lending_supply_def ledger_ok_def Let_def split: if_splits)
  have pay: "ledger_ok y \<and> holdings y vault = holdings x vault"
    if "lending_pay pool a n x = Some (u, y)" for n u y
    using that move [of pool a] a assms
    by (fastforce simp: lending_pay_def ledger_ok_def Let_def split: if_splits)
  show "(\<forall>asset n l y. token_approve ledger_token asset a pool n l x = Some ((), y) \<longrightarrow>
        ledger_ok y \<and> holdings y vault = holdings x vault) \<and>
     (\<forall>rs y. pool_submit lending_pool pool a a a rs x = Some ((), y) \<longrightarrow>
        ledger_ok y \<and> holdings y vault = holdings x vault) \<and>
     (\<forall>rs y. pool_submit_with_allowance lending_pool pool a a a rs x = Some ((), y) \<longrightarrow>
        ledger_ok y \<and> holdings y vault = holdings x vault) \<and>
     (\<forall>asset r y. pool_try_get_reserve lending_pool pool asset x = Some (r, y) \<longrightarrow>
        ledger_ok y \<and> holdings y vault = holdings x vault) \<and>
     (\<forall>r y. pool_try_get_positions lending_pool pool a x = Some (r, y) \<longrightarrow>
        ledger_ok y \<and> holdings y vault = holdings x vault)"
    using ok supplied pay
    by (auto simp: lending_pool_def ledger_token_def ledger_ok_def split: list.splits if_splits)
qed

interpretation blend_net: strategy_net "world_token ledger_token" asset "\<lambda>w. holdings (chain w)"
    "\<lambda>w. ledger_ok (chain w) \<and> blends_serve asset the_pool the_vault (- {the_vault}) w"
    "blend_clients ledger_token lending_pool e" the_vault "- {the_vault}" for asset e
  by (rule blend_strategy_net)
    (auto intro: ledger.sep41_axioms lending_leaves_vault simp: participant_defs)

definition start_lending :: lending where
  "start_lending = \<lparr>holdings = holdings start_ledger, allowances = (\<lambda>_ _. 0),
     collateral = (\<lambda>_. 0), total_supplied = 0, total_borrowed = 0,
     supply_rate = BLEND_RATE_SCALAR\<rparr>"

definition fresh_blend :: "lending blend" where
  "fresh_blend = after_call
     (blend_initialize (env_at 1000) the_admin the_vault the_asset the_pool)
     (blend_deployed 0 start_lending)"

definition blend_start_world :: "lending blend_world" where
  "blend_start_world = \<lparr>chain = start_lending, instances = (\<lambda>_. fresh_blend)\<rparr>"

abbreviation BC :: "nat \<Rightarrow> lending blend_world strategy_client" where
  "BC now \<equiv> blend_clients ledger_token lending_pool (env_at now)"

definition blend_run :: "vault_call list \<Rightarrow> lending blend_world vault" where
  "blend_run cs = after_calls (map (exec MT (BC 1000) (env_at 1000)) cs) (deployed 0 blend_start_world)"

definition blend_setup :: "vault_call list" where
  "blend_setup =
     [CallInitialize the_admin the_asset the_keeper the_guardian fee_account 1000 0 ''Vault'' ''tV'',
      CallDeposit alice 1000000000,
      CallAddStrategy the_admin adapter,
      CallAllocate the_keeper adapter 1000000000]"

definition blend_funded :: "lending blend_world vault" where
  "blend_funded = blend_run blend_setup"

lemma blend_funded_reachable: "reachable blend_funded"
  unfolding blend_funded_def blend_run_def by (rule reachable_after_calls) (rule start)

section \<open>Evaluation\<close>

text \<open>What \<open>simp\<close> unfolds to run the contracts on a concrete state.\<close>

lemmas constant_defs =
  MAX_PERFORMANCE_FEE_BPS_def MAX_IDLE_BUFFER_BPS_def VIRTUAL_SHARES_OFFSET_def NAV_PRECISION_def
  MAX_BPS_def MAX_STRATEGIES_def MIN_UPGRADE_DELAY_def DEFAULT_UPGRADE_DELAY_def
  DEFAULT_BRIDGED_MAX_AGE_def BLEND_RATE_SCALAR_def AVAILABLE_LIQUIDITY_ROUNDING_MARGIN_def
  REQUEST_SUPPLY_COLLATERAL_def REQUEST_WITHDRAW_COLLATERAL_def DEFAULT_APPROVAL_BUFFER_def
  DEFAULT_MAX_UTILIZATION_BPS_def DEFAULT_MIN_BACKSTOP_BPS_def

lemmas vault_entry_defs =
  initialize_def transfer_def total_assets_def effective_bridged_balance_def mul_div_offset_def
  convert_to_assets_def convert_to_shares_def deposit_def redeem_def cover_shortfall_def
  untrack_def add_strategy_def remove_strategy_def allocate_def deallocate_def
  emergency_withdraw_strategy_def attest_bridged_balance_def update_tracked_balance_def
  collect_fees_def pause_def unpause_def change_deposit_cap_def change_keeper_def
  change_guardian_def propose_admin_def accept_admin_def change_bridged_max_age_def
  change_upgrade_delay_def schedule_upgrade_def execute_upgrade_def cancel_upgrade_def

lemmas world_defs =
  world_token_def on_chain_def ledger_token_def ledger_transfer_def mock_clients_def
  blend_clients_def call_instance_def callee_env_def lending_pool_def lending_pay_def
  lending_supply_def lending_reserve_def tokens_down_def tokens_up_def

lemmas start_defs =
  mock_start_def start_ledger_def fresh_mock_def mock_deployed_def blend_start_world_def
  start_lending_def fresh_blend_def blend_deployed_def deployed_def

lemmas eval_defs =
  op_run after_call_def succeeds_def result_of_def env_at_def unit_result_def int_result_def
  width_defs participant_defs Let_def signed_divide_int_def lookup0_def constant_defs
  vault_entry_defs world_defs

section \<open>The funded vault\<close>

text \<open>What the setup calls leave behind, computed in one run.\<close>

lemma funded_state:
  "let s = funded in
   st_admin s = Some the_admin \<and> st_keeper s = Some the_keeper \<and>
   st_guardian s = Some the_guardian \<and> st_pending_admin s = None \<and>
   st_asset s = Some the_asset \<and> st_initialized s = Some True \<and>
   st_paused s = Some False \<and> st_performance_fee_bps s = Some 1000 \<and>
   st_fee_recipient s = Some fee_account \<and> st_idle_buffer_bps s = Some 500 \<and>
   st_deposit_cap s = Some 0 \<and> st_strategies s = Some [adapter, adapter_two] \<and>
   st_bridged_max_age s = Some 86400 \<and> st_upgrade_delay s = Some 172800 \<and>
   st_total_supply s = Some 1000000000 \<and> st_high_water_mark s = Some 10000000 \<and>
   st_bridged_balance s = Some 0 \<and> st_bridged_timestamp s = Some 0 \<and>
   st_scheduled_upgrade_hash s = None \<and> st_scheduled_upgrade_at s = None \<and>
   code_hash s = 0 \<and>
   st_share_balance s = [alice \<mapsto> 1000000000] \<and>
   st_tracked_balance s = [adapter \<mapsto> 400000000, adapter_two \<mapsto> 300000000] \<and>
   holdings (chain (outside s)) = (\<lambda>a. 0)(alice := 9000000000, bob := 10000000000,
     the_vault := 300000000, adapter := 400000000, adapter_two := 300000000) \<and>
   (\<forall>a. mk_asset (instances (outside s) a) = Some the_asset \<and>
      mk_vault (instances (outside s) a) = Some the_vault \<and>
      mk_healthy (instances (outside s) a) = Some True \<and>
      mk_admin (instances (outside s) a) = Some the_admin \<and>
      mk_balance (instances (outside s) a) =
        Some (if a = adapter then 400000000 else if a = adapter_two then 300000000 else 0))"
  by (simp add: eval_defs funded_def mock_run_def setup_calls_def start_defs fun_eq_iff
      del: not_None_eq)

lemma funded_fields [simp]:
  "st_admin funded = Some the_admin" "st_keeper funded = Some the_keeper"
  "st_guardian funded = Some the_guardian" "st_pending_admin funded = None"
  "st_asset funded = Some the_asset" "st_initialized funded = Some True"
  "st_paused funded = Some False" "st_performance_fee_bps funded = Some 1000"
  "st_fee_recipient funded = Some fee_account" "st_idle_buffer_bps funded = Some 500"
  "st_deposit_cap funded = Some 0" "st_strategies funded = Some [adapter, adapter_two]"
  "st_bridged_max_age funded = Some 86400" "st_upgrade_delay funded = Some 172800"
  "st_total_supply funded = Some 1000000000" "st_high_water_mark funded = Some 10000000"
  "st_bridged_balance funded = Some 0" "st_bridged_timestamp funded = Some 0"
  "st_scheduled_upgrade_hash funded = None" "st_scheduled_upgrade_at funded = None"
  "code_hash funded = 0" "st_share_balance funded = [alice \<mapsto> 1000000000]"
  "st_tracked_balance funded = [adapter \<mapsto> 400000000, adapter_two \<mapsto> 300000000]"
  "holdings (chain (outside funded)) = (\<lambda>a. 0)(alice := 9000000000, bob := 10000000000,
     the_vault := 300000000, adapter := 400000000, adapter_two := 300000000)"
  "mk_asset (instances (outside funded) a) = Some the_asset"
  "mk_vault (instances (outside funded) a) = Some the_vault"
  "mk_healthy (instances (outside funded) a) = Some True"
  "mk_admin (instances (outside funded) a) = Some the_admin"
  "mk_balance (instances (outside funded) a) =
     Some (if a = adapter then 400000000 else if a = adapter_two then 300000000 else 0)"
  using funded_state by (simp_all only: Let_def simp_thms)

lemma env_at_fields [simp]:
  "current_contract (env_at now) = the_vault" "authorised (env_at now) a"
  "ledger_timestamp (env_at now) = now" "uploaded_wasm (env_at now) h"
  by (simp_all add: env_at_def)

lemma participants_distinct [simp]:
  "alice \<noteq> the_vault" "bob \<noteq> the_vault" "adapter \<noteq> the_vault" "adapter_two \<noteq> the_vault"
  "the_vault \<noteq> alice" "the_vault \<noteq> bob" "the_vault \<noteq> adapter" "the_vault \<noteq> adapter_two"
  "adapter \<noteq> adapter_two" "adapter_two \<noteq> adapter" "alice \<noteq> bob" "bob \<noteq> alice"
  by (simp_all add: participant_defs)

lemma funded_world [simp]:
  "ledger_ok (chain (outside funded))" "mocks_serve the_asset A (outside funded)"
  by (simp_all add: ledger_ok_def mocks_serve_def)

lemma funded_live [simp]: "mocks_live the_asset the_vault A holdings (outside funded)"
  by (auto simp: mocks_live_def participant_defs width_defs)

lemma funded_backing [simp]:
  "backing (\<lambda>w. holdings (chain w)) (env_at 1000) funded = 1000000000"
  by (simp add: backing_def assets_with_idle_def tracked_total_def bridged_at_def lookup0_def
      participant_defs)

lemma funded_redeem:
  "result_of (redeem MT (MC 1000) (env_at 1000) alice 650000000) funded = Inr 650000000"
  by (simp add: eval_defs del: not_None_eq)

lemma funded_deposit: "result_of (deposit MT (env_at 1000) bob 500000000) funded = Inr 500000000"
  by (simp add: eval_defs del: not_None_eq)

end
