(* ===== verification/FeeEconomics.thy ===== *)
theory FeeEconomics
  imports VaultEconomics
begin

text \<open>
  Performance fees: what the minted shares are worth, when the high-water mark cannot fall, and
  that fees are not charged twice on the same assets.
\<close>

section \<open>The worth of the fee\<close>

lemma fee_worth:
  assumes "0 \<le> A" and "0 \<le> S" and "0 \<le> fa" and "fee = priced fa S A"
  shows "priced fee A (S + fee) \<le> fa"
proof -
  let ?O = VIRTUAL_SHARES_OFFSET
  have fee: "0 \<le> fee" using assms by (simp add: priced_ge_zero)
  have pos: "0 < S + fee + ?O" using assms(2) fee by (simp add: VIRTUAL_SHARES_OFFSET_def)
  have "priced fee A (S + fee) * (S + fee + ?O) \<le> fee * (A + ?O)"
    using priced_lower [of fee A "S + fee"] assms fee by simp
  also have "\<dots> \<le> fa * (S + ?O)" using priced_lower [of fa S A] assms by simp
  also have "\<dots> \<le> fa * (S + fee + ?O)" using assms(3) fee by (intro mult_left_mono) auto
  finally show ?thesis using pos by simp
qed

lemma nav_above:
  assumes "0 \<le> A" and "0 < S" and "h < nav A S"
  shows "(h + 1) * S \<le> A * NAV_PRECISION"
proof -
  have "nav A S = A * NAV_PRECISION div S"
    using assms by (simp add: nav_def sdiv_nonneg NAV_PRECISION_def)
  with assms(2,3) have "(h + 1) * S \<le> (A * NAV_PRECISION div S) * S" by simp
  also have "\<dots> \<le> A * NAV_PRECISION" using div_mult_le_self [OF assms(2)] by simp
  finally show ?thesis .
qed

lemma nav_at_least:
  assumes "0 \<le> A" and "0 < S" and "h * S \<le> A * NAV_PRECISION"
  shows "h \<le> nav A S"
proof -
  have "h = h * S div S" using assms(2) by simp
  also have "\<dots> \<le> A * NAV_PRECISION div S" using assms(2,3) by (intro zdiv_mono1) auto
  also have "\<dots> = nav A S" using assms by (simp add: nav_def sdiv_nonneg NAV_PRECISION_def)
  finally show ?thesis .
qed

text \<open>The yield the fee is charged on, against the exact gain over the mark.\<close>

lemma yield_bounds:
  assumes "0 \<le> A" and "0 < S" and "0 \<le> h" and "h < nav A S"
  shows "0 < yield_above A S h" and
    "(yield_above A S h - 1) * NAV_PRECISION < A * NAV_PRECISION - h * S"
proof -
  let ?P = NAV_PRECISION
  have P: "0 < ?P" by (simp add: NAV_PRECISION_def)
  have y: "yield_above A S h = A - h * S div ?P"
    using assms(2,3) by (simp add: yield_above_def sdiv_nonneg NAV_PRECISION_def)
  have gain: "h * S < A * ?P" using nav_above [OF assms(1,2,4)] assms(2) by (simp add: distrib_right)
  have "h * S div ?P < A"
    using gain P div_mult_le_self [OF P, of "h * S"] by (smt (verit) mult_right_less_imp_less)
  then show "0 < yield_above A S h" by (simp add: y)
  show "(yield_above A S h - 1) * ?P < A * ?P - h * S"
    using less_div_mult_self [OF P, of "h * S"] by (simp add: y left_diff_distrib distrib_right)
qed

lemma fee_assets_bounds:
  assumes "0 \<le> y" and "y = yield_above A S h" and "bps \<le> MAX_PERFORMANCE_FEE_BPS"
  shows "0 \<le> fee_assets_of A S h bps" and "10 * fee_assets_of A S h bps \<le> 3 * y"
proof -
  let ?f = "fee_assets_of A S h bps"
  have f: "?f = y * int bps div 10000"
    using assms(1,2) by (simp add: fee_assets_of_def sdiv_nonneg MAX_BPS_def)
  show "0 \<le> ?f" using assms(1) by (simp add: f pos_imp_zdiv_nonneg_iff)
  have "?f * 10000 \<le> y * int bps" using div_mult_le_self [of 10000 "y * int bps"] by (simp add: f)
  also have "\<dots> \<le> y * 3000"
    using assms(1,3) by (intro mult_left_mono) (auto simp: MAX_PERFORMANCE_FEE_BPS_def)
  finally show "10 * ?f \<le> 3 * y" by simp
qed

section \<open>The high-water mark\<close>

text \<open>The fee is worth at most two fifths of the gain above the mark.\<close>

lemma fee_below_gain:
  assumes "0 \<le> A" and "0 < S" and "0 \<le> h" and "h < nav A S"
    and "bps \<le> MAX_PERFORMANCE_FEE_BPS" and "fee_assets_of A S h bps \<noteq> 0"
  shows "5 * (fee_assets_of A S h bps * NAV_PRECISION) \<le> 2 * (A * NAV_PRECISION - h * S)"
proof -
  let ?P = NAV_PRECISION and ?y = "yield_above A S h" and ?fa = "fee_assets_of A S h bps"
  define gain where "gain = A * ?P - h * S"
  have P: "0 < ?P" by (simp add: NAV_PRECISION_def)
  have y: "0 < ?y" "(?y - 1) * ?P < gain"
    using yield_bounds [OF assms(1-4)] by (auto simp: gain_def)
  have fa: "0 \<le> ?fa" "10 * ?fa \<le> 3 * ?y" using fee_assets_bounds [OF _ refl assms(5)] y(1) by auto
  then have "4 \<le> ?y" using assms(6) by linarith
  then have "3 * ?y \<le> 4 * (?y - 1)" by simp
  with fa(2) have "10 * ?fa \<le> 4 * (?y - 1)" by (rule order_trans)
  then have "10 * ?fa * ?P \<le> 4 * (?y - 1) * ?P" using P by (intro mult_right_mono) auto
  then have "5 * (?fa * ?P) \<le> 2 * gain" using y(2) by linarith
  then show ?thesis by (simp add: gain_def)
qed

lemma mark_does_not_fall:
  assumes "0 \<le> A" and "VIRTUAL_SHARES_OFFSET \<le> S" and "0 \<le> h" and "h < nav A S"
    and "bps \<le> MAX_PERFORMANCE_FEE_BPS" and "fee = fee_shares_of A S h bps" and "0 < fee"
  shows "h \<le> nav A (S + fee)"
proof -
  let ?O = VIRTUAL_SHARES_OFFSET and ?P = NAV_PRECISION
  let ?y = "yield_above A S h" and ?fa = "fee_assets_of A S h bps"
  define gain where "gain = A * ?P - h * S"
  have S: "0 < S" using assms(2) by (simp add: VIRTUAL_SHARES_OFFSET_def)
  have P: "0 < ?P" by (simp add: NAV_PRECISION_def)
  have fa: "0 \<le> ?fa"
    using fee_assets_bounds [OF _ refl assms(5)] yield_bounds [OF assms(1) S assms(3,4)] by auto
  have sh: "fee = priced ?fa S A" by (simp add: assms(6) fee_shares_of_def)
  then have "?fa \<noteq> 0" using assms(7) by (auto simp: priced_def)
  then have g: "5 * (?fa * ?P) \<le> 2 * gain"
    using fee_below_gain [OF assms(1) S assms(3-5)] by (simp add: gain_def)
  have hS: "h * S \<le> A * ?P" using nav_above [OF assms(1) S assms(4)] S by (simp add: distrib_right)
  have cover: "2 * h * (S + ?O) \<le> 5 * ?P * (A + ?O)"
  proof -
    have "2 * h * (S + ?O) \<le> 2 * h * (S + S)" using assms(2,3) by (intro mult_left_mono) auto
    also have "\<dots> \<le> 4 * (A * ?P)" using hS by (simp add: algebra_simps)
    also have "\<dots> \<le> 5 * ?P * (A + ?O)" using assms(1) P
      by (simp add: algebra_simps VIRTUAL_SHARES_OFFSET_def)
    finally show ?thesis .
  qed
  have pos: "0 < 5 * ?P * (A + ?O)" using P assms(1) by (simp add: VIRTUAL_SHARES_OFFSET_def)
  have gain0: "0 \<le> gain" using hS by (simp add: gain_def)
  have "fee * (A + ?O) \<le> ?fa * (S + ?O)" using priced_lower [of ?fa S A] fa assms(1) S sh by simp
  then have "h * 5 * ?P * (fee * (A + ?O)) \<le> h * 5 * ?P * (?fa * (S + ?O))"
    using assms(3) P by (intro mult_left_mono) auto
  also have "\<dots> = h * (S + ?O) * (5 * (?fa * ?P))" by (simp add: algebra_simps)
  also have "\<dots> \<le> h * (S + ?O) * (2 * gain)"
    using g assms(3) S by (intro mult_left_mono) (auto simp: VIRTUAL_SHARES_OFFSET_def)
  also have "\<dots> = gain * (2 * h * (S + ?O))" by (simp add: algebra_simps)
  also have "\<dots> \<le> gain * (5 * ?P * (A + ?O))" using cover gain0 by (intro mult_left_mono)
  finally have "h * fee * (5 * ?P * (A + ?O)) \<le> gain * (5 * ?P * (A + ?O))"
    by (simp add: algebra_simps)
  with pos have "h * fee \<le> gain" by (rule mult_right_le_imp_le [rotated])
  then have "h * (S + fee) \<le> A * ?P" by (simp add: gain_def distrib_left)
  with nav_at_least assms(1,7) S show ?thesis by simp
qed

text \<open>
  When the mark falls: exactly when the fee's shares, priced at the old mark, are worth more than
  the gain above it; and certainly when the fee's rate on the yield, at the ratio of supply to
  assets with the offset, outweighs the ratio at the mark. Each step of the fee rounds away less
  than one unit, which the second condition allows for.
\<close>

lemma nav_below_iff:
  assumes "0 \<le> A" and "0 < S"
  shows "nav A S < h \<longleftrightarrow> A * NAV_PRECISION < h * S"
proof
  assume "nav A S < h"
  then have "(A * NAV_PRECISION div S + 1) * S \<le> h * S"
    using assms by (intro mult_right_mono) (auto simp: nav_def sdiv_nonneg NAV_PRECISION_def)
  with less_div_mult_self [OF assms(2)] show "A * NAV_PRECISION < h * S" by (rule less_le_trans)
next
  assume "A * NAV_PRECISION < h * S"
  moreover have "nav A S * S \<le> A * NAV_PRECISION"
    using assms div_mult_le_self [OF assms(2)] by (simp add: nav_def sdiv_nonneg NAV_PRECISION_def)
  ultimately have "nav A S * S < h * S" by linarith
  then show "nav A S < h" using assms(2) by simp
qed

lemma mark_falls:
  assumes "0 \<le> A" and "0 < S" and "0 < h" and "h < nav A S"
    and "fee = fee_shares_of A S h bps" and "0 < fee" and "y = yield_above A S h"
    and "y * NAV_PRECISION * (10000 * (A + VIRTUAL_SHARES_OFFSET)) \<le> h *
      ((y * int bps - 10000) * (S + VIRTUAL_SHARES_OFFSET) - 10000 * (A + VIRTUAL_SHARES_OFFSET))"
  shows "nav A (S + fee) < h"
proof -
  let ?X = "A + VIRTUAL_SHARES_OFFSET" and ?Y = "S + VIRTUAL_SHARES_OFFSET" and ?P = NAV_PRECISION
  let ?fa = "fee_assets_of A S h bps"
  have pos: "0 < ?X" "0 < ?Y" "0 < ?P"
    using assms(1,2) by (simp_all add: VIRTUAL_SHARES_OFFSET_def NAV_PRECISION_def)
  have y0: "0 \<le> y" using yield_bounds(1) [OF assms(1,2) _ assms(4)] assms(3,7) by simp
  have fa: "?fa = y * int bps div 10000"
    using y0 assms(7) by (simp add: fee_assets_of_def sdiv_nonneg MAX_BPS_def)
  have fa0: "0 \<le> ?fa" using y0 by (simp add: fa pos_imp_zdiv_nonneg_iff)
  have "y * int bps < (?fa + 1) * 10000" using less_div_mult_self [of 10000 "y * int bps"] by (simp add: fa)
  then have "(y * int bps - 10000) * ?Y \<le> ?fa * 10000 * ?Y"
    using pos by (intro mult_right_mono) auto
  moreover have "?fa * ?Y < (fee + 1) * ?X"
    using priced_upper [of ?fa S A] assms(1,2,5) fa0 by (simp add: fee_shares_of_def)
  ultimately have "(y * int bps - 10000) * ?Y - 10000 * ?X < fee * (10000 * ?X)"
    by (simp add: algebra_simps)
  then have "h * ((y * int bps - 10000) * ?Y - 10000 * ?X) < h * (fee * (10000 * ?X))"
    using assms(3) by (rule mult_strict_left_mono)
  with assms(8) have "y * ?P * (10000 * ?X) < h * fee * (10000 * ?X)" by (simp add: ac_simps)
  then have "y * ?P < h * fee" using pos by (simp add: mult_less_cancel_right)
  moreover have "A * ?P - h * S \<le> y * ?P"
    using div_mult_le_self [OF pos(3), of "h * S"] assms(2,3,7) pos(3)
    by (simp add: yield_above_def sdiv_nonneg left_diff_distrib)
  ultimately have "A * ?P < h * (S + fee)" by (simp add: distrib_left)
  then show ?thesis using nav_below_iff assms(1,2,6) by simp
qed

text \<open>The mark of a reachable vault is not negative.\<close>

lemma exec_hwm:
  assumes "exec T C e c s = Inr (v, t)" and "shares_inv s" and "0 \<le> hwm_of s"
  shows "0 \<le> hwm_of t"
proof (cases c)
  case CallCollectFees
  with assms(1) obtain n where "collect_fees T e s = Inr (n, t)" by (auto dest!: int_result_success)
  then show ?thesis
  proof (rule collect_fees_success)
    fix A :: int and bps recipient rs x
    assume nav: "hwm_of s < nav A (supply_of s)" and S0: "supply_of s \<noteq> 0" and n: "0 < n"
      and t: "t = log_ttl rs (s\<lparr>outside := x,
          st_share_balance := (st_share_balance s)(recipient \<mapsto> shares_of s recipient + n),
          st_total_supply := Some (supply_of s + n),
          st_high_water_mark := Some (nav A (supply_of s + n)),
          event_log := event_log s @ [FeesCollected n (nav A (supply_of s + n))]\<rparr>)"
    have S: "0 < supply_of s"
      using assms(2) S0 by (auto simp: shares_inv_def map_total_def intro!: le_neq_trans sum_nonneg)
    have "0 < nav A (supply_of s)" using nav assms(3) by linarith
    with S have "0 < A"
      by (auto simp: nav_def NAV_PRECISION_def signed_divide_int_def sgn_if abs_if
          pos_imp_zdiv_nonneg_iff pos_imp_zdiv_neg_iff split: if_splits)
    with S n have "0 \<le> nav A (supply_of s + n)"
      by (simp add: nav_def sdiv_nonneg NAV_PRECISION_def pos_imp_zdiv_nonneg_iff)
    with t show ?thesis by simp
  qed
qed (use assms in \<open>fastforce dest: unit_result_success int_result_success entry_success
      elim: entry_elims simp: NAV_PRECISION_def\<close>)+

lemma reachable_hwm: "reachable s \<Longrightarrow> 0 \<le> hwm_of s"
proof -
  assume "reachable s"
  then have "shares_inv s \<and> 0 \<le> hwm_of s"
    by (rule reachable_invariant)
      (auto simp: shares_inv_def deployed_def NAV_PRECISION_def
        dest: exec_shares_inv [unfolded shares_inv_def] exec_hwm [unfolded shares_inv_def])
  then show ?thesis ..
qed

section \<open>Collecting fees\<close>

context sep41
begin

lemma collect_effect:
  assumes "collect_fees T e s = Inr (fee, t)" and "st_asset s = Some asset" and "wf (outside s)"
    and "reachable s"
  shows "0 < fee \<and> fee = fee_shares_of (backing bal e s) (supply_of s) (hwm_of s)
        (unwrap_or (st_performance_fee_bps s) 0) \<and>
      hwm_of s < nav (backing bal e s) (supply_of s) \<and> 0 < supply_of s \<and>
      supply_of t = supply_of s + fee \<and> backing bal e t = backing bal e s \<and>
      hwm_of t = nav (backing bal e s) (supply_of s + fee) \<and> wf (outside t) \<and>
      st_asset t = st_asset s"
  using assms(1)
proof (rule collect_fees_success)
  fix asset' idle x A bps recipient rs
  assume "st_asset s = Some asset'" and S0: "supply_of s \<noteq> 0"
    and rd: "token_balance T asset' (current_contract e) (outside s) = Some (idle, x)"
    and A: "A = assets_with_idle e s idle" and nav: "hwm_of s < nav A (supply_of s)"
    and bps: "bps = unwrap_or (st_performance_fee_bps s) 0"
    and fee: "fee = fee_shares_of A (supply_of s) (hwm_of s) bps" "0 < fee"
    and t: "t = log_ttl rs (s\<lparr>outside := x,
          st_share_balance := (st_share_balance s)(recipient \<mapsto> shares_of s recipient + fee),
          st_total_supply := Some (supply_of s + fee),
          st_high_water_mark := Some (nav A (supply_of s + fee)),
          event_log := event_log s @ [FeesCollected fee (nav A (supply_of s + fee))]\<rparr>)"
  then have [simp]: "asset' = asset" using assms(2) by simp
  have x: "idle = bal (outside s) (current_contract e)" "bal x = bal (outside s)" "wf x"
    using balance_reads [OF assms(3)] rd by auto
  have "0 < supply_of s" using reachable_supply_nonneg [OF assms(4)] S0 by linarith
  with t x A nav bps fee show ?thesis
    by (simp add: backing_def assets_with_idle_def tracked_total_def bridged_at_def
        bridged_expired_def)
qed

lemma collect_once:
  assumes "collect_fees T e s = Inr (fee, t)" and "st_asset s = Some asset" and "wf (outside s)"
    and "reachable s" and "reachable t"
  shows "collect_fees T e t \<noteq> Inr (fee', u)"
proof
  assume again: "collect_fees T e t = Inr (fee', u)"
  note first = collect_effect [OF assms(1-4)]
  note second = collect_effect [OF again _ _ assms(5)]
  from first second assms(2) show False by simp
qed

end

end
