(* ===== verification/PriceBounds.thy ===== *)
theory PriceBounds
  imports LedgerToken
begin

text \<open>
  How far the virtual offset keeps the quoted prices from the exact ones: what a round trip can
  cost, why inflating the price with a donation does not pay, how much all holders' quotes can
  exceed the backing, and the outcome of a deposit on every branch.
\<close>

section \<open>Arithmetic\<close>

text \<open>Buying and selling at once costs at most one unit and the price of one share.\<close>

lemma priced_round_trip_cost:
  assumes "0 \<le> a" and "0 \<le> A" and "0 \<le> S" and "n = priced a S A"
  shows "a - priced n (A + a) (S + n)
    \<le> 1 + (A + VIRTUAL_SHARES_OFFSET) div (S + VIRTUAL_SHARES_OFFSET)"
proof -
  let ?X = "A + VIRTUAL_SHARES_OFFSET" and ?Y = "S + VIRTUAL_SHARES_OFFSET"
  let ?m = "priced n (A + a) (S + n)" and ?loss = "a - priced n (A + a) (S + n) - 1"
  have pos: "0 < ?X" "0 < ?Y" using assms(2,3) by (simp_all add: VIRTUAL_SHARES_OFFSET_def)
  have n: "0 \<le> n" using assms by (simp add: priced_ge_zero)
  have "a * ?Y < (n + 1) * ?X" using priced_upper [of a S A] assms by simp
  moreover have "n * (?X + a) < (?m + 1) * (?Y + n)"
    using priced_upper [of n "A + a" "S + n"] assms(1-3) n by (simp add: algebra_simps)
  ultimately have less: "?loss * (?Y + n) < ?X" by (simp add: algebra_simps)
  have "?loss \<le> ?X div ?Y"
  proof (cases "0 \<le> ?loss")
    case True
    then have "?loss * ?Y \<le> ?loss * (?Y + n)" using n by (intro mult_left_mono) auto
    with less have "?loss * ?Y div ?Y \<le> ?X div ?Y" using pos by (intro zdiv_mono1) auto
    then show ?thesis using pos by simp
  next
    case False
    moreover have "0 \<le> ?X div ?Y" using pos by (simp add: pos_imp_zdiv_nonneg_iff)
    ultimately show ?thesis by linarith
  qed
  then show ?thesis by simp
qed

text \<open>
  An attacker buys \<open>k\<close> shares for \<open>d\<close>, donates \<open>g\<close> to raise the price, lets somebody else buy
  \<open>j\<close> shares at the raised price, and sells for \<open>d + g + w\<close>. With \<open>X\<close> and \<open>Y\<close> the backing and
  the supply before, both with the offset, the gain \<open>w\<close> is at most the price \<open>X / Y\<close> of a share:
  what the others' rounding loses to the attacker.
\<close>

lemma donation_gain:
  fixes d g k w X Y :: int
  assumes "0 \<le> g" and "0 \<le> k" and "0 \<le> j" and "1 \<le> Y" and "0 \<le> X" and "0 < w"
    and "k * X \<le> d * Y" and "d * Y < (k + 1) * X"
    and "(d + g + w) * ((Y + k) * (Y + k + j)) < k * (X + d + g) * (Y + k + j + 1)"
  shows "w * Y < X"
proof -
  let ?Q = "Y + k"
  have "k * (X + d + g) \<le> (d + g) * ?Q - g * Y" using assms(7) by (simp add: algebra_simps)
  then have "k * (X + d + g) * (?Q + j) \<le> ((d + g) * ?Q - g * Y) * (?Q + j)"
    using assms(2-4) by (intro mult_right_mono) auto
  moreover have "k * (X + d + g) \<le> d * ?Q + g * k" using assms(7) by (simp add: algebra_simps)
  moreover have "g * k \<le> g * (Y * (?Q + j))"
    using mult_mono [of 1 Y k "?Q + j"] assms(1-4) by (intro mult_left_mono) auto
  ultimately have "w * (?Q + j) * ?Q < d * ?Q" using assms(9) by (simp add: algebra_simps)
  then have "w * (?Q + j) < d" using assms(2,4) by (simp add: mult_less_cancel_right)
  moreover have "w * ?Q \<le> w * (?Q + j)" using assms(3,6) by (intro mult_left_mono) auto
  ultimately have "w * ?Q * Y < d * Y" using assms(4) by (intro mult_strict_right_mono) auto
  also have "\<dots> < (k + 1) * X" using assms(8) .
  also have "\<dots> \<le> ?Q * X" using assms(4,5) by (intro mult_right_mono) auto
  finally have "(w * Y) * ?Q < X * ?Q" by (simp add: ac_simps)
  then show ?thesis using assms(2,4) by (simp add: mult_less_cancel_right)
qed

lemma donation_hardly_pays:
  assumes "0 \<le> d" and "0 \<le> g" and "0 \<le> n" and "0 \<le> A" and "0 \<le> S"
    and "k = priced d S A" and "j = priced n (S + k) (A + d + g)"
    and "won = priced k (A + d + g + n) (S + k + j)"
  shows "won \<le> d + g + (A + VIRTUAL_SHARES_OFFSET) div (S + VIRTUAL_SHARES_OFFSET)"
    and "A \<le> S \<Longrightarrow> won \<le> d + g"
proof -
  let ?X = "A + VIRTUAL_SHARES_OFFSET" and ?Y = "S + VIRTUAL_SHARES_OFFSET"
  let ?Q = "?Y + k" and ?P = "?X + d + g"
  have k: "0 \<le> k" and j: "0 \<le> j" using assms by (simp_all add: priced_ge_zero)
  have pos: "0 < ?X" "0 < ?Y" using assms(4,5) by (simp_all add: VIRTUAL_SHARES_OFFSET_def)
  have Q: "0 < ?Q" "0 < ?Q + j" using k j pos by simp_all
  have bought: "k * ?X \<le> d * ?Y" "d * ?Y < (k + 1) * ?X"
    using priced_lower [of d S A] priced_upper [of d S A] assms by simp_all
  have victim: "n * ?Q < (j + 1) * ?P"
    using priced_upper [of n "S + k" "A + d + g"] assms k by (simp add: ac_simps)
  have sold: "won * (?Q + j) \<le> k * (?P + n)"
    using priced_lower [of k "A + d + g + n" "S + k + j"] assms k j by (simp add: ac_simps)
  have gain: "(won - (d + g)) * ?Y < ?X" if more: "0 < won - (d + g)"
  proof -
    have "k \<noteq> 0"
    proof
      assume "k = 0"
      then have "won \<le> 0" using sold Q by (simp add: mult_le_0_iff)
      with more assms(1,2) show False by simp
    qed
    have "won * (?Q + j) * ?Q \<le> k * ((?P + n) * ?Q)"
      using mult_right_mono [OF sold, of ?Q] Q by (simp add: ac_simps)
    also have "\<dots> < k * (?P * (?Q + j + 1))"
      using victim \<open>k \<noteq> 0\<close> k by (intro mult_strict_left_mono) (auto simp: algebra_simps)
    finally have "(d + g + (won - (d + g))) * (?Q * (?Q + j)) < k * ?P * (?Q + j + 1)"
      by (simp add: ac_simps)
    then show ?thesis
      using donation_gain [OF assms(2) k j _ _ more bought] pos by simp
  qed
  show "won \<le> d + g + ?X div ?Y"
  proof (cases "0 < won - (d + g)")
    case True
    have "(won - (d + g)) * ?Y div ?Y \<le> ?X div ?Y"
      using gain [OF True] pos by (intro zdiv_mono1) auto
    then show ?thesis using pos by simp
  next
    case False
    moreover have "0 \<le> ?X div ?Y" using pos by (simp add: pos_imp_zdiv_nonneg_iff)
    ultimately show ?thesis by linarith
  qed
  show "won \<le> d + g" if "A \<le> S"
  proof (rule ccontr)
    assume "\<not> won \<le> d + g"
    then have "0 < won - (d + g)" by simp
    moreover from this have "1 * ?Y \<le> (won - (d + g)) * ?Y" using pos by (intro mult_right_mono) auto
    ultimately show False using gain that by simp
  qed
qed

text \<open>All quotes together exceed the assets only after a loss, and then by less than the offset.\<close>

lemma quotes_sum:
  assumes "0 \<le> A" and "0 \<le> S" and "finite H" and "\<forall>a\<in>H. 0 \<le> h a" and "(\<Sum>a\<in>H. h a) \<le> S"
  shows "(\<Sum>a\<in>H. priced (h a) A S) < A + VIRTUAL_SHARES_OFFSET"
    and "S \<le> A \<Longrightarrow> (\<Sum>a\<in>H. priced (h a) A S) \<le> A"
proof -
  let ?O = VIRTUAL_SHARES_OFFSET and ?q = "\<Sum>a\<in>H. priced (h a) A S"
  have pos: "0 < A + ?O" "0 < S + ?O" "0 < ?O" using assms(1,2) by (simp_all add: VIRTUAL_SHARES_OFFSET_def)
  have "?q * (S + ?O) = (\<Sum>a\<in>H. priced (h a) A S * (S + ?O))" by (simp add: sum_distrib_right)
  also have "\<dots> \<le> (\<Sum>a\<in>H. h a * (A + ?O))"
    using assms(1,2,4) by (intro sum_mono priced_lower) auto
  also have "\<dots> \<le> S * (A + ?O)"
    using assms(5) pos by (simp add: sum_distrib_right [symmetric])
  finally have le: "?q * (S + ?O) \<le> S * (A + ?O)" .
  have "?q * (S + ?O) < (A + ?O) * (S + ?O)"
  proof -
    have "0 < ?O * (A + ?O)" using pos by simp
    with le show ?thesis by (simp add: algebra_simps)
  qed
  then show "?q < A + ?O" using pos by (simp add: mult_less_cancel_right)
  assume "S \<le> A"
  then have "S * (A + ?O) \<le> A * (S + ?O)" using pos by (simp add: algebra_simps)
  with le have "?q * (S + ?O) \<le> A * (S + ?O)" by linarith
  then show "?q \<le> A" using pos by simp
qed

lemma loss_overquotes:
  assumes "0 \<le> A" and "A < S" and "S + VIRTUAL_SHARES_OFFSET \<le> VIRTUAL_SHARES_OFFSET * (S - A)"
  shows "A < priced S A S"
proof -
  let ?O = VIRTUAL_SHARES_OFFSET
  have "(A + 1) * (S + ?O) \<le> S * (A + ?O)" using assms(3) by (simp add: algebra_simps)
  also have "\<dots> < (priced S A S + 1) * (S + ?O)" using priced_upper [of S A S] assms(1,2) by simp
  finally show ?thesis using assms(1,2) by (simp add: VIRTUAL_SHARES_OFFSET_def)
qed

text \<open>Tokens sent to the vault from outside raise the backing by just as much.\<close>

lemma backing_outside:
  "backing bal e (s\<lparr>outside := x\<rparr>) =
     backing bal e s + (bal x (current_contract e) - bal (outside s) (current_contract e))"
  by (simp add: backing_def assets_with_idle_def tracked_total_def bridged_at_def bridged_expired_def)

context sep41
begin

lemma convert_to_assets_quote:
  assumes "wf (outside s)" and "st_asset s = Some asset" and "convert_to_assets T e n s = Inr (v, t)"
  shows "v = priced n (backing bal e s) (supply_of s)"
  using assms(3,2) balance_reads [OF assms(1)]
  by (auto simp: backing_def elim!: convert_to_assets_success)

end

lemma map_total_part:
  assumes "finite (dom m)" and "\<And>k. 0 \<le> lookup0 m k" and "finite H"
  shows "(\<Sum>k\<in>H. lookup0 m k) \<le> map_total m"
  using assms map_total_superset [of "dom m \<union> H" m] by (simp add: sum_mono2)

section \<open>The outcome of a deposit\<close>

text \<open>
  The end of \<^verbatim>\<open>deposit\<close>, once the shares are known: take the assets, mint, publish.
\<close>

definition mint_shares :: "'x token_client \<Rightarrow> env \<Rightarrow> address \<Rightarrow> int \<Rightarrow> int \<Rightarrow> int \<Rightarrow>
    ('x vault, vault_error, int) operation" where
  "mint_shares T e from assets old_supply shares =
     bind (raise_if (shares \<le> 0) ZeroAmount) (\<lambda>_.
     bind get_asset (\<lambda>asset_addr.
     bind (external_call (token_transfer T asset_addr from (current_contract e) assets)) (\<lambda>_.
     bind (get_share_balance from) (\<lambda>current_shares.
     bind (add_i128 current_shares shares) (\<lambda>new_shares.
     bind (set_share_balance from new_shares) (\<lambda>_.
     bind (add_i128 old_supply shares) (\<lambda>new_supply.
     bind (set_total_supply new_supply) (\<lambda>_.
     bind (emit_deposit from assets shares) (\<lambda>_.
     bind bump_instance (\<lambda>_.
     return shares))))))))))"

lemma mint_shares_outcome:
  assumes "st_asset s = Some asset"
  shows "map_sum id fst (mint_shares T e from n S k s) =
    (if k \<le> 0 then Inl (Raised ZeroAmount)
     else if token_transfer T asset from (current_contract e) n (outside s) = None \<or>
       \<not> fits_i128 (shares_of s from + k) \<or> \<not> fits_i128 (S + k) then Inl Trapped
     else Inr k)"
  using assms
  by (auto simp: mint_shares_def op_run bind_def effect_defs external_call_def bump_persistent_def
      storage_defs add_i128_def i128_checked_def bump_instance_def lookup0_def split: option.splits)

text \<open>The formula of the price traps exactly when one of its steps exceeds the width.\<close>

lemma mul_div_offset_outcome:
  assumes "0 \<le> x" and "0 \<le> p" and "0 \<le> q"
  shows "mul_div_offset x p q s =
    (if i128_max < p + VIRTUAL_SHARES_OFFSET \<or> i128_max < x * (p + VIRTUAL_SHARES_OFFSET) \<or>
       i128_max < q + VIRTUAL_SHARES_OFFSET then Inl Trapped else Inr (priced x p q, s))"
proof (cases "i128_max < p + VIRTUAL_SHARES_OFFSET \<or> i128_max < x * (p + VIRTUAL_SHARES_OFFSET) \<or>
    i128_max < q + VIRTUAL_SHARES_OFFSET")
  case True
  then have "\<not> fits_i128 (p + VIRTUAL_SHARES_OFFSET) \<or> \<not> fits_i128 (x * (p + VIRTUAL_SHARES_OFFSET)) \<or>
    \<not> fits_i128 (q + VIRTUAL_SHARES_OFFSET)" by (auto simp: fits_i128_def)
  with True show ?thesis
    by (auto simp: mul_div_offset_def bind_def add_i128_def mul_i128_def i128_checked_def effect_defs)
next
  case False
  then show ?thesis using mul_div_offset_run [OF assms, of s] by (auto simp: not_less)
qed

text \<open>\<^verbatim>\<open>total_assets\<close> returns no error: it traps exactly when the total exceeds the width.\<close>

lemma sum_tracked_never_raises: "sum_tracked ss acc s \<noteq> Inl (Raised r)"
  by (induction ss arbitrary: acc s)
    (auto simp: bind_failure storage_defs effect_defs bind_def add_i128_def i128_checked_def
      bump_persistent_def split: sum.splits option.splits)

lemma total_assets_never_raises: "total_assets T e s \<noteq> Inl (Raised r)"
  by (auto simp: total_assets_def bind_failure sum_tracked_never_raises effective_bridged_balance_def
      storage_defs effect_defs external_call_def add_i128_def i128_checked_def bump_persistent_def
      Let_def split: option.splits if_splits)

lemma total_assets_outcome:
  assumes "st_asset s = Some asset" and "\<forall>a. 0 \<le> tracked_of s a" and "0 \<le> bridged_of s"
    and "token_balance T asset (current_contract e) (outside s) = Some (idle, x)" and "0 \<le> idle"
  shows "if i128_max < assets_with_idle e s idle then total_assets T e s = Inl Trapped
    else \<exists>rs. total_assets T e s = Inr (assets_with_idle e s idle, log_ttl rs (s\<lparr>outside := x\<rparr>))"
proof (cases "total_assets T e s")
  case (Inl f)
  then have "f = Trapped" using total_assets_never_raises by (cases f) fastforce+
  moreover have "i128_max < assets_with_idle e s idle"
    using total_assets_run [OF assms] Inl by (fastforce simp: not_less)
  ultimately show ?thesis using Inl by simp
next
  case (Inr r)
  then obtain v t where run: "total_assets T e s = Inr (v, t)" by (cases r) simp
  then have "fits_i128 v" by (auto simp: total_assets_def op_success)
  moreover obtain rs where "v = assets_with_idle e s idle" "t = log_ttl rs (s\<lparr>outside := x\<rparr>)"
    using total_assets_success [OF run] assms(1,4) by fastforce
  ultimately show ?thesis using run by (auto simp: fits_i128_def)
qed

lemma deposit_split:
  assumes "authorised e from" and "st_initialized s \<noteq> None" and "\<not> unwrap_or (st_paused s) False"
    and "0 < n"
  shows "total_assets T e s = Inl Trapped \<Longrightarrow> deposit T e from n s = Inl Trapped"
    and "total_assets T e s = Inr (A, u) \<Longrightarrow> supply_of u = S \<Longrightarrow>
      st_deposit_cap u = st_deposit_cap s \<Longrightarrow> cap = unwrap_or (st_deposit_cap s) 0 \<Longrightarrow>
      deposit T e from n s =
        (if 0 < cap \<and> \<not> fits_i128 (A + n) then Inl Trapped
         else if 0 < cap \<and> cap < A + n then Inl (Raised DepositCapExceeded)
         else bind (mul_div_offset n S A) (mint_shares T e from n S) (log_ttl (read_request TotalSupply S) u))"
proof -
  have run: "require_auth e from s = (Inr ((), s) :: vault_error failure + _)"
    "require_initialized s = Inr ((), s)" "require_not_paused s = Inr ((), s)"
    "raise_if (n \<le> 0) ZeroAmount s = Inr ((), s)"
    using assms by (simp_all add: op_success)
  show "deposit T e from n s = Inl Trapped" if "total_assets T e s = Inl Trapped"
    unfolding deposit_def by (simp add: bind_def run that)
  assume u: "total_assets T e s = Inr (A, u)" "supply_of u = S"
    "st_deposit_cap u = st_deposit_cap s" "cap = unwrap_or (st_deposit_cap s) 0"
  have rest: "get_deposit_cap u = Inr (cap, u)"
    "get_total_supply u = Inr (S, log_ttl (read_request TotalSupply S) u)"
    using u(2-4) by (simp_all add: op_success)
  show "deposit T e from n s =
        (if 0 < cap \<and> \<not> fits_i128 (A + n) then Inl Trapped
         else if 0 < cap \<and> cap < A + n then Inl (Raised DepositCapExceeded)
         else bind (mul_div_offset n S A) (mint_shares T e from n S) (log_ttl (read_request TotalSupply S) u))"
    unfolding deposit_def mint_shares_def [abs_def]
    using assms(4) by (simp add: bind_def run u(1) rest add_i128_def i128_checked_def effect_defs)
qed

text \<open>The guards, in their order.\<close>

lemma deposit_guards:
  "\<not> authorised e from \<Longrightarrow> deposit T e from n s = Inl Trapped"
  "authorised e from \<Longrightarrow> st_initialized s = None \<Longrightarrow>
     deposit T e from n s = Inl (Raised NotInitialized)"
  "authorised e from \<Longrightarrow> st_initialized s \<noteq> None \<Longrightarrow> unwrap_or (st_paused s) False \<Longrightarrow>
     deposit T e from n s = Inl (Raised vault_error.Paused)"
  "authorised e from \<Longrightarrow> st_initialized s \<noteq> None \<Longrightarrow> \<not> unwrap_or (st_paused s) False \<Longrightarrow> n \<le> 0 \<Longrightarrow>
     deposit T e from n s = Inl (Raised ZeroAmount)"
  by (auto simp: deposit_def op_run unwrap_or_def split: option.splits)

lemma token_pays_transfer:
  assumes "token_pays T asset bal ok" and "ok x" and "0 < n" and "n \<le> bal x a"
  shows "token_transfer T asset a b n x \<noteq> None"
proof -
  have "\<exists>r. token_transfer T asset a b n x = Some r"
    using assms unfolding token_pays_def by blast
  then show ?thesis by auto
qed

lemma deposit_run:
  assumes "sep41 T asset bal ok" and "token_pays T asset bal ok" and "reachable s"
    and "st_asset s = Some asset" and "ok (outside s)" and "authorised e from"
    and "st_initialized s \<noteq> None" and "\<not> unwrap_or (st_paused s) False" and "0 < n"
    and "S = supply_of s" and "A = backing bal e s" and "k = priced n S A"
    and "cap = unwrap_or (st_deposit_cap s) 0"
  shows "map_sum id fst (deposit T e from n s) =
    (if i128_max < A \<or> 0 < cap \<and> i128_max < A + n then Inl Trapped
     else if 0 < cap \<and> cap < A + n then Inl (Raised DepositCapExceeded)
     else if i128_max < S + VIRTUAL_SHARES_OFFSET \<or> i128_max < n * (S + VIRTUAL_SHARES_OFFSET) \<or>
       i128_max < A + VIRTUAL_SHARES_OFFSET then Inl Trapped
     else if k \<le> 0 then Inl (Raised ZeroAmount)
     else if bal (outside s) from < n \<or> i128_max < S + k then Inl Trapped
     else Inr k)"
proof -
  let ?i = "bal (outside s) (current_contract e)"
  have i: "0 \<le> ?i" using sep41.balance_nonneg [OF assms(1,5)] .
  have A: "0 \<le> A" "A = assets_with_idle e s ?i"
    using backing_nonneg [OF assms(3)] i assms(11) by (auto simp: backing_def)
  have S: "0 \<le> S" "0 \<le> shares_of s from" "shares_of s from \<le> S"
    using reachable_shares_inv [OF assms(3)] map_total_ge [of "st_share_balance s" "from"] assms(10)
    by (auto simp: shares_inv_def map_total_def intro: sum_nonneg)
  have k: "0 \<le> k" using assms(9,12) A S by (simp add: priced_ge_zero)
  obtain x where x: "token_balance T asset (current_contract e) (outside s) = Some (?i, x)"
      "bal x = bal (outside s)" "ok x"
    using assms(2,5) sep41.balance_reads [OF assms(1,5)] unfolding token_pays_def by fast
  have none: "token_transfer T asset from (current_contract e) n x = None \<longleftrightarrow> bal (outside s) from < n"
  proof (cases "token_transfer T asset from (current_contract e) n x")
    case None
    then have "\<not> n \<le> bal x from" using token_pays_transfer [OF assms(2) x(3) assms(9)] by blast
    then show ?thesis using None x(2) by simp
  next
    case (Some r)
    then have "token_transfer T asset from (current_contract e) n x = Some ((), snd r)"
      by (cases r) simp
    then show ?thesis using sep41.transfer_moves [OF assms(1) x(3)] Some x(2) by fastforce
  qed
  have total: "if i128_max < A then total_assets T e s = Inl Trapped
      else \<exists>rs. total_assets T e s = Inr (A, log_ttl rs (s\<lparr>outside := x\<rparr>))"
    using total_assets_outcome [OF assms(4) _ _ x(1) i] reachable_strategies_inv [OF assms(3)]
      reachable_config_inv [OF assms(3)] A(2)
    by (simp add: strategies_inv_def config_inv_def)
  show ?thesis
  proof (cases "i128_max < A")
    case True
    then show ?thesis using total deposit_split(1) [OF assms(6-9)] by simp
  next
    case False
    with total obtain rs where u: "total_assets T e s = Inr (A, log_ttl rs (s\<lparr>outside := x\<rparr>))"
      by auto
    let ?v = "log_ttl (read_request TotalSupply S) (log_ttl rs (s\<lparr>outside := x\<rparr>))"
    have fits: "fits_i128 (A + n) \<longleftrightarrow> A + n \<le> i128_max" "fits_i128 (S + k) \<longleftrightarrow> S + k \<le> i128_max"
        "S + k \<le> i128_max \<Longrightarrow> fits_i128 (shares_of s from + k)"
      using A(1) S k assms(9) by (auto simp: width_defs)
    have mint: "map_sum id fst (mint_shares T e from n S k ?v) =
        (if k \<le> 0 then Inl (Raised ZeroAmount)
         else if bal (outside s) from < n \<or> i128_max < S + k then Inl Trapped else Inr k)"
      using mint_shares_outcome [of ?v asset T e "from" n S k] assms(4) none fits by auto
    have "deposit T e from n s = (if 0 < cap \<and> \<not> fits_i128 (A + n) then Inl Trapped
        else if 0 < cap \<and> cap < A + n then Inl (Raised DepositCapExceeded)
        else bind (mul_div_offset n S A) (mint_shares T e from n S) ?v)"
      by (rule deposit_split(2) [OF assms(6-9) u]) (simp_all add: assms(10,13))
    with False mint fits(1) show ?thesis
      by (simp add: bind_def mul_div_offset_outcome assms(9,12) A(1) S(1) less_imp_le not_le)
  qed
qed

end
