(* ===== verification/ShareProperties.thy ===== *)
theory ShareProperties
  imports Scenarios FeeEconomics PriceBounds
begin

text \<open>
  The depositors' side of the vault: the properties of deposits, redemptions, fees and the share
  ledger, each with a concrete run of the contracts it applies to.
\<close>

section \<open>Redemptions and deposits\<close>

text \<open>
  C1. A redemption in a reachable vault whose strategies satisfy the interface pays the price
  formula applied to the backing, takes at most the amount paid out of the backing, burns exactly
  the shares, and never lowers the share price \<open>(backing + O) / (supply + O)\<close> of those who stay.
\<close>

lemma redeem_keeps_share_price:
  assumes "strategy_net T asset bal ok C (current_contract e) A" and "reachable s"
    and "st_asset s = Some asset" and "ok (outside s)" and "set (strategies_of s) \<subseteq> A"
    and "from \<noteq> current_contract e" and "redeem T C e from n s = Inr (assets, t)"
  shows "assets = n * (backing bal e s + VIRTUAL_SHARES_OFFSET) div (supply_of s + VIRTUAL_SHARES_OFFSET) \<and>
    backing bal e s - assets \<le> backing bal e t \<and> supply_of t = supply_of s - n \<and>
    shares_of t from = shares_of s from - n \<and>
    (backing bal e s + VIRTUAL_SHARES_OFFSET) * (supply_of t + VIRTUAL_SHARES_OFFSET)
      \<le> (backing bal e t + VIRTUAL_SHARES_OFFSET) * (supply_of s + VIRTUAL_SHARES_OFFSET)"
proof -
  have eff: "assets = priced n (backing bal e s) (supply_of s) \<and> 0 < assets \<and> 0 < n \<and>
      n \<le> shares_of s from \<and> supply_of t = supply_of s - n \<and>
      shares_of t from = shares_of s from - n \<and>
      backing bal e s - assets \<le> backing bal e t \<and> ok (outside t)"
    using strategy_net.redeem_effect [OF assms(1,7) refl assms(3,4)] assms(2,5,6)
      reachable_strategies_inv by blast
  have "0 \<le> bal (outside s) (current_contract e)"
    using sep41.balance_nonneg [OF strategy_net.axioms(1) [OF assms(1)] assms(4)] .
  then have A: "0 \<le> backing bal e s" using backing_nonneg assms(2) by blast
  note S = reachable_supply_nonneg [OF assms(2)]
  have "(backing bal e s + VIRTUAL_SHARES_OFFSET) * (supply_of t + VIRTUAL_SHARES_OFFSET)
      \<le> (backing bal e t + VIRTUAL_SHARES_OFFSET) * (supply_of s + VIRTUAL_SHARES_OFFSET)"
    using eff A S sell_keeps_price [of n "backing bal e s" "supply_of s" assets "backing bal e t"]
    by simp
  moreover have "assets = n * (backing bal e s + VIRTUAL_SHARES_OFFSET) div
      (supply_of s + VIRTUAL_SHARES_OFFSET)"
    using eff A S by (simp add: priced_nonneg)
  ultimately show ?thesis using eff by blast
qed

lemma redeem_keeps_share_price_witness:
  "\<exists>t. redeem MT (MC 1000) (env_at 1000) alice 650000000 funded = Inr (650000000, t) \<and>
    1000000000 - 650000000 \<le> backing (\<lambda>w. holdings (chain w)) (env_at 1000) t \<and>
    supply_of t = 350000000"
proof -
  obtain t where t: "redeem MT (MC 1000) (env_at 1000) alice 650000000 funded = Inr (650000000, t)"
    using succeeds_result [OF funded_redeem] by blast
  have net: "strategy_net MT the_asset (\<lambda>w. holdings (chain w))
      (\<lambda>w. ledger_ok (chain w) \<and> mocks_serve the_asset (- {the_vault}) w) (MC 1000)
      (current_contract (env_at 1000)) (- {the_vault})"
    using mock_net.strategy_net_axioms [of the_asset "env_at 1000"] by simp
  show ?thesis
    using redeem_keeps_share_price [OF net funded_reachable _ _ _ _ t] t by simp
qed

text \<open>
  C4. A deposit mints the price formula applied to the deposit, takes exactly the deposit from the
  depositor, adds exactly that to the backing, and never lowers the share price.
\<close>

lemma deposit_keeps_share_price:
  assumes "sep41 T asset bal ok" and "reachable s" and "st_asset s = Some asset" and "ok (outside s)"
    and "from \<noteq> current_contract e" and "deposit T e from n s = Inr (shares, t)"
  shows "shares = n * (supply_of s + VIRTUAL_SHARES_OFFSET) div (backing bal e s + VIRTUAL_SHARES_OFFSET) \<and>
    0 < shares \<and> supply_of t = supply_of s + shares \<and> shares_of t from = shares_of s from + shares \<and>
    backing bal e t = backing bal e s + n \<and> bal (outside t) from = bal (outside s) from - n \<and>
    (backing bal e s + VIRTUAL_SHARES_OFFSET) * (supply_of t + VIRTUAL_SHARES_OFFSET)
      \<le> (backing bal e t + VIRTUAL_SHARES_OFFSET) * (supply_of s + VIRTUAL_SHARES_OFFSET)"
proof -
  note eff = sep41.deposit_effect [OF assms(1,6,3,4,5)]
  have "0 \<le> bal (outside s) (current_contract e)" using sep41.balance_nonneg [OF assms(1,4)] .
  then have A: "0 \<le> backing bal e s" using backing_nonneg assms(2) by blast
  note S = reachable_supply_nonneg [OF assms(2)]
  have "(backing bal e s + VIRTUAL_SHARES_OFFSET) * (supply_of t + VIRTUAL_SHARES_OFFSET)
      \<le> (backing bal e t + VIRTUAL_SHARES_OFFSET) * (supply_of s + VIRTUAL_SHARES_OFFSET)"
    using eff A S buy_keeps_price [of n "backing bal e s" "supply_of s" shares "backing bal e t"]
    by simp
  moreover have "shares = n * (supply_of s + VIRTUAL_SHARES_OFFSET) div
      (backing bal e s + VIRTUAL_SHARES_OFFSET)"
    using eff A S by (simp add: priced_nonneg)
  ultimately show ?thesis using eff by blast
qed

lemma deposit_keeps_share_price_witness:
  "\<exists>t. deposit MT (env_at 1000) bob 500000000 funded = Inr (500000000, t) \<and>
    backing (\<lambda>w. holdings (chain w)) (env_at 1000) t = 1500000000 \<and> supply_of t = 1500000000"
proof -
  obtain t where t: "deposit MT (env_at 1000) bob 500000000 funded = Inr (500000000, t)"
    using succeeds_result [OF funded_deposit] by blast
  show ?thesis
    using deposit_keeps_share_price [OF mock_net.sep41_axioms [of the_asset "env_at 1000"]
        funded_reachable _ _ _ t] t by simp
qed

text \<open>
  C5. When a redemption goes through: if the strategies deliver what they quote and no product
  overflows, a holder's redemption worth at least one unit succeeds exactly when the idle tokens
  and the quoted liquidity together cover it, and fails with \<^verbatim>\<open>InsufficientAssets\<close>
  otherwise. Neither the pause flag nor the keeper has a say in it.
\<close>

lemma redeem_succeeds_iff_liquid:
  assumes "live_net T asset bal ok C (current_contract e) A live liq" and "reachable s"
    and "st_asset s = Some asset" and "live (outside s)" and "set (strategies_of s) \<subseteq> A"
    and "authorised e from" and "st_initialized s \<noteq> None" and "0 < n" and "n \<le> shares_of s from"
    and "n * (backing bal e s + VIRTUAL_SHARES_OFFSET) \<le> i128_max"
    and "supply_of s + VIRTUAL_SHARES_OFFSET \<le> i128_max"
    and "assets = priced n (backing bal e s) (supply_of s)" and "0 < assets"
  shows "if assets \<le> bal (outside s) (current_contract e) +
        (\<Sum>a\<leftarrow>strategies_of s. max 0 (liq (outside s) a))
    then \<exists>t. redeem T C e from n s = Inr (assets, t)
    else redeem T C e from n s = Inl (Raised InsufficientAssets)"
  by (rule live_redeem_outcome [OF assms])

lemma redeem_succeeds_iff_liquid_witness:
  "\<exists>t. redeem MT (MC 1000) (env_at 1000) alice 1000000000 funded = Inr (1000000000, t)"
proof -
  have net: "live_net MT the_asset (\<lambda>w. holdings (chain w))
      (\<lambda>w. ledger_ok (chain w) \<and> mocks_serve the_asset (- {the_vault}) w) (MC 1000)
      (current_contract (env_at 1000)) (- {the_vault})
      (\<lambda>w. ledger_ok (chain w) \<and> mocks_live the_asset the_vault (- {the_vault}) holdings w) mock_quote"
    using mock_net.live_net_axioms [of the_asset "env_at 1000"] by simp
  show ?thesis
    using redeem_succeeds_iff_liquid [OF net funded_reachable, of alice 1000000000 1000000000]
    by (simp add: width_defs priced_def VIRTUAL_SHARES_OFFSET_def lookup0_def
        signed_divide_int_def)
qed

text \<open>
  C7. Buying shares and selling them at once, in the same ledger state, never returns more than
  was paid, and costs at most one unit and the price of one share.
\<close>

lemma deposit_redeem_no_profit:
  assumes "strategy_net T asset bal ok C (current_contract e) A" and "reachable s"
    and "st_asset s = Some asset" and "ok (outside s)" and "set (strategies_of s) \<subseteq> A"
    and "from \<noteq> current_contract e"
    and "deposit T e from n s = Inr (shares, t)" and "redeem T C e from shares t = Inr (assets, u)"
  shows "assets \<le> n \<and>
    n - assets \<le> 1 + (backing bal e s + VIRTUAL_SHARES_OFFSET) div (supply_of s + VIRTUAL_SHARES_OFFSET)"
proof -
  note token = strategy_net.axioms(1) [OF assms(1)]
  note dep = sep41.deposit_effect [OF token assms(7,3,4,6)]
  note t = reachable_deposit [OF assms(2,7)]
  have same: "st_asset t = Some asset" "strategies_of t = strategies_of s"
    using assms(3,7) by (auto elim!: deposit_success)
  have red: "assets = priced shares (backing bal e t) (supply_of t)"
    using strategy_net.redeem_effect [OF assms(1,8) refl same(1)] dep assms(5,6) same(2)
      reachable_strategies_inv [OF t] by simp
  have "0 \<le> backing bal e s"
    using backing_nonneg [OF assms(2)] sep41.balance_nonneg [OF token assms(4)] by blast
  then show ?thesis
    using priced_round_trip [of n "backing bal e s" "supply_of s" shares]
      priced_round_trip_cost [of n "backing bal e s" "supply_of s" shares] dep red
      reachable_supply_nonneg [OF assms(2)] by simp
qed

lemma bob_round_trip:
  "result_of (redeem MT (MC 1000) (env_at 1000) bob 500000000)
     (after_call (deposit MT (env_at 1000) bob 500000000) funded) = Inr 500000000"
  by (simp add: eval_defs del: not_None_eq)

lemma deposit_redeem_no_profit_witness:
  "\<exists>t u. deposit MT (env_at 1000) bob 500000000 funded = Inr (500000000, t) \<and>
    redeem MT (MC 1000) (env_at 1000) bob 500000000 t = Inr (500000000, u) \<and>
    (500000000 :: int) \<le> 500000000"
proof -
  obtain t where t: "deposit MT (env_at 1000) bob 500000000 funded = Inr (500000000, t)"
      "t = after_call (deposit MT (env_at 1000) bob 500000000) funded"
    using succeeds_result [OF funded_deposit] by blast
  obtain u where u: "redeem MT (MC 1000) (env_at 1000) bob 500000000 t = Inr (500000000, u)"
    using succeeds_result [OF bob_round_trip] t(2) by metis
  have net: "strategy_net MT the_asset (\<lambda>w. holdings (chain w))
      (\<lambda>w. ledger_ok (chain w) \<and> mocks_serve the_asset (- {the_vault}) w) (MC 1000)
      (current_contract (env_at 1000)) (- {the_vault})"
    using mock_net.strategy_net_axioms [of the_asset "env_at 1000"] by simp
  show ?thesis
    using deposit_redeem_no_profit [OF net funded_reachable _ _ _ _ t(1) u] t(1) u by auto
qed

text \<open>
  C12. With a positive deposit cap, a deposit never leaves the vault with more assets than the cap.
\<close>

lemma deposit_respects_cap:
  assumes "sep41 T asset bal ok" and "st_asset s = Some asset" and "ok (outside s)"
    and "from \<noteq> current_contract e" and "deposit T e from n s = Inr (shares, t)"
    and "0 < unwrap_or (st_deposit_cap s) 0"
  shows "backing bal e t \<le> unwrap_or (st_deposit_cap s) 0"
proof -
  have "backing bal e t = backing bal e s + n"
    using sep41.deposit_effect [OF assms(1,5,2,3,4)] by simp
  moreover have "backing bal e s + n \<le> unwrap_or (st_deposit_cap s) 0"
    using assms(5)
  proof (rule deposit_success)
    fix asset' idle x
    assume "st_asset s = Some asset'"
      and "token_balance T asset' (current_contract e) (outside s) = Some (idle, x)"
      and "0 < unwrap_or (st_deposit_cap s) 0 \<Longrightarrow>
        assets_with_idle e s idle + n \<le> unwrap_or (st_deposit_cap s) 0"
    then show ?thesis
      using assms(2,6) sep41.balance_reads [OF assms(1,3)] by (auto simp: backing_def)
  qed
  ultimately show ?thesis by simp
qed

definition capped :: "ledger mock_world vault" where
  "capped = after_call (change_deposit_cap (env_at 1000) the_admin 1500000000) funded"

lemma capped_deposit: "result_of (deposit MT (env_at 1000) bob 500000000) capped = Inr 500000000"
  by (simp add: capped_def eval_defs del: not_None_eq)

lemma deposit_respects_cap_witness:
  "\<exists>t. deposit MT (env_at 1000) bob 500000000 capped = Inr (500000000, t) \<and>
    backing (\<lambda>w. holdings (chain w)) (env_at 1000) t \<le> 1500000000"
proof -
  obtain t where t: "deposit MT (env_at 1000) bob 500000000 capped = Inr (500000000, t)"
    using succeeds_result [OF capped_deposit] by blast
  have capped: "st_asset capped = Some the_asset" "outside capped = outside funded"
    "st_deposit_cap capped = Some 1500000000"
    by (simp_all add: capped_def eval_defs)
  show ?thesis
    using deposit_respects_cap [OF mock_net.sep41_axioms [of the_asset "env_at 1000"] _ _ _ t] t
    by (simp add: capped)
qed

section \<open>The share ledger\<close>

text \<open>
  C10. In every reachable state the total supply is the sum of all share balances, over finitely
  many holders, and no balance is negative; before initialization there are no shares.
\<close>

lemma supply_is_sum_of_shares:
  assumes "reachable s"
  shows "finite (dom (st_share_balance s)) \<and> (\<forall>a. 0 \<le> shares_of s a) \<and>
    supply_of s = (\<Sum>a\<in>dom (st_share_balance s). shares_of s a) \<and>
    (st_initialized s = None \<longrightarrow> (\<forall>a. shares_of s a = 0))"
  using reachable_shares_inv [OF assms] by (simp add: shares_inv_def map_total_def)

lemma supply_is_sum_of_shares_witness:
  "supply_of funded = (\<Sum>a\<in>dom (st_share_balance funded). shares_of funded a)"
  using supply_is_sum_of_shares [OF funded_reachable] by blast

text \<open>
  C11. Nobody's share balance falls in any invocation unless that account has authorised it.
\<close>

lemma shares_fall_only_if_authorised:
  assumes "exec T C e c s = Inr (v, t)" and "shares_of t a < shares_of s a"
  shows "authorised e a"
  using assms(1)
proof (cases rule: exec_share_cases)
  case (moved b d n)
  with assms(2) show ?thesis by (cases "a = b") (auto simp: lookup0_moved split: if_splits)
next
  case (minted b n)
  with assms(2) show ?thesis by (cases "a = b") auto
next
  case (burned b n)
  with assms(2) show ?thesis by (cases "a = b") auto
qed (use assms(2) in auto)

lemma alice_transfer:
  "result_of (exec MT (MC 1000) (env_at 1000) (CallTransfer alice bob 250)) funded = Inr UnitValue"
  "shares_of (after_call (exec MT (MC 1000) (env_at 1000) (CallTransfer alice bob 250)) funded) alice
     = 999999750"
  by (simp_all add: eval_defs)

lemma shares_fall_only_if_authorised_witness: "authorised (env_at 1000) alice"
proof -
  obtain t where "exec MT (MC 1000) (env_at 1000) (CallTransfer alice bob 250) funded = Inr (UnitValue, t)"
    and "t = after_call (exec MT (MC 1000) (env_at 1000) (CallTransfer alice bob 250)) funded"
    using succeeds_result [OF alice_transfer(1)] by blast
  then show ?thesis
    using shares_fall_only_if_authorised [of MT "MC 1000" "env_at 1000" _ funded _ t alice] alice_transfer(2)
    by (simp add: lookup0_def)
qed

text \<open>
  While the supply is a value of the width, a transfer of shares succeeds exactly when the
  sender authorised it and has at least the positive amount; it moves exactly the amount, a
  transfer to oneself moves nothing, and supply and assets stay as they are.
\<close>

lemma share_transfer_spec:
  assumes "reachable s" and "supply_of s \<le> i128_max"
  shows "((\<exists>t. transfer e a b n s = Inr ((), t)) \<longleftrightarrow>
      authorised e a \<and> 0 < n \<and> n \<le> shares_of s a) \<and>
    (\<forall>t. transfer e a b n s = Inr ((), t) \<longrightarrow>
      (\<forall>c. shares_of t c = shares_of s c - (if c = a then n else 0) + (if c = b then n else 0)) \<and>
      supply_of t = supply_of s \<and> outside t = outside s)"
proof -
  have inv: "shares_inv s" by (rule reachable_shares_inv [OF assms(1)])
  have le: "shares_of s c \<le> supply_of s" for c
    using inv map_total_ge [of "st_share_balance s" c] by (simp add: shares_inv_def)
  have pair: "shares_of s a + shares_of s b \<le> supply_of s" if "a \<noteq> b"
  proof -
    have "map_total ((st_share_balance s)(a := Some 0)) = supply_of s - shares_of s a"
      using inv map_total_update [of "st_share_balance s" a 0] by (simp add: shares_inv_def)
    moreover have "lookup0 ((st_share_balance s)(a := Some 0)) b \<le> map_total ((st_share_balance s)(a := Some 0))"
      using inv by (intro map_total_ge) (auto simp: shares_inv_def)
    ultimately show ?thesis using that by simp
  qed
  have "\<exists>t. transfer e a b n s = Inr ((), t)" if "authorised e a" "0 < n" "n \<le> shares_of s a"
  proof -
    have "0 \<le> shares_of s b" using inv by (simp add: shares_inv_def)
    then have "fits_i128 (shares_of s a - n)"
        "fits_i128 ((if b = a then shares_of s a - n else shares_of s b) + n)"
      using that le [of a] pair assms(2) by (auto intro!: fits_nonneg split: if_splits)
    then have "\<exists>u t. transfer e a b n s = Inr (u, t)"
      using that by (cases "b = a") (simp_all add: transfer_def op_success)
    then show ?thesis by simp
  qed
  then show ?thesis by (auto simp: lookup0_moved dest!: transfer_success)
qed

lemma share_transfer_spec_witness:
  "\<exists>t. transfer (env_at 1000) alice bob 250 funded = Inr ((), t) \<and> shares_of t bob = 250"
  using share_transfer_spec [OF funded_reachable, of "env_at 1000" alice bob 250]
  by (auto simp: lookup0_def width_defs)

section \<open>Performance fees\<close>

text \<open>
  C13. A successful fee collection is charged above the high-water mark only, mints shares worth at
  most the fee, which is at most three tenths of the yield above the mark, and leaves the
  backing as it was.
\<close>

lemma fees_are_bounded:
  assumes "sep41 T asset bal ok" and "reachable s" and "st_asset s = Some asset" and "ok (outside s)"
    and "collect_fees T e s = Inr (fee, t)"
  shows "hwm_of s < nav (backing bal e s) (supply_of s) \<and> 0 < fee \<and>
    supply_of t = supply_of s + fee \<and> backing bal e t = backing bal e s \<and>
    10 * priced fee (backing bal e t) (supply_of t)
      \<le> 3 * yield_above (backing bal e s) (supply_of s) (hwm_of s)"
proof -
  let ?A = "backing bal e s" and ?S = "supply_of s" and ?h = "hwm_of s"
  let ?fa = "fee_assets_of ?A ?S ?h (unwrap_or (st_performance_fee_bps s) 0)"
  note eff = sep41.collect_effect [OF assms(1,5,3,4,2)]
  have A: "0 \<le> ?A" using backing_nonneg [OF assms(2)] sep41.balance_nonneg [OF assms(1,4)] by blast
  have bps: "unwrap_or (st_performance_fee_bps s) 0 \<le> MAX_PERFORMANCE_FEE_BPS"
    using reachable_config_inv [OF assms(2)] by (simp add: config_inv_def)
  have y: "0 < yield_above ?A ?S ?h"
    using yield_bounds(1) [OF A _ reachable_hwm [OF assms(2)]] eff by simp
  have fa: "0 \<le> ?fa" "10 * ?fa \<le> 3 * yield_above ?A ?S ?h"
    using fee_assets_bounds [OF _ refl bps] y by auto
  have "priced fee ?A (?S + fee) \<le> ?fa"
    using fee_worth [OF A _ fa(1)] eff by (simp add: fee_shares_of_def)
  with eff fa show ?thesis by simp
qed

definition yielding :: "ledger mock_world vault" where
  "yielding = after_calls (map (exec MT (MC 1000) (env_at 1000))
     [CallUpdateTrackedBalance the_keeper adapter 500000000]) funded"

lemma yielding_reachable: "reachable yielding"
  unfolding yielding_def by (rule reachable_after_calls) (rule funded_reachable)

lemma yielding_fields:
  "st_asset yielding = Some the_asset" "outside yielding = outside funded"
  "supply_of yielding = 1000000000" "hwm_of yielding = 10000000"
  by (simp_all add: yielding_def eval_defs del: not_None_eq)

lemma yielding_collect: "result_of (collect_fees MT (env_at 1000)) yielding = Inr 9091734"
  by (simp add: yielding_def eval_defs del: not_None_eq)

lemma fees_are_bounded_witness:
  "\<exists>t. collect_fees MT (env_at 1000) yielding = Inr (9091734, t) \<and> supply_of t = 1009091734"
proof -
  obtain t where t: "collect_fees MT (env_at 1000) yielding = Inr (9091734, t)"
    using succeeds_result [OF yielding_collect] by blast
  show ?thesis
    using fees_are_bounded [OF mock_net.sep41_axioms [of the_asset "env_at 1000"]
        yielding_reachable _ _ t] t
    by (simp add: yielding_fields)
qed

text \<open>
  C14. Once the supply has reached the virtual offset (a tenth of a unit of the asset), collecting
  fees never lowers the high-water mark.
\<close>

lemma high_water_mark_does_not_fall:
  assumes "sep41 T asset bal ok" and "reachable s" and "st_asset s = Some asset" and "ok (outside s)"
    and "VIRTUAL_SHARES_OFFSET \<le> supply_of s" and "collect_fees T e s = Inr (fee, t)"
  shows "hwm_of s \<le> hwm_of t"
proof -
  note eff = sep41.collect_effect [OF assms(1,6,3,4,2)]
  have "0 \<le> backing bal e s"
    using backing_nonneg [OF assms(2)] sep41.balance_nonneg [OF assms(1,4)] by blast
  moreover have "unwrap_or (st_performance_fee_bps s) 0 \<le> MAX_PERFORMANCE_FEE_BPS"
    using reachable_config_inv [OF assms(2)] by (simp add: config_inv_def)
  ultimately show ?thesis
    using mark_does_not_fall [OF _ assms(5) reachable_hwm [OF assms(2)]] eff by simp
qed

lemma high_water_mark_does_not_fall_witness:
  "\<exists>t. collect_fees MT (env_at 1000) yielding = Inr (9091734, t) \<and> 10000000 \<le> hwm_of t"
proof -
  obtain t where t: "collect_fees MT (env_at 1000) yielding = Inr (9091734, t)"
    using succeeds_result [OF yielding_collect] by blast
  show ?thesis
    using high_water_mark_does_not_fall [OF mock_net.sep41_axioms [of the_asset "env_at 1000"]
        yielding_reachable _ _ _ t] t
    by (simp add: yielding_fields VIRTUAL_SHARES_OFFSET_def)
qed

text \<open>
  C39. When the high-water mark falls. After a fee collection the mark is lower exactly when the
  fee's shares, priced at the old mark, are worth more than the gain above it. That is so whenever
  the yield's fee at the price with the virtual offset, rounded down in each step, is worth more
  at the mark than the whole yield, which takes a mark high above the price with the offset: a
  supply far below the offset.
\<close>

lemma high_water_mark_falls_when_tiny:
  assumes "sep41 T asset bal ok" and "reachable s" and "st_asset s = Some asset" and "ok (outside s)"
    and "collect_fees T e s = Inr (fee, t)"
    and "A = backing bal e s" and "S = supply_of s" and "h = hwm_of s"
    and "y = A - h * S div NAV_PRECISION" and "bps = unwrap_or (st_performance_fee_bps s) 0"
  shows "(hwm_of t < h \<longleftrightarrow> A * NAV_PRECISION < h * (S + fee)) \<and>
    (y * NAV_PRECISION * (10000 * (A + VIRTUAL_SHARES_OFFSET)) \<le> h * ((y * int bps - 10000) *
        (S + VIRTUAL_SHARES_OFFSET) - 10000 * (A + VIRTUAL_SHARES_OFFSET)) \<and> 0 < h \<longrightarrow>
      hwm_of t < h)"
proof -
  note eff = sep41.collect_effect [OF assms(1,5,3,4,2)]
  have A: "0 \<le> A"
    using backing_nonneg [OF assms(2)] sep41.balance_nonneg [OF assms(1,4)] assms(6) by blast
  have "y = yield_above A S h"
    using reachable_hwm [OF assms(2)] reachable_supply_nonneg [OF assms(2)] assms(7-9)
    by (simp add: yield_above_def sdiv_nonneg NAV_PRECISION_def)
  then show ?thesis
    using mark_falls [OF A, of S h fee bps y] nav_below_iff [OF A, of "S + fee" h] eff assms(6-8,10)
    by auto
qed

text \<open>
  A vault with one share whose assets grow from 1 to 8 and, after a first collection, to 3000
  stroops: the second collection lowers the mark.
\<close>

definition tiny :: "ledger mock_world vault" where
  "tiny = mock_run
     [CallInitialize the_admin the_asset the_keeper the_guardian fee_account 3000 0 ''Vault'' ''tV'',
      CallDeposit alice 1, CallAttestBridgedBalance the_keeper 7, CallCollectFees,
      CallAttestBridgedBalance the_keeper 2999]"

lemma tiny_reachable: "reachable tiny"
  unfolding tiny_def mock_run_def by (rule reachable_after_calls) (rule start)

lemma tiny_state:
  "let s = tiny in
   st_asset s = Some the_asset \<and> st_strategies s = Some [] \<and> st_total_supply s = Some 2 \<and>
   st_high_water_mark s = Some 40000000 \<and> st_performance_fee_bps s = Some 3000 \<and>
   st_bridged_balance s = Some 2999 \<and> st_bridged_timestamp s = Some 1000 \<and>
   ledger_ok (chain (outside s)) \<and> mocks_serve the_asset (- {the_vault}) (outside s) \<and>
   holdings (chain (outside s)) the_vault = 1 \<and>
   result_of (collect_fees MT (env_at 1000)) s = Inr 894"
  by (simp add: eval_defs tiny_def mock_run_def start_defs ledger_ok_def mocks_serve_def
      del: not_None_eq)

lemma high_water_mark_falls_when_tiny_witness:
  "\<exists>t. collect_fees MT (env_at 1000) tiny = Inr (894, t) \<and> hwm_of tiny = 40000000 \<and>
    hwm_of t < 40000000"
proof -
  note s = tiny_state [unfolded Let_def]
  obtain t where t: "collect_fees MT (env_at 1000) tiny = Inr (894, t)"
    using s by (auto elim: succeeds_result)
  have "backing (\<lambda>w. holdings (chain w)) (env_at 1000) tiny = 3000"
    using s by (simp add: backing_def assets_with_idle_def tracked_total_def bridged_at_def
        bridged_expired_def)
  then show ?thesis
    using high_water_mark_falls_when_tiny [OF mock_net.sep41_axioms [of the_asset "env_at 1000"]
        tiny_reachable _ _ t refl refl refl refl refl]
      s t
    by (simp add: VIRTUAL_SHARES_OFFSET_def NAV_PRECISION_def)
qed

text \<open>
  C15. Fees are not charged twice: right after a successful collection, another one in the same
  ledger state does not succeed.
\<close>

lemma fees_not_charged_twice:
  assumes "sep41 T asset bal ok" and "reachable s" and "st_asset s = Some asset" and "ok (outside s)"
    and "collect_fees T e s = Inr (fee, t)"
  shows "collect_fees T e t \<noteq> Inr (fee', u)"
  using sep41.collect_once [OF assms(1,5,3,4,2) reachable_collect [OF assms(2,5)]] .

lemma fees_not_charged_twice_witness:
  "\<exists>t. collect_fees MT (env_at 1000) yielding = Inr (9091734, t) \<and>
    (\<forall>fee u. collect_fees MT (env_at 1000) t \<noteq> Inr (fee, u))"
proof -
  obtain t where t: "collect_fees MT (env_at 1000) yielding = Inr (9091734, t)"
    using succeeds_result [OF yielding_collect] by blast
  have "collect_fees MT (env_at 1000) t \<noteq> Inr (fee, u)" for fee u
    by (rule fees_not_charged_twice [OF mock_net.sep41_axioms [of the_asset "env_at 1000"]
        yielding_reachable _ _ t]) (simp_all add: yielding_fields)
  with t show ?thesis by blast
qed

end
