(* ===== verification/PricingProperties.thy ===== *)
theory PricingProperties
  imports Scenarios PriceBounds
begin

text \<open>
  How the vault prices shares at its boundaries: the outcome of a deposit on every branch, the
  donation attack on the first depositors, and what the quotes promise before and after a loss.
\<close>

lemma result_of_map: "result_of m s = map_sum id fst (m s)"
  by (simp add: result_of_def split: sum.splits prod.splits)

section \<open>The outcome of a deposit\<close>

text \<open>
  C24. The outcome of a deposit into any reachable vault, initialized or not, on every branch and
  in the order of the code: no authorisation traps; an uninitialized vault, a paused vault and an
  amount that is not positive are refused with their errors; an overflow of the total of the
  assets, or of the cap's comparison where there is a cap, traps; a cap that the deposit would
  exceed is refused; an overflow in the price formula traps; a deposit worth no share is refused;
  a depositor without the tokens, or a supply that would overflow, traps; and otherwise exactly
  the priced shares are returned. The token pays what its holders have.
\<close>

lemma deposit_outcome:
  assumes "sep41 T asset bal ok" and "token_pays T asset bal ok" and "reachable s"
    and "st_initialized s \<noteq> None \<longrightarrow> st_asset s = Some asset" and "ok (outside s)"
    and "S = supply_of s" and "A = backing bal e s" and "cap = unwrap_or (st_deposit_cap s) 0"
    and "shares = priced n S A"
  shows "result_of (deposit T e from n) s =
    (if \<not> authorised e from then Inl Trapped
     else if st_initialized s = None then Inl (Raised NotInitialized)
     else if unwrap_or (st_paused s) False then Inl (Raised vault_error.Paused)
     else if n \<le> 0 then Inl (Raised ZeroAmount)
     else if i128_max < A \<or> 0 < cap \<and> i128_max < A + n then Inl Trapped
     else if 0 < cap \<and> cap < A + n then Inl (Raised DepositCapExceeded)
     else if i128_max < S + VIRTUAL_SHARES_OFFSET \<or> i128_max < n * (S + VIRTUAL_SHARES_OFFSET) \<or>
       i128_max < A + VIRTUAL_SHARES_OFFSET then Inl Trapped
     else if shares \<le> 0 then Inl (Raised ZeroAmount)
     else if bal (outside s) from < n \<or> i128_max < S + shares then Inl Trapped
     else Inr shares)"
proof (cases "authorised e from \<and> st_initialized s \<noteq> None \<and> \<not> unwrap_or (st_paused s) False \<and> 0 < n")
  case True
  then show ?thesis
    using deposit_run [OF assms(1-3) _ assms(5), of e "from" n S A shares cap] assms(4,6-9)
    by (simp add: result_of_map)
next
  case False
  then consider "\<not> authorised e from" | "authorised e from" "st_initialized s = None"
    | "authorised e from" "st_initialized s \<noteq> None" "unwrap_or (st_paused s) False"
    | "authorised e from" "st_initialized s \<noteq> None" "\<not> unwrap_or (st_paused s) False" "n \<le> 0"
    by linarith
  then show ?thesis by cases (simp_all add: result_of_map deposit_guards)
qed

lemma world_ledger_pays:
  "token_pays MT asset (\<lambda>w. holdings (chain w)) (\<lambda>w. ledger_ok (chain w) \<and> J w)"
  by (simp add: token_pays_def world_token_def on_chain_def ledger_token_def ledger_transfer_def Let_def)

lemma deposit_outcome_witness:
  "result_of (deposit MT (env_at 1000) bob 500000000) funded = Inr 500000000 \<and>
   result_of (deposit MT (env_at 1000) bob 20000000000) funded = Inl Trapped \<and>
   result_of (deposit MT (env_at 1000) bob (2 ^ 127 - 1)) funded = Inl Trapped \<and>
   result_of (deposit MT (env_at 1000) bob 500000000) (deployed 0 mock_start)
     = Inl (Raised NotInitialized)"
proof -
  note outcome = deposit_outcome [OF mock_net.sep41_axioms [of the_asset "env_at 1000"] world_ledger_pays]
  have start: "ledger_ok (chain mock_start)" "mocks_serve the_asset (- {the_vault}) mock_start"
    "st_initialized (deployed 0 mock_start) = None" "outside (deployed 0 mock_start) = mock_start"
    by (simp_all add: ledger_ok_def mocks_serve_def start_defs eval_defs)
  have "holdings (chain (outside funded)) bob = 10000000000" by (simp add: participant_defs)
  then show ?thesis
    using outcome [OF funded_reachable _ _ refl refl refl refl, of "env_at 1000" bob 500000000]
      outcome [OF funded_reachable _ _ refl refl refl refl, of "env_at 1000" bob 20000000000]
      outcome [OF funded_reachable _ _ refl refl refl refl, of "env_at 1000" bob "2 ^ 127 - 1"]
      outcome [OF reachable.start _ _ refl refl refl refl, of 0 mock_start "env_at 1000" bob 500000000] start
    by (simp add: priced_def VIRTUAL_SHARES_OFFSET_def signed_divide_int_def i128_max_def)
qed

section \<open>Donations\<close>

text \<open>
  C8. Inflating the price hardly pays: whoever buys shares, then sends tokens to the vault so that
  the next depositor buys at an inflated price, and sells, gains at most the price of one share
  before the attack, rounded down, over the deposit and the tokens sent; and gains nothing where a
  share was worth at most one unit, in particular in an empty vault.
\<close>

lemma inflation_attack_gain_bounded:
  assumes "strategy_net T asset bal ok C (current_contract e) A" and "reachable s"
    and "st_asset s = Some asset" and "ok (outside s)" and "set (strategies_of s) \<subseteq> A"
    and "attacker \<noteq> current_contract e" and "victim \<noteq> current_contract e"
    and "deposit T e attacker d s = Inr (k, t)"
    and "ok x" and "bal x (current_contract e) = bal (outside t) (current_contract e) + g" and "0 \<le> g"
    and "deposit T e victim n (t\<lparr>outside := x\<rparr>) = Inr (j, u)"
    and "redeem T C e attacker k u = Inr (won, v)"
  shows "won \<le> d + g + (backing bal e s + VIRTUAL_SHARES_OFFSET) div (supply_of s + VIRTUAL_SHARES_OFFSET) \<and>
    (backing bal e s \<le> supply_of s \<longrightarrow> won \<le> d + g)"
proof -
  let ?t = "t\<lparr>outside := x\<rparr>"
  note token = strategy_net.axioms(1) [OF assms(1)]
  have bought: "k = priced d (supply_of s) (backing bal e s)" "0 < d" "supply_of t = supply_of s + k"
      "backing bal e t = backing bal e s + d"
    using sep41.deposit_effect [OF token assms(8,3,4,6)] by auto
  have same: "st_asset t = Some asset" "strategies_of t = strategies_of s"
      "st_asset u = Some asset" "strategies_of u = strategies_of s"
    using assms(3,8,12) by (auto elim!: deposit_success)
  have raised: "backing bal e ?t = backing bal e s + d + g"
    using bought(4) assms(10) by (simp add: backing_outside)
  have sold_to: "j = priced n (supply_of s + k) (backing bal e s + d + g)" "0 < n"
      "supply_of u = supply_of s + k + j" "backing bal e u = backing bal e s + d + g + n"
      "ok (outside u)"
    using sep41.deposit_effect [OF token assms(12) _ _ assms(7)] same(1) assms(9) bought(3) raised
    by auto
  have "reachable u"
    using reachable_deposit [OF _ assms(12)] reachable_deposit [OF assms(2,8)] by (blast intro: step world)
  then have "strategies_inv u" by (rule reachable_strategies_inv)
  then have "won = priced k (backing bal e u) (supply_of u)"
    using strategy_net.redeem_effect [OF assms(1,13) refl same(3) sold_to(5)] same(4) assms(5,6)
    by simp
  moreover have "0 \<le> backing bal e s"
    using backing_nonneg [OF assms(2)] sep41.balance_nonneg [OF token assms(4)] by blast
  ultimately show ?thesis
    using donation_hardly_pays [of d g n "backing bal e s" "supply_of s" k j won] bought sold_to assms(11)
      reachable_supply_nonneg [OF assms(2)]
    by simp
qed

definition opened :: "ledger mock_world vault" where
  "opened = mock_run
     [CallInitialize the_admin the_asset the_keeper the_guardian fee_account 1000 500 ''Vault'' ''tV'']"

definition inflated :: "ledger mock_world vault" where
  "inflated = (let t = after_call (deposit MT (env_at 1000) alice 1000) opened in
     t\<lparr>outside := (outside t)\<lparr>chain := (chain (outside t))\<lparr>holdings :=
       (holdings (chain (outside t)))(the_vault := 1000001000)\<rparr>\<rparr>\<rparr>)"

definition after_victim :: "ledger mock_world vault" where
  "after_victim = after_call (deposit MT (env_at 1000) bob 1000000000) inflated"

lemma opened_state:
  "let s = opened in
   st_asset s = Some the_asset \<and> st_strategies s = Some [] \<and> st_total_supply s = Some 0 \<and>
   st_bridged_balance s = Some 0 \<and> holdings (chain (outside s)) the_vault = 0 \<and>
   ledger_ok (chain (outside s)) \<and> mocks_serve the_asset (- {the_vault}) (outside s) \<and>
   result_of (deposit MT (env_at 1000) alice 1000) s = Inr 1000 \<and>
   holdings (chain (outside (after_call (deposit MT (env_at 1000) alice 1000) s))) the_vault = 1000"
  by (simp add: eval_defs opened_def mock_run_def start_defs ledger_ok_def mocks_serve_def
      del: not_None_eq)

lemma attack_results:
  "result_of (deposit MT (env_at 1000) bob 1000000000) inflated = Inr 999999"
  "result_of (redeem MT (MC 1000) (env_at 1000) alice 1000) after_victim = Inr 1000000"
  by (simp_all add: eval_defs after_victim_def inflated_def opened_def mock_run_def start_defs
      del: not_None_eq)

lemma opened_reachable: "reachable opened"
  unfolding opened_def mock_run_def by (rule reachable_after_calls) (rule start)

lemma inflation_attack_gain_bounded_witness:
  "\<exists>t u v. deposit MT (env_at 1000) alice 1000 opened = Inr (1000, t) \<and>
    deposit MT (env_at 1000) bob 1000000000 inflated = Inr (999999, u) \<and>
    redeem MT (MC 1000) (env_at 1000) alice 1000 u = Inr (1000000, v) \<and>
    (1000000 :: int) \<le> 1000 + 1000000000"
proof -
  note s = opened_state [unfolded Let_def]
  obtain t where t: "deposit MT (env_at 1000) alice 1000 opened = Inr (1000, t)"
      "t = after_call (deposit MT (env_at 1000) alice 1000) opened"
    using s by (auto elim: succeeds_result)
  define x where "x = (outside t)\<lparr>chain := (chain (outside t))\<lparr>holdings :=
       (holdings (chain (outside t)))(the_vault := 1000001000)\<rparr>\<rparr>"
  have x: "t\<lparr>outside := x\<rparr> = inflated" by (simp add: x_def inflated_def t(2) Let_def)
  obtain u where u: "deposit MT (env_at 1000) bob 1000000000 inflated = Inr (999999, u)"
      "u = after_victim"
    using attack_results(1) by (auto elim: succeeds_result simp: after_victim_def)
  obtain v where v: "redeem MT (MC 1000) (env_at 1000) alice 1000 u = Inr (1000000, v)"
    using attack_results(2) u(2) by (auto elim: succeeds_result)
  have net: "strategy_net MT the_asset (\<lambda>w. holdings (chain w))
      (\<lambda>w. ledger_ok (chain w) \<and> mocks_serve the_asset (- {the_vault}) w) (MC 1000)
      (current_contract (env_at 1000)) (- {the_vault})"
    using mock_net.strategy_net_axioms [of the_asset "env_at 1000"] by simp
  have t': "ledger_ok (chain (outside t))" "mocks_serve the_asset (- {the_vault}) (outside t)"
      "holdings (chain (outside t)) the_vault = 1000"
    using sep41.deposit_effect [OF strategy_net.axioms(1) [OF net] t(1)] s
    by (simp_all add: t(2))
  then have "ledger_ok (chain x)" "mocks_serve the_asset (- {the_vault}) x"
      "holdings (chain x) the_vault = 1000001000"
    by (simp_all add: x_def ledger_ok_def mocks_serve_def)
  moreover have "backing (\<lambda>w. holdings (chain w)) (env_at 1000) opened = 0"
    using s by (simp add: backing_def assets_with_idle_def tracked_total_def bridged_at_def)
  ultimately show ?thesis
    using inflation_attack_gain_bounded [OF net opened_reachable _ _ _ _ _ t(1) _ _ _
        u(1) [folded x] v, of 1000000000] s t u v t'(3)
    by simp
qed

section \<open>What the quotes promise\<close>

text \<open>
  C9. The quotes of \<^verbatim>\<open>convert_to_assets\<close> for any set of holders together stay below the
  backing plus the virtual offset, and do not exceed the backing unless the vault has made a loss
  (fewer assets than shares).
\<close>

lemma claims_are_covered:
  assumes "sep41 T asset bal ok" and "reachable s" and "st_asset s = Some asset" and "ok (outside s)"
    and "finite H" and "\<forall>a\<in>H. \<exists>t. convert_to_assets T e (shares_of s a) s = Inr (claim a, t)"
  shows "(\<Sum>a\<in>H. claim a) < backing bal e s + VIRTUAL_SHARES_OFFSET \<and>
    (supply_of s \<le> backing bal e s \<longrightarrow> (\<Sum>a\<in>H. claim a) \<le> backing bal e s)"
proof -
  have "0 \<le> backing bal e s"
    using backing_nonneg [OF assms(2)] sep41.balance_nonneg [OF assms(1,4)] by blast
  moreover have "\<forall>a\<in>H. 0 \<le> shares_of s a" "(\<Sum>a\<in>H. shares_of s a) \<le> supply_of s"
    using reachable_shares_inv [OF assms(2)] map_total_part [OF _ _ assms(5)]
    by (auto simp: shares_inv_def)
  moreover have "(\<Sum>a\<in>H. claim a) = (\<Sum>a\<in>H. priced (shares_of s a) (backing bal e s) (supply_of s))"
    using assms(6) sep41.convert_to_assets_quote [OF assms(1,4,3)] by (intro sum.cong) auto
  ultimately show ?thesis
    using quotes_sum [OF _ reachable_supply_nonneg [OF assms(2)] assms(5)] by simp
qed

lemma claims_are_covered_witness:
  "\<exists>claim. (\<Sum>a\<in>{alice, bob}. claim a) \<le> (1000000000 :: int) \<and> claim alice = 1000000000"
proof -
  obtain t where t: "convert_to_assets MT (env_at 1000) (shares_of funded alice) funded = Inr (1000000000, t)"
    by (rule succeeds_result [of "convert_to_assets MT (env_at 1000) (shares_of funded alice)" funded])
      (simp add: eval_defs)
  obtain u where u: "convert_to_assets MT (env_at 1000) (shares_of funded bob) funded = Inr (0, u)"
    by (rule succeeds_result [of "convert_to_assets MT (env_at 1000) (shares_of funded bob)" funded])
      (simp add: eval_defs)
  show ?thesis
    using claims_are_covered [OF mock_net.sep41_axioms [of the_asset "env_at 1000"] funded_reachable,
        of "{alice, bob}" "env_at 1000" "\<lambda>a. if a = alice then 1000000000 else 0"] t u
    by (intro exI [of _ "\<lambda>a. if a = alice then 1000000000 else 0"]) auto
qed

text \<open>
  C26. After a loss the virtual offset overquotes: when the strategies quote no more than the vault
  tracks and the vault has lost more than about a millionth of its assets, the sole holder's
  redemption of all shares fails with \<^verbatim>\<open>InsufficientAssets\<close>.
\<close>

lemma loss_blocks_full_exit:
  assumes "live_net T asset bal ok C (current_contract e) A live liq" and "reachable s"
    and "st_asset s = Some asset" and "live (outside s)" and "set (strategies_of s) \<subseteq> A"
    and "authorised e from" and "st_initialized s \<noteq> None" and "shares_of s from = supply_of s"
    and "(\<Sum>a\<leftarrow>strategies_of s. max 0 (liq (outside s) a)) \<le> (\<Sum>a\<leftarrow>strategies_of s. tracked_of s a)"
    and "supply_of s + VIRTUAL_SHARES_OFFSET
      \<le> VIRTUAL_SHARES_OFFSET * (supply_of s - backing bal e s)"
    and "supply_of s * (backing bal e s + VIRTUAL_SHARES_OFFSET) \<le> i128_max"
    and "supply_of s + VIRTUAL_SHARES_OFFSET \<le> i128_max"
  shows "redeem T C e from (supply_of s) s = Inl (Raised InsufficientAssets)"
proof -
  let ?A = "backing bal e s" and ?S = "supply_of s"
  have A: "0 \<le> ?A"
    using backing_nonneg [OF assms(2)] live_net.live_wf [OF assms(1,4)]
      sep41.balance_nonneg [OF strategy_net.axioms(1) [OF live_net.axioms(1) [OF assms(1)]]] by blast
  have S: "0 \<le> ?S" using reachable_supply_nonneg [OF assms(2)] .
  then have less: "?A < ?S" using assms(10) by (simp add: VIRTUAL_SHARES_OFFSET_def)
  have quote: "?A < priced ?S ?A ?S" using loss_overquotes [OF A less assms(10)] .
  have "0 \<le> bridged_at e s"
    using reachable_config_inv [OF assms(2)] by (simp add: config_inv_def bridged_at_def)
  then have "bal (outside s) (current_contract e) +
      (\<Sum>a\<leftarrow>strategies_of s. max 0 (liq (outside s) a)) \<le> ?A"
    using assms(9) by (simp add: backing_def assets_with_idle_def tracked_total_def)
  with quote have "\<not> priced ?S ?A ?S \<le> bal (outside s) (current_contract e) +
      (\<Sum>a\<leftarrow>strategies_of s. max 0 (liq (outside s) a))" by linarith
  then show ?thesis
    using live_redeem_outcome [OF assms(1-7) _ _ assms(11,12) refl] less A quote assms(8) by simp
qed

text \<open>The first strategy has lost three of its four parts, and the keeper has recorded it.\<close>

definition after_loss :: "ledger mock_world vault" where
  "after_loss = after_call (update_tracked_balance (env_at 1000) the_keeper adapter 100000000)
     (funded\<lparr>outside := (outside funded)\<lparr>instances := (instances (outside funded))
        (adapter := (instances (outside funded) adapter)\<lparr>mk_balance := Some 100000000\<rparr>)\<rparr>\<rparr>)"

lemma after_loss_reachable: "reachable after_loss"
proof -
  have "reachable (after_call (exec MT (MC 1000) (env_at 1000)
      (CallUpdateTrackedBalance the_keeper adapter 100000000)) (funded\<lparr>outside := x\<rparr>))" for x
    using reachable_after_calls [of "funded\<lparr>outside := x\<rparr>" MT "MC 1000" "env_at 1000"
      "[CallUpdateTrackedBalance the_keeper adapter 100000000]"] funded_reachable
    by (auto intro: step world)
  moreover have "after_call (exec MT (MC 1000) (env_at 1000)
      (CallUpdateTrackedBalance the_keeper adapter 100000000)) s =
      after_call (update_tracked_balance (env_at 1000) the_keeper adapter 100000000) s" for s
    by (simp add: after_call_def unit_result_def bind_def return_def split: sum.splits prod.splits)
  ultimately show ?thesis by (simp add: after_loss_def)
qed

lemma after_loss_fields:
  "st_asset after_loss = Some the_asset" "st_strategies after_loss = Some [adapter, adapter_two]"
  "st_total_supply after_loss = Some 1000000000" "st_initialized after_loss = Some True"
  "st_share_balance after_loss = [alice \<mapsto> 1000000000]" "st_bridged_balance after_loss = Some 0"
  "st_tracked_balance after_loss = [adapter \<mapsto> 100000000, adapter_two \<mapsto> 300000000]"
  "outside after_loss = (outside funded)\<lparr>instances := (instances (outside funded))
     (adapter := (instances (outside funded) adapter)\<lparr>mk_balance := Some 100000000\<rparr>)\<rparr>"
  by (simp_all add: after_loss_def eval_defs fun_eq_iff del: not_None_eq)

lemma loss_blocks_full_exit_witness:
  "redeem MT (MC 1000) (env_at 1000) alice 1000000000 after_loss = Inl (Raised InsufficientAssets)"
proof -
  have net: "live_net MT the_asset (\<lambda>w. holdings (chain w))
      (\<lambda>w. ledger_ok (chain w) \<and> mocks_serve the_asset (- {the_vault}) w) (MC 1000)
      (current_contract (env_at 1000)) (- {the_vault})
      (\<lambda>w. ledger_ok (chain w) \<and> mocks_live the_asset the_vault (- {the_vault}) holdings w) mock_quote"
    using mock_net.live_net_axioms [of the_asset "env_at 1000"] by simp
  have "backing (\<lambda>w. holdings (chain w)) (env_at 1000) after_loss = 700000000"
    by (simp add: backing_def assets_with_idle_def tracked_total_def bridged_at_def after_loss_fields
        lookup0_def participant_defs)
  moreover have "mocks_live the_asset the_vault (- {the_vault}) holdings (outside after_loss)"
    by (auto simp: mocks_live_def after_loss_fields participant_defs width_defs)
  ultimately show ?thesis
    using loss_blocks_full_exit [OF net after_loss_reachable, of alice] after_loss_fields
    by (simp add: VIRTUAL_SHARES_OFFSET_def i128_max_def lookup0_def)
qed

end
