(* ===== verification/GovernanceProperties.thy ===== *)
theory GovernanceProperties
  imports Scenarios
begin

text \<open>
  The operators' side of the vault: what its bookkeeping guarantees in every reachable state, who
  can change what, the upgrade timelock, pausing, and what the keeper's moves do to the backing.
\<close>

section \<open>Bookkeeping\<close>

text \<open>
  C18. In every reachable state the registered strategies are distinct and at most twenty, tracked
  balances are not negative, and nothing is tracked for an address that is not registered.
\<close>

lemma strategy_bookkeeping:
  assumes "reachable s"
  shows "distinct (strategies_of s) \<and> length (strategies_of s) \<le> MAX_STRATEGIES \<and>
    (\<forall>a. 0 \<le> tracked_of s a) \<and>
    (\<forall>a. a \<notin> set (strategies_of s) \<longrightarrow> st_tracked_balance s a = None)"
  using reachable_strategies_inv [OF assms] by (simp add: strategies_inv_def)

lemma strategy_bookkeeping_witness: "st_tracked_balance funded bob = None"
  using strategy_bookkeeping [OF funded_reachable] by (simp add: participant_defs)

text \<open>
  In every reachable state the fee rate is at most thirty percent, the idle buffer at most
  twenty, the upgrade delay at least an hour, and the cap and the bridged balance not negative.
\<close>

lemma configuration_bounds:
  assumes "reachable s"
  shows "unwrap_or (st_performance_fee_bps s) 0 \<le> 3000 \<and> unwrap_or (st_idle_buffer_bps s) 0 \<le> 2000 \<and>
    3600 \<le> upgrade_delay_of s \<and> 0 \<le> unwrap_or (st_deposit_cap s) 0 \<and> 0 \<le> bridged_of s"
  using reachable_config_inv [OF assms]
  by (simp add: config_inv_def MAX_PERFORMANCE_FEE_BPS_def MAX_IDLE_BUFFER_BPS_def
      MIN_UPGRADE_DELAY_def)

lemma configuration_bounds_witness: "(3600 :: nat) \<le> upgrade_delay_of funded"
  using configuration_bounds [OF funded_reachable] by blast

text \<open>
  An initialized vault stays initialized, and initialization cannot be repeated: an
  authorised attempt fails with \<^verbatim>\<open>AlreadyInitialized\<close> and leaves no trace.
\<close>

lemma initialized_once:
  assumes "exec T C e c s = Inr (v, t)" and "st_initialized s \<noteq> None"
  shows "st_initialized t = st_initialized s \<and>
    (authorised e admin \<longrightarrow>
       initialize e admin asset keeper guardian fee_recipient fee_bps idle_bps name symbol t
         = Inl (Raised AlreadyInitialized))"
proof -
  have "st_initialized t = st_initialized s"
    using assms(1) by (cases rule: exec_share_cases) (use assms(2) in auto)
  with assms(2) show ?thesis by (simp add: initialize_def op_run del: not_None_eq)
qed

lemma initialized_once_witness:
  "initialize (env_at 1000) bob the_asset bob bob bob 0 0 ''x'' ''y''
     (after_call (exec MT (MC 1000) (env_at 1000) (CallPause the_admin)) funded)
   = Inl (Raised AlreadyInitialized)"
proof -
  obtain t where "exec MT (MC 1000) (env_at 1000) (CallPause the_admin) funded = Inr (UnitValue, t)"
    and "t = after_call (exec MT (MC 1000) (env_at 1000) (CallPause the_admin)) funded"
    by (rule succeeds_result [of "exec MT (MC 1000) (env_at 1000) (CallPause the_admin)" funded])
      (simp add: eval_defs)
  then show ?thesis
    using initialized_once [of MT "MC 1000" "env_at 1000" "CallPause the_admin" funded UnitValue t] by simp
qed

section \<open>Who can change what\<close>

text \<open>
  C16. In an initialized vault, the roles, the limits, the registered strategies, the scheduled
  upgrade and the code change only in an invocation that the admin authorised, or when the pending
  admin accepts.
\<close>

lemma governance_needs_admin:
  assumes "exec T C e c s = Inr (v, t)" and "st_initialized s \<noteq> None" and "governance t \<noteq> governance s"
  shows "(\<exists>a. st_admin s = Some a \<and> authorised e a) \<or>
    (\<exists>p. st_pending_admin s = Some p \<and> authorised e p \<and> c = CallAcceptAdmin p)"
  using assms(1) by (cases rule: exec_governance_cases) (use assms(2,3) in auto)

lemma keeper_change:
  "result_of (exec MT (MC 1000) (env_at 1000) (CallSetKeeper the_admin bob)) funded = Inr UnitValue"
  "st_keeper (after_call (exec MT (MC 1000) (env_at 1000) (CallSetKeeper the_admin bob)) funded) = Some bob"
  by (simp_all add: eval_defs)

lemma governance_needs_admin_witness: "\<exists>a. st_admin funded = Some a \<and> authorised (env_at 1000) a"
proof -
  obtain t where t: "exec MT (MC 1000) (env_at 1000) (CallSetKeeper the_admin bob) funded = Inr (UnitValue, t)"
    and "st_keeper t = Some bob"
    using succeeds_result [OF keeper_change(1)] keeper_change(2) by metis
  then have "governance t \<noteq> governance funded"
    by (simp add: governance_def participant_defs)
  then show ?thesis using governance_needs_admin [OF t] by auto
qed

text \<open>
  What is set at initialization and has no setter (asset, fee recipient, fee rate, idle
  buffer, name and symbol) is the same after every invocation of an initialized vault.
\<close>

lemma charter_is_fixed:
  assumes "exec T C e c s = Inr (v, t)" and "st_initialized s \<noteq> None"
  shows "charter t = charter s"
  using assms(1)
  by (cases rule: exec_governance_cases) (use assms(2) in \<open>auto simp: charter_def governance_def\<close>)

lemma charter_is_fixed_witness:
  "charter (after_call (exec MT (MC 1000) (env_at 1000) (CallSetKeeper the_admin bob)) funded) = charter funded"
proof -
  obtain t where "exec MT (MC 1000) (env_at 1000) (CallSetKeeper the_admin bob) funded = Inr (UnitValue, t)"
    and "t = after_call (exec MT (MC 1000) (env_at 1000) (CallSetKeeper the_admin bob)) funded"
    using succeeds_result [OF keeper_change(1)] by metis
  then show ?thesis using charter_is_fixed by fastforce
qed

text \<open>
  The admin of an initialized vault changes only to the pending admin, in an
  \<^verbatim>\<open>accept_admin\<close> that this address authorised, and the proposal is consumed.
\<close>

lemma admin_handover_two_steps:
  assumes "exec T C e c s = Inr (v, t)" and "st_initialized s \<noteq> None" and "st_admin t \<noteq> st_admin s"
  shows "\<exists>p. c = CallAcceptAdmin p \<and> st_pending_admin s = Some p \<and> authorised e p \<and>
    st_admin t = Some p \<and> st_pending_admin t = None"
  using assms
  by (cases c; fastforce dest: unit_result_success int_result_success entry_success elim: entry_elims)

definition proposed :: "ledger mock_world vault" where
  "proposed = after_call (exec MT (MC 1000) (env_at 1000) (CallProposeAdmin the_admin bob)) funded"

lemma proposed_accept:
  "result_of (exec MT (MC 1000) (env_at 1000) (CallAcceptAdmin bob)) proposed = Inr UnitValue"
  "st_admin (after_call (exec MT (MC 1000) (env_at 1000) (CallAcceptAdmin bob)) proposed) = Some bob"
  "st_admin proposed = Some the_admin" "st_initialized proposed = Some True"
  by (simp_all add: proposed_def eval_defs)

lemma admin_handover_two_steps_witness: "st_pending_admin proposed = Some bob"
proof -
  obtain t where t: "exec MT (MC 1000) (env_at 1000) (CallAcceptAdmin bob) proposed = Inr (UnitValue, t)"
    and a: "st_admin t = Some bob"
    using succeeds_result [OF proposed_accept(1)] proposed_accept(2) by metis
  show ?thesis
    using admin_handover_two_steps [OF t] a proposed_accept(3,4) by (auto simp: participant_defs)
qed

text \<open>
  C40. The pause flag of an initialized vault changes only in an invocation that the admin or the
  guardian authorised, and only the admin can lift it.
\<close>

lemma pausing_needs_operator:
  assumes "exec T C e c s = Inr (v, t)" and "st_initialized s \<noteq> None" and "st_paused t \<noteq> st_paused s"
  shows "\<exists>a. authorised e a \<and> (st_admin s = Some a \<or> st_guardian s = Some a \<and> st_paused t = Some True)"
  using assms
  by (cases c; fastforce dest: unit_result_success int_result_success entry_success elim: entry_elims)

lemma pausing_needs_operator_witness:
  "\<exists>a. authorised (env_at 1000) a \<and> (st_admin funded = Some a \<or> st_guardian funded = Some a)"
proof -
  obtain t where t: "exec MT (MC 1000) (env_at 1000) (CallPause the_guardian) funded = Inr (UnitValue, t)"
    and "t = after_call (exec MT (MC 1000) (env_at 1000) (CallPause the_guardian)) funded"
    by (rule succeeds_result [of "exec MT (MC 1000) (env_at 1000) (CallPause the_guardian)" funded])
      (simp add: eval_defs)
  then have "st_paused t = Some True" by (simp add: eval_defs)
  with t show ?thesis using pausing_needs_operator [OF t] by auto
qed

section \<open>Pausing\<close>

text \<open>
  An operation does not depend on a state change \<open>g\<close> when running it after \<open>g\<close> is running it and
  then applying \<open>g\<close>.
\<close>

definition insensitive :: "('s \<Rightarrow> 's) \<Rightarrow> ('s, 'e, 'a) operation \<Rightarrow> bool" where
  "insensitive g m \<longleftrightarrow> (\<forall>s. m (g s) = map_sum id (map_prod id g) (m s))"

lemma insensitive_bind:
  assumes "insensitive g m" and "\<And>a. insensitive g (f a)"
  shows "insensitive g (bind m f)"
  using assms by (auto simp: insensitive_def bind_def split: sum.splits)

lemma insensitive_pure:
  "insensitive g (return r)" "insensitive g (raise e)" "insensitive g trap"
  "insensitive g (raise_if c e)" "insensitive g (unwrap w)" "insensitive g (i128_checked x)"
  "insensitive g (require_auth env a)"
  by (auto simp: insensitive_def effect_defs i128_checked_def require_auth_def split: option.splits)

lemma insensitive_arith:
  "insensitive g (add_i128 a b)" "insensitive g (sub_i128 a b)" "insensitive g (mul_i128 a b)"
  "insensitive g (div_i128 a b)"
  by (auto simp: add_i128_def sub_i128_def mul_i128_def div_i128_def insensitive_pure)

abbreviation with_paused :: "bool option \<Rightarrow> 'x vault \<Rightarrow> 'x vault" where
  "with_paused p \<equiv> (\<lambda>s. s\<lparr>st_paused := p\<rparr>)"

lemma insensitive_paused_storage:
  "insensitive (with_paused p) is_initialized" "insensitive (with_paused p) get_asset"
  "insensitive (with_paused p) get_strategies" "insensitive (with_paused p) get_total_supply"
  "insensitive (with_paused p) (get_share_balance a)"
  "insensitive (with_paused p) (get_tracked_balance a)"
  "insensitive (with_paused p) get_bridged_balance"
  "insensitive (with_paused p) get_bridged_timestamp"
  "insensitive (with_paused p) get_bridged_max_age"
  "insensitive (with_paused p) (set_total_supply v)"
  "insensitive (with_paused p) (set_share_balance a v)"
  "insensitive (with_paused p) (set_tracked_balance a v)"
  "insensitive (with_paused p) (external_call f)" "insensitive (with_paused p) bump_instance"
  "insensitive (with_paused p) (emit_redeem a n v)"
  by (auto simp: insensitive_def storage_defs op_run split: option.splits)

lemmas insensitive_intros =
  insensitive_bind insensitive_pure insensitive_arith insensitive_paused_storage

lemma insensitive_if: "insensitive g m \<Longrightarrow> insensitive g k \<Longrightarrow> insensitive g (if c then m else k)"
  by simp

lemma insensitive_accounting:
  "insensitive (with_paused p) (effective_bridged_balance e)"
  "insensitive (with_paused p) (sum_tracked ss acc)"
  "insensitive (with_paused p) (total_assets T e)"
  "insensitive (with_paused p) (convert_to_assets T e n)"
proof -
  show bridged: "insensitive (with_paused p) (effective_bridged_balance e)" for e
    unfolding effective_bridged_balance_def Let_def
    by (intro insensitive_intros insensitive_if)
  show sum: "insensitive (with_paused p) (sum_tracked ss acc)" for ss acc
    by (induction ss arbitrary: acc) (auto intro!: insensitive_intros)
  show total: "insensitive (with_paused p) (total_assets T e)" for T e
    unfolding total_assets_def by (intro insensitive_intros bridged sum)
  show "insensitive (with_paused p) (convert_to_assets T e n)" for T e n
    unfolding convert_to_assets_def mul_div_offset_def by (intro insensitive_intros total)
qed

lemma insensitive_waterfall: "insensitive (with_paused p) (waterfall C vault ss r)"
proof (induction ss arbitrary: r)
  case (Cons a ss)
  then show ?case
    unfolding waterfall.simps untrack_def Let_def
    by (intro insensitive_intros insensitive_if)
qed (simp add: insensitive_pure)

text \<open>
  C25. Redeeming does not look at the pause flag: whatever the flag, a redemption has the same
  outcome, and leaves the flag as it was.
\<close>

lemma redeem_ignores_pause:
  "redeem T C e from n (s\<lparr>st_paused := p\<rparr>) =
     map_sum id (map_prod id (with_paused p)) (redeem T C e from n s)"
proof -
  have "insensitive (with_paused p) (redeem T C e from n)"
    unfolding redeem_def require_initialized_def cover_shortfall_def Let_def
    by (intro insensitive_intros insensitive_if insensitive_accounting insensitive_waterfall)
  then show ?thesis by (simp add: insensitive_def)
qed

section \<open>The upgrade timelock\<close>

text \<open>
  C17. In a reachable vault the code changes only to a hash that was scheduled and announced in the
  event log, by an admin's invocation, and not before the delay in force and an hour have passed
  since it was scheduled.
\<close>

lemma upgrade_waits:
  assumes "reachable s" and "exec T C e c s = Inr (v, t)" and "code_hash t \<noteq> code_hash s"
  shows "\<exists>h at after a. scheduled_of s = Some (h, at) \<and> code_hash t = h \<and>
    UpgradeScheduled h after \<in> set (event_log s) \<and> at + MIN_UPGRADE_DELAY \<le> after \<and>
    at + upgrade_delay_of s \<le> ledger_timestamp e \<and> at + MIN_UPGRADE_DELAY \<le> ledger_timestamp e \<and>
    st_admin s = Some a \<and> authorised e a \<and> c = CallExecuteUpgrade a"
proof -
  have "\<exists>a h at. c = CallExecuteUpgrade a \<and> authorised e a \<and> st_admin s = Some a \<and>
      scheduled_of s = Some (h, at) \<and> at + upgrade_delay_of s \<le> ledger_timestamp e \<and> code_hash t = h"
    using assms(2,3)
    by (cases c; fastforce dest: unit_result_success int_result_success entry_success elim: entry_elims)
  then show ?thesis
    using reachable_timelock_inv [OF assms(1)] reachable_config_inv [OF assms(1)]
    by (fastforce simp: timelock_inv_def config_inv_def)
qed

definition scheduled_upgrade :: "ledger mock_world vault" where
  "scheduled_upgrade = after_calls
     (map (exec MT (MC 1000) (env_at 1000)) [CallScheduleUpgrade the_admin 7]) funded"

lemma scheduled_upgrade_runs:
  "result_of (exec MT (MC 1000) (env_at 173800) (CallExecuteUpgrade the_admin)) scheduled_upgrade
     = Inr UnitValue"
  "code_hash (after_call (exec MT (MC 1000) (env_at 173800) (CallExecuteUpgrade the_admin))
     scheduled_upgrade) = 7"
  "code_hash scheduled_upgrade = 0"
  unfolding scheduled_upgrade_def by (simp_all add: eval_defs del: not_None_eq)

lemma scheduled_upgrade_reachable: "reachable scheduled_upgrade"
  unfolding scheduled_upgrade_def by (rule reachable_after_calls) (rule funded_reachable)

lemma upgrade_waits_witness: "\<exists>after. UpgradeScheduled 7 after \<in> set (event_log scheduled_upgrade)"
proof -
  obtain t where t: "exec MT (MC 1000) (env_at 173800) (CallExecuteUpgrade the_admin) scheduled_upgrade
      = Inr (UnitValue, t)" and h: "code_hash t = 7"
    using succeeds_result [OF scheduled_upgrade_runs(1)] scheduled_upgrade_runs(2) by metis
  show ?thesis using upgrade_waits [OF scheduled_upgrade_reachable t] h scheduled_upgrade_runs(3) by auto
qed

text \<open>
  C38. The announced time is not binding: after an upgrade was scheduled, the admin can lower the
  delay to any \<open>d\<close> of at least an hour, and then the upgrade is refused as too early before \<open>d\<close>
  has passed since the scheduling and installs the scheduled code from then on, whatever time the
  event announced.
\<close>

lemma delay_can_be_shortened:
  assumes "schedule_upgrade e0 admin h s = Inr (u, s1)" and "MIN_UPGRADE_DELAY \<le> d"
    and "authorised e1 admin" and "authorised e2 admin" and "uploaded_wasm e2 h"
    and "ledger_timestamp e0 + d \<le> u64_max"
  shows "\<exists>s2. change_upgrade_delay e1 admin d s1 = Inr ((), s2) \<and>
    last (event_log s2) = UpgradeScheduled h (ledger_timestamp e0 + upgrade_delay_of s) \<and>
    (if ledger_timestamp e2 < ledger_timestamp e0 + d
     then execute_upgrade e2 admin s2 = Inl (Raised UpgradeTooEarly)
     else \<exists>s3. execute_upgrade e2 admin s2 = Inr ((), s3) \<and> code_hash s3 = h)"
proof -
  obtain rs where s: "st_admin s = Some admin" and s1: "s1 = log_ttl rs (s\<lparr>
      st_scheduled_upgrade_hash := Some h, st_scheduled_upgrade_at := Some (ledger_timestamp e0),
      event_log := event_log s @ [UpgradeScheduled h (ledger_timestamp e0 + upgrade_delay_of s)]\<rparr>)"
    using schedule_upgrade_success [OF assms(1)] by blast
  let ?s2 = "s1\<lparr>st_upgrade_delay := Some d\<rparr>"
  have "change_upgrade_delay e1 admin d s1 = Inr ((), ?s2)"
    using assms(2,3) s s1 by (auto simp: change_upgrade_delay_def op_success)
  moreover have "execute_upgrade e2 admin ?s2 = Inl (Raised UpgradeTooEarly)"
    if "ledger_timestamp e2 < ledger_timestamp e0 + d"
    using that assms(4,6) s by (simp add: s1 execute_upgrade_def op_run Let_def add_u64_def)
  moreover have "\<exists>s3. execute_upgrade e2 admin ?s2 = Inr ((), s3) \<and> code_hash s3 = h"
    if "\<not> ledger_timestamp e2 < ledger_timestamp e0 + d"
    using that assms(4-6) s by (simp add: s1 execute_upgrade_def op_run Let_def add_u64_def)
  ultimately show ?thesis by (intro exI [of _ ?s2]) (simp add: s1)
qed

text \<open>Scheduled at 1000 under the default delay of two days, an upgrade can run at 4600.\<close>

lemma schedule_run:
  "result_of (schedule_upgrade (env_at 1000) the_admin 7) funded = Inr ()"
  by (simp add: eval_defs del: not_None_eq)

lemma delay_can_be_shortened_witness:
  "\<exists>(s2 :: ledger mock_world vault) s3. last (event_log s2) = UpgradeScheduled 7 173800 \<and>
    execute_upgrade (env_at 4600) the_admin s2 = Inr ((), s3) \<and> code_hash s3 = 7"
proof -
  obtain s1 where "schedule_upgrade (env_at 1000) the_admin 7 funded = Inr ((), s1)"
    using succeeds_result [OF schedule_run] by blast
  from delay_can_be_shortened [OF this, of 3600 "env_at 2000" "env_at 4600"] show ?thesis
    by (auto simp: MIN_UPGRADE_DELAY_def DEFAULT_UPGRADE_DELAY_def u64_max_def)
qed

section \<open>Accounting and the keeper\<close>

text \<open>
  C21. \<^verbatim>\<open>total_assets\<close> is the vault's own token balance plus what it tracks for each registered
  strategy plus the attested bridged balance, which counts only while the attestation is no older
  than the maximal age.
\<close>

lemma total_assets_counts:
  assumes "sep41 T asset bal ok" and "st_asset s = Some asset" and "ok (outside s)"
    and "total_assets T e s = Inr (v, t)"
  shows "v = bal (outside s) (current_contract e) + (\<Sum>a\<leftarrow>strategies_of s. tracked_of s a) +
    (if unwrap_or (st_bridged_max_age s) DEFAULT_BRIDGED_MAX_AGE
          < ledger_timestamp e - unwrap_or (st_bridged_timestamp s) 0
     then 0 else bridged_of s)"
  using sep41.total_assets_backing(1) [OF assms(1,3,2,4)]
  by (simp add: backing_def assets_with_idle_def tracked_total_def bridged_at_def bridged_expired_def)

definition attested :: "ledger mock_world vault" where
  "attested = after_call (attest_bridged_balance (env_at 1000) the_keeper 50) funded"

lemma attested_total: "result_of (total_assets MT (env_at 87401)) attested = Inr 1000000000"
  by (simp add: attested_def eval_defs del: not_None_eq)

lemma total_assets_counts_witness:
  "\<exists>t. total_assets MT (env_at 87401) attested = Inr (1000000000, t) \<and>
    (1000000000 :: int) = 300000000 + 700000000 + 0"
proof -
  obtain t where t: "total_assets MT (env_at 87401) attested = Inr (1000000000, t)"
    using succeeds_result [OF attested_total] by blast
  have fields: "st_asset attested = Some the_asset" "outside attested = outside funded"
    "strategies_of attested = [adapter, adapter_two]"
    "st_bridged_max_age attested = Some 86400" "st_bridged_timestamp attested = Some 1000"
    "st_tracked_balance attested = st_tracked_balance funded"
    by (simp_all add: attested_def eval_defs)
  show ?thesis
    using total_assets_counts [OF mock_net.sep41_axioms [of the_asset "env_at 87401"] _ _ t]
    using t by (simp add: fields lookup0_def)
qed

text \<open>
  C22. Allocating moves assets from idle to a strategy without changing the backing, keeps idle
  tokens at or above the buffer, and happens only when the strategy, asked in the state the call
  starts in (after the two reads of the vault's own balance), answers that it is healthy.
\<close>

lemma allocate_keeps_backing:
  assumes "strategy_net T asset bal ok C (current_contract e) A" and "reachable s"
    and "st_asset s = Some asset" and "ok (outside s)" and "set (strategies_of s) \<subseteq> A"
    and "allocate T C e keeper a n s = Inr (u, t)"
  shows "backing bal e t = backing bal e s \<and> a \<in> set (strategies_of s) \<and>
    st_keeper s = Some keeper \<and> authorised e keeper \<and>
    bal (outside t) (current_contract e) = bal (outside s) (current_contract e) - n \<and>
    backing bal e s * int (unwrap_or (st_idle_buffer_bps s) 0) div 10000
      \<le> bal (outside t) (current_contract e) \<and>
    (\<exists>i j x y z. token_balance T asset (current_contract e) (outside s) = Some (i, x) \<and>
       token_balance T asset (current_contract e) x = Some (j, y) \<and>
       strategy_is_healthy C a y = Some (True, z))"
proof -
  note eff = strategy_net.allocate_effect [OF assms(1,6) refl assms(3,4)
      reachable_strategies_inv [OF assms(2)] assms(5)]
  have "0 \<le> bal (outside s) (current_contract e)"
    using sep41.balance_nonneg [OF strategy_net.axioms(1) [OF assms(1)] assms(4)] .
  then have "0 \<le> backing bal e s" using backing_nonneg assms(2) by blast
  then have "min_idle_of e s (bal (outside s) (current_contract e)) =
      backing bal e s * int (unwrap_or (st_idle_buffer_bps s) 0) div 10000"
    by (simp add: min_idle_of_def backing_def sdiv_nonneg MAX_BPS_def)
  moreover have "a \<in> set (strategies_of s) \<and> st_keeper s = Some keeper \<and> authorised e keeper \<and>
      (\<exists>i j x y z. token_balance T asset (current_contract e) (outside s) = Some (i, x) \<and>
         token_balance T asset (current_contract e) x = Some (j, y) \<and>
         strategy_is_healthy C a y = Some (True, z))"
    using assms(6) by (rule allocate_success) (use assms(3) in auto)
  ultimately show ?thesis using eff by simp
qed

lemma more_allocation:
  "result_of (allocate MT (MC 1000) (env_at 1000) the_keeper adapter 250000000) funded = Inr ()"
  by (simp add: eval_defs del: not_None_eq)

lemma allocate_keeps_backing_witness:
  "\<exists>t. allocate MT (MC 1000) (env_at 1000) the_keeper adapter 250000000 funded = Inr ((), t) \<and>
    backing (\<lambda>w. holdings (chain w)) (env_at 1000) t = 1000000000 \<and>
    50000000 \<le> holdings (chain (outside t)) the_vault"
proof -
  obtain t where t: "allocate MT (MC 1000) (env_at 1000) the_keeper adapter 250000000 funded = Inr ((), t)"
    using succeeds_result [OF more_allocation] by blast
  have net: "strategy_net MT the_asset (\<lambda>w. holdings (chain w))
      (\<lambda>w. ledger_ok (chain w) \<and> mocks_serve the_asset (- {the_vault}) w) (MC 1000)
      (current_contract (env_at 1000)) (- {the_vault})"
    using mock_net.strategy_net_axioms [of the_asset "env_at 1000"] by simp
  show ?thesis using allocate_keeps_backing [OF net funded_reachable _ _ _ t] t by simp
qed

text \<open>
  C23. Deallocating and emergency withdrawals bring to the vault exactly what the strategy
  reports; the backing changes only by the difference between that and what was tracked: a
  shortfall of an emergency withdrawal is realized at once, an excess is a gain.
\<close>

lemma withdrawals_are_exact:
  assumes "strategy_net T asset bal ok C (current_contract e) A" and "reachable s"
    and "ok (outside s)" and "set (strategies_of s) \<subseteq> A"
  shows "(deallocate C e keeper a n s = Inr (w, t) \<longrightarrow>
      bal (outside t) (current_contract e) = bal (outside s) (current_contract e) + w \<and>
      backing bal e t = backing bal e s + max 0 (w - tracked_of s a)) \<and>
    (emergency_withdraw_strategy C e caller a s = Inr (w', t') \<longrightarrow>
      bal (outside t') (current_contract e) = bal (outside s) (current_contract e) + w' \<and>
      tracked_of t' a = 0 \<and> backing bal e t' = backing bal e s - tracked_of s a + w')"
proof -
  note inv = reachable_strategies_inv [OF assms(2)]
  show ?thesis
    using strategy_net.deallocate_effect [OF assms(1) _ refl assms(3) inv assms(4)]
      strategy_net.emergency_effect [OF assms(1) _ refl assms(3) inv assms(4)]
    by (auto simp: max_def)
qed

lemma emergency_run:
  "result_of (emergency_withdraw_strategy (MC 1000) (env_at 1000) the_guardian adapter) funded
     = Inr 400000000"
  by (simp add: eval_defs del: not_None_eq)

lemma withdrawals_are_exact_witness:
  "\<exists>t. emergency_withdraw_strategy (MC 1000) (env_at 1000) the_guardian adapter funded
      = Inr (400000000, t) \<and>
    backing (\<lambda>w. holdings (chain w)) (env_at 1000) t = 1000000000 \<and>
    holdings (chain (outside t)) the_vault = 700000000"
proof -
  obtain t where t: "emergency_withdraw_strategy (MC 1000) (env_at 1000) the_guardian adapter funded
      = Inr (400000000, t)"
    using succeeds_result [OF emergency_run] by blast
  have net: "strategy_net MT the_asset (\<lambda>w. holdings (chain w))
      (\<lambda>w. ledger_ok (chain w) \<and> mocks_serve the_asset (- {the_vault}) w) (MC 1000)
      (current_contract (env_at 1000)) (- {the_vault})"
    using mock_net.strategy_net_axioms [of the_asset "env_at 1000"] by simp
  have "bal (outside t) the_vault = 700000000 \<and> backing bal (env_at 1000) t = 1000000000"
    if "bal = (\<lambda>w. holdings (chain w))" for bal
    using withdrawals_are_exact [OF net funded_reachable, of the_keeper adapter 1 0 t the_guardian 400000000 t] t
    by (simp add: that lookup0_def)
  with t show ?thesis by auto
qed

text \<open>
  C27. A strategy that has been added and not funded can be removed by the admin, which restores
  the registered list and the tracked balances exactly.
\<close>

lemma add_then_remove_strategy:
  assumes "reachable s" and "add_strategy e caller a s = Inr (u, t)"
  shows "\<exists>r. remove_strategy e caller a t = Inr ((), r) \<and>
    strategies_of r = strategies_of s \<and> st_tracked_balance r = st_tracked_balance s"
proof -
  from add_strategy_success [OF assms(2)] obtain rs where
    caller: "authorised e caller" "st_admin s = Some caller" and new: "a \<notin> set (strategies_of s)"
    and t: "t = log_ttl rs (s\<lparr>st_strategies := Some (strategies_of s @ [a]),
        st_tracked_balance := (st_tracked_balance s)(a \<mapsto> 0),
        event_log := event_log s @ [StrategyAdd a]\<rparr>)" by blast
  have none: "st_tracked_balance s a = None"
    using reachable_strategies_inv [OF assms(1)] new by (simp add: strategies_inv_def)
  have "\<exists>v r. remove_strategy e caller a t = Inr (v, r)"
    using caller by (simp add: remove_strategy_def op_success split_strategy_spec Let_def t)
  then obtain r where r: "remove_strategy e caller a t = Inr ((), r)" by auto
  have "filter (\<lambda>b. b \<noteq> a) (strategies_of s) = strategies_of s"
    using new by (auto simp: filter_id_conv)
  moreover have "(st_tracked_balance s)(a := None) = st_tracked_balance s"
    using none by (auto simp: fun_eq_iff)
  ultimately show ?thesis
    using r remove_strategy_success [OF r] by (auto simp: t)
qed

lemma pool_added: "result_of (add_strategy (env_at 1000) the_admin the_pool) funded = Inr ()"
  by (simp add: eval_defs strategy_exists_def)

lemma add_then_remove_strategy_witness:
  "\<exists>t r. add_strategy (env_at 1000) the_admin the_pool funded = Inr ((), t) \<and>
    remove_strategy (env_at 1000) the_admin the_pool t = Inr ((), r) \<and>
    strategies_of r = [adapter, adapter_two]"
proof -
  obtain t where t: "add_strategy (env_at 1000) the_admin the_pool funded = Inr ((), t)"
    using succeeds_result [OF pool_added] by blast
  show ?thesis using add_then_remove_strategy [OF funded_reachable t] t by auto
qed

end
