(* ===== verification/AdapterProperties.thy ===== *)
theory AdapterProperties
  imports Scenarios
begin

text \<open>
  The strategies' side: that the two adapters honour the interface the vault relies on, what the
  Blend adapter quotes, pays and reports about its pool, and who governs it.
\<close>

section \<open>The strategy interface\<close>

text \<open>
  C28. The mock strategy, run against any token that pays, is a strategy that delivers what it
  quotes: it moves no vault tokens except in a withdrawal, which brings exactly what it reports.
\<close>

lemma mock_honours_interface:
  assumes "sep41 T asset bal ok" and "token_pays T asset bal ok" and "vault \<notin> A"
    and "current_contract e = vault"
  shows "live_net (world_token T) asset (\<lambda>w. bal (chain w))
    (\<lambda>w. ok (chain w) \<and> mocks_serve asset A w) (mock_clients T e) vault A
    (\<lambda>w. ok (chain w) \<and> mocks_live asset vault A bal w)
    (\<lambda>w a. mock_balance_of_state (instances w a))"
  by (rule mock_live_net [OF assms])

lemma mock_honours_interface_witness:
  "live_net (world_token ledger_token) the_asset (\<lambda>w. holdings (chain w))
    (\<lambda>w. ledger_ok (chain w) \<and> mocks_serve the_asset {adapter} w)
    (mock_clients ledger_token (env_at 1000)) the_vault {adapter}
    (\<lambda>w. ledger_ok (chain w) \<and> mocks_live the_asset the_vault {adapter} holdings w)
    (\<lambda>w a. mock_balance_of_state (instances w a))"
  by (rule mock_honours_interface [OF ledger.sep41_axioms ledger_pays]) simp_all

text \<open>
  C29. The Blend adapter satisfies the interface over every token and every pool whose calls, made
  by an adapter, leave the vault's tokens alone.
\<close>

lemma blend_honours_interface:
  assumes "sep41 T asset bal ok" and "pool_leaves_vault T P bal ok pool vault A" and "vault \<notin> A"
  shows "strategy_net (world_token T) asset (\<lambda>w. bal (chain w))
    (\<lambda>w. ok (chain w) \<and> blends_serve asset pool vault A w) (blend_clients T P e) vault A"
  by (rule blend_strategy_net [OF assms])

lemma blend_honours_interface_witness:
  "strategy_net (world_token ledger_token) the_asset (\<lambda>w. holdings (chain w))
    (\<lambda>w. ledger_ok (chain w) \<and> blends_serve the_asset the_pool the_vault (- {the_vault}) w)
    (blend_clients ledger_token lending_pool (env_at 1000)) the_vault (- {the_vault})"
  by (rule blend_honours_interface [OF ledger.sep41_axioms lending_leaves_vault])
    (simp_all add: participant_defs)

section \<open>What the Blend adapter quotes and pays\<close>

text \<open>
  C33. The liquidity the adapter quotes is never negative, never more than it tracks, and, when the
  reserve can be read, never more than the pool's free liquidity less the rounding margin; quoting
  changes no balance.
\<close>

lemma quote_is_bounded:
  assumes "blend_reachable s" and "blend_available_liquidity P s = Inr (v, t)"
  shows "0 \<le> v \<and> v \<le> blend_tracked s \<and> blend_tracked t = blend_tracked s \<and>
    (\<forall>pool asset d. bl_pool s = Some pool \<longrightarrow> bl_asset s = Some asset \<longrightarrow>
       reserve_of P pool asset (outside s) = Some d \<longrightarrow> v \<le> max 0 (pool_free d - 2))"
proof -
  have "0 \<le> blend_tracked s" using blend_reachable_inv [OF assms(1)] by (simp add: blend_inv_def)
  with assms(2) show ?thesis
    by (cases rule: blend_available_success) (auto simp: quoted_liquidity_def split: option.splits)
qed

definition adapter_state :: "lending blend" where
  "adapter_state = after_call (blend_deposit ledger_token lending_pool
       ((env_at 1000)\<lparr>current_contract := adapter\<rparr>) the_vault 5000)
     (fresh_blend\<lparr>outside := start_lending\<lparr>holdings := (\<lambda>_. 5000)\<rparr>\<rparr>)"

lemma reachable_after_blend:
  "blend_reachable s \<Longrightarrow> blend_reachable (after_call (blend_exec T P e c) s)"
  by (auto simp: after_call_def split: sum.splits intro: blend_next blend_invoke)

lemma adapter_reachable: "blend_reachable adapter_state"
proof -
  have "blend_reachable (fresh_blend\<lparr>outside := start_lending\<lparr>holdings := (\<lambda>_. 5000)\<rparr>\<rparr>)"
    using reachable_after_blend [OF blend_start [of 0 start_lending],
        of ledger_token lending_pool "env_at 1000"
          "BlendCallInitialize the_admin the_vault the_asset the_pool"]
    by (auto simp: fresh_blend_def intro: blend_next blend_world)
  from reachable_after_blend [OF this, of ledger_token lending_pool
      "(env_at 1000)\<lparr>current_contract := adapter\<rparr>" "BlendCallDeposit the_vault 5000"]
  show ?thesis by (simp add: adapter_state_def)
qed

lemma adapter_fields:
  "bl_pool adapter_state = Some the_pool" "bl_asset adapter_state = Some the_asset"
  "bl_admin adapter_state = Some the_admin" "bl_vault adapter_state = Some the_vault"
  "blend_tracked adapter_state = 5000"
  by (simp_all add: adapter_state_def eval_defs start_defs del: not_None_eq)

lemma adapter_quote: "result_of (blend_available_liquidity lending_pool) adapter_state = Inr 4998"
  by (simp add: adapter_state_def eval_defs start_defs del: not_None_eq)

lemma quote_is_bounded_witness: "(4998 :: int) \<le> blend_tracked adapter_state"
proof -
  obtain t where "blend_available_liquidity lending_pool adapter_state = Inr (4998, t)"
    using succeeds_result [OF adapter_quote] by blast
  then show ?thesis using quote_is_bounded [OF adapter_reachable] by blast
qed

text \<open>
  C30. A withdrawal that succeeds was asked for by the adapter's vault; it pays the smaller of the
  amount and the tracked balance, which is positive, sends exactly that from the adapter to the
  vault, asks the pool for exactly that, and lowers the tracked balance by it.
\<close>

lemma blend_withdraw_is_exact:
  assumes "blend_reachable s" and "blend_withdraw T P e caller n s = Inr (w, t)"
  shows "bl_vault s = Some caller \<and> w = min n (blend_tracked s) \<and> 0 < w \<and>
    blend_tracked t = blend_tracked s - w \<and> 0 \<le> blend_tracked t \<and>
    (\<exists>asset pool x y. bl_asset s = Some asset \<and> bl_pool s = Some pool \<and>
      pool_submit P pool (current_contract e) (current_contract e) (current_contract e)
        [\<lparr>request_type = 3, request_address = asset, request_amount = w\<rparr>] (outside s) = Some ((), x) \<and>
      token_transfer T asset (current_contract e) caller w x = Some ((), y) \<and> outside t = y)"
proof -
  have "0 \<le> blend_tracked s" using blend_reachable_inv [OF assms(1)] by (simp add: blend_inv_def)
  moreover from assms(2) show ?thesis
  proof (cases rule: blend_withdraw_success)
    case (1 asset pool x y rs)
    have w: "0 < w" "w \<le> blend_tracked s" using 1(3-5) calculation by linarith+
    have trk: "blend_tracked t = blend_tracked s - w" and out: "outside t = y"
      by (simp_all add: 1(10))
    have low: "0 \<le> blend_tracked t" using w(2) trk by linarith
    note sent = 1(8) [unfolded collateral_request_def REQUEST_WITHDRAW_COLLATERAL_def]
    show ?thesis
      by (intro conjI exI [of _ asset] exI [of _ pool] exI [of _ x] exI [of _ y])
        (rule 1(2,4,6,7,9) w(1) trk low sent out)+
  qed
qed

abbreviation adapter_env :: env where
  "adapter_env \<equiv> (env_at 1000)\<lparr>current_contract := adapter\<rparr>"

lemma adapter_withdraw:
  "result_of (blend_withdraw ledger_token lending_pool adapter_env the_vault 9000) adapter_state = Inr 5000"
  by (simp add: adapter_state_def eval_defs start_defs del: not_None_eq)

lemma blend_withdraw_is_exact_witness:
  "\<exists>t. blend_withdraw ledger_token lending_pool adapter_env the_vault 9000 adapter_state = Inr (5000, t) \<and>
    blend_tracked t = 0"
proof -
  obtain t where t: "blend_withdraw ledger_token lending_pool adapter_env the_vault 9000 adapter_state
      = Inr (5000, t)"
    using succeeds_result [OF adapter_withdraw] by blast
  have "blend_tracked t = blend_tracked adapter_state - 5000"
    using blend_withdraw_is_exact [OF adapter_reachable t] by blast
  with t show ?thesis by (simp add: adapter_fields)
qed

text \<open>
  C34. The adapter reports itself healthy exactly when the reserve can be read, the borrowed share
  of a non-empty reserve is within the utilization limit, and the backstop credit is not negative
  and covers the required share of a non-empty reserve.
\<close>

lemma healthy_iff_within_limits:
  assumes "blend_is_healthy P s = Inr (h, t)" and "bl_pool s = Some pool" and "bl_asset s = Some asset"
  shows "h \<longleftrightarrow> (\<exists>d. reserve_of P pool asset (outside s) = Some d \<and>
    (0 < b_supply d \<longrightarrow>
       d_supply d * 10000 sdiv b_supply d \<le> int (unwrap_or (bl_max_utilization_bps s) 9500) \<and>
       int (unwrap_or (bl_min_backstop_bps s) 500) \<le> backstop_credit d * 10000 sdiv b_supply d) \<and>
    0 \<le> backstop_credit d)"
  using assms(1)
  by (cases rule: blend_is_healthy_success)
    (use assms(2,3) in \<open>auto simp: reserve_healthy_def DEFAULT_MAX_UTILIZATION_BPS_def
      DEFAULT_MIN_BACKSTOP_BPS_def split: option.splits\<close>)

lemma adapter_health: "result_of (blend_is_healthy lending_pool) adapter_state = Inr True"
  by (simp add: adapter_state_def eval_defs start_defs del: not_None_eq)

lemma healthy_iff_within_limits_witness:
  "\<exists>d. reserve_of lending_pool the_pool the_asset (outside adapter_state) = Some d \<and> 0 \<le> backstop_credit d"
proof -
  obtain t where "blend_is_healthy lending_pool adapter_state = Inr (True, t)"
    using succeeds_result [OF adapter_health] by blast
  from healthy_iff_within_limits [OF this adapter_fields(1,2)] show ?thesis by auto
qed

text \<open>
  C31. An emergency withdrawal is open to the adapter's vault and its admin only; it pays the
  position the pool reports to the vault, whoever called, and leaves nothing tracked.
\<close>

lemma blend_emergency_pays_vault:
  assumes "blend_emergency_withdraw T P e caller s = Inr (w, t)"
  shows "blend_tracked t = 0 \<and> (bl_vault s = Some caller \<or> bl_admin s = Some caller) \<and>
    (\<exists>vault asset pool. bl_vault s = Some vault \<and> bl_asset s = Some asset \<and> bl_pool s = Some pool \<and>
      w = pool_position P (outside s) pool asset (current_contract e) (blend_tracked s) \<and>
      (w \<noteq> 0 \<longrightarrow> (\<exists>x. token_transfer T asset (current_contract e) vault w x = Some ((), outside t))))"
  using assms by (cases rule: blend_emergency_success) auto

lemma adapter_emergency:
  "result_of (blend_emergency_withdraw ledger_token lending_pool adapter_env the_admin) adapter_state
     = Inr 5000"
  by (simp add: adapter_state_def eval_defs start_defs del: not_None_eq)

lemma blend_emergency_pays_vault_witness:
  "\<exists>t. blend_emergency_withdraw ledger_token lending_pool adapter_env the_admin adapter_state = Inr (5000, t) \<and>
    blend_tracked t = 0"
proof -
  obtain t where t: "blend_emergency_withdraw ledger_token lending_pool adapter_env the_admin adapter_state
      = Inr (5000, t)"
    using succeeds_result [OF adapter_emergency] by blast
  then show ?thesis using blend_emergency_pays_vault [OF t] by blast
qed

section \<open>Who governs the adapter\<close>

text \<open>
  In every reachable state of the adapter the tracked balance is not negative, both limits are
  shares of the whole, the upgrade delay is at least an hour, and an uninitialized adapter has
  no admin and no vault.
\<close>

lemma adapter_invariant:
  assumes "blend_reachable s"
  shows "0 \<le> blend_tracked s \<and> unwrap_or (bl_max_utilization_bps s) 9500 \<le> 10000 \<and>
    unwrap_or (bl_min_backstop_bps s) 500 \<le> 10000 \<and> 3600 \<le> blend_upgrade_delay_of s \<and>
    (bl_initialized s = None \<longrightarrow> bl_admin s = None \<and> bl_vault s = None)"
  using blend_reachable_inv [OF assms]
  by (simp add: blend_inv_def DEFAULT_MAX_UTILIZATION_BPS_def DEFAULT_MIN_BACKSTOP_BPS_def
      MAX_BPS_def BLEND_MIN_UPGRADE_DELAY_def)

lemma adapter_invariant_witness: "(3600 :: nat) \<le> blend_upgrade_delay_of adapter_state"
  using adapter_invariant [OF adapter_reachable] by blast

text \<open>
  C32. The adapter's tracked balance changes only in a call authorised by its vault or its admin,
  and it rises only in a deposit its vault authorised, while the adapter is not paused.
\<close>

lemma tracked_changes_only_for_vault:
  assumes "blend_exec T P e c s = Inr (u, t)" and "bl_initialized s \<noteq> None"
    and "blend_tracked t \<noteq> blend_tracked s"
  shows "(\<exists>a. authorised e a \<and> (bl_vault s = Some a \<or> bl_admin s = Some a)) \<and>
    (0 \<le> blend_tracked s \<and> blend_tracked s < blend_tracked t \<longrightarrow>
       (\<exists>a n. c = BlendCallDeposit a n \<and> authorised e a \<and> bl_vault s = Some a \<and>
         \<not> unwrap_or (bl_paused s) False \<and> blend_tracked t = blend_tracked s + n))"
proof (cases c)
  case (BlendCallDeposit a n)
  with assms(1) have "blend_deposit T P e a n s = Inr (u, t)" by simp
  then show ?thesis by (cases rule: blend_deposit_success) (auto simp: BlendCallDeposit)
next
  case (BlendCallWithdraw a n)
  with assms(1) obtain w where "blend_withdraw T P e a n s = Inr (w, t)"
    by (auto dest!: no_result_success)
  then show ?thesis
  proof (cases rule: blend_withdraw_success)
    case (1 asset pool x y rs)
    then have "0 \<le> blend_tracked s \<Longrightarrow> 0 \<le> w" by auto
    with 1(1,2,10) show ?thesis by auto
  qed
next
  case (BlendCallEmergencyWithdraw a)
  with assms(1) obtain w where "blend_emergency_withdraw T P e a s = Inr (w, t)"
    by (auto dest!: no_result_success)
  then show ?thesis by (cases rule: blend_emergency_success) auto
next
  case (BlendCallHarvest a)
  with assms(1) obtain w where "blend_harvest P e a s = Inr (w, t)"
    by (auto dest!: no_result_success)
  then show ?thesis using assms(3) by (cases rule: blend_harvest_success) auto
qed (use assms in \<open>fastforce dest: blend_admin_success blend_initialize_success [THEN iffD1]\<close>)+

lemma adapter_first_deposit:
  "result_of (blend_exec ledger_token lending_pool adapter_env (BlendCallDeposit the_vault 5000))
     (fresh_blend\<lparr>outside := start_lending\<lparr>holdings := (\<lambda>_. 5000)\<rparr>\<rparr>) = Inr ()"
  "bl_initialized fresh_blend = Some True" "blend_tracked fresh_blend = 0"
  by (simp_all add: eval_defs start_defs del: not_None_eq)

lemma tracked_changes_only_for_vault_witness:
  "\<exists>a. authorised adapter_env a \<and> (bl_vault fresh_blend = Some a \<or> bl_admin fresh_blend = Some a)"
proof -
  let ?s = "fresh_blend\<lparr>outside := start_lending\<lparr>holdings := (\<lambda>_. 5000)\<rparr>\<rparr>"
  obtain t where t: "blend_exec ledger_token lending_pool adapter_env (BlendCallDeposit the_vault 5000) ?s
      = Inr ((), t)"
    and "t = after_call (blend_exec ledger_token lending_pool adapter_env (BlendCallDeposit the_vault 5000)) ?s"
    using succeeds_result [OF adapter_first_deposit(1)] by blast
  then have "blend_tracked t = 5000" using adapter_fields(5) by (simp add: adapter_state_def)
  then have "blend_tracked t \<noteq> blend_tracked ?s" "bl_initialized ?s \<noteq> None"
    using adapter_first_deposit(2,3) by simp_all
  from tracked_changes_only_for_vault [OF t this(2,1)]
  have "\<exists>a. authorised adapter_env a \<and> (bl_vault ?s = Some a \<or> bl_admin ?s = Some a)" by blast
  then show ?thesis by simp
qed

text \<open>
  C35. The adapter's code changes only to the scheduled hash, in an invocation of its admin, after
  the delay in force, which is at least an hour.
\<close>

lemma adapter_upgrade_waits:
  assumes "blend_reachable s" and "blend_exec T P e c s = Inr (u, t)" and "code_hash t \<noteq> code_hash s"
  shows "\<exists>h at a. blend_scheduled_of s = Some (h, at) \<and> code_hash t = h \<and> bl_admin s = Some a \<and>
    authorised e a \<and> c = BlendCallExecuteUpgrade a \<and>
    at + blend_upgrade_delay_of s \<le> ledger_timestamp e \<and> at + 3600 \<le> ledger_timestamp e"
proof -
  have "\<exists>h at a. blend_scheduled_of s = Some (h, at) \<and> code_hash t = h \<and> bl_admin s = Some a \<and>
      authorised e a \<and> c = BlendCallExecuteUpgrade a \<and>
      at + blend_upgrade_delay_of s \<le> ledger_timestamp e"
    using assms(2,3)
    by (cases c; fastforce dest: no_result_success blend_admin_success
        blend_initialize_success [THEN iffD1] elim: blend_elims)
  moreover have "3600 \<le> blend_upgrade_delay_of s"
    using blend_reachable_inv [OF assms(1)] by (simp add: blend_inv_def BLEND_MIN_UPGRADE_DELAY_def)
  moreover from this have "at + 3600 \<le> at + blend_upgrade_delay_of s" for at by simp
  ultimately show ?thesis using order_trans by blast
qed

definition adapter_scheduled :: "lending blend" where
  "adapter_scheduled = after_call
     (blend_exec ledger_token lending_pool adapter_env (BlendCallScheduleUpgrade the_admin 9)) adapter_state"

lemma adapter_execute:
  "result_of (blend_exec ledger_token lending_pool ((env_at 173800)\<lparr>current_contract := adapter\<rparr>)
     (BlendCallExecuteUpgrade the_admin)) adapter_scheduled = Inr ()"
  "code_hash (after_call (blend_exec ledger_token lending_pool
     ((env_at 173800)\<lparr>current_contract := adapter\<rparr>) (BlendCallExecuteUpgrade the_admin))
     adapter_scheduled) = 9"
  "code_hash adapter_scheduled = 0"
  by (simp_all add: adapter_scheduled_def adapter_state_def eval_defs start_defs
      BLEND_DEFAULT_UPGRADE_DELAY_def blend_admin_defs del: not_None_eq)

lemma adapter_upgrade_waits_witness: "\<exists>at. blend_scheduled_of adapter_scheduled = Some (9, at)"
proof -
  obtain t where t: "blend_exec ledger_token lending_pool ((env_at 173800)\<lparr>current_contract := adapter\<rparr>)
      (BlendCallExecuteUpgrade the_admin) adapter_scheduled = Inr ((), t)" and "code_hash t = 9"
    using succeeds_result [OF adapter_execute(1)] adapter_execute(2) by metis
  moreover have "blend_reachable adapter_scheduled"
    unfolding adapter_scheduled_def by (rule reachable_after_blend) (rule adapter_reachable)
  ultimately show ?thesis
    using adapter_upgrade_waits [OF _ t] adapter_execute(3) by fastforce
qed

end
