(* ===== verification/VaultSpec.thy ===== *)
theory VaultSpec
  imports FeeEconomics
begin

text \<open>
  What the vault promises, as an abstract book: who owns how many shares, how many there are, the
  assets that back them and the high-water mark, with one transition per kind of event. Every
  successful invocation of the contract is a transition of the book, under the label that
  \<open>event_of\<close> reads off the call; runs of the contract are therefore runs of the book, where the
  price of a share is a short computation.
\<close>

section \<open>The book\<close>

record book =
  book_shares :: "address \<Rightarrow> int"
  book_supply :: int
  book_assets :: int
  book_mark :: int

datatype book_event =
    Moved address address int
  | Bought address int int
  | Sold address int int
  | Charged int
  | Kept
  | Accrued
  | Revalued

definition book_ok :: "book \<Rightarrow> bool" where
  "book_ok b \<longleftrightarrow> (\<forall>a. 0 \<le> book_shares b a) \<and> 0 \<le> book_supply b \<and> 0 \<le> book_assets b"

text \<open>The price at which the book trades: pro rata with the virtual offset, rounded down.\<close>

definition shares_for :: "book \<Rightarrow> int \<Rightarrow> int" where
  "shares_for b n =
     n * (book_supply b + VIRTUAL_SHARES_OFFSET) div (book_assets b + VIRTUAL_SHARES_OFFSET)"

definition assets_for :: "book \<Rightarrow> int \<Rightarrow> int" where
  "assets_for b k =
     k * (book_assets b + VIRTUAL_SHARES_OFFSET) div (book_supply b + VIRTUAL_SHARES_OFFSET)"

definition credit :: "(address \<Rightarrow> int) \<Rightarrow> address \<Rightarrow> int \<Rightarrow> address \<Rightarrow> int" where
  "credit h a k = h(a := h a + k)"

inductive book_step :: "book \<Rightarrow> book_event \<Rightarrow> book \<Rightarrow> bool" where
  move: "0 < n \<Longrightarrow> n \<le> book_shares b x \<Longrightarrow>
    book_step b (Moved x y n) (b\<lparr>book_shares := credit (credit (book_shares b) x (- n)) y n\<rparr>)"
| buy: "0 < n \<Longrightarrow> 0 < k \<Longrightarrow> k = shares_for b n \<Longrightarrow>
    book_step b (Bought x n k) (b\<lparr>book_shares := credit (book_shares b) x k,
      book_supply := book_supply b + k, book_assets := book_assets b + n\<rparr>)"
| sell: "0 < k \<Longrightarrow> k \<le> book_shares b x \<Longrightarrow> k \<le> book_supply b \<Longrightarrow> 0 < n \<Longrightarrow> n = assets_for b k \<Longrightarrow>
    book_assets b - n \<le> v \<Longrightarrow> 0 \<le> v \<Longrightarrow>
    book_step b (Sold x k n) (b\<lparr>book_shares := credit (book_shares b) x (- k),
      book_supply := book_supply b - k, book_assets := v\<rparr>)"
| charge: "book_mark b < nav (book_assets b) (book_supply b) \<Longrightarrow> 0 < k \<Longrightarrow>
    10 * assets_for (b\<lparr>book_supply := book_supply b + k\<rparr>) k
      \<le> 3 * yield_above (book_assets b) (book_supply b) (book_mark b) \<Longrightarrow>
    book_step b (Charged k) (b\<lparr>book_shares := credit (book_shares b) x k,
      book_supply := book_supply b + k, book_mark := nav (book_assets b) (book_supply b + k)\<rparr>)"
| keep: "book_step b Kept b"
| accrue: "book_assets b \<le> v \<Longrightarrow> book_step b Accrued (b\<lparr>book_assets := v\<rparr>)"
| revalue: "0 \<le> v \<Longrightarrow> book_step b Revalued (b\<lparr>book_assets := v\<rparr>)"

inductive_cases book_step_elim: "book_step b ev c"

inductive_simps book_step_simps:
  "book_step b (Moved x y n) c" "book_step b (Bought x n k) c" "book_step b (Sold x k n) c"
  "book_step b (Charged k) c" "book_step b Kept c" "book_step b Accrued c" "book_step b Revalued c"

inductive book_run :: "book \<Rightarrow> book_event list \<Rightarrow> book \<Rightarrow> bool" where
  book_nil: "book_run b [] b"
| book_cons: "book_step b ev c \<Longrightarrow> book_run c evs d \<Longrightarrow> book_run b (ev # evs) d"

inductive_cases book_run_elims: "book_run b [] c" "book_run b (ev # evs) c"

lemma book_step_ok: "book_step b ev c \<Longrightarrow> book_ok b \<Longrightarrow> book_ok c"
  by (erule book_step_elim) (auto simp: book_ok_def credit_def)

subsection \<open>The price of a share\<close>

text \<open>\<open>c\<close> values a share at least as high as \<open>b\<close>: the two quotients, multiplied out.\<close>

definition no_cheaper :: "book \<Rightarrow> book \<Rightarrow> bool" where
  "no_cheaper b c \<longleftrightarrow>
     (book_assets b + VIRTUAL_SHARES_OFFSET) * (book_supply c + VIRTUAL_SHARES_OFFSET)
       \<le> (book_assets c + VIRTUAL_SHARES_OFFSET) * (book_supply b + VIRTUAL_SHARES_OFFSET)"

lemma no_cheaper_refl: "no_cheaper b b"
  by (simp add: no_cheaper_def)

lemma quotient_trans:
  assumes "a * y \<le> c * x" and "c * z \<le> d * y" and "0 < x" and "0 < y" and "0 < z"
  shows "a * z \<le> d * (x :: int)"
proof -
  have "(a * y) * z \<le> (c * x) * z" using assms(1,5) by (intro mult_right_mono) auto
  also have "\<dots> \<le> (d * y) * x" using mult_right_mono [OF assms(2), of x] assms(3) by (simp add: ac_simps)
  finally have "(a * z) * y \<le> (d * x) * y" by (simp add: ac_simps)
  with assms(4) show ?thesis by simp
qed

lemma no_cheaper_trans:
  assumes "no_cheaper b c" and "no_cheaper c d" and "book_ok b" and "book_ok c" and "book_ok d"
  shows "no_cheaper b d"
  using assms unfolding no_cheaper_def book_ok_def VIRTUAL_SHARES_OFFSET_def
  by (elim conjE) (rule quotient_trans [where y = "book_supply c + 1000000"], auto)

lemma more_assets_no_cheaper:
  assumes "book_assets b \<le> v" and "book_ok b"
  shows "no_cheaper b (b\<lparr>book_assets := v\<rparr>)"
  using assms unfolding no_cheaper_def book_ok_def
  by (auto intro!: mult_right_mono simp: VIRTUAL_SHARES_OFFSET_def)

text \<open>Nobody's shares are quoted lower by a book that is no cheaper.\<close>

lemma no_cheaper_quote:
  assumes "no_cheaper b c" and "book_ok b" and "book_ok c" and "0 \<le> k"
  shows "assets_for b k \<le> assets_for c k"
proof -
  let ?O = VIRTUAL_SHARES_OFFSET
  have pos: "0 < book_supply b + ?O" "0 < book_supply c + ?O" "0 \<le> book_assets b + ?O"
    using assms(2,3) by (auto simp: book_ok_def VIRTUAL_SHARES_OFFSET_def)
  let ?q = "assets_for b k"
  have "?q * (book_supply b + ?O) \<le> k * (book_assets b + ?O)"
    unfolding assets_for_def using pos(1) by (rule div_mult_le_self)
  moreover have "k * (book_assets b + ?O) * (book_supply c + ?O)
      \<le> k * (book_assets c + ?O) * (book_supply b + ?O)"
    using mult_left_mono [OF assms(1) [unfolded no_cheaper_def] assms(4)] by (simp add: ac_simps)
  ultimately have "?q * (book_supply c + ?O) \<le> k * (book_assets c + ?O)"
    using quotient_trans [of ?q "book_supply b + ?O" "k * (book_assets b + ?O)" 1
        "book_supply c + ?O" "k * (book_assets c + ?O)"] pos
    by (smt (verit) mult.assoc mult.commute mult_le_cancel_left_pos)
  then have "?q * (book_supply c + ?O) div (book_supply c + ?O) \<le> assets_for c k"
    unfolding assets_for_def using pos(2) by (rule zdiv_mono1)
  then show ?thesis using pos(2) by simp
qed

text \<open>The events that neither mint for free nor reassess what the vault owns.\<close>

fun trade :: "book_event \<Rightarrow> bool" where
  "trade (Charged _) = False"
| "trade Revalued = False"
| "trade _ = True"

lemma trade_no_cheaper:
  assumes "book_step b ev c" and "book_ok b" and "trade ev"
  shows "no_cheaper b c"
  using assms(1)
proof (cases rule: book_step.cases)
  case (move n x y)
  then show ?thesis by (simp add: no_cheaper_def)
next
  case (buy n k x)
  then show ?thesis
    using buy_keeps_price [of n "book_assets b" "book_supply b" k "book_assets b + n"] assms(2)
    by (simp add: no_cheaper_def book_ok_def shares_for_def priced_nonneg)
next
  case (sell k x n v)
  then show ?thesis
    using sell_keeps_price [of k "book_assets b" "book_supply b" n v] assms(2)
    by (simp add: no_cheaper_def book_ok_def assets_for_def priced_nonneg)
next
  case (accrue v)
  then show ?thesis using more_assets_no_cheaper assms(2) by simp
qed (use assms(3) in \<open>auto simp: no_cheaper_refl\<close>)

theorem trades_no_cheaper:
  "book_run b evs c \<Longrightarrow> book_ok b \<Longrightarrow> \<forall>ev\<in>set evs. trade ev \<Longrightarrow> book_ok c \<and> no_cheaper b c"
proof (induction rule: book_run.induct)
  case (book_nil b)
  then show ?case by (simp add: no_cheaper_refl)
next
  case (book_cons b ev c evs d)
  have "book_ok c" using book_step_ok [OF book_cons.hyps(1) book_cons.prems(1)] .
  moreover have "no_cheaper b c"
    using trade_no_cheaper [OF book_cons.hyps(1) book_cons.prems(1)] book_cons.prems(2) by simp
  ultimately show ?case
    using book_cons.IH book_cons.prems no_cheaper_trans by auto
qed

end
