(* ===== verification/VaultRefinement.thy ===== *)
theory VaultRefinement
  imports VaultSpec
begin

text \<open>
  The contract implements the book of \<^verbatim>\<open>VaultSpec\<close>: \<open>book_of\<close> is the abstraction function,
  \<open>event_of\<close> the label of a call, and every successful invocation of an initialized vault over
  strategies that honour their interface is a transition of the book. Runs of invocations and
  outside changes become runs of the book.
\<close>

section \<open>Abstraction\<close>

definition book_of :: "('x \<Rightarrow> address \<Rightarrow> int) \<Rightarrow> env \<Rightarrow> 'x vault \<Rightarrow> book" where
  "book_of bal e s = \<lparr>book_shares = (\<lambda>a. shares_of s a), book_supply = supply_of s,
     book_assets = backing bal e s, book_mark = hwm_of s\<rparr>"

fun event_of :: "vault_call \<Rightarrow> vault_value \<Rightarrow> book_event" where
  "event_of (CallTransfer from to n) _ = Moved from to n"
| "event_of (CallDeposit from n) (IntValue k) = Bought from n k"
| "event_of (CallRedeem from k) (IntValue n) = Sold from k n"
| "event_of CallCollectFees (IntValue k) = Charged k"
| "event_of (CallDeallocate _ _ _) _ = Accrued"
| "event_of (CallEmergencyWithdrawStrategy _ _) _ = Revalued"
| "event_of (CallAttestBridgedBalance _ _) _ = Revalued"
| "event_of (CallUpdateTrackedBalance _ _ _) _ = Revalued"
| "event_of (CallSetBridgedMaxAge _ _) _ = Revalued"
| "event_of _ _ = Kept"

text \<open>
  Calls that fit the vault's surroundings: the vault itself neither deposits nor redeems, and
  strategies that join it honour the interface.
\<close>

fun fitting :: "address \<Rightarrow> address set \<Rightarrow> vault_call \<Rightarrow> bool" where
  "fitting vault A (CallDeposit from _) \<longleftrightarrow> from \<noteq> vault"
| "fitting vault A (CallRedeem from _) \<longleftrightarrow> from \<noteq> vault"
| "fitting vault A (CallAddStrategy _ a) \<longleftrightarrow> a \<in> A"
| "fitting vault A _ \<longleftrightarrow> True"

lemma book_of_fields [simp]:
  "book_shares (book_of bal e s) = (\<lambda>a. shares_of s a)"
  "book_supply (book_of bal e s) = supply_of s"
  "book_assets (book_of bal e s) = backing bal e s"
  "book_mark (book_of bal e s) = hwm_of s"
  by (simp_all add: book_of_def)

lemma credit_update: "(\<lambda>a. lookup0 (m(x \<mapsto> lookup0 m x + k)) a) = credit (lookup0 m) x k"
  by (auto simp: credit_def)

lemma debit_update: "(\<lambda>a. lookup0 (m(x \<mapsto> lookup0 m x - k)) a) = credit (lookup0 m) x (- k)"
  by (auto simp: credit_def)

lemma moved_credit: "(\<lambda>a. lookup0 (moved m x y n) a) = credit (credit (lookup0 m) x (- n)) y n"
  by (auto simp: credit_def lookup0_moved)

lemma backing_cong:
  assumes "outside t = outside s" and "strategies_of t = strategies_of s"
    and "st_tracked_balance t = st_tracked_balance s" and "st_bridged_balance t = st_bridged_balance s"
    and "st_bridged_timestamp t = st_bridged_timestamp s"
    and "st_bridged_max_age t = st_bridged_max_age s"
  shows "backing bal e t = backing bal e s"
  using assms by (simp add: backing_def assets_with_idle_def tracked_total_def bridged_at_def
      bridged_expired_def)

lemma book_ok_of:
  assumes "reachable s" and "0 \<le> bal (outside s) (current_contract e)"
  shows "book_ok (book_of bal e s)"
  using reachable_shares_inv [OF assms(1)] reachable_supply_nonneg [OF assms(1)]
    backing_nonneg [OF assms(1), of bal e] assms(2)
  by (simp add: book_ok_def shares_inv_def)

section \<open>Simulation, one invocation\<close>

context strategy_net
begin

definition served :: "env \<Rightarrow> 'x vault \<Rightarrow> bool" where
  "served e s \<longleftrightarrow> reachable s \<and> current_contract e = vault \<and> st_asset s = Some asset \<and>
     st_initialized s \<noteq> None \<and> wf (outside s) \<and> set (strategies_of s) \<subseteq> adapters"

lemma served_facts:
  assumes "served e s"
  shows "strategies_inv s" and "shares_inv s" and "config_inv s" and "0 \<le> backing bal e s"
    and "0 \<le> supply_of s" and "book_ok (book_of bal e s)"
proof -
  have r: "reachable s" and b: "0 \<le> bal (outside s) (current_contract e)"
    using assms balance_nonneg by (auto simp: served_def)
  show "strategies_inv s" "shares_inv s" "config_inv s" "0 \<le> supply_of s"
    using r by (auto intro: reachable_strategies_inv reachable_shares_inv reachable_config_inv
        reachable_supply_nonneg)
  show "0 \<le> backing bal e s" "book_ok (book_of bal e s)"
    using backing_nonneg [OF r, of bal e] book_ok_of [OF r, of bal e] b by auto
qed

lemma redeem_simulates:
  assumes "redeem T C e from k s = Inr (n, t)" and "served e s" and "from \<noteq> vault"
  shows "book_step (book_of bal e s) (Sold from k n) (book_of bal e t) \<and> wf (outside t)"
proof -
  note facts = served_facts [OF assms(2)]
  have eff: "n = priced k (backing bal e s) (supply_of s) \<and> 0 < n \<and> 0 < k \<and>
      k \<le> shares_of s from \<and> supply_of t = supply_of s - k \<and>
      backing bal e s - n \<le> backing bal e t \<and> wf (outside t)"
    using redeem_effect [OF assms(1)] assms(2,3) facts(1) by (auto simp: served_def)
  have t: "reachable t"
    using reachable_exec [of s T C e "CallRedeem from k" "IntValue n" t] assms(1,2)
    by (simp add: served_def int_result_def bind_def return_def)
  then have "0 \<le> backing bal e t"
    using backing_nonneg [OF t, of bal e] balance_nonneg eff by auto
  moreover have "(\<lambda>a. shares_of t a) = credit (lookup0 (st_share_balance s)) from (- k)"
    "hwm_of t = hwm_of s"
    using assms(1) by (auto elim!: redeem_success simp: debit_update)
  moreover have "shares_of s from \<le> supply_of s"
    using facts(2) map_total_ge [of "st_share_balance s" "from"] by (simp add: shares_inv_def)
  ultimately show ?thesis
    using eff facts(4,5)
    by (auto simp: book_step_simps book_of_def assets_for_def priced_nonneg)
qed

lemma deposit_simulates:
  assumes "deposit T e from n s = Inr (k, t)" and "served e s" and "from \<noteq> vault"
  shows "book_step (book_of bal e s) (Bought from n k) (book_of bal e t) \<and> wf (outside t)"
proof -
  note facts = served_facts [OF assms(2)]
  have eff: "k = priced n (supply_of s) (backing bal e s) \<and> 0 < k \<and> 0 < n \<and>
      supply_of t = supply_of s + k \<and> backing bal e t = backing bal e s + n \<and> wf (outside t)"
    using deposit_effect [OF assms(1)] assms(2,3) by (auto simp: served_def)
  have "(\<lambda>a. shares_of t a) = credit (lookup0 (st_share_balance s)) from k" "hwm_of t = hwm_of s"
    using assms(1) by (auto elim!: deposit_success simp: credit_update)
  with eff facts(4,5) show ?thesis
    by (auto simp: book_step_simps book_of_def shares_for_def priced_nonneg)
qed

lemma collect_simulates:
  assumes "collect_fees T e s = Inr (k, t)" and "served e s"
  shows "book_step (book_of bal e s) (Charged k) (book_of bal e t) \<and> wf (outside t)"
proof -
  note facts = served_facts [OF assms(2)]
  let ?A = "backing bal e s" and ?S = "supply_of s" and ?h = "hwm_of s"
  let ?bps = "unwrap_or (st_performance_fee_bps s) 0"
  let ?fa = "fee_assets_of ?A ?S ?h ?bps"
  have r: "reachable s" using assms(2) by (simp add: served_def)
  have eff: "0 < k \<and> k = fee_shares_of ?A ?S ?h ?bps \<and> ?h < nav ?A ?S \<and> 0 < ?S \<and>
      supply_of t = ?S + k \<and> backing bal e t = ?A \<and> hwm_of t = nav ?A (?S + k) \<and> wf (outside t)"
    using collect_effect [OF assms(1) _ _ r] assms(2) by (auto simp: served_def)
  obtain x where x: "(\<lambda>a. shares_of t a) = credit (lookup0 (st_share_balance s)) x k"
    using assms(1) by (auto elim!: collect_fees_success simp: credit_update)
  have bps: "?bps \<le> MAX_PERFORMANCE_FEE_BPS" using facts(3) by (simp add: config_inv_def)
  have "0 < yield_above ?A ?S ?h"
    using yield_bounds(1) [OF facts(4) _ reachable_hwm [OF r]] eff by simp
  then have fa: "0 \<le> ?fa" "10 * ?fa \<le> 3 * yield_above ?A ?S ?h"
    using fee_assets_bounds [OF _ refl bps] by auto
  then have "10 * priced k ?A (?S + k) \<le> 3 * yield_above ?A ?S ?h"
    using fee_worth [OF facts(4,5) fa(1)] eff by (fastforce simp: fee_shares_of_def)
  then show ?thesis
    using eff facts(4,5) x
    by (auto simp: book_step_simps book_of_def assets_for_def priced_nonneg intro!: exI [of _ x])
qed

lemma allocate_simulates:
  assumes "allocate T C e keeper a n s = Inr (u, t)" and "served e s"
  shows "book_step (book_of bal e s) Kept (book_of bal e t) \<and> wf (outside t)"
proof -
  have "backing bal e t = backing bal e s \<and> wf (outside t)"
    using allocate_effect [OF assms(1)] served_facts(1) [OF assms(2)] assms(2)
    by (auto simp: served_def)
  moreover have "st_share_balance t = st_share_balance s \<and> supply_of t = supply_of s \<and>
      hwm_of t = hwm_of s"
    using assms(1) by (auto elim!: allocate_success)
  ultimately show ?thesis by (simp add: book_step_simps book_of_def)
qed

lemma deallocate_simulates:
  assumes "deallocate C e keeper a n s = Inr (w, t)" and "served e s"
  shows "book_step (book_of bal e s) Accrued (book_of bal e t) \<and> wf (outside t)"
proof -
  have "backing bal e s \<le> backing bal e t \<and> wf (outside t)"
    using deallocate_effect [OF assms(1)] served_facts(1) [OF assms(2)] assms(2)
    by (auto simp: served_def)
  moreover have "st_share_balance t = st_share_balance s \<and> supply_of t = supply_of s \<and>
      hwm_of t = hwm_of s"
    using deallocate_success [OF assms(1)] by auto
  ultimately show ?thesis by (auto simp: book_step_simps book_of_def)
qed

text \<open>Everything else leaves the shares alone; only attestations and expiry touch the backing.\<close>

lemma kept_simulates:
  assumes "st_share_balance t = st_share_balance s" and "supply_of t = supply_of s"
    and "hwm_of t = hwm_of s" and "backing bal e t = backing bal e s"
  shows "book_step (book_of bal e s) Kept (book_of bal e t)"
  using assms by (simp add: book_step_simps book_of_def)

lemma revalued_simulates:
  assumes "st_share_balance t = st_share_balance s" and "supply_of t = supply_of s"
    and "hwm_of t = hwm_of s" and "reachable t" and "wf (outside t)"
  shows "book_step (book_of bal e s) Revalued (book_of bal e t)"
proof -
  have "0 \<le> backing bal e t" using backing_nonneg [OF assms(4)] balance_nonneg assms(5) by blast
  then show ?thesis using assms(1-3) by (auto simp: book_step_simps book_of_def)
qed

end

lemma tracked_total_added:
  assumes "a \<notin> set (strategies_of s)" and "strategies_of t = strategies_of s @ [a]"
    and "st_tracked_balance t = (st_tracked_balance s)(a \<mapsto> 0)"
  shows "tracked_total t = tracked_total s"
proof -
  have "(\<Sum>b\<leftarrow>strategies_of s. tracked_of t b) = (\<Sum>b\<leftarrow>strategies_of s. tracked_of s b)"
    using assms(1) by (intro arg_cong [where f = sum_list] map_cong) (auto simp: assms(3))
  then show ?thesis by (simp add: tracked_total_def assms(2,3))
qed

lemma tracked_total_removed:
  assumes "tracked_of s a = 0" and "strategies_of t = filter (\<lambda>b. b \<noteq> a) (strategies_of s)"
    and "st_tracked_balance t = (st_tracked_balance s)(a := None)"
  shows "tracked_total t = tracked_total s"
proof -
  have "(\<Sum>b\<leftarrow>filter (\<lambda>b. b \<noteq> a) ss. lookup0 ((st_tracked_balance s)(a := None)) b)
      = (\<Sum>b\<leftarrow>ss. tracked_of s b)" for ss
    using assms(1) by (induction ss) auto
  then show ?thesis by (simp add: tracked_total_def assms(2,3))
qed


lemma exec_keeps_charter:
  assumes "exec T C e c s = Inr (v, t)" and "st_initialized s \<noteq> None"
  shows "st_asset t = st_asset s \<and> st_initialized t = st_initialized s"
  using assms(1)
proof (cases rule: exec_governance_cases)
  case same
  then show ?thesis by (simp add: governance_def)
qed (use assms(2) in \<open>auto simp: charter_def\<close>)

lemma exec_registers:
  assumes "exec T C e c s = Inr (v, t)" and "set (strategies_of s) \<subseteq> A" and "fitting vault A c"
  shows "set (strategies_of t) \<subseteq> A"
  using assms
  by (cases c; fastforce dest!: unit_result_success int_result_success dest: entry_success
      elim: entry_elims)

context strategy_net
begin

lemma transfer_simulates:
  assumes "transfer e a b n s = Inr (u, t)" and "served e s"
  shows "book_step (book_of bal e s) (Moved a b n) (book_of bal e t) \<and> wf (outside t)"
  using transfer_success [OF assms(1)] assms(2)
  by (auto simp: book_step_simps book_of_def moved_credit backing_def assets_with_idle_def
      served_def tracked_total_def bridged_at_def bridged_expired_def)

lemma add_strategy_simulates:
  assumes "add_strategy e caller a s = Inr (u, t)" and "served e s"
  shows "book_step (book_of bal e s) Kept (book_of bal e t) \<and> wf (outside t)"
  using add_strategy_success [OF assms(1)] assms(2) tracked_total_added [of a s t]
  by (auto simp: served_def backing_def assets_with_idle_def bridged_at_def bridged_expired_def
      intro!: kept_simulates)

lemma remove_strategy_simulates:
  assumes "remove_strategy e caller a s = Inr (u, t)" and "served e s"
  shows "book_step (book_of bal e s) Kept (book_of bal e t) \<and> wf (outside t)"
proof -
  note ok = remove_strategy_success [OF assms(1)]
  have "tracked_of s a = 0"
    using ok served_facts(1) [OF assms(2)] by (auto simp: strategies_inv_def intro: antisym)
  with ok assms(2) tracked_total_removed [of s a t] show ?thesis
    by (auto simp: served_def backing_def assets_with_idle_def bridged_at_def bridged_expired_def
        intro!: kept_simulates)
qed

lemma emergency_simulates:
  assumes "emergency_withdraw_strategy C e caller a s = Inr (w, t)" and "served e s"
    and "reachable t"
  shows "book_step (book_of bal e s) Revalued (book_of bal e t) \<and> wf (outside t)"
proof -
  have "wf (outside t)"
    using emergency_effect [OF assms(1)] served_facts(1) [OF assms(2)] assms(2)
    by (auto simp: served_def)
  then show ?thesis
    using emergency_withdraw_success [OF assms(1)] revalued_simulates [of t s e] assms(3) by auto
qed

lemma attest_simulates:
  assumes "attest_bridged_balance e keeper b s = Inr (u, t)" and "served e s" and "reachable t"
  shows "book_step (book_of bal e s) Revalued (book_of bal e t) \<and> wf (outside t)"
  using attest_bridged_success [OF assms(1)] assms(2,3) revalued_simulates [of t s e]
  by (auto simp: served_def)

lemma update_tracked_simulates:
  assumes "update_tracked_balance e keeper a b s = Inr (u, t)" and "served e s" and "reachable t"
  shows "book_step (book_of bal e s) Revalued (book_of bal e t) \<and> wf (outside t)"
  using update_tracked_success [OF assms(1)] assms(2,3) revalued_simulates [of t s e]
  by (auto simp: served_def)

lemma max_age_simulates:
  assumes "change_bridged_max_age e caller n s = Inr (u, t)" and "served e s" and "reachable t"
  shows "book_step (book_of bal e s) Revalued (book_of bal e t) \<and> wf (outside t)"
  using change_bridged_max_age_success [OF assms(1)] assms(2,3) revalued_simulates [of t s e]
  by (auto simp: served_def)

lemma configuration_simulates:
  assumes "exec T C e c s = Inr (v, t)" and "served e s"
    and "c \<in> {CallPause a, CallUnpause a, CallSetDepositCap a cap, CallSetKeeper a b,
        CallSetGuardian a b, CallProposeAdmin a b, CallAcceptAdmin a, CallSetUpgradeDelay a n,
        CallScheduleUpgrade a h, CallExecuteUpgrade a, CallCancelUpgrade a}"
  shows "book_step (book_of bal e s) (event_of c v) (book_of bal e t) \<and> wf (outside t)"
  using assms
  by (auto dest!: unit_result_success pause_success unpause_success change_deposit_cap_success
      change_keeper_success change_guardian_success propose_admin_success accept_admin_success
      change_upgrade_delay_success schedule_upgrade_success execute_upgrade_success
      cancel_upgrade_success simp: served_def intro!: kept_simulates backing_cong)

lemmas simulations =
  transfer_simulates deposit_simulates redeem_simulates collect_simulates allocate_simulates
  deallocate_simulates add_strategy_simulates remove_strategy_simulates emergency_simulates
  attest_simulates update_tracked_simulates max_age_simulates

theorem exec_simulates:
  assumes "exec T C e c s = Inr (v, t)" and "served e s" and "fitting vault adapters c"
  shows "book_step (book_of bal e s) (event_of c v) (book_of bal e t) \<and> wf (outside t)"
proof -
  have t: "reachable t" using reachable_exec [OF _ assms(1)] assms(2) by (simp add: served_def)
  have "st_initialized s \<noteq> None" using assms(2) by (simp add: served_def)
  with assms t configuration_simulates [OF assms(1,2)] show ?thesis
    by (cases c) (auto dest!: unit_result_success int_result_success initialize_success
        dest: simulations)
qed

lemma served_exec:
  assumes "exec T C e c s = Inr (v, t)" and "served e s" and "fitting vault adapters c"
  shows "served e t"
proof -
  have "wf (outside t)" using exec_simulates [OF assms] by simp
  with exec_keeps_charter [OF assms(1)] exec_registers [OF assms(1) _ assms(3)]
    reachable_exec [OF _ assms(1)] assms(2)
  show ?thesis by (auto simp: served_def)
qed

end

section \<open>Runs\<close>

text \<open>
  A run interleaves invocations with changes of the outside world that the relation \<open>drift\<close>
  admits. Over trades, and with one effective bridged balance throughout, it is a run of one book.
\<close>

datatype happening = Invoked env vault_call vault_value | Elsewhere

fun happened :: "happening \<Rightarrow> book_event" where
  "happened (Invoked e c v) = event_of c v"
| "happened Elsewhere = Accrued"

inductive vault_run :: "'x token_client \<Rightarrow> 'x strategy_client \<Rightarrow> ('x \<Rightarrow> 'x \<Rightarrow> bool) \<Rightarrow>
    'x vault \<Rightarrow> happening list \<Rightarrow> 'x vault \<Rightarrow> bool" for T C drift where
  run_nil: "vault_run T C drift s [] s"
| run_invoke: "exec T C e c s = Inr (v, u) \<Longrightarrow> vault_run T C drift u hs t \<Longrightarrow>
    vault_run T C drift s (Invoked e c v # hs) t"
| run_elsewhere: "drift (outside s) x \<Longrightarrow> vault_run T C drift (s\<lparr>outside := x\<rparr>) hs t \<Longrightarrow>
    vault_run T C drift s (Elsewhere # hs) t"

fun trading :: "address \<Rightarrow> address set \<Rightarrow> env \<Rightarrow> 'x vault \<Rightarrow> happening \<Rightarrow> bool" where
  "trading vault A e0 s (Invoked e c v) \<longleftrightarrow> current_contract e = vault \<and> fitting vault A c \<and>
     trade (event_of c v) \<and> bridged_at e s = bridged_at e0 s"
| "trading vault A e0 s Elsewhere \<longleftrightarrow> True"

lemma exec_trade_bridged:
  assumes "exec T C e c s = Inr (v, t)" and "st_initialized s \<noteq> None" and "trade (event_of c v)"
  shows "bridged_at e' t = bridged_at e' s"
proof -
  have "st_bridged_balance t = st_bridged_balance s \<and>
      st_bridged_timestamp t = st_bridged_timestamp s \<and> st_bridged_max_age t = st_bridged_max_age s"
    using assms
    by (cases c) (auto dest!: unit_result_success int_result_success dest: entry_success
        elim!: deposit_success redeem_success allocate_success collect_fees_success)
  then show ?thesis by (simp add: bridged_at_def bridged_expired_def)
qed

lemma book_of_env:
  "current_contract e = current_contract e0 \<Longrightarrow> bridged_at e s = bridged_at e0 s \<Longrightarrow>
     book_of bal e s = book_of bal e0 s"
  by (simp add: book_of_def backing_def assets_with_idle_def)

lemma trading_cong:
  "(\<And>e. bridged_at e t = bridged_at e s) \<Longrightarrow> trading vault A e0 t h = trading vault A e0 s h"
  by (cases h) auto

context strategy_net
begin

lemma run_simulates:
  "vault_run T C drift s hs t \<Longrightarrow> served e0 s \<Longrightarrow> \<forall>h\<in>set hs. trading vault adapters e0 s h \<Longrightarrow>
     \<forall>x y. wf x \<longrightarrow> drift x y \<longrightarrow> wf y \<and> bal x vault \<le> bal y vault \<Longrightarrow>
     book_run (book_of bal e0 s) (map happened hs) (book_of bal e0 t) \<and> served e0 t"
proof (induction rule: vault_run.induct)
  case (run_nil s)
  then show ?case by (simp add: book_nil)
next
  case (run_invoke e c s v u hs t)
  let ?h = "Invoked e c v"
  have h: "current_contract e = vault" "fitting vault adapters c" "trade (event_of c v)"
      "bridged_at e s = bridged_at e0 s"
    using run_invoke.prems(2) by auto
  have e: "served e s" using run_invoke.prems(1) h(1) by (simp add: served_def)
  have "st_initialized s \<noteq> None" using e by (simp add: served_def)
  note same = exec_trade_bridged [OF run_invoke.hyps(1) this h(3)]
  have env: "current_contract e = current_contract e0"
    using run_invoke.prems(1) h(1) by (simp add: served_def)
  have "book_step (book_of bal e0 s) (event_of c v) (book_of bal e0 u)"
    using exec_simulates [OF run_invoke.hyps(1) e h(2)] book_of_env [OF env, of s bal]
      book_of_env [OF env, of u bal] h(4) same by simp
  moreover have "served e0 u"
    using served_exec [OF run_invoke.hyps(1) e h(2)] run_invoke.prems(1) by (simp add: served_def)
  moreover have "\<forall>h\<in>set hs. trading vault adapters e0 u h"
    using run_invoke.prems(2) trading_cong [of u s] same by simp
  ultimately show ?case using run_invoke.IH run_invoke.prems(3) by (simp add: book_cons)
next
  case (run_elsewhere s x hs t)
  let ?u = "s\<lparr>outside := x\<rparr>"
  have x: "wf x \<and> bal (outside s) vault \<le> bal x vault"
    using run_elsewhere.prems(1,3) run_elsewhere.hyps(1) by (auto simp: served_def)
  have "reachable ?u"
    by (rule step [OF _ world]) (use run_elsewhere.prems(1) in \<open>simp add: served_def\<close>)
  with x run_elsewhere.prems(1) have "served e0 ?u" by (simp add: served_def)
  moreover have "book_step (book_of bal e0 s) Accrued (book_of bal e0 ?u)"
    using x run_elsewhere.prems(1)
    by (auto simp: book_step_simps book_of_def backing_def assets_with_idle_def served_def
        tracked_total_def bridged_at_def bridged_expired_def)
  moreover have "\<forall>h\<in>set hs. trading vault adapters e0 ?u h"
    using run_elsewhere.prems(2) trading_cong [of ?u s]
    by (simp add: bridged_at_def bridged_expired_def)
  ultimately show ?case using run_elsewhere.IH run_elsewhere.prems(3) by (simp add: book_cons)
qed

end

lemma trading_events: "\<forall>h\<in>set hs. trading vault A e0 s h \<Longrightarrow> \<forall>ev\<in>set (map happened hs). trade ev"
proof
  fix ev
  assume all: "\<forall>h\<in>set hs. trading vault A e0 s h" and "ev \<in> set (map happened hs)"
  then obtain h where "h \<in> set hs" "ev = happened h" by auto
  with all show "trade ev" by (cases h) auto
qed

end
