(* ===== verification/CallBounds.thy ===== *)
theory CallBounds
  imports VaultEconomics "HOL-Library.Sublist"
begin

text \<open>
  How many calls into other contracts a redemption makes. Clients that keep a log of the calls are
  wrapped around the given ones; the vault over the logging clients behaves as the vault over the
  plain ones, because it uses the outside world through its clients only, and the log of a
  redemption has at most one quote and one withdrawal per registered strategy, in the order of
  registration.
\<close>

section \<open>Seeing the outside through a projection\<close>

text \<open>The vault's state with the outside world projected by \<open>h\<close>.\<close>

definition seen :: "('x \<Rightarrow> 'y) \<Rightarrow> 'x vault \<Rightarrow> 'y vault" where
  "seen h s = \<lparr>ttl_log = ttl_log s, event_log = event_log s, code_hash = code_hash s,
     outside = h (outside s), \<dots> = runtime.more s\<rparr>"

text \<open>Operation \<open>m'\<close> does on the projected state what \<open>m\<close> does on the state itself.\<close>

definition tracks :: "('x \<Rightarrow> 'y) \<Rightarrow> ('x vault, 'e, 'a) operation \<Rightarrow> ('y vault, 'e, 'a) operation \<Rightarrow> bool" where
  "tracks h m m' \<longleftrightarrow> (\<forall>s. m' (seen h s) = (case m s of
     Inl f \<Rightarrow> Inl f | Inr (a, t) \<Rightarrow> Inr (a, seen h t)))"

lemma seen_fields [simp]:
  "ttl_log (seen h s) = ttl_log s" "event_log (seen h s) = event_log s"
  "outside (seen h s) = h (outside s)" "st_asset (seen h s) = st_asset s"
  "st_initialized (seen h s) = st_initialized s" "st_strategies (seen h s) = st_strategies s"
  "st_tracked_balance (seen h s) = st_tracked_balance s"
  "st_share_balance (seen h s) = st_share_balance s"
  "st_total_supply (seen h s) = st_total_supply s"
  "st_bridged_balance (seen h s) = st_bridged_balance s"
  "st_bridged_timestamp (seen h s) = st_bridged_timestamp s"
  "st_bridged_max_age (seen h s) = st_bridged_max_age s"
  by (cases s; simp add: seen_def)+

lemma seen_updates:
  "seen h (s\<lparr>ttl_log := l\<rparr>) = (seen h s)\<lparr>ttl_log := l\<rparr>"
  "seen h (s\<lparr>event_log := ev\<rparr>) = (seen h s)\<lparr>event_log := ev\<rparr>"
  "seen h (s\<lparr>outside := x\<rparr>) = (seen h s)\<lparr>outside := h x\<rparr>"
  "seen h (s\<lparr>st_tracked_balance := m\<rparr>) = (seen h s)\<lparr>st_tracked_balance := m\<rparr>"
  "seen h (s\<lparr>st_share_balance := m\<rparr>) = (seen h s)\<lparr>st_share_balance := m\<rparr>"
  "seen h (s\<lparr>st_total_supply := n\<rparr>) = (seen h s)\<lparr>st_total_supply := n\<rparr>"
  by (cases s; simp add: seen_def)+

named_theorems tracking \<open>operations that only use the outside through the clients\<close>

lemma tracks_bind [tracking]:
  "tracks h m m' \<Longrightarrow> (\<And>a. tracks h (f a) (f' a)) \<Longrightarrow> tracks h (bind m f) (bind m' f')"
  by (simp add: tracks_def bind_def split: sum.splits prod.splits)

lemma tracks_if [tracking]:
  "tracks h m m' \<Longrightarrow> tracks h n n' \<Longrightarrow> tracks h (if c then m else n) (if c then m' else n')"
  by simp

lemma tracks_effects [tracking]:
  "tracks h (return a) (return a)" "tracks h (raise e) (raise e)" "tracks h trap trap"
  "tracks h (raise_if c e) (raise_if c e)" "tracks h (unwrap v) (unwrap v)"
  by (simp_all add: tracks_def effect_defs split: option.splits)

lemma tracks_arith [tracking]:
  "tracks h (i128_checked a) (i128_checked a)" "tracks h (add_i128 a b) (add_i128 a b)"
  "tracks h (sub_i128 a b) (sub_i128 a b)" "tracks h (mul_i128 a b) (mul_i128 a b)"
  "tracks h (div_i128 a b) (div_i128 a b)"
  by (simp_all add: tracks_def arith_defs effect_defs)

lemma tracks_gets [tracking]: "(\<And>s. g' (seen h s) = g s) \<Longrightarrow> tracks h (gets g) (gets g')"
  by (simp add: tracks_def gets_def)

lemma tracks_modify: "(\<And>s. g' (seen h s) = seen h (g s)) \<Longrightarrow> tracks h (modify g) (modify g')"
  by (simp add: tracks_def modify_def)

lemma tracks_external [tracking]:
  "(\<And>x. f' (h x) = map_option (\<lambda>(r, y). (r, h y)) (f x)) \<Longrightarrow>
     tracks h (external_call f) (external_call f')"
  by (simp add: tracks_def external_call_def seen_updates split: option.splits prod.splits)

lemma tracks_bumps [tracking]:
  "tracks h bump_instance bump_instance" "tracks h (bump_persistent k) (bump_persistent k)"
  "tracks h (publish ev) (publish ev)"
  by (auto simp: bump_instance_def bump_persistent_def publish_def seen_updates
      intro!: tracks_modify)

lemma tracks_storage [tracking]:
  "tracks h (require_auth e a) (require_auth e a)" "tracks h get_asset get_asset"
  "tracks h require_initialized require_initialized" "tracks h get_strategies get_strategies"
  "tracks h (get_share_balance a) (get_share_balance a)"
  "tracks h get_total_supply get_total_supply"
  "tracks h (get_tracked_balance a) (get_tracked_balance a)"
  "tracks h (effective_bridged_balance e) (effective_bridged_balance e)"
  unfolding require_auth_def get_asset_def require_initialized_def is_initialized_def
    get_strategies_def get_share_balance_def get_total_supply_def get_tracked_balance_def
    effective_bridged_balance_def get_bridged_balance_def get_bridged_timestamp_def
    get_bridged_max_age_def when_do_def Let_def
  by (intro tracking; simp)+

lemma tracks_writes [tracking]:
  "tracks h (set_share_balance a v) (set_share_balance a v)"
  "tracks h (set_total_supply v) (set_total_supply v)"
  "tracks h (set_tracked_balance a v) (set_tracked_balance a v)"
  unfolding set_share_balance_def set_total_supply_def set_tracked_balance_def
  by (intro tracking tracks_modify; simp add: seen_updates)+

section \<open>Redemptions under a projection\<close>

definition token_seen :: "('x \<Rightarrow> 'y) \<Rightarrow> 'x token_client \<Rightarrow> 'y token_client \<Rightarrow> bool" where
  "token_seen h T T' \<longleftrightarrow> (\<forall>asset a b n x.
     token_balance T' asset a (h x) = map_option (\<lambda>(r, y). (r, h y)) (token_balance T asset a x) \<and>
     token_transfer T' asset a b n (h x)
       = map_option (\<lambda>(r, y). (r, h y)) (token_transfer T asset a b n x))"

definition strategies_seen :: "('x \<Rightarrow> 'y) \<Rightarrow> 'x strategy_client \<Rightarrow> 'y strategy_client \<Rightarrow> bool" where
  "strategies_seen h C C' \<longleftrightarrow> (\<forall>a v n x.
     strategy_available_liquidity C' a (h x)
       = map_option (\<lambda>(r, y). (r, h y)) (strategy_available_liquidity C a x) \<and>
     strategy_withdraw C' a v n (h x) = map_option (\<lambda>(r, y). (r, h y)) (strategy_withdraw C a v n x))"

lemma tracks_sum [tracking]: "tracks h (sum_tracked ss acc) (sum_tracked ss acc)"
  by (induction ss arbitrary: acc) (auto intro!: tracking)

lemma tracks_untrack [tracking]: "tracks h (untrack a w) (untrack a w)"
  unfolding untrack_def by (intro tracking)

lemma tracks_waterfall [tracking]:
  assumes "strategies_seen h C C'"
  shows "tracks h (waterfall C v ss r) (waterfall C' v ss r)"
  using assms
  by (induction ss arbitrary: r)
    (auto simp: strategies_seen_def Let_def simp del: if_split intro!: tracking)

lemma tracks_cover [tracking]:
  assumes "token_seen h T T'" and "strategies_seen h C C'"
  shows "tracks h (cover_shortfall T C asset v idle n) (cover_shortfall T' C' asset v idle n)"
  unfolding cover_shortfall_def
  using assms(1) by (intro tracking assms(2)) (auto simp: token_seen_def)

lemma tracks_convert [tracking]:
  assumes "token_seen h T T'"
  shows "tracks h (convert_to_assets T e n) (convert_to_assets T' e n)"
  unfolding convert_to_assets_def total_assets_def mul_div_offset_def
  using assms by (intro tracking) (auto simp: token_seen_def)

theorem tracks_redeem:
  assumes "token_seen h T T'" and "strategies_seen h C C'"
  shows "tracks h (redeem T C e from n) (redeem T' C' e from n)"
  unfolding redeem_def Let_def emit_redeem_def
  using assms(1) by (intro tracking assms) (auto simp: token_seen_def)

section \<open>Logging clients\<close>

datatype outside_call =
    BalanceRead
  | TokensMoved
  | LiquidityQuoted address
  | Withdrawn address int

definition logging :: "outside_call \<Rightarrow> ('x \<Rightarrow> ('r \<times> 'x) option) \<Rightarrow>
    'x \<times> outside_call list \<Rightarrow> ('r \<times> 'x \<times> outside_call list) option" where
  "logging c f w = map_option (\<lambda>(r, y). (r, y, snd w @ [c])) (f (fst w))"

text \<open>The calls a redemption can make are logged; it makes no others.\<close>

definition log_token :: "'x token_client \<Rightarrow> ('x \<times> outside_call list) token_client" where
  "log_token T =
     \<lparr>token_balance = (\<lambda>asset a. logging BalanceRead (token_balance T asset a)),
      token_transfer = (\<lambda>asset a b n. logging TokensMoved (token_transfer T asset a b n)),
      token_approve = (\<lambda>_ _ _ _ _ _. None)\<rparr>"

definition log_strategies :: "'x strategy_client \<Rightarrow> ('x \<times> outside_call list) strategy_client" where
  "log_strategies C =
     \<lparr>strategy_deposit = (\<lambda>_ _ _ _. None),
      strategy_withdraw = (\<lambda>a v n. logging (Withdrawn a n) (strategy_withdraw C a v n)),
      strategy_emergency_withdraw = (\<lambda>_ _ _. None),
      strategy_balance_of = (\<lambda>_ _. None),
      strategy_available_liquidity =
        (\<lambda>a. logging (LiquidityQuoted a) (strategy_available_liquidity C a)),
      strategy_is_healthy = (\<lambda>_ _. None),
      strategy_asset = (\<lambda>_ _. None)\<rparr>"

abbreviation calls :: "('x \<times> outside_call list) vault \<Rightarrow> outside_call list" where
  "calls s \<equiv> snd (outside s)"

definition with_log :: "'x vault \<Rightarrow> ('x \<times> outside_call list) vault" where
  "with_log s = seen (\<lambda>x. (x, [])) s"

lemma with_log_fields [simp]:
  "seen fst (with_log s) = s" "calls (with_log s) = []" "fst (outside (with_log s)) = outside s"
  "strategies_of (with_log s) = strategies_of s"
  by (cases s; simp add: with_log_def seen_def)+

lemma logging_seen: "map_option (\<lambda>(r, y). (r, fst y)) (logging c f w) = f (fst w)"
  by (cases "f (fst w)") (auto simp: logging_def)

lemma logging_seen_unit: "map_option (\<lambda>(r, y). ((), fst y)) (logging c f w) = f (fst w)"
  by (cases "f (fst w)") (auto simp: logging_def)

lemma log_seen: "token_seen fst (log_token T) T" "strategies_seen fst (log_strategies C) C"
  by (simp_all add: token_seen_def strategies_seen_def log_token_def log_strategies_def
      logging_seen logging_seen_unit)

lemma redeem_logged:
  assumes "redeem T C e from n s = Inr (v, t)"
  obtains u where "redeem (log_token T) (log_strategies C) e from n (with_log s) = Inr (v, u)"
    and "seen fst u = t"
proof -
  have "redeem T C e from n (seen fst (with_log s)) = (case redeem (log_token T) (log_strategies C)
      e from n (with_log s) of Inl f \<Rightarrow> Inl f | Inr (a, u) \<Rightarrow> Inr (a, seen fst u))"
    using tracks_redeem [OF log_seen] unfolding tracks_def by blast
  with assms that show thesis by (auto split: sum.splits)
qed

subsection \<open>The log of a waterfall\<close>

fun quotes :: "outside_call list \<Rightarrow> address list" where
  "quotes [] = []"
| "quotes (LiquidityQuoted a # cs) = a # quotes cs"
| "quotes (_ # cs) = quotes cs"

fun withdrawals :: "outside_call list \<Rightarrow> address list" where
  "withdrawals [] = []"
| "withdrawals (Withdrawn a _ # cs) = a # withdrawals cs"
| "withdrawals (_ # cs) = withdrawals cs"

lemma quotes_append [simp]: "quotes (xs @ ys) = quotes xs @ quotes ys"
  by (induction xs rule: quotes.induct) auto

lemma withdrawals_append [simp]: "withdrawals (xs @ ys) = withdrawals xs @ withdrawals ys"
  by (induction xs rule: withdrawals.induct) auto

definition frugal :: "address list \<Rightarrow> outside_call list \<Rightarrow> bool" where
  "frugal ss cs \<longleftrightarrow> subseq (quotes cs) ss \<and> subseq (withdrawals cs) ss \<and> length cs \<le> 2 * length ss"

lemma frugal_simps:
  "frugal ss []"
  "frugal ss cs \<Longrightarrow> frugal (a # ss) (LiquidityQuoted a # cs)"
  "frugal ss cs \<Longrightarrow> frugal (a # ss) (LiquidityQuoted a # Withdrawn a n # cs)"
  by (auto simp: frugal_def)

lemma waterfall_frugal:
  "waterfall (log_strategies C) v ss r s = Inr (u, t) \<Longrightarrow>
     \<exists>cs. calls t = calls s @ cs \<and> frugal ss cs"
proof (induction ss arbitrary: r s)
  case Nil
  then show ?case by (auto simp: op_success frugal_simps)
next
  case (Cons a ss)
  from Cons.prems show ?case
  proof (cases rule: waterfall_cons_cases)
    case finished
    then show ?thesis by (auto simp: frugal_simps)
  next
    case (skipped n x)
    then have x: "snd x = calls s @ [LiquidityQuoted a]"
      by (auto simp: log_strategies_def logging_def)
    from Cons.IH [OF skipped(4)] obtain cs where "calls t = snd x @ cs" "frugal ss cs" by auto
    with x show ?thesis
      by (intro exI [of _ "LiquidityQuoted a # cs"]) (simp add: frugal_simps)
  next
    case (pulled n x w y q)
    then have y: "snd y = calls s @ [LiquidityQuoted a, Withdrawn a (min r n)]"
      by (auto simp: log_strategies_def logging_def)
    have "calls q = snd y" using untrack_success [OF pulled(5)] by auto
    moreover from Cons.IH [OF pulled(6)] obtain cs where "calls t = calls q @ cs" "frugal ss cs"
      by auto
    ultimately show ?thesis using y
      by (intro exI [of _ "LiquidityQuoted a # Withdrawn a (min r n) # cs"]) (simp add: frugal_simps)
  qed
qed


text \<open>Three balance reads at most, one transfer, and what the waterfall does.\<close>

lemma redeem_frugal:
  assumes "redeem (log_token T) (log_strategies C) e from n s = Inr (v, t)"
  shows "\<exists>cs. calls t = calls s @ cs \<and> subseq (quotes cs) (strategies_of s) \<and>
    subseq (withdrawals cs) (strategies_of s) \<and> length cs \<le> 4 + 2 * length (strategies_of s)"
  using assms
proof (rule redeem_steps)
  fix asset s1 idle x s2 u y rs
  assume conv: "convert_to_assets (log_token T) e n (log_ttl rs s) = Inr (v, s1)"
    and idle: "token_balance (log_token T) asset (current_contract e) (outside s1) = Some (idle, x)"
    and cover: "cover_shortfall (log_token T) (log_strategies C) asset (current_contract e) idle v
      (s1\<lparr>outside := x\<rparr>) = Inr (u, s2)"
    and pay: "token_transfer (log_token T) asset (current_contract e) from v (outside s2) = Some ((), y)"
    and t: "\<exists>rs. t = log_ttl rs (s2\<lparr>
          st_share_balance := (st_share_balance s2)(from \<mapsto> shares_of s from - n),
          st_total_supply := Some (supply_of s2 - n), outside := y,
          event_log := event_log s2 @ [Redeem from n v]\<rparr>)"
  have s1: "calls s1 = calls s @ [BalanceRead]" "strategies_of s1 = strategies_of s"
    using conv by (auto elim!: convert_to_assets_success simp: log_token_def logging_def)
  have x: "snd x = calls s @ [BalanceRead, BalanceRead]"
    using idle s1 by (auto simp: log_token_def logging_def)
  have y: "calls t = calls s2 @ [TokensMoved]"
    using pay t by (auto simp: log_token_def logging_def)
  from cover show ?thesis
  proof (cases rule: cover_shortfall_success)
    case idle
    with x y show ?thesis
      by (intro exI [of _ "[BalanceRead, BalanceRead, TokensMoved]"]) simp
  next
    case (pulled w s' after z)
    from waterfall_frugal [OF pulled(2)] x s1(2) obtain cs where
      cs: "calls s' = calls s @ [BalanceRead, BalanceRead] @ cs" "frugal (strategies_of s) cs"
      by auto
    have "snd z = calls s' @ [BalanceRead]"
      using pulled(3) by (auto simp: log_token_def logging_def)
    with pulled(5) y cs show ?thesis
      by (intro exI [of _ "[BalanceRead, BalanceRead] @ cs @ [BalanceRead, TokensMoved]"])
        (simp add: frugal_def)
  qed
qed

end
