(* ===== verification/VaultTypes.thy ===== *)
theory VaultTypes
  imports FeeEconomics
begin

text \<open>
  The widths of the stored values. The model keeps \<^verbatim>\<open>i128\<close>, \<^verbatim>\<open>u32\<close> and
  \<^verbatim>\<open>u64\<close> as integers and naturals; here every value in the vault's storage is shown to be a
  value of its Rust type, as long as the arguments of the calls and the ledger's clock are.
\<close>

section \<open>Typed values\<close>

definition vault_typed :: "'x vault \<Rightarrow> bool" where
  "vault_typed s \<longleftrightarrow>
     fits_i128 (supply_of s) \<and> fits_i128 (hwm_of s) \<and> fits_i128 (bridged_of s) \<and>
     fits_i128 (unwrap_or (st_deposit_cap s) 0) \<and> (\<forall>a. fits_i128 (tracked_of s a)) \<and>
     unwrap_or (st_performance_fee_bps s) 0 \<le> u32_max \<and>
     unwrap_or (st_idle_buffer_bps s) 0 \<le> u32_max \<and>
     unwrap_or (st_bridged_timestamp s) 0 \<le> u64_max \<and>
     unwrap_or (st_bridged_max_age s) DEFAULT_BRIDGED_MAX_AGE \<le> u64_max \<and>
     upgrade_delay_of s \<le> u64_max \<and> unwrap_or (st_scheduled_upgrade_at s) 0 \<le> u64_max"

fun call_typed :: "vault_call \<Rightarrow> bool" where
  "call_typed (CallInitialize _ _ _ _ _ fee_bps idle_bps _ _) \<longleftrightarrow> fee_bps \<le> u32_max \<and> idle_bps \<le> u32_max"
| "call_typed (CallTransfer _ _ n) \<longleftrightarrow> fits_i128 n"
| "call_typed (CallDeposit _ n) \<longleftrightarrow> fits_i128 n"
| "call_typed (CallRedeem _ n) \<longleftrightarrow> fits_i128 n"
| "call_typed (CallAllocate _ _ n) \<longleftrightarrow> fits_i128 n"
| "call_typed (CallDeallocate _ _ n) \<longleftrightarrow> fits_i128 n"
| "call_typed (CallAttestBridgedBalance _ n) \<longleftrightarrow> fits_i128 n"
| "call_typed (CallUpdateTrackedBalance _ _ n) \<longleftrightarrow> fits_i128 n"
| "call_typed (CallSetDepositCap _ n) \<longleftrightarrow> fits_i128 n"
| "call_typed (CallSetBridgedMaxAge _ n) \<longleftrightarrow> n \<le> u64_max"
| "call_typed (CallSetUpgradeDelay _ n) \<longleftrightarrow> n \<le> u64_max"
| "call_typed _ \<longleftrightarrow> True"

text \<open>The vault as it runs on the ledger: typed calls, and a clock that is a \<^verbatim>\<open>u64\<close>.\<close>

inductive reachable_typed :: "'x vault \<Rightarrow> bool" where
  typed_start: "reachable_typed (deployed h x)"
| typed_invoke: "reachable_typed s \<Longrightarrow> ledger_timestamp e \<le> u64_max \<Longrightarrow> call_typed c \<Longrightarrow>
    exec T C e c s = Inr (v, t) \<Longrightarrow> reachable_typed t"
| typed_world: "reachable_typed s \<Longrightarrow> reachable_typed (s\<lparr>outside := x\<rparr>)"

lemma reachable_typed_reachable: "reachable_typed s \<Longrightarrow> reachable s"
  by (induction rule: reachable_typed.induct)
    (auto intro: reachable_exec start step [OF _ world])

section \<open>What each operation stores fits\<close>

lemma fits_zero: "fits_i128 0"
  by (simp add: width_defs)

lemma vault_typed_cong:
  assumes "supply_of t = supply_of s" and "hwm_of t = hwm_of s" and "bridged_of t = bridged_of s"
    and "st_deposit_cap t = st_deposit_cap s" and "st_tracked_balance t = st_tracked_balance s"
    and "st_performance_fee_bps t = st_performance_fee_bps s"
    and "st_idle_buffer_bps t = st_idle_buffer_bps s"
    and "st_bridged_timestamp t = st_bridged_timestamp s"
    and "st_bridged_max_age t = st_bridged_max_age s" and "st_upgrade_delay t = st_upgrade_delay s"
    and "st_scheduled_upgrade_at t = st_scheduled_upgrade_at s"
  shows "vault_typed t = vault_typed s"
  using assms by (simp add: vault_typed_def)

lemma deposit_fits:
  assumes "deposit T e from n s = Inr (k, t)"
  shows "fits_i128 (supply_of t)"
proof -
  from assms obtain A u where "total_assets T e s = Inr (A, u)" and "fits_i128 (supply_of u + k)"
    unfolding deposit_def by (auto simp: op_success cap_check_success)
  then have "fits_i128 (supply_of s + k)" by (auto elim!: total_assets_success)
  with assms show ?thesis by (auto elim!: deposit_success)
qed

lemma collect_fits:
  assumes "collect_fees T e s = Inr (k, t)"
  shows "fits_i128 (supply_of t)" and "fits_i128 (hwm_of t)"
proof -
  from assms obtain A where "fits_i128 (supply_of s + k)"
    and "st_high_water_mark t = Some (A * NAV_PRECISION sdiv (supply_of s + k))"
    and "fits_i128 (A * NAV_PRECISION sdiv (supply_of s + k))"
    unfolding collect_fees_def by (auto simp: op_success)
  with assms show "fits_i128 (supply_of t)" "fits_i128 (hwm_of t)"
    by (auto elim!: collect_fees_success)
qed

lemma untrack_fits:
  assumes "untrack a w s = Inr (u, t)" and "\<forall>b. fits_i128 (tracked_of s b)"
  shows "\<forall>b. fits_i128 (tracked_of t b)"
  using assms by (auto simp: untrack_def op_success fits_zero split: if_splits)

lemma waterfall_fits:
  "waterfall C v ss r s = Inr (u, t) \<Longrightarrow> \<forall>b. fits_i128 (tracked_of s b) \<Longrightarrow>
     \<forall>b. fits_i128 (tracked_of t b)"
proof (induction ss arbitrary: r s)
  case Nil
  then show ?case by (simp add: op_success)
next
  case (Cons a ss)
  from Cons.prems(1) show ?case
  proof (cases rule: waterfall_cons_cases)
    case (pulled n x w y q)
    have "\<forall>b. fits_i128 (tracked_of q b)"
      by (rule untrack_fits [OF pulled(5)]) (use Cons.prems(2) in simp)
    then show ?thesis by (rule Cons.IH [OF pulled(6)])
  qed (use Cons in auto)
qed

lemma redeem_fits:
  assumes "redeem T C e from n s = Inr (k, t)" and "\<forall>b. fits_i128 (tracked_of s b)"
  shows "\<forall>b. fits_i128 (tracked_of t b)" and "fits_i128 (supply_of t)"
  using assms(1)
proof (rule redeem_steps)
  fix asset s1 idle x s2 u y rs
  assume conv: "convert_to_assets T e n (log_ttl rs s) = Inr (k, s1)"
    and cover: "cover_shortfall T C asset (current_contract e) idle k (s1\<lparr>outside := x\<rparr>) = Inr (u, s2)"
    and t: "\<exists>rs. t = log_ttl rs (s2\<lparr>
          st_share_balance := (st_share_balance s2)(from \<mapsto> shares_of s from - n),
          st_total_supply := Some (supply_of s2 - n), outside := y,
          event_log := event_log s2 @ [Redeem from n k]\<rparr>)"
  have s1: "\<forall>b. fits_i128 (tracked_of s1 b)"
    using conv assms(2) by (auto elim!: convert_to_assets_success)
  have "\<forall>b. fits_i128 (tracked_of s2 b)"
    using cover by (cases rule: cover_shortfall_success) (use s1 in \<open>auto dest: waterfall_fits\<close>)
  then show "\<forall>b. fits_i128 (tracked_of t b)" using t by auto
next
  from assms(1) obtain d where "fits_i128 d" and "supply_of t = d"
    unfolding redeem_def by (auto simp: op_success Let_def)
  then show "fits_i128 (supply_of t)" by simp
qed

lemma allocate_fits:
  assumes "allocate T C e keeper a n s = Inr (u, t)" and "\<forall>b. fits_i128 (tracked_of s b)"
  shows "\<forall>b. fits_i128 (tracked_of t b)"
proof -
  from assms(1) obtain d where d: "fits_i128 d" "tracked_of t a = d"
    unfolding allocate_def by (auto simp: op_success Let_def)
  have "\<forall>b. b \<noteq> a \<longrightarrow> tracked_of t b = tracked_of s b"
    using assms(1) by (auto elim!: allocate_success)
  with d assms(2) show ?thesis by metis
qed

lemma deallocate_fits:
  assumes "deallocate C e keeper a n s = Inr (w, t)" and "\<forall>b. fits_i128 (tracked_of s b)"
  shows "\<forall>b. fits_i128 (tracked_of t b)"
proof -
  from assms(1) obtain x u q where "untrack a w (s\<lparr>outside := x\<rparr>) = Inr (u, q)"
    and "st_tracked_balance t = st_tracked_balance q"
    unfolding deallocate_def by (fastforce simp: op_success Let_def)
  with untrack_fits [of a w "s\<lparr>outside := x\<rparr>" u q] assms(2) show ?thesis by simp
qed


section \<open>Every stored value fits\<close>

text \<open>Calls that store no amount, and those that store an argument.\<close>

lemma exec_typed_simple:
  assumes "exec T C e c s = Inr (v, t)" and "vault_typed s" and "call_typed c"
    and "ledger_timestamp e \<le> u64_max"
    and "\<nexists>a n. c = CallDeposit a n" and "\<nexists>a n. c = CallRedeem a n" and "c \<noteq> CallCollectFees"
    and "\<nexists>k a n. c = CallAllocate k a n" and "\<nexists>k a n. c = CallDeallocate k a n"
  shows "vault_typed t"
proof (cases c)
  case CallInitialize
  with assms show ?thesis
    by (auto dest!: unit_result_success initialize_success
        simp: vault_typed_def width_defs NAV_PRECISION_def DEFAULT_BRIDGED_MAX_AGE_def
        DEFAULT_UPGRADE_DELAY_def)
next
  case CallTransfer
  with assms show ?thesis by (auto dest!: unit_result_success transfer_success simp: vault_typed_def)
next
  case CallEmergencyWithdrawStrategy
  with assms show ?thesis
    by (auto dest!: int_result_success emergency_withdraw_success simp: vault_typed_def fits_zero)
qed (use assms in \<open>fastforce dest!: unit_result_success dest: entry_success
      simp: vault_typed_def fits_zero\<close>)+

theorem exec_typed:
  assumes "exec T C e c s = Inr (v, t)" and "vault_typed s" and "call_typed c"
    and "ledger_timestamp e \<le> u64_max"
  shows "vault_typed t"
proof -
  have trk: "\<forall>b. fits_i128 (tracked_of s b)" using assms(2) by (simp add: vault_typed_def)
  show ?thesis
  proof (cases c)
    case (CallDeposit a n)
    with assms(1) obtain k where k: "deposit T e a n s = Inr (k, t)" by (auto dest!: int_result_success)
    with deposit_fits [OF k] assms(2) show ?thesis by (auto elim!: deposit_success simp: vault_typed_def)
  next
    case (CallRedeem a n)
    with assms(1) obtain k where k: "redeem T C e a n s = Inr (k, t)" by (auto dest!: int_result_success)
    with redeem_fits [OF k trk] assms(2) show ?thesis by (auto elim!: redeem_success simp: vault_typed_def)
  next
    case CallCollectFees
    with assms(1) obtain k where k: "collect_fees T e s = Inr (k, t)" by (auto dest!: int_result_success)
    with collect_fits [OF k] assms(2) show ?thesis
      by (auto elim!: collect_fees_success simp: vault_typed_def)
  next
    case (CallAllocate keeper a n)
    with assms(1) obtain u where k: "allocate T C e keeper a n s = Inr (u, t)"
      by (auto dest!: unit_result_success)
    with allocate_fits [OF k trk] assms(2) show ?thesis
      by (auto elim!: allocate_success simp: vault_typed_def)
  next
    case (CallDeallocate keeper a n)
    with assms(1) obtain w where k: "deallocate C e keeper a n s = Inr (w, t)"
      by (auto dest!: int_result_success)
    with deallocate_fits [OF k trk] deallocate_success [OF k] assms(2) show ?thesis
      by (auto simp: vault_typed_def)
  qed (use exec_typed_simple [OF assms] in simp_all)
qed

lemma deployed_typed: "vault_typed (deployed h x)"
  by (simp add: vault_typed_def deployed_def width_defs NAV_PRECISION_def
      DEFAULT_BRIDGED_MAX_AGE_def DEFAULT_UPGRADE_DELAY_def)

theorem reachable_vault_typed: "reachable_typed s \<Longrightarrow> vault_typed s"
proof (induction rule: reachable_typed.induct)
  case (typed_invoke s e c T C v t)
  then show ?case by (blast intro: exec_typed)
qed (simp_all add: deployed_typed, simp add: vault_typed_def)

text \<open>Share balances fit because they are bounded by the supply.\<close>

lemma reachable_shares_fit:
  assumes "reachable_typed s"
  shows "0 \<le> shares_of s a" and "shares_of s a \<le> supply_of s" and "fits_i128 (shares_of s a)"
proof -
  have inv: "shares_inv s"
    using reachable_shares_inv [OF reachable_typed_reachable [OF assms]] .
  then show lo: "0 \<le> shares_of s a" and hi: "shares_of s a \<le> supply_of s"
    using map_total_ge [of "st_share_balance s" a] by (simp_all add: shares_inv_def)
  have "supply_of s \<le> i128_max"
    using reachable_vault_typed [OF assms] by (simp add: vault_typed_def fits_i128_def)
  with lo hi show "fits_i128 (shares_of s a)" by (simp add: width_defs)
qed

end
