(* ===== verification/RefinementProperties.thy ===== *)
theory RefinementProperties
  imports Scenarios VaultRefinement CallBounds VaultTypes
begin

text \<open>
  The vault against its abstract book: every successful invocation is a transition of the book,
  and over any run of trades the price of a share does not fall.
\<close>

section \<open>The contract implements the book\<close>

text \<open>
  C3. Refinement: over a token and strategies that satisfy their interfaces, every successful
  invocation of an initialized, reachable vault is a transition of the abstract book under the
  label of the call: a deposit buys at the book's price, a redemption sells at it, a fee
  collection charges at most three tenths of the yield above the mark, allocations and
  configuration keep every share and asset, deallocations only add, and only attestations,
  reassessed strategies and emergency withdrawals revalue.
\<close>

lemma vault_refines_book:
  assumes "strategy_net T asset bal ok C (current_contract e) A" and "reachable s"
    and "st_asset s = Some asset" and "st_initialized s \<noteq> None" and "ok (outside s)"
    and "set (strategies_of s) \<subseteq> A" and "fitting (current_contract e) A c"
    and "exec T C e c s = Inr (v, t)"
  shows "book_step (book_of bal e s) (event_of c v) (book_of bal e t) \<and>
    book_ok (book_of bal e s) \<and> book_ok (book_of bal e t)"
proof -
  note net = assms(1)
  have s: "strategy_net.served asset ok (current_contract e) A e s"
    using assms(2-6) by (simp add: strategy_net.served_def [OF net])
  have "book_step (book_of bal e s) (event_of c v) (book_of bal e t)"
    using strategy_net.exec_simulates [OF net assms(8) s assms(7)] by simp
  moreover have "book_ok (book_of bal e s)" using strategy_net.served_facts(6) [OF net s] .
  ultimately show ?thesis using book_step_ok by blast
qed

lemma mocks_net:
  "strategy_net MT the_asset (\<lambda>w. holdings (chain w))
     (\<lambda>w. ledger_ok (chain w) \<and> mocks_serve the_asset (- {the_vault}) w) (MC now)
     the_vault (- {the_vault})"
  using mock_net.strategy_net_axioms [of the_asset "env_at now"] by simp

lemma vault_refines_book_witness:
  "\<exists>t. exec MT (MC 1000) (env_at 1000) (CallRedeem alice 650000000) funded
        = Inr (IntValue 650000000, t) \<and>
    book_step (book_of (\<lambda>w. holdings (chain w)) (env_at 1000) funded)
      (Sold alice 650000000 650000000) (book_of (\<lambda>w. holdings (chain w)) (env_at 1000) t)"
proof -
  obtain t where "redeem MT (MC 1000) (env_at 1000) alice 650000000 funded = Inr (650000000, t)"
    using succeeds_result [OF funded_redeem] by blast
  then have t: "exec MT (MC 1000) (env_at 1000) (CallRedeem alice 650000000) funded
      = Inr (IntValue 650000000, t)"
    by (simp add: int_result_def bind_def return_def)
  have net: "strategy_net MT the_asset (\<lambda>w. holdings (chain w))
      (\<lambda>w. ledger_ok (chain w) \<and> mocks_serve the_asset (- {the_vault}) w) (MC 1000)
      (current_contract (env_at 1000)) (- {the_vault})"
    using mocks_net by simp
  show ?thesis using vault_refines_book [OF net funded_reachable _ _ _ _ _ t] t by auto
qed

section \<open>The price over a run\<close>

text \<open>
  C2. Over any run of deposits, redemptions, share transfers, allocations, deallocations,
  strategy registrations and removals, pauses, cap, role and upgrade calls, by anybody and in any
  order, interleaved with outside changes that take no tokens from the vault: the price
  \<open>(backing + O) / (supply + O)\<close> does not fall, so that every number of shares is quoted at least
  as many assets at the end as at the start. The run holds no fee collection, no attestation, no
  correction of a tracked balance by the keeper, no emergency withdrawal and no change of the
  attestation's maximal age; the bridged balance counts for the same amount in every call (an
  attestation does not expire during the run); the vault itself neither deposits nor redeems, and
  the strategies, those registered on the way included, honour their interface.
\<close>

lemma share_price_never_falls:
  assumes "strategy_net T asset bal ok C (current_contract e) A" and "reachable s"
    and "st_asset s = Some asset" and "st_initialized s \<noteq> None" and "ok (outside s)"
    and "set (strategies_of s) \<subseteq> A" and "vault_run T C drift s hs t"
    and "\<forall>h\<in>set hs. trading (current_contract e) A e s h"
    and "\<forall>x y. ok x \<longrightarrow> drift x y \<longrightarrow> ok y \<and> bal x (current_contract e) \<le> bal y (current_contract e)"
    and "0 \<le> k"
  shows "(backing bal e s + VIRTUAL_SHARES_OFFSET) * (supply_of t + VIRTUAL_SHARES_OFFSET)
      \<le> (backing bal e t + VIRTUAL_SHARES_OFFSET) * (supply_of s + VIRTUAL_SHARES_OFFSET) \<and>
    priced k (backing bal e s) (supply_of s) \<le> priced k (backing bal e t) (supply_of t)"
proof -
  let ?b = "book_of bal e s" and ?c = "book_of bal e t"
  note net = assms(1)
  have s: "strategy_net.served asset ok (current_contract e) A e s"
    using assms(2-6) by (simp add: strategy_net.served_def [OF net])
  have run: "book_run ?b (map happened hs) ?c"
    using strategy_net.run_simulates [OF net assms(7) s assms(8,9)] by blast
  have b: "book_ok ?b" using strategy_net.served_facts(6) [OF net s] .
  have c: "book_ok ?c" "no_cheaper ?b ?c"
    using trades_no_cheaper [OF run b trading_events [OF assms(8)]] by auto
  show ?thesis
    using c(2) no_cheaper_quote [OF c(2) b c(1) assms(10)] b c(1) assms(10)
    by (simp add: no_cheaper_def assets_for_def priced_nonneg book_ok_def)
qed

text \<open>A run of a deposit, a gift to the vault and a redemption that pulls from a strategy.\<close>

definition gift :: "int \<Rightarrow> ledger mock_world \<Rightarrow> ledger mock_world" where
  "gift n w = w\<lparr>chain := (chain w)\<lparr>holdings := (holdings (chain w))
     (the_vault := holdings (chain w) the_vault + n)\<rparr>\<rparr>"

definition after_bob :: "ledger mock_world vault" where
  "after_bob = after_call (deposit MT (env_at 1000) bob 500000000) funded"

lemma bob_gift_redeem:
  "result_of (redeem MT (MC 1000) (env_at 1000) alice 900000000)
     (after_bob\<lparr>outside := gift 1000000 (outside after_bob)\<rparr>) = Inr 900599600"
  by (simp add: after_bob_def gift_def eval_defs del: not_None_eq)

lemma share_price_never_falls_witness:
  "\<exists>hs t. vault_run MT (MC 1000) (\<lambda>x y. y = gift 1000000 x) funded hs t \<and> length hs = 3 \<and>
    1000000000 \<le> priced 1000000000 (backing (\<lambda>w. holdings (chain w)) (env_at 1000) t) (supply_of t)"
proof -
  let ?drift = "\<lambda>x y. y = gift 1000000 x" and ?E = "env_at 1000"
  let ?u = "after_bob\<lparr>outside := gift 1000000 (outside after_bob)\<rparr>"
  let ?hs = "[Invoked ?E (CallDeposit bob 500000000) (IntValue 500000000), Elsewhere,
    Invoked ?E (CallRedeem alice 900000000) (IntValue 900599600)]"
  have dep: "exec MT (MC 1000) ?E (CallDeposit bob 500000000) funded
      = Inr (IntValue 500000000, after_bob)"
    using funded_deposit
    by (auto elim!: succeeds_result simp: after_bob_def int_result_def bind_def return_def)
  obtain t where "redeem MT (MC 1000) ?E alice 900000000 ?u = Inr (900599600, t)"
    using succeeds_result [OF bob_gift_redeem] by blast
  then have "exec MT (MC 1000) ?E (CallRedeem alice 900000000) ?u = Inr (IntValue 900599600, t)"
    by (simp add: int_result_def bind_def return_def)
  then have run: "vault_run MT (MC 1000) ?drift funded ?hs t"
    by (intro run_invoke [OF dep] run_elsewhere) (auto intro: run_invoke run_nil)
  have net: "strategy_net MT the_asset (\<lambda>w. holdings (chain w))
      (\<lambda>w. ledger_ok (chain w) \<and> mocks_serve the_asset (- {the_vault}) w) (MC 1000)
      (current_contract ?E) (- {the_vault})"
    using mocks_net by simp
  have "\<forall>h\<in>set ?hs. trading (current_contract ?E) (- {the_vault}) ?E funded h" by simp
  moreover have "\<forall>x y. (ledger_ok (chain x) \<and> mocks_serve the_asset (- {the_vault}) x) \<longrightarrow>
      ?drift x y \<longrightarrow> (ledger_ok (chain y) \<and> mocks_serve the_asset (- {the_vault}) y) \<and>
      holdings (chain x) (current_contract ?E) \<le> holdings (chain y) (current_contract ?E)"
    by (auto simp: gift_def ledger_ok_def mocks_serve_def)
  ultimately have "priced 1000000000 1000000000 1000000000 \<le>
      priced 1000000000 (backing (\<lambda>w. holdings (chain w)) ?E t) (supply_of t)"
    using share_price_never_falls [OF net funded_reachable _ _ _ _ run, of 1000000000] by simp
  moreover have "priced 1000000000 1000000000 1000000000 = 1000000000"
    by (simp add: priced_def VIRTUAL_SHARES_OFFSET_def signed_divide_int_def)
  ultimately show ?thesis using run
    by (intro exI [of _ ?hs] exI [of _ t]) simp
qed

section \<open>The waterfall ends\<close>

text \<open>
  C20. A redemption ends after a bounded number of calls into other contracts, whatever the token
  and the strategies do: the same redemption over clients that log every call has the same result
  and state, and its log holds at most one quote and at most one withdrawal per registered
  strategy, each in the order of registration, and at most 44 calls in all.
\<close>

lemma redeem_makes_few_calls:
  assumes "reachable s" and "redeem T C e from n s = Inr (assets, t)"
  shows "\<exists>u. redeem (log_token T) (log_strategies C) e from n (with_log s) = Inr (assets, u) \<and>
    seen fst u = t \<and> subseq (quotes (calls u)) (strategies_of s) \<and>
    subseq (withdrawals (calls u)) (strategies_of s) \<and> length (calls u) \<le> 44"
proof -
  obtain u where u: "redeem (log_token T) (log_strategies C) e from n (with_log s) = Inr (assets, u)"
    "seen fst u = t" using redeem_logged [OF assms(2)] by blast
  from redeem_frugal [OF u(1)] have "subseq (quotes (calls u)) (strategies_of s) \<and>
      subseq (withdrawals (calls u)) (strategies_of s) \<and>
      length (calls u) \<le> 4 + 2 * length (strategies_of s)" by auto
  moreover have "length (strategies_of s) \<le> 20"
    using reachable_strategies_inv [OF assms(1)] by (simp add: strategies_inv_def MAX_STRATEGIES_def)
  ultimately show ?thesis using u by auto
qed

lemma redeem_makes_few_calls_witness:
  "\<exists>t u. redeem MT (MC 1000) (env_at 1000) alice 650000000 funded = Inr (650000000, t) \<and>
    seen fst u = t \<and> length (calls u) \<le> 44"
proof -
  obtain t where t: "redeem MT (MC 1000) (env_at 1000) alice 650000000 funded = Inr (650000000, t)"
    using succeeds_result [OF funded_redeem] by blast
  show ?thesis using redeem_makes_few_calls [OF funded_reachable t] t by blast
qed

section \<open>The stored values are values of their types\<close>

text \<open>
  C19. In every state that typed calls reach, at whatever time within \<^verbatim>\<open>u64\<close>, each stored
  amount is an \<^verbatim>\<open>i128\<close>, each rate a \<^verbatim>\<open>u32\<close> and each time a \<^verbatim>\<open>u64\<close>;
  share balances lie between zero and the supply.
\<close>

lemma stored_values_fit:
  assumes "reachable_typed s"
  shows "vault_typed s \<and> 0 \<le> shares_of s a \<and> shares_of s a \<le> supply_of s \<and>
    fits_i128 (shares_of s a)"
  using reachable_vault_typed [OF assms] reachable_shares_fit [OF assms] by simp

lemma typed_after_calls:
  "reachable_typed s \<Longrightarrow> ledger_timestamp e \<le> u64_max \<Longrightarrow> \<forall>c\<in>set cs. call_typed c \<Longrightarrow>
     reachable_typed (after_calls (map (exec T C e) cs) s)"
proof (induction cs arbitrary: s)
  case (Cons c cs)
  have "reachable_typed (after_call (exec T C e c) s)"
    using Cons.prems
    by (auto simp: after_call_def split: sum.splits prod.splits intro: typed_invoke)
  then show ?case using Cons.IH Cons.prems by simp
qed simp

lemma funded_typed: "reachable_typed funded"
  unfolding funded_def mock_run_def
  by (rule typed_after_calls [OF typed_start]) (auto simp: setup_calls_def width_defs)

lemma stored_values_fit_witness: "fits_i128 (shares_of funded alice)"
  using stored_values_fit [OF funded_typed, of alice] by blast

end
