(* ===== verification/BlendLiveness.thy ===== *)
theory BlendLiveness
  imports Scenarios
begin

text \<open>
  When a vault with one Blend adapter can pay. The locale \<open>paying_pool\<close> states what is needed of
  the token and the pool: the reserve can be read, its products do not overflow, and a withdrawal
  is paid when it is at most what the adapter's position is worth, rounded down, and leaves the
  rounding margin of the pool's free liquidity. What the position is worth afterwards is left
  open, because the pool rounds the b-tokens it burns up. The adapter then delivers its quote
  while it tracks at most the worth of its position plus the margin, that is, when rounding on
  earlier deposits and withdrawals has cost no more than the margin. The concrete lending pool,
  which rounds as Blend does at any rate, is an instance.
\<close>

section \<open>A pool that pays\<close>

definition reserve_fits :: "reserve_data \<Rightarrow> bool" where
  "reserve_fits d \<longleftrightarrow> fits_i128 (b_supply d * b_rate d) \<and> fits_i128 (d_supply d * d_rate d) \<and>
     fits_i128 (b_supply d * b_rate d sdiv BLEND_RATE_SCALAR) \<and>
     fits_i128 (d_supply d * d_rate d sdiv BLEND_RATE_SCALAR) \<and>
     i128_min + 2 \<le> pool_free d \<and> pool_free d \<le> i128_max"

abbreviation withdraw_request :: "address \<Rightarrow> int \<Rightarrow> pool_request" where
  "withdraw_request asset n \<equiv> collateral_request REQUEST_WITHDRAW_COLLATERAL asset n"

locale paying_pool = sep41 T asset bal tok_ok
  for T :: "'tok token_client" and asset bal tok_ok +
  fixes P :: "'tok pool_client" and pool :: address and vault :: address and me :: address
    and ok :: "'tok \<Rightarrow> bool" and owes :: "'tok \<Rightarrow> int" and free :: "'tok \<Rightarrow> int"
  assumes ok_token: "ok x \<Longrightarrow> tok_ok x"
    and token_reads: "ok x \<Longrightarrow> \<exists>v y. token_balance T asset a x = Some (v, y) \<and> ok y \<and>
        owes y = owes x \<and> free y = free x"
    and token_pays_out: "ok x \<Longrightarrow> 0 < n \<Longrightarrow> n \<le> bal x a \<Longrightarrow> a \<in> {vault, me} \<Longrightarrow>
        \<exists>y. token_transfer T asset a b n x = Some ((), y)"
    and token_leaves_pool: "ok x \<Longrightarrow> token_transfer T asset me vault n x = Some ((), y) \<Longrightarrow> ok y"
    and reserve_reads: "ok x \<Longrightarrow> \<exists>r y. pool_try_get_reserve P pool asset x = Some (r, y) \<and> ok y \<and>
        owes y = owes x \<and> free y = free x \<and> bal y vault = bal x vault \<and>
        reserve_fits (reserve_data_of r) \<and> pool_free (reserve_data_of r) = free x"
    and pool_pays: "ok x \<Longrightarrow> 0 < n \<Longrightarrow> n \<le> owes x \<Longrightarrow>
        n + AVAILABLE_LIQUIDITY_ROUNDING_MARGIN \<le> free x \<Longrightarrow>
        \<exists>y. pool_submit P pool me me me [withdraw_request asset n] x = Some ((), y) \<and> ok y \<and>
            bal y me = bal x me + n"

text \<open>What the adapter quotes, and what it needs to be able to pay it.\<close>

definition blend_quote :: "('tok \<Rightarrow> int) \<Rightarrow> address \<Rightarrow> 'tok blend_world \<Rightarrow> address \<Rightarrow> int" where
  "blend_quote free me w a =
     (if a = me \<and> blend_tracked (instances w me) \<noteq> 0
      then max 0 (min (blend_tracked (instances w me)) (free (chain w)) - 2) else 0)"

definition blend_live :: "('tok \<Rightarrow> bool) \<Rightarrow> address \<Rightarrow> address \<Rightarrow> address \<Rightarrow> address \<Rightarrow>
    'tok blend_world \<Rightarrow> bool" where
  "blend_live ok asset pool vault me w \<longleftrightarrow>
     ok (chain w) \<and> blends_serve asset pool vault {me} w \<and>
     0 \<le> blend_tracked (instances w me) \<and> blend_tracked (instances w me) \<le> i128_max"

definition blend_ready :: "('tok \<Rightarrow> int) \<Rightarrow> address \<Rightarrow> 'tok blend_world \<Rightarrow> address \<Rightarrow> bool" where
  "blend_ready owes me w a \<longleftrightarrow> (a = me \<longrightarrow>
     blend_tracked (instances w me) \<le> owes (chain w) + AVAILABLE_LIQUIDITY_ROUNDING_MARGIN)"

lemma blend_liveD:
  assumes "blend_live ok asset pool vault me w"
  shows "ok (chain w)" and "bl_asset (instances w me) = Some asset"
    and "bl_pool (instances w me) = Some pool" and "bl_vault (instances w me) = Some vault"
    and "0 \<le> blend_tracked (instances w me)" and "blend_tracked (instances w me) \<le> i128_max"
  using assms by (auto simp: blend_live_def blends_serve_def)

lemma blend_available_run:
  assumes "bl_asset s = Some asset" and "bl_pool s = Some pool"
    and "pool_try_get_reserve P pool asset (outside s) = Some (r, y)"
    and "reserve_fits (reserve_data_of r)" and "0 \<le> blend_tracked s" and "blend_tracked s \<le> i128_max"
  shows "\<exists>rs. blend_available_liquidity P s =
    Inr (quoted_liquidity (blend_tracked s) (Some (reserve_data_of r)),
      log_ttl rs (if blend_tracked s = 0 then s else s\<lparr>outside := y\<rparr>))"
proof (cases "blend_tracked s = 0")
  case True
  then show ?thesis
    by (auto simp: blend_available_liquidity_def quoted_liquidity_def op_run
        blend_get_tracked_def intro: exI [of _ "[]"])
next
  case False
  let ?d = "reserve_data_of r" and ?t = "blend_tracked s"
  have "fits_i128 (pool_free ?d)" "fits_i128 (min ?t (pool_free ?d) - 2)"
    using assms(4-6) by (auto simp: reserve_fits_def width_defs)
  moreover have "BLEND_RATE_SCALAR \<noteq> 0" by (simp add: BLEND_RATE_SCALAR_def)
  moreover have "(if pool_free ?d < ?t then pool_free ?d else ?t) = min ?t (pool_free ?d)" by simp
  ultimately have "\<exists>v t. blend_available_liquidity P s = Inr (v, t)"
    using assms(1-4) False
    by (auto simp: blend_available_liquidity_def op_success Let_def reserve_fits_def pool_free_def)
  then obtain v t where vt: "blend_available_liquidity P s = Inr (v, t)" by blast
  then show ?thesis
    by (cases rule: blend_available_success)
      (use vt assms(1-3) False in \<open>auto simp: reserve_of_def\<close>)
qed

section \<open>The adapter delivers what it quotes\<close>

context paying_pool
begin

abbreviation live :: "'tok blend_world \<Rightarrow> bool" where
  "live \<equiv> blend_live ok asset pool vault me"

lemma live_chain: "live w \<Longrightarrow> ok x \<Longrightarrow> live (w\<lparr>chain := x\<rparr>)"
  by (simp add: blend_live_def blends_serve_def)

lemma live_instance:
  assumes "live w" and "ok x" and "0 \<le> blend_tracked s" and "blend_tracked s \<le> i128_max"
    and "bl_asset s = bl_asset (instances w me)" and "bl_pool s = bl_pool (instances w me)"
    and "bl_vault s = bl_vault (instances w me)"
  shows "live (w\<lparr>chain := x, instances := (instances w)(me := s)\<rparr>)"
  using assms by (simp add: blend_live_def blends_serve_def)

lemma quote_runs:
  assumes "live w"
  shows "\<exists>y. strategy_available_liquidity (blend_clients T P e) me w = Some (blend_quote free me w me, y) \<and>
    live y \<and> blend_quote free me y = blend_quote free me w \<and> blend_ready owes me y = blend_ready owes me w"
proof -
  note w = blend_liveD [OF assms]
  let ?s = "(instances w me)\<lparr>outside := chain w\<rparr>" and ?t = "blend_tracked (instances w me)"
  obtain r y where r: "pool_try_get_reserve P pool asset (chain w) = Some (r, y)" "ok y"
    "owes y = owes (chain w)" "free y = free (chain w)" "reserve_fits (reserve_data_of r)"
    "pool_free (reserve_data_of r) = free (chain w)"
    using reserve_reads [OF w(1)] by auto
  obtain rs where run: "blend_available_liquidity P ?s =
      Inr (quoted_liquidity ?t (Some (reserve_data_of r)),
        log_ttl rs (if ?t = 0 then ?s else ?s\<lparr>outside := y\<rparr>))"
    using blend_available_run [of ?s asset pool P r y] w(2,3,5,6) r(1,5) by auto
  let ?x = "if ?t = 0 then chain w else y"
  let ?v = "w\<lparr>chain := ?x, instances := (instances w)(me := log_ttl rs (if ?t = 0 then ?s else ?s\<lparr>outside := y\<rparr>))\<rparr>"
  have "strategy_available_liquidity (blend_clients T P e) me w = Some (blend_quote free me w me, ?v)"
    using run r(6)
    by (auto simp: blend_clients_def call_instance_Some blend_quote_def quoted_liquidity_def)
  moreover have "live ?v"
    using assms w r by (intro live_instance) auto
  moreover have "blend_quote free me ?v = blend_quote free me w"
    using r(4) by (auto simp: blend_quote_def fun_eq_iff)
  moreover have "blend_ready owes me ?v = blend_ready owes me w"
    using r(3) by (auto simp: blend_ready_def fun_eq_iff)
  ultimately show ?thesis by blast
qed

lemma withdrawal_runs:
  assumes "live w" and "0 < n" and "n \<le> blend_quote free me w me" and "current_contract e = vault"
    and "blend_ready owes me w me"
  shows "\<exists>y. strategy_withdraw (blend_clients T P e) me vault n w = Some (n, y) \<and> live y"
proof -
  note w = blend_liveD [OF assms(1)]
  let ?s = "(instances w me)\<lparr>outside := chain w\<rparr>" and ?t = "blend_tracked (instances w me)"
  have n: "n \<le> ?t" "n + AVAILABLE_LIQUIDITY_ROUNDING_MARGIN \<le> free (chain w)" "n \<le> owes (chain w)"
    using assms(2,3,5)
    by (auto simp: blend_quote_def blend_ready_def AVAILABLE_LIQUIDITY_ROUNDING_MARGIN_def split: if_splits)
  obtain x where x: "pool_submit P pool me me me [withdraw_request asset n] (chain w) = Some ((), x)"
    "ok x" "bal x me = bal (chain w) me + n"
    using pool_pays [OF w(1) assms(2) n(3,2)] by blast
  have "n \<le> bal x me" using x(3) balance_nonneg [OF ok_token [OF w(1)], of me] by simp
  then obtain y where y: "token_transfer T asset me vault n x = Some ((), y)"
    using token_pays_out [OF x(2) assms(2), of me vault] by auto
  have y_ok: "ok y" using token_leaves_pool [OF x(2) y] .
  have "fits_i128 (?t - n)" using n(1) assms(2) w(6) by (simp add: width_defs)
  then obtain s where "blend_withdraw T P (callee_env e me) vault n ?s = Inr (n, s)"
    using assms(2,4) w(2-4) n(1) x(1) y
    by (fastforce simp: blend_withdraw_def op_success Let_def)
  moreover from this obtain rs where s: "s = log_ttl rs (?s\<lparr>outside := y, bl_tracked := Some (?t - n),
      event_log := event_log ?s @ [BlendWithdraw n n]\<rparr>)"
    using w(2-4) n(1) x(1) y by (auto elim!: blend_withdraw_success)
  moreover let ?v = "w\<lparr>chain := y, instances := (instances w)(me := s)\<rparr>"
  have "live ?v"
    using assms(1) w n(1) y_ok assms(2) s by (intro live_instance) auto
  ultimately show ?thesis
    by (intro exI [of _ ?v]) (auto simp: blend_clients_def call_instance_Some)
qed

lemma blend_delivers:
  assumes "pool_leaves_vault T P bal tok_ok pool vault {me}" and "vault \<noteq> me"
    and "current_contract e = vault"
  shows "delivering_net (world_token T) asset (\<lambda>w. bal (chain w))
    (\<lambda>w. tok_ok (chain w) \<and> blends_serve asset pool vault {me} w) (blend_clients T P e) vault {me}
    live (blend_ready owes me) (blend_quote free me)"
proof (rule delivering_net.intro, rule blend_strategy_net [OF sep41_axioms assms(1)],
    use assms(2) in simp, rule delivering_net_axioms.intro)
  fix w :: "'tok blend_world"
  assume w: "live w"
  note ok = blend_liveD(1) [OF w]
  show "tok_ok (chain w) \<and> blends_serve asset pool vault {me} w"
    using w ok_token by (simp add: blend_live_def)
  obtain v x where x: "token_balance T asset vault (chain w) = Some (v, x)" "ok x"
    "owes x = owes (chain w)" "free x = free (chain w)" using token_reads [OF ok] by blast
  then have "v = bal (chain w) vault" using balance_reads [OF ok_token [OF ok]] by blast
  with x live_chain [OF w] show "\<exists>y. token_balance (world_token T) asset vault w = Some (bal (chain w) vault, y) \<and>
      live y \<and> blend_quote free me y = blend_quote free me w \<and> blend_ready owes me y = blend_ready owes me w"
    by (auto simp: world_token_def on_chain_Some blend_quote_def blend_ready_def fun_eq_iff)
  show "\<exists>y. strategy_available_liquidity (blend_clients T P e) a w = Some (blend_quote free me w a, y) \<and>
      live y \<and> blend_quote free me y = blend_quote free me w \<and>
      blend_ready owes me y = blend_ready owes me w" if "a \<in> {me}" for a
    using quote_runs [OF w] that by simp
  show "\<exists>y. strategy_withdraw (blend_clients T P e) a vault n w = Some (n, y) \<and> live y \<and>
      (\<forall>b. b \<noteq> a \<longrightarrow> blend_quote free me y b = blend_quote free me w b \<and>
        blend_ready owes me y b = blend_ready owes me w b)"
    if "a \<in> {me}" "blend_ready owes me w a" "0 < n" "n \<le> blend_quote free me w a" for a n
    using withdrawal_runs [OF w that(3) _ assms(3)] that by (auto simp: blend_ready_def blend_quote_def)
  show "\<exists>y. token_transfer (world_token T) asset vault to n w = Some ((), y)"
    if "0 < n" "n \<le> bal (chain w) vault" for n to
    using token_pays_out [OF ok that, of vault]
    by (auto simp: world_token_def on_chain_Some) (metis that token_pays_out [OF ok] insertI1)
qed

end

section \<open>The concrete lending pool pays\<close>

definition lending_worth :: "lending \<Rightarrow> int" where
  "lending_worth x = collateral x adapter * supply_rate x div BLEND_RATE_SCALAR"

definition lending_free :: "lending \<Rightarrow> int" where
  "lending_free x = total_supplied x * supply_rate x div BLEND_RATE_SCALAR - total_borrowed x"

definition lending_solvent :: "lending \<Rightarrow> bool" where
  "lending_solvent x \<longleftrightarrow> ledger_ok x \<and> 0 < supply_rate x \<and>
     0 \<le> collateral x adapter \<and> collateral x adapter \<le> total_supplied x \<and>
     total_supplied x * supply_rate x \<le> i128_max \<and>
     0 \<le> total_borrowed x \<and> total_borrowed x * BLEND_RATE_SCALAR \<le> i128_max \<and>
     lending_free x \<le> holdings x the_pool"

lemma lending_reserve_fits:
  assumes "lending_solvent x"
  shows "reserve_fits (reserve_data_of (lending_reserve x))"
    and "pool_free (reserve_data_of (lending_reserve x)) = lending_free x"
proof -
  let ?V = "total_supplied x * supply_rate x" and ?B = "total_borrowed x"
  have V: "0 \<le> ?V" "?V \<le> i128_max" using assms by (auto simp: lending_solvent_def)
  have B: "0 \<le> ?B" "?B * 1000000000000 \<le> i128_max"
    using assms by (auto simp: lending_solvent_def BLEND_RATE_SCALAR_def)
  have div: "?V sdiv 1000000000000 = ?V div 1000000000000" "?B * 1000000000000 sdiv 1000000000000 = ?B"
    using V(1) B(1) by (simp_all add: sdiv_nonneg)
  have W: "0 \<le> ?V div 1000000000000" "?V div 1000000000000 \<le> i128_max"
    using V div_mult_le_self [of 1000000000000 ?V] by (simp_all add: pos_imp_zdiv_nonneg_iff)
  show free: "pool_free (reserve_data_of (lending_reserve x)) = lending_free x"
    using div by (simp add: pool_free_def lending_reserve_def lending_free_def BLEND_RATE_SCALAR_def)
  show "reserve_fits (reserve_data_of (lending_reserve x))"
    unfolding reserve_fits_def free using V B W div
    by (simp add: lending_reserve_def lending_free_def BLEND_RATE_SCALAR_def width_defs)
qed

text \<open>Burning rounded-up tokens: what is at most the worth is covered, and worth at least as much.\<close>

lemma tokens_up_covered:
  assumes "0 < supply_rate x" and "n \<le> collateral x adapter * supply_rate x div BLEND_RATE_SCALAR"
  shows "tokens_up x n \<le> collateral x adapter"
proof -
  let ?c = "collateral x adapter" and ?r = "supply_rate x"
  have "n * BLEND_RATE_SCALAR \<le> (?c * ?r div BLEND_RATE_SCALAR) * BLEND_RATE_SCALAR"
    using assms(2) by (simp add: BLEND_RATE_SCALAR_def)
  also have "\<dots> \<le> ?c * ?r" by (rule div_mult_le_self) (simp add: BLEND_RATE_SCALAR_def)
  finally have "n * BLEND_RATE_SCALAR + ?r - 1 < (?c + 1) * ?r" by (simp add: algebra_simps)
  moreover have "tokens_up x n * ?r \<le> n * BLEND_RATE_SCALAR + ?r - 1"
    unfolding tokens_up_def using assms(1) by (rule div_mult_le_self)
  ultimately have "tokens_up x n * ?r < (?c + 1) * ?r" by simp
  then show ?thesis using assms(1) by simp
qed

lemma tokens_up_worth:
  assumes "0 < supply_rate x"
  shows "n * BLEND_RATE_SCALAR \<le> tokens_up x n * supply_rate x"
proof -
  let ?m = "n * BLEND_RATE_SCALAR + supply_rate x - 1"
  have "?m < (?m div supply_rate x + 1) * supply_rate x" using assms by (rule less_div_mult_self)
  then show ?thesis by (simp add: tokens_up_def algebra_simps)
qed

lemma free_after_burn:
  assumes "n * BLEND_RATE_SCALAR \<le> b * r"
  shows "(B - b) * r div BLEND_RATE_SCALAR \<le> B * r div BLEND_RATE_SCALAR - n"
proof -
  have "(B - b) * r \<le> B * r + (- n) * BLEND_RATE_SCALAR" using assms by (simp add: algebra_simps)
  then have "(B - b) * r div BLEND_RATE_SCALAR \<le> (B * r + (- n) * BLEND_RATE_SCALAR) div BLEND_RATE_SCALAR"
    by (rule zdiv_mono1) (simp add: BLEND_RATE_SCALAR_def)
  also have "\<dots> = B * r div BLEND_RATE_SCALAR - n"
    by (subst div_mult_self1) (simp_all add: BLEND_RATE_SCALAR_def)
  finally show ?thesis .
qed

interpretation lending_pays: paying_pool ledger_token the_asset holdings ledger_ok lending_pool
    the_pool the_vault adapter lending_solvent lending_worth lending_free
proof (unfold_locales, goal_cases)
  case (1 x)
  then show ?case by (simp add: lending_solvent_def)
next
  case (2 x a)
  then show ?case by (simp add: ledger_token_def)
next
  case (3 x n a b)
  then show ?case by (auto simp: ledger_token_def ledger_transfer_def Let_def)
next
  case (4 x n y)
  then show ?case
    by (auto simp: ledger_token_def ledger_transfer_def lending_solvent_def lending_free_def
        ledger_ok_def Let_def participant_defs split: if_splits)
next
  case (5 x)
  then show ?case by (simp add: lending_pool_def lending_reserve_fits)
next
  case (6 x n)
  let ?b = "tokens_up x n" and ?r = "supply_rate x"
  have r: "0 < ?r" and s: "ledger_ok x" "lending_free x \<le> holdings x the_pool"
      "collateral x adapter \<le> total_supplied x" "total_supplied x * ?r \<le> i128_max"
    using 6(1) by (simp_all add: lending_solvent_def)
  have n: "n \<le> holdings x the_pool"
    using 6(4) s(2) by (simp add: AVAILABLE_LIQUIDITY_ROUNDING_MARGIN_def)
  have b: "?b \<le> collateral x adapter"
    using tokens_up_covered [OF r] 6(3) by (simp add: lending_worth_def)
  have worth: "n * BLEND_RATE_SCALAR \<le> ?b * ?r" using tokens_up_worth [OF r] .
  then have "0 < ?b * ?r" using 6(2) by (simp add: BLEND_RATE_SCALAR_def)
  then have b0: "0 \<le> ?b" using r by (simp add: zero_less_mult_iff)
  have less: "(total_supplied x - ?b) * ?r \<le> total_supplied x * ?r"
    using b0 r by (intro mult_right_mono) auto
  define y where "y = x\<lparr>holdings := ((holdings x)(the_pool := holdings x the_pool - n))
      (adapter := holdings x adapter + n), collateral := (collateral x)(adapter := collateral x adapter - ?b),
      total_supplied := total_supplied x - ?b\<rparr>"
  have submit: "pool_submit lending_pool the_pool adapter adapter adapter
      [withdraw_request the_asset n] x = Some ((), y)"
    using 6(2) n b
    by (simp add: lending_pool_def collateral_request_def REQUEST_WITHDRAW_COLLATERAL_def y_def
        lending_pay_def ledger_transfer_def Let_def participant_defs)
  have "lending_free y \<le> holdings x the_pool - n"
    using free_after_burn [OF worth, of "total_supplied x"] s(2)
    by (simp add: y_def lending_free_def)
  moreover have "(total_supplied x - ?b) * ?r \<le> i128_max" using less s(4) by (rule order_trans)
  ultimately have solvent: "lending_solvent y"
    using 6(1) 6(2) n b b0 s
    by (auto simp: lending_solvent_def y_def ledger_ok_def participant_defs)
  have "holdings y adapter = holdings x adapter + n" by (simp add: y_def)
  with submit solvent show ?case by blast
qed

end
