(* ===== verification/LivenessProperties.thy ===== *)
theory LivenessProperties
  imports BlendLiveness
begin

text \<open>
  The exit of depositors whose funds are in a Blend adapter: when their redemptions go through.
\<close>

text \<open>
  C6. A vault with one Blend adapter, over a token and a pool that pay, the pool rounding as it
  likes on the b-tokens it burns: while the adapter's position, valued at the pool's rate and
  rounded down, is at most the rounding margin of two units below what the adapter tracks, a
  holder's redemption succeeds exactly when the idle tokens together with the smaller of the
  adapter's tracked balance and the pool's free liquidity, less the margin, cover it, and fails
  with \<^verbatim>\<open>InsufficientAssets\<close> otherwise.
\<close>

lemma blend_redeem_outcome:
  assumes "paying_pool T asset bal tok_ok P pool (current_contract e) me ok owes free"
    and "pool_leaves_vault T P bal tok_ok pool (current_contract e) {me}"
    and "current_contract e \<noteq> me" and "reachable s" and "st_asset s = Some asset"
    and "strategies_of s = [me]"
    and "blend_live ok asset pool (current_contract e) me (outside s)"
    and "authorised e from" and "st_initialized s \<noteq> None" and "0 < n" and "n \<le> shares_of s from"
    and "n * (backing (\<lambda>w. bal (chain w)) e s + VIRTUAL_SHARES_OFFSET) \<le> i128_max"
    and "supply_of s + VIRTUAL_SHARES_OFFSET \<le> i128_max"
    and "assets = priced n (backing (\<lambda>w. bal (chain w)) e s) (supply_of s)" and "0 < assets"
    and "tracked = blend_tracked (instances (outside s) me)"
    and "tracked \<le> owes (chain (outside s)) + AVAILABLE_LIQUIDITY_ROUNDING_MARGIN"
  shows "if assets \<le> bal (chain (outside s)) (current_contract e) +
        (if tracked = 0 then 0 else max 0 (min tracked (free (chain (outside s))) - 2))
    then \<exists>t. redeem (world_token T) (blend_clients T P e) e from n s = Inr (assets, t)
    else redeem (world_token T) (blend_clients T P e) e from n s = Inl (Raised InsufficientAssets)"
proof -
  note net = paying_pool.blend_delivers [OF assms(1-3) refl]
  have quote: "(\<Sum>a\<leftarrow>strategies_of s. max 0 (blend_quote free me (outside s) a)) =
      (if tracked = 0 then 0 else max 0 (min tracked (free (chain (outside s))) - 2))"
    using assms(6,16) by (simp add: blend_quote_def)
  have ready: "\<forall>a\<in>set (strategies_of s). blend_ready owes me (outside s) a"
    using assms(6,16,17) by (simp add: blend_ready_def)
  show ?thesis
    using ready_redeem_outcome [OF net assms(4,5,7) _ ready assms(8-15)] assms(6)
    unfolding quote by simp
qed

lemma pool_leaves_vault_mono:
  assumes "pool_leaves_vault T P bal ok pool vault A" and "B \<subseteq> A"
  shows "pool_leaves_vault T P bal ok pool vault B"
  unfolding pool_leaves_vault_def
  by (intro allI impI,
      rule assms(1) [unfolded pool_leaves_vault_def, THEN spec, THEN spec, THEN mp, THEN mp],
      assumption, erule subsetD [OF assms(2)])

lemma blend_funded_state:
  "let s = blend_funded in
   st_asset s = Some the_asset \<and> st_strategies s = Some [adapter] \<and>
   st_initialized s = Some True \<and> st_total_supply s = Some 1000000000 \<and>
   st_share_balance s = [alice \<mapsto> 1000000000] \<and>
   st_tracked_balance s = [adapter \<mapsto> 1000000000] \<and> st_bridged_balance s = Some 0 \<and>
   holdings (chain (outside s)) = (\<lambda>a. 0)(alice := 9000000000, bob := 10000000000,
     the_pool := 1000000000) \<and>
   total_supplied (chain (outside s)) = 1000000000 \<and>
   supply_rate (chain (outside s)) = BLEND_RATE_SCALAR \<and>
   total_borrowed (chain (outside s)) = 0 \<and>
   collateral (chain (outside s)) adapter = 1000000000 \<and>
   bl_asset (instances (outside s) adapter) = Some the_asset \<and>
   bl_pool (instances (outside s) adapter) = Some the_pool \<and>
   bl_vault (instances (outside s) adapter) = Some the_vault \<and>
   bl_tracked (instances (outside s) adapter) = Some 1000000000"
  by (simp add: eval_defs blend_funded_def blend_run_def blend_setup_def start_defs fun_eq_iff
      del: not_None_eq)

text \<open>
  The same vault after the pool has accrued interest and lent: the rate is 1.05, and 950000000 of
  the pool's tokens are left.
\<close>

definition blend_accrued :: "lending blend_world vault" where
  "blend_accrued = blend_funded\<lparr>outside := (outside blend_funded)\<lparr>chain :=
     (chain (outside blend_funded))\<lparr>
       holdings := (holdings (chain (outside blend_funded)))(the_pool := 950000000),
       total_borrowed := 100000000, supply_rate := 1050000000000\<rparr>\<rparr>\<rparr>"

lemma blend_accrued_reachable: "reachable blend_accrued"
  unfolding blend_accrued_def by (rule step [OF blend_funded_reachable world])

lemma blend_accrued_fields:
  "backing (\<lambda>w. holdings (chain w)) (env_at 1000) blend_accrued = 1000000000"
  "blend_live lending_solvent the_asset the_pool the_vault adapter (outside blend_accrued)"
  "lending_free (chain (outside blend_accrued)) = 950000000"
  "lending_worth (chain (outside blend_accrued)) = 1050000000"
  using blend_funded_state [unfolded Let_def]
  by (simp_all add: backing_def assets_with_idle_def tracked_total_def bridged_at_def lookup0_def
      participant_defs lending_solvent_def lending_free_def lending_worth_def ledger_ok_def
      BLEND_RATE_SCALAR_def i128_max_def blend_live_def blends_serve_def blend_accrued_def)

lemma blend_redeem_outcome_witness:
  "\<exists>t. redeem MT (BC 1000) (env_at 1000) alice 900000000 blend_accrued = Inr (900000000, t)"
proof -
  note s = blend_funded_state [unfolded Let_def]
  have frame: "pool_leaves_vault ledger_token lending_pool holdings ledger_ok the_pool the_vault {adapter}"
    by (rule pool_leaves_vault_mono [OF lending_leaves_vault]) (simp_all add: participant_defs)
  have fields: "st_asset blend_accrued = Some the_asset" "strategies_of blend_accrued = [adapter]"
    "st_initialized blend_accrued = Some True" "supply_of blend_accrued = 1000000000"
    "shares_of blend_accrued alice = 1000000000"
    "blend_tracked (instances (outside blend_accrued) adapter) = 1000000000"
    "holdings (chain (outside blend_accrued)) the_vault = 0"
    using s by (simp_all add: blend_accrued_def lookup0_def participant_defs)
  have "\<exists>t. redeem (world_token ledger_token) (blend_clients ledger_token lending_pool (env_at 1000))
      (env_at 1000) alice 900000000 blend_accrued = Inr (900000000, t)"
    using blend_redeem_outcome [where e = "env_at 1000" and s = blend_accrued and n = 900000000
        and assets = 900000000, OF _ _ _ blend_accrued_reachable _ _ _ _ _ _ _ _ _ _ _ refl,
        of ledger_token the_asset holdings ledger_ok lending_pool the_pool adapter lending_solvent
          lending_worth lending_free]
      lending_pays.paying_pool_axioms frame blend_accrued_fields fields
    by (simp add: priced_def VIRTUAL_SHARES_OFFSET_def AVAILABLE_LIQUIDITY_ROUNDING_MARGIN_def
        signed_divide_int_def i128_max_def)
  then show ?thesis .
qed

section \<open>The last units\<close>

lemma priced_almost_all:
  assumes "0 \<le> A" and "0 \<le> S" and "VIRTUAL_SHARES_OFFSET * (A - S) \<le> S + VIRTUAL_SHARES_OFFSET"
  shows "A - 1 \<le> priced S A S"
proof -
  have pos: "0 < S + VIRTUAL_SHARES_OFFSET" using assms(2) by (simp add: VIRTUAL_SHARES_OFFSET_def)
  have "(A - 1) * (S + VIRTUAL_SHARES_OFFSET) \<le> S * (A + VIRTUAL_SHARES_OFFSET)"
    using assms(3) by (simp add: algebra_simps)
  also have "\<dots> < (priced S A S + 1) * (S + VIRTUAL_SHARES_OFFSET)"
    using priced_upper [of S A S] assms(1,2) by simp
  finally show ?thesis using pos by simp
qed

text \<open>
  C36. The rounding margin locks the last units: in a vault with one Blend adapter that has gained
  no more than about a millionth of its supply, the holder of all shares cannot redeem all of
  them, however much the pool has free: the adapter quotes two units less than it tracks, and the
  redemption fails with \<^verbatim>\<open>InsufficientAssets\<close>.
\<close>

lemma full_redemption_fails_by_margin:
  assumes "paying_pool T asset bal tok_ok P pool (current_contract e) me ok owes free"
    and "pool_leaves_vault T P bal tok_ok pool (current_contract e) {me}"
    and "current_contract e \<noteq> me" and "reachable s" and "st_asset s = Some asset"
    and "strategies_of s = [me]"
    and "blend_live ok asset pool (current_contract e) me (outside s)"
    and "authorised e from" and "st_initialized s \<noteq> None" and "shares_of s from = supply_of s"
    and "A = backing (\<lambda>w. bal (chain w)) e s" and "S = supply_of s"
    and "VIRTUAL_SHARES_OFFSET * (A - S) \<le> S + VIRTUAL_SHARES_OFFSET" and "2 \<le> tracked_of s me"
    and "tracked = blend_tracked (instances (outside s) me)" and "tracked \<le> tracked_of s me"
    and "tracked \<le> owes (chain (outside s)) + AVAILABLE_LIQUIDITY_ROUNDING_MARGIN"
    and "S * (A + VIRTUAL_SHARES_OFFSET) \<le> i128_max" and "S + VIRTUAL_SHARES_OFFSET \<le> i128_max"
  shows "redeem (world_token T) (blend_clients T P e) e from S s = Inl (Raised InsufficientAssets)"
proof -
  note net = paying_pool.blend_delivers [OF assms(1-3) refl]
  let ?idle = "bal (chain (outside s)) (current_contract e)"
  let ?quoted = "\<Sum>a\<leftarrow>strategies_of s. max 0 (blend_quote free me (outside s) a)"
  have "tok_ok (chain (outside s))"
    using delivering_net.live_wf [OF net assms(7)] by simp
  then have idle: "0 \<le> ?idle"
    using sep41.balance_nonneg [OF paying_pool.axioms(1) [OF assms(1)]] by blast
  have "0 \<le> bridged_at e s"
    using reachable_config_inv [OF assms(4)] by (simp add: config_inv_def bridged_at_def)
  then have A: "?idle + tracked_of s me \<le> A"
    using assms(6,11) by (simp add: backing_def assets_with_idle_def tracked_total_def)
  have S: "0 \<le> S" using reachable_supply_nonneg [OF assms(4)] assms(12) by simp
  have quote: "A - 1 \<le> priced S A S"
    using priced_almost_all [OF _ S assms(13)] A idle assms(14) by simp
  have "?quoted \<le> tracked_of s me - 2"
    using assms(6,14-16) by (auto simp: blend_quote_def min_def)
  with A quote have short: "\<not> priced S A S \<le> ?idle + ?quoted" by linarith
  have "0 < priced S A S" using quote A idle assms(14) by linarith
  moreover from this have "0 < S" using S by (cases "S = 0") (auto simp: priced_def)
  moreover have "\<forall>a\<in>set (strategies_of s). blend_ready owes me (outside s) a"
    using assms(6,15,17) by (simp add: blend_ready_def)
  ultimately show ?thesis
    using ready_redeem_outcome [OF net assms(4,5,7) _ _ assms(8,9), of S "priced S A S"]
      assms(6,10-12,18,19) short by simp
qed

lemma full_redemption_fails_by_margin_witness:
  "redeem MT (BC 1000) (env_at 1000) alice 1000000000 blend_funded = Inl (Raised InsufficientAssets)"
proof -
  note s = blend_funded_state [unfolded Let_def]
  have frame: "pool_leaves_vault ledger_token lending_pool holdings ledger_ok the_pool the_vault {adapter}"
    by (rule pool_leaves_vault_mono [OF lending_leaves_vault]) (simp_all add: participant_defs)
  have fields: "backing (\<lambda>w. holdings (chain w)) (env_at 1000) blend_funded = 1000000000"
    "blend_live lending_solvent the_asset the_pool the_vault adapter (outside blend_funded)"
    "lending_worth (chain (outside blend_funded)) = 1000000000"
    using s by (simp_all add: backing_def assets_with_idle_def tracked_total_def bridged_at_def
        lookup0_def participant_defs lending_solvent_def lending_free_def lending_worth_def
        ledger_ok_def BLEND_RATE_SCALAR_def i128_max_def blend_live_def blends_serve_def)
  show ?thesis
    using full_redemption_fails_by_margin [where e = "env_at 1000" and s = blend_funded,
        OF _ _ _ blend_funded_reachable _ _ _ _ _ _ refl refl _ _ refl,
        of ledger_token the_asset holdings ledger_ok lending_pool the_pool adapter lending_solvent
          lending_worth lending_free alice]
      lending_pays.paying_pool_axioms frame fields s
    by (simp add: VIRTUAL_SHARES_OFFSET_def AVAILABLE_LIQUIDITY_ROUNDING_MARGIN_def i128_max_def
        lookup0_def participant_defs)
qed

end
