(* ===== verification/TestHarness.thy ===== *)
theory TestHarness
  imports Scenarios
begin

text \<open>
  The vocabulary of the repository's unit tests, as operations on the state under test: calls in
  sequence, \<^verbatim>\<open>assert!\<close> and \<^verbatim>\<open>assert_eq!\<close> (a failing assertion traps), the
  \<^verbatim>\<open>try_\<close> variants of a client, and the test environment, in which
  \<^verbatim>\<open>mock_all_auths\<close> authorises everybody at time zero. The asset token of the tests is the
  concrete ledger; an address at which no contract is deployed answers no call.
\<close>

section \<open>Assertions and attempts\<close>

fun steps :: "('s, 'e, unit) operation list \<Rightarrow> ('s, 'e, unit) operation" where
  "steps [] = return ()"
| "steps (m # ms) = bind m (\<lambda>_. steps ms)"

definition check :: "bool \<Rightarrow> ('s, 'e, unit) operation" where
  "check c = (if c then return () else trap)"

definition check_eq :: "('s, 'e, 'a) operation \<Rightarrow> 'a \<Rightarrow> ('s, 'e, unit) operation" where
  "check_eq m v = bind m (\<lambda>x. check (x = v))"

definition attempt :: "('s, 'e, 'a) operation \<Rightarrow> ('s, 'e, 'e failure + 'a) operation" where
  "attempt m s = (case m s of Inl f \<Rightarrow> Inr (Inl f, s) | Inr (a, t) \<Rightarrow> Inr (Inr a, t))"

definition expect_err :: "('s, 'e, 'a) operation \<Rightarrow> ('s, 'e, unit) operation" where
  "expect_err m = bind (attempt m) (\<lambda>result. check (isl result))"

definition expect_ok :: "('s, 'e, 'a) operation \<Rightarrow> ('s, 'e, unit) operation" where
  "expect_ok m = bind (attempt m) (\<lambda>result. check (\<not> isl result))"

section \<open>The test environment\<close>

definition test_env :: "address \<Rightarrow> env" where
  "test_env contract = \<lparr>authorised = (\<lambda>_. True), ledger_timestamp = 0, ledger_sequence = 0,
     current_contract = contract, uploaded_wasm = (\<lambda>_. True)\<rparr>"

definition no_tokens :: ledger where
  "no_tokens = \<lparr>holdings = (\<lambda>_. 0), allowances = (\<lambda>_ _. 0)\<rparr>"

definition mint :: "address \<Rightarrow> int \<Rightarrow> (('k, 'ev, 'z ledger_scheme, 'w) runtime_scheme, 'e, unit) operation" where
  "mint to amount = modify (\<lambda>s. s\<lparr>outside := (outside s)\<lparr>holdings :=
     (holdings (outside s))(to := holdings (outside s) to + amount)\<rparr>\<rparr>)"

definition token_holding :: "address \<Rightarrow> (('k, 'ev, 'z ledger_scheme, 'w) runtime_scheme, 'e, int) operation" where
  "token_holding a = external_call (token_balance ledger_token the_asset a)"

definition token_move :: "address \<Rightarrow> address \<Rightarrow> int \<Rightarrow>
    (('k, 'ev, 'z ledger_scheme, 'w) runtime_scheme, 'e, unit) operation" where
  "token_move from to amount = external_call (token_transfer ledger_token the_asset from to amount)"

definition no_strategies :: "'x strategy_client" where
  "no_strategies =
     \<lparr>strategy_deposit = (\<lambda>_ _ _ _. None), strategy_withdraw = (\<lambda>_ _ _ _. None),
      strategy_emergency_withdraw = (\<lambda>_ _ _. None), strategy_balance_of = (\<lambda>_ _. None),
      strategy_available_liquidity = (\<lambda>_ _. None), strategy_is_healthy = (\<lambda>_ _. None),
      strategy_asset = (\<lambda>_ _. None)\<rparr>"

definition no_pool :: "'x pool_client" where
  "no_pool =
     \<lparr>pool_submit = (\<lambda>_ _ _ _ _ _. None), pool_submit_with_allowance = (\<lambda>_ _ _ _ _ _. None),
      pool_try_get_reserve = (\<lambda>_ _ _. None), pool_try_get_positions = (\<lambda>_ _ _. None),
      pool_claim = (\<lambda>_ _ _ _ _. None)\<rparr>"

lemmas test_defs =
  check_def check_eq_def attempt_def expect_err_def expect_ok_def test_env_def no_tokens_def
  mint_def token_holding_def token_move_def no_strategies_def no_pool_def no_result_def

end
