(* ===== verification/VaultTests.thy ===== *)
theory VaultTests
  imports TestHarness
begin

text \<open>
  The unit tests of \<^verbatim>\<open>tezoro-vault/src/lib.rs\<close>, one definition per test function, run
  against the model. The participants keep their names: the user is \<open>alice\<close>, the second user
  and the recipient are \<open>bob\<close>, the new admin is \<open>carol\<close>, the strategy address is \<open>adapter\<close>.
\<close>

section \<open>Setup\<close>

type_synonym vault_test = "(ledger vault, vault_error, unit) operation"

definition carol :: address where "carol = Address 20"

abbreviation VE :: env where "VE \<equiv> test_env the_vault"

definition test_setup :: vault_test where
  "test_setup = mint alice 100000000000"

definition init_vault :: vault_test where
  "init_vault = steps
     [test_setup,
      initialize VE the_admin the_asset the_keeper the_guardian fee_account 1500 300
        ''Tezoro USDC-A'' ''tUSDC-A'']"

section \<open>The tests\<close>

definition test_initialize :: vault_test where
  "test_initialize = steps
     [init_vault,
      check_eq view_admin the_admin,
      check_eq view_keeper the_keeper,
      check_eq view_asset the_asset,
      check_eq total_supply 0,
      check_eq view_is_paused False,
      check_eq view_performance_fee_bps 1500,
      check_eq view_high_water_mark NAV_PRECISION]"

definition test_double_initialize_fails :: vault_test where
  "test_double_initialize_fails = steps
     [init_vault,
      expect_err (initialize VE the_admin the_asset the_keeper the_guardian fee_account 1500 300
        ''x'' ''x'')]"

definition test_deposit_and_redeem :: vault_test where
  "test_deposit_and_redeem =
     bind init_vault (\<lambda>_.
     let deposit_amount = 10000000000 in
     bind (deposit ledger_token VE alice deposit_amount) (\<lambda>shares. steps
     [check (shares > 0),
      check_eq total_supply shares,
      check_eq (balance alice) shares,
      check_eq (token_holding the_vault) deposit_amount,
      check_eq (redeem ledger_token no_strategies VE alice shares) deposit_amount,
      check_eq total_supply 0]))"

definition test_multi_depositor_share_ratio :: vault_test where
  "test_multi_depositor_share_ratio =
     bind init_vault (\<lambda>_.
     bind (mint bob 100000000000) (\<lambda>_.
     bind (deposit ledger_token VE alice 10000000000) (\<lambda>shares1.
     bind (deposit ledger_token VE bob 20000000000) (\<lambda>shares2.
     bind (check (shares2 > shares1)) (\<lambda>_.
     bind (redeem ledger_token no_strategies VE alice shares1) (\<lambda>assets1.
     bind (redeem ledger_token no_strategies VE bob shares2) (\<lambda>assets2.
     check_eq (add_i128 assets1 assets2) 30000000000)))))))"

definition test_strategy_management :: vault_test where
  "test_strategy_management = steps
     [init_vault,
      add_strategy VE the_admin adapter,
      bind view_strategies (\<lambda>ss. check (length ss = 1)),
      update_tracked_balance VE the_keeper adapter 5000000000,
      expect_err (remove_strategy VE the_admin adapter),
      update_tracked_balance VE the_keeper adapter 0,
      remove_strategy VE the_admin adapter,
      bind view_strategies (\<lambda>ss. check (length ss = 0))]"

definition test_pause_unpause :: vault_test where
  "test_pause_unpause = steps
     [init_vault,
      pause VE the_guardian,
      check_eq view_is_paused True,
      expect_err (deposit ledger_token VE alice 1000000000),
      unpause VE the_admin,
      expect_ok (deposit ledger_token VE alice 1000000000)]"

definition test_redeem_while_paused :: vault_test where
  "test_redeem_while_paused =
     bind init_vault (\<lambda>_.
     bind (deposit ledger_token VE alice 10000000000) (\<lambda>_.
     bind (balance alice) (\<lambda>shares. steps
     [pause VE the_guardian,
      expect_ok (redeem ledger_token no_strategies VE alice shares)])))"

definition test_bridged_balance :: vault_test where
  "test_bridged_balance = steps
     [init_vault,
      no_result (deposit ledger_token VE alice 10000000000),
      attest_bridged_balance VE the_keeper 5000000000,
      check_eq (total_assets ledger_token VE) 15000000000]"

definition test_bridged_rejects_negative :: vault_test where
  "test_bridged_rejects_negative = steps
     [init_vault,
      expect_err (attest_bridged_balance VE the_keeper (- 100))]"

definition test_share_transfer :: vault_test where
  "test_share_transfer =
     bind init_vault (\<lambda>_.
     bind (deposit ledger_token VE alice 10000000000) (\<lambda>_.
     bind (balance alice) (\<lambda>shares.
     bind (div_i128 shares 2) (\<lambda>half. steps
     [transfer VE alice bob half,
      bind (sub_i128 shares half) (\<lambda>rest. check_eq (balance alice) rest),
      check_eq (balance bob) half]))))"

definition test_two_step_admin :: vault_test where
  "test_two_step_admin = steps
     [init_vault,
      propose_admin VE the_admin carol,
      check_eq view_admin the_admin,
      accept_admin VE carol,
      check_eq view_admin carol,
      expect_err (unpause VE the_admin)]"

definition test_accept_admin_without_proposal :: vault_test where
  "test_accept_admin_without_proposal = steps
     [init_vault,
      expect_err (accept_admin VE carol)]"

definition test_deposit_cap :: vault_test where
  "test_deposit_cap = steps
     [init_vault,
      change_deposit_cap VE the_admin 5000000000,
      expect_ok (deposit ledger_token VE alice 4000000000),
      expect_err (deposit ledger_token VE alice 2000000000)]"

definition test_negative_deposit_cap_rejected :: vault_test where
  "test_negative_deposit_cap_rejected = steps
     [init_vault,
      expect_err (change_deposit_cap VE the_admin (- 1))]"

definition test_negative_tracked_balance_rejected :: vault_test where
  "test_negative_tracked_balance_rejected = steps
     [init_vault,
      add_strategy VE the_admin adapter,
      expect_err (update_tracked_balance VE the_keeper adapter (- 100))]"

text \<open>The hash of the upgrade tests: 32 bytes with value one.\<close>

definition test_hash :: bytes_n32 where
  "test_hash = foldr (\<lambda>_ h. 256 * h + 1) [0..<32] 0"

definition test_upgrade_timelock_flow :: vault_test where
  "test_upgrade_timelock_flow = steps
     [init_vault,
      schedule_upgrade VE the_admin test_hash,
      bind view_scheduled_upgrade (\<lambda>u. bind (unwrap u) (\<lambda>(h, _). check (h = test_hash))),
      expect_err (execute_upgrade VE the_admin)]"

definition test_cancel_upgrade :: vault_test where
  "test_cancel_upgrade = steps
     [init_vault,
      schedule_upgrade VE the_admin test_hash,
      cancel_upgrade VE the_admin,
      check_eq view_scheduled_upgrade None]"

definition test_collect_fees_on_yield :: vault_test where
  "test_collect_fees_on_yield =
     bind init_vault (\<lambda>_.
     bind (deposit ledger_token VE alice 10000000000) (\<lambda>_.
     bind (mint the_vault 1000000000) (\<lambda>_.
     bind (collect_fees ledger_token VE) (\<lambda>fee_shares. steps
     [check (fee_shares > 0),
      bind (balance fee_account) (\<lambda>b. check (b > 0)),
      bind view_high_water_mark (\<lambda>m. check (m > NAV_PRECISION))]))))"

definition test_no_fees_without_yield :: vault_test where
  "test_no_fees_without_yield = steps
     [init_vault,
      no_result (deposit ledger_token VE alice 10000000000),
      expect_err (collect_fees ledger_token VE)]"

definition test_idle_buffer_enforcement :: vault_test where
  "test_idle_buffer_enforcement = steps
     [init_vault,
      no_result (deposit ledger_token VE alice 10000000000),
      add_strategy VE the_admin adapter,
      expect_err (allocate ledger_token no_strategies VE the_keeper adapter 9800000000)]"

definition test_deposit_minimum_amount :: vault_test where
  "test_deposit_minimum_amount = steps
     [init_vault,
      expect_ok (deposit ledger_token VE alice 1),
      check_eq (balance alice) 1]"

definition test_deposit_large_amount :: vault_test where
  "test_deposit_large_amount =
     bind init_vault (\<lambda>_.
     let big_amount = 10000000000000000 in
     bind (mint alice big_amount) (\<lambda>_.
     bind (deposit ledger_token VE alice big_amount) (\<lambda>shares.
     bind (check (shares > 0)) (\<lambda>_.
     check_eq (redeem ledger_token no_strategies VE alice shares) big_amount))))"

primrec small_deposits :: "nat \<Rightarrow> int \<Rightarrow> (ledger vault, vault_error, int) operation" where
  "small_deposits 0 total_shares = return total_shares"
| "small_deposits (Suc n) total_shares =
     bind (deposit ledger_token VE alice 1000000000) (\<lambda>s.
     bind (add_i128 total_shares s) (\<lambda>total_shares'.
     small_deposits n total_shares'))"

definition test_many_small_deposits_and_redeems :: vault_test where
  "test_many_small_deposits_and_redeems =
     bind init_vault (\<lambda>_.
     bind (small_deposits 10 0) (\<lambda>total_shares.
     check_eq (redeem ledger_token no_strategies VE alice total_shares) 10000000000))"

section \<open>They pass\<close>

definition vault_test_passes :: "vault_test \<Rightarrow> bool" where
  "vault_test_passes t = succeeds t (deployed 0 no_tokens)"

lemmas vault_test_eval =
  vault_test_passes_def init_vault_def test_setup_def test_defs carol_def view_defs
  balance_def total_supply_def deployed_def

lemma vault_test_group_1:
  "vault_test_passes test_initialize" "vault_test_passes test_double_initialize_fails"
  "vault_test_passes test_deposit_and_redeem" "vault_test_passes test_multi_depositor_share_ratio"
  by (simp_all add: eval_defs vault_test_eval test_initialize_def test_double_initialize_fails_def
      test_deposit_and_redeem_def test_multi_depositor_share_ratio_def del: not_None_eq)

lemma vault_test_group_2:
  "vault_test_passes test_strategy_management"
  "vault_test_passes test_pause_unpause"
  "vault_test_passes test_redeem_while_paused"
  "vault_test_passes test_bridged_balance"
  by (simp_all add: eval_defs vault_test_eval test_strategy_management_def
      test_pause_unpause_def
      test_redeem_while_paused_def
      test_bridged_balance_def
      del: not_None_eq)

lemma vault_test_group_3:
  "vault_test_passes test_bridged_rejects_negative"
  "vault_test_passes test_share_transfer"
  "vault_test_passes test_two_step_admin"
  "vault_test_passes test_accept_admin_without_proposal"
  by (simp_all add: eval_defs vault_test_eval test_bridged_rejects_negative_def
      test_share_transfer_def
      test_two_step_admin_def
      test_accept_admin_without_proposal_def
      del: not_None_eq)

lemma vault_test_group_4:
  "vault_test_passes test_deposit_cap"
  "vault_test_passes test_negative_deposit_cap_rejected"
  "vault_test_passes test_negative_tracked_balance_rejected"
  "vault_test_passes test_upgrade_timelock_flow"
  by (simp_all add: eval_defs vault_test_eval test_deposit_cap_def
      test_negative_deposit_cap_rejected_def
      test_negative_tracked_balance_rejected_def
      test_upgrade_timelock_flow_def
      del: not_None_eq)

lemma vault_test_group_5:
  "vault_test_passes test_cancel_upgrade"
  "vault_test_passes test_collect_fees_on_yield"
  "vault_test_passes test_no_fees_without_yield"
  "vault_test_passes test_idle_buffer_enforcement"
  by (simp_all add: eval_defs vault_test_eval test_cancel_upgrade_def
      test_collect_fees_on_yield_def
      test_no_fees_without_yield_def
      test_idle_buffer_enforcement_def
      del: not_None_eq)

lemma vault_test_group_6:
  "vault_test_passes test_deposit_minimum_amount"
  "vault_test_passes test_deposit_large_amount"
  by (simp_all add: eval_defs vault_test_eval test_deposit_minimum_amount_def
      test_deposit_large_amount_def
      del: not_None_eq)

lemma ten_deposits:
  "small_deposits 10 n =
     small_deposits (Suc (Suc (Suc (Suc (Suc (Suc (Suc (Suc (Suc (Suc 0)))))))))) n"
  by (simp add: eval_nat_numeral del: small_deposits.simps)

lemma vault_test_group_7: "vault_test_passes test_many_small_deposits_and_redeems"
  by (simp add: eval_defs vault_test_eval test_many_small_deposits_and_redeems_def ten_deposits
      del: not_None_eq)

definition vault_tests :: "vault_test list" where
  "vault_tests =
     [test_initialize,
      test_double_initialize_fails,
      test_deposit_and_redeem,
      test_multi_depositor_share_ratio,
      test_strategy_management,
      test_pause_unpause,
      test_redeem_while_paused,
      test_bridged_balance,
      test_bridged_rejects_negative,
      test_share_transfer,
      test_two_step_admin,
      test_accept_admin_without_proposal,
      test_deposit_cap,
      test_negative_deposit_cap_rejected,
      test_negative_tracked_balance_rejected,
      test_upgrade_timelock_flow,
      test_cancel_upgrade,
      test_collect_fees_on_yield,
      test_no_fees_without_yield,
      test_idle_buffer_enforcement,
      test_deposit_minimum_amount,
      test_deposit_large_amount,
      test_many_small_deposits_and_redeems]"

lemmas vault_test_groups =
  vault_test_group_1 vault_test_group_2 vault_test_group_3 vault_test_group_4 vault_test_group_5
  vault_test_group_6 vault_test_group_7

end
