(* ===== verification/AdapterTests.thy ===== *)
theory AdapterTests
  imports TestHarness
begin

text \<open>
  The unit tests of \<^verbatim>\<open>mock-strategy/src/lib.rs\<close> and \<^verbatim>\<open>blend-strategy/src/lib.rs\<close>, one
  definition per test function, run against the models of the two adapters. The unit tests of the
  Blend adapter run without a pool. Its integration tests, which deploy the Blend contracts, are
  not part of this theory.
\<close>

section \<open>The mock strategy\<close>

type_synonym mock_test = "(ledger mock, strategy_error, unit) operation"

abbreviation AE :: env where "AE \<equiv> test_env adapter"

definition stranger :: address where "stranger = Address 21"

definition mock_test_deposit_withdraw_cycle :: mock_test where
  "mock_test_deposit_withdraw_cycle = steps
     [mint the_vault 100000000000,
      mock_initialize the_admin the_vault the_asset,
      token_move the_vault adapter 10000000000,
      mock_deposit AE the_vault 10000000000,
      check_eq mock_balance_of 10000000000,
      check_eq (token_holding adapter) 10000000000,
      mint adapter 500000000,
      mock_simulate_yield AE the_admin 500000000,
      check_eq mock_balance_of 10500000000,
      check_eq (token_holding adapter) 10500000000,
      check_eq (mock_withdraw ledger_token AE the_vault 10500000000) 10500000000,
      check_eq mock_balance_of 0]"

definition mock_init_default :: mock_test where
  "mock_init_default = mock_initialize the_admin the_vault the_asset"

definition mock_test_health_toggle :: mock_test where
  "mock_test_health_toggle = steps
     [mock_initialize the_admin the_vault the_asset,
      check_eq mock_is_healthy True,
      mock_set_healthy AE the_admin False,
      check_eq mock_is_healthy False]"

definition mock_test_emergency_withdraw :: mock_test where
  "mock_test_emergency_withdraw = steps
     [mint the_vault 100000000000,
      mock_initialize the_admin the_vault the_asset,
      token_move the_vault adapter 5000000000,
      mock_deposit AE the_vault 5000000000,
      check_eq (mock_emergency_withdraw ledger_token AE the_vault) 5000000000,
      check_eq mock_balance_of 0]"

definition mock_test_double_initialize_rejected :: mock_test where
  "mock_test_double_initialize_rejected = steps
     [mock_init_default,
      expect_err (mock_initialize the_admin the_vault the_asset)]"

definition mock_test_deposit_zero_amount_rejected :: mock_test where
  "mock_test_deposit_zero_amount_rejected = steps
     [mock_init_default,
      expect_err (mock_deposit AE the_vault 0)]"

definition mock_test_withdraw_zero_amount_rejected :: mock_test where
  "mock_test_withdraw_zero_amount_rejected = steps
     [mock_init_default,
      expect_err (mock_withdraw ledger_token AE the_vault 0)]"

definition mock_test_withdraw_with_zero_balance_rejected :: mock_test where
  "mock_test_withdraw_with_zero_balance_rejected = steps
     [mock_init_default,
      expect_err (mock_withdraw ledger_token AE the_vault 100)]"

definition mock_test_emergency_withdraw_empty_returns_zero :: mock_test where
  "mock_test_emergency_withdraw_empty_returns_zero = steps
     [mock_init_default,
      check_eq (mock_emergency_withdraw ledger_token AE the_vault) 0]"

definition mock_test_deposit_unauthorized_rejected :: mock_test where
  "mock_test_deposit_unauthorized_rejected = steps
     [mock_init_default,
      expect_err (mock_deposit AE stranger 100)]"

definition mock_test_simulate_yield_requires_admin :: mock_test where
  "mock_test_simulate_yield_requires_admin = steps
     [mock_init_default,
      expect_err (mock_simulate_yield AE stranger 100)]"

definition mock_test_view_getters :: mock_test where
  "mock_test_view_getters = steps
     [mock_init_default,
      check_eq mock_asset the_asset,
      check_eq mock_vault the_vault,
      check_eq mock_available_liquidity 0]"

definition mock_tests :: "mock_test list" where
  "mock_tests =
     [mock_test_deposit_withdraw_cycle, mock_test_health_toggle, mock_test_emergency_withdraw,
      mock_test_double_initialize_rejected, mock_test_deposit_zero_amount_rejected,
      mock_test_withdraw_zero_amount_rejected, mock_test_withdraw_with_zero_balance_rejected,
      mock_test_emergency_withdraw_empty_returns_zero, mock_test_deposit_unauthorized_rejected,
      mock_test_simulate_yield_requires_admin, mock_test_view_getters]"

definition mock_test_passes :: "mock_test \<Rightarrow> bool" where
  "mock_test_passes t = succeeds t (mock_deployed 0 no_tokens)"

lemma mock_tests_run: "list_all mock_test_passes mock_tests"
  by (simp add: mock_tests_def mock_test_passes_def mock_deployed_def stranger_def test_defs
      eval_defs mock_test_deposit_withdraw_cycle_def mock_init_default_def
      mock_test_health_toggle_def mock_test_emergency_withdraw_def
      mock_test_double_initialize_rejected_def mock_test_deposit_zero_amount_rejected_def
      mock_test_withdraw_zero_amount_rejected_def mock_test_withdraw_with_zero_balance_rejected_def
      mock_test_emergency_withdraw_empty_returns_zero_def
      mock_test_deposit_unauthorized_rejected_def mock_test_simulate_yield_requires_admin_def
      mock_test_view_getters_def del: not_None_eq)

section \<open>The Blend adapter without a pool\<close>

type_synonym blend_test = "(ledger blend, strategy_error, unit) operation"

definition new_admin :: address where "new_admin = Address 22"
definition new_vault :: address where "new_vault = Address 23"

definition blend_setup_tokens :: blend_test where
  "blend_setup_tokens = mint the_vault 1000000000000"

definition init_strategy :: blend_test where
  "init_strategy = steps
     [blend_setup_tokens,
      blend_initialize AE the_admin the_vault the_asset the_pool]"

definition blend_test_initialize :: blend_test where
  "blend_test_initialize = steps
     [init_strategy,
      check_eq blend_asset the_asset,
      check_eq blend_vault the_vault,
      check_eq blend_pool the_pool,
      check_eq blend_balance_of 0,
      check_eq blend_is_paused False]"

definition blend_test_double_initialize_fails :: blend_test where
  "blend_test_double_initialize_fails = steps
     [blend_setup_tokens,
      blend_initialize AE the_admin the_vault the_asset the_pool,
      expect_err (blend_initialize AE the_admin the_vault the_asset the_pool)]"

definition blend_test_unauthorized_deposit :: blend_test where
  "blend_test_unauthorized_deposit = steps
     [init_strategy,
      expect_err (blend_deposit ledger_token no_pool AE stranger 10000000000)]"

definition blend_test_pause_blocks_deposit :: blend_test where
  "blend_test_pause_blocks_deposit = steps
     [init_strategy,
      blend_do_pause AE the_admin,
      check_eq blend_is_paused True,
      expect_err (blend_deposit ledger_token no_pool AE the_vault 10000000000),
      blend_do_unpause AE the_admin,
      check_eq blend_is_paused False]"

definition blend_test_health_thresholds :: blend_test where
  "blend_test_health_thresholds = steps
     [init_strategy,
      blend_set_max_utilization AE the_admin 8000,
      blend_set_min_backstop_coverage AE the_admin 1000,
      check_eq (blend_is_healthy no_pool) False]"

definition blend_test_invalid_bps_rejected :: blend_test where
  "blend_test_invalid_bps_rejected = steps
     [init_strategy,
      expect_err (blend_set_max_utilization AE the_admin 15000),
      expect_err (blend_set_min_backstop_coverage AE the_admin 15000)]"

definition blend_test_two_step_admin :: blend_test where
  "blend_test_two_step_admin = steps
     [init_strategy,
      blend_propose_admin AE the_admin new_admin,
      blend_accept_admin AE new_admin,
      expect_err (blend_do_pause AE the_admin),
      blend_do_pause AE new_admin,
      check_eq blend_is_paused True]"

definition blend_test_set_vault :: blend_test where
  "blend_test_set_vault = steps
     [init_strategy,
      blend_change_vault AE the_admin new_vault,
      check_eq blend_vault new_vault]"

definition blend_test_set_approval_buffer :: blend_test where
  "blend_test_set_approval_buffer = steps
     [init_strategy,
      blend_set_approval_buffer AE the_admin 500]"

definition blend_tests :: "blend_test list" where
  "blend_tests =
     [blend_test_initialize, blend_test_double_initialize_fails, blend_test_unauthorized_deposit,
      blend_test_pause_blocks_deposit, blend_test_health_thresholds,
      blend_test_invalid_bps_rejected, blend_test_two_step_admin, blend_test_set_vault,
      blend_test_set_approval_buffer]"

definition blend_test_passes :: "blend_test \<Rightarrow> bool" where
  "blend_test_passes t = succeeds t (blend_deployed 0 no_tokens)"

lemma blend_tests_run: "list_all blend_test_passes blend_tests"
  by (simp add: blend_tests_def blend_test_passes_def blend_deployed_def stranger_def new_admin_def
      new_vault_def test_defs eval_defs init_strategy_def blend_setup_tokens_def
      blend_test_initialize_def blend_test_double_initialize_fails_def
      blend_test_unauthorized_deposit_def blend_test_pause_blocks_deposit_def
      blend_test_health_thresholds_def blend_test_invalid_bps_rejected_def
      blend_test_two_step_admin_def blend_test_set_vault_def blend_test_set_approval_buffer_def
      del: not_None_eq)

end
