(* ===== verification/Spec2Isabelle.thy ===== *)
theory Spec2Isabelle
  imports ShareProperties PricingProperties GovernanceProperties AdapterProperties RefinementProperties
    LivenessProperties VaultTests AdapterTests
begin

text \<open>
  A verification library for the Soroban contracts of the Tezoro yield aggregator, the Rust code
  under \<^verbatim>\<open>src/contracts/contracts\<close>. This theory imports all others; every path
  below is relative to that directory.

  \<^bold>\<open>The program.\<close> A vault (\<^verbatim>\<open>tezoro-vault\<close>) takes deposits of one asset token, mints
  shares for them and redeems shares at the price \<open>(assets + O) / (supply + O)\<close>, where
  \<open>O = 10^6\<close> is the virtual offset. The assets of the vault are its own token balance, what it
  tracks for each registered strategy, and a bridged balance that the keeper attests and that
  expires. Funds are placed with strategy contracts, which share one interface
  (\<^verbatim>\<open>tezoro-common/src/strategy.rs\<close>); the repository has two of them, an adapter to a
  Blend lending pool (\<^verbatim>\<open>blend-strategy\<close>) and a mock (\<^verbatim>\<open>mock-strategy\<close>). When
  the vault's idle tokens do not cover a redemption, a waterfall withdraws from the strategies in
  the order of their registration. Admin, keeper and guardian govern the vault, behind a timelock
  for upgrades.

  \<^bold>\<open>How the code is represented.\<close>

  \<^item> An entry point is a function from the contract's state to a failure or to a result with the
    new state (\<^verbatim>\<open>Prelude\<close>). \<open>Raised e\<close> is an \<^verbatim>\<open>Err(e)\<close>; \<open>Trapped\<close> is a
    panic, which the host turns into a failed invocation. As the host undoes everything a failed
    invocation did, a failure carries no state.

  \<^item> The state of the vault is the record \<open>vault\<close> of \<^verbatim>\<open>VaultStorage\<close>: one field per
    storage key (an option when the key can be absent, a finite map when it has an argument), the
    log of events and of storage-lifetime requests, the code hash, and a field \<open>outside\<close> of a
    type parameter that stands for the rest of the chain. \<open>blend\<close> and \<open>mock\<close> are the
    corresponding records of the adapters.

  \<^item> A call into another contract goes through a record of functions with one field per function
    of the generated client that the code uses: \<open>token_client\<close>, \<open>strategy_client\<close>,
    \<open>pool_client\<close>. They act on \<open>outside\<close>, and a call that fails is \<open>None\<close>.

  \<^item> An \<^verbatim>\<open>i128\<close> is an \<open>int\<close>, a \<^verbatim>\<open>u32\<close> or \<^verbatim>\<open>u64\<close> a \<open>nat\<close>; every
    arithmetic operation of the code checks its width and traps beyond it, since the contracts are
    compiled with overflow checks. Division truncates towards zero.

  \<^item> All loops of the code run over lists, so the recursion is structural and no fuel is used
    anywhere. A vault has at most 20 strategies, so a redemption makes at most 44 calls.

  \<^bold>\<open>The theories.\<close>

  \<^item> \<^verbatim>\<open>Prelude\<close>: effects, checked arithmetic, facts on maps, sums and division.
    \<^verbatim>\<open>Common\<close>: the crate \<^verbatim>\<open>tezoro-common\<close> (error codes, basis points, lifetimes,
    the strategy client) and the host environment.

  \<^item> The vault, after \<^verbatim>\<open>tezoro-vault/src\<close>. \<^verbatim>\<open>VaultEvents\<close>: \<^verbatim>\<open>errors.rs\<close> and
    \<^verbatim>\<open>events.rs\<close>. \<^verbatim>\<open>VaultStorage\<close>: \<^verbatim>\<open>storage.rs\<close>. The rest is
    \<^verbatim>\<open>lib.rs\<close>: \<^verbatim>\<open>VaultCore\<close> (initialization, guards, the share token),
    \<^verbatim>\<open>VaultAccounting\<close> (total assets, conversions, previews), \<^verbatim>\<open>VaultDeposit\<close>,
    \<^verbatim>\<open>VaultRedeem\<close> (with the waterfall), \<^verbatim>\<open>VaultStrategies\<close> (registration,
    allocation, attestations), \<^verbatim>\<open>VaultFees\<close>, \<^verbatim>\<open>VaultAdmin\<close> (pause, roles,
    limits, upgrades, views). Each operation has a lemma with its guards and the whole state a
    successful call leaves.

  \<^item> \<^verbatim>\<open>VaultSystem\<close>: the vault as a state machine. \<open>vault_call\<close> has one constructor per
    state-changing entry point, \<open>exec\<close> runs it, \<open>reachable\<close> holds of the states that any
    sequence of calls reaches with any clients, interleaved with arbitrary changes of the outside.
    The invariants of shares, strategies, configuration and timelock are proved over it.

  \<^item> \<^verbatim>\<open>VaultEconomics\<close>: the locales \<open>sep41\<close> (the token) and \<open>strategy_net\<close> (the
    strategies: they report what they deliver and take nothing from the vault), and under them
    what deposits and redemptions do to the price of a share. \<^verbatim>\<open>VaultLiveness\<close>: the locale
    \<open>delivering_net\<close> (a strategy that is ready delivers what it quotes), its special case \<open>live_net\<close>
    where every strategy always is, and when a redemption goes through.
    \<^verbatim>\<open>FeeEconomics\<close>: bounds on performance fees and the high-water mark.
    \<^verbatim>\<open>PriceBounds\<close>: the cost of a round trip, donations, the sum of all quotes, and the
    outcome of a deposit on every branch.

  \<^item> \<^verbatim>\<open>VaultSpec\<close>: the abstract book (shares, supply, assets, mark) with one transition
    per kind of event. \<^verbatim>\<open>VaultRefinement\<close>: every successful call is a transition of the
    book, and runs of the contract are runs of the book. \<^verbatim>\<open>CallBounds\<close>: clients that log
    each call, and the number of calls of a redemption. \<^verbatim>\<open>VaultTypes\<close>: the stored values
    stay within the widths of their types.

  \<^item> The adapters. \<^verbatim>\<open>MockStrategy\<close>: \<^verbatim>\<open>mock-strategy/src/lib.rs\<close>.
    \<^verbatim>\<open>BlendStorage\<close>, \<^verbatim>\<open>BlendStrategy\<close>, \<^verbatim>\<open>BlendAdmin\<close>:
    \<^verbatim>\<open>storage.rs\<close> with \<^verbatim>\<open>events.rs\<close>, and the two halves of \<^verbatim>\<open>lib.rs\<close> of
    \<^verbatim>\<open>blend-strategy\<close>, with the adapter's own state machine. \<^verbatim>\<open>StrategyWorld\<close> and
    \<^verbatim>\<open>BlendWorld\<close> put contract instances behind the vault's strategy client and
    interpret \<open>strategy_net\<close> on them; \<^verbatim>\<open>LedgerToken\<close> does the same for
    \<open>live_net\<close>, and \<^verbatim>\<open>BlendLiveness\<close> derives \<open>delivering_net\<close> from \<open>paying_pool\<close>, what is asked
    of the pool: it may round the b-tokens it burns as it likes, and the adapter is ready while its
    position is worth what it tracks less the rounding margin. \<^verbatim>\<open>ShareToken\<close> interprets the token interface on the vault's
    own shares.

  \<^item> \<^verbatim>\<open>Scenarios\<close>: concrete deployments, run through the entry points, on which the
    statements are applied. \<^verbatim>\<open>TestHarness\<close>, \<^verbatim>\<open>VaultTests\<close>,
    \<^verbatim>\<open>AdapterTests\<close>: the unit tests of the three contracts that need no deployed Blend
    contracts, one definition per test function, evaluated against the model.

  \<^item> The properties, numbered C1 to C40: \<^verbatim>\<open>ShareProperties\<close> (depositors),
    \<^verbatim>\<open>PricingProperties\<close> (prices at the boundaries),
    \<^verbatim>\<open>RefinementProperties\<close> (the book, runs, calls, widths), \<^verbatim>\<open>LivenessProperties\<close>
    (exit through a Blend adapter, and why the last units stay), \<^verbatim>\<open>GovernanceProperties\<close> (operators),
    \<^verbatim>\<open>AdapterProperties\<close> (strategies), and below the direct emergency withdrawal, which needs the
    vault and the Blend adapter together.

  \<^bold>\<open>Parameters.\<close> The asset token and the Blend pool are not in the repository. They are arguments
  of the model, restricted only by what \<open>sep41\<close>, \<open>pool_leaves_vault\<close> and \<open>paying_pool\<close> assume
  where a statement needs it. The ledger of \<^verbatim>\<open>LedgerToken\<close> and the one-reserve pool of
  \<^verbatim>\<open>Scenarios\<close> satisfy these assumptions, the pool at any rate and rounding against the depositor as Blend does;
  they serve the witnesses only.

  \<^bold>\<open>Not modelled.\<close> Storage expiry (the requests to extend lifetimes are logged, entries do not
  disappear), resource metering, reentrancy (the host forbids it), and the encoding of events on the wire. The
  tests of the Blend adapter that deploy the Blend contracts, the integration tests beside the
  crates, the mainnet-fork tests, the keeper service (TypeScript that
  submits \<^verbatim>\<open>allocate\<close> transactions), the deployment scripts, CI and documents are
  outside the development.
\<close>

section \<open>Vault and strategies together\<close>



text \<open>
  Besides paying and burning, a redemption changes little: other accounts keep their shares, no
  balance is tracked differently for an unregistered address, roles, limits, code, high-water mark
  and bridged balance stay, and exactly the redemption event is published.
\<close>

lemma redeem_frame:
  assumes "redeem T C e from n s = Inr (assets, t)"
  shows "(\<forall>a. a \<noteq> from \<longrightarrow> shares_of t a = shares_of s a) \<and>
    (\<forall>a. a \<notin> set (strategies_of s) \<longrightarrow> st_tracked_balance t a = st_tracked_balance s a) \<and>
    governance t = governance s \<and> hwm_of t = hwm_of s \<and> bridged_of t = bridged_of s \<and>
    event_log t = event_log s @ [Redeem from n assets]"
  using assms by (rule redeem_success) (simp add: governance_def)

lemma redeem_frame_witness:
  "\<exists>t. redeem MT (MC 1000) (env_at 1000) alice 650000000 funded = Inr (650000000, t) \<and>
    shares_of t bob = 0 \<and> event_log t = event_log funded @ [Redeem alice 650000000 650000000]"
proof -
  obtain t where t: "redeem MT (MC 1000) (env_at 1000) alice 650000000 funded = Inr (650000000, t)"
    using succeeds_result [OF funded_redeem] by blast
  then show ?thesis using redeem_frame [OF t] by (simp add: lookup0_def)
qed

end
